(* ===== verification/Oven_Prelude.thy ===== *)
theory Oven_Prelude
  imports Main "HOL-Library.List_Lexorder" "HOL-Library.Char_ord"
begin

text \<open>
  Shared vocabulary of the development.  Nothing here is specific to the oven
  runtime: a result type for code that raises, an explicit state-and-exception
  operation for code that mutates an object and may raise afterwards, and the
  collections of rewrite rules the component theories add to.

  A Python call that can raise is a value of a sum type: \<open>Inl\<close> holds the exception
  and \<open>Inr\<close> the result.  A method that mutates its object is a function from the
  object's state to a result and the new state; the state changes made before an
  exception are kept, as they are in Python.
\<close>

named_theorems op_simps \<open>unfolding rules of the state-and-exception operations\<close>
named_theorems inv_intros \<open>preservation rules of the component invariants\<close>

subsection \<open>Results that may be exceptions\<close>

definition bind_sum :: "'e + 'a \<Rightarrow> ('a \<Rightarrow> 'e + 'b) \<Rightarrow> 'e + 'b" where
  "bind_sum m f = (case m of Inl e \<Rightarrow> Inl e | Inr x \<Rightarrow> f x)"

lemma bind_sum_simps [simp]:
  "bind_sum (Inl e) f = Inl e"
  "bind_sum (Inr x) f = f x"
  by (simp_all add: bind_sum_def)

lemma bind_sum_eq_Inr:
  "bind_sum m f = Inr y \<longleftrightarrow> (\<exists>x. m = Inr x \<and> f x = Inr y)"
  by (cases m) simp_all

lemma bind_sum_eq_Inl:
  "bind_sum m f = Inl e \<longleftrightarrow> m = Inl e \<or> (\<exists>x. m = Inr x \<and> f x = Inl e)"
  by (cases m) simp_all

text \<open>A guard: \<open>if bad: raise e\<close>.\<close>

definition reject_if :: "bool \<Rightarrow> 'e \<Rightarrow> 'e + 'a \<Rightarrow> 'e + 'a" where
  "reject_if bad e k = (if bad then Inl e else k)"

lemma reject_if_simps [simp]:
  "reject_if True e k = Inl e"
  "reject_if False e k = k"
  by (simp_all add: reject_if_def)

lemma reject_if_eq_Inr: "reject_if bad e k = Inr y \<longleftrightarrow> \<not> bad \<and> k = Inr y"
  by (simp add: reject_if_def)

lemma reject_if_eq_Inl: "reject_if bad e k = Inl e' \<longleftrightarrow> (if bad then e' = e else k = Inl e')"
  by (auto simp: reject_if_def)

text \<open>The value of an optional, or the exception for its absence.\<close>

definition expect :: "'e \<Rightarrow> 'a option \<Rightarrow> 'e + 'a" where
  "expect e m = (case m of None \<Rightarrow> Inl e | Some x \<Rightarrow> Inr x)"

lemma expect_simps [simp]:
  "expect e None = Inl e"
  "expect e (Some x) = Inr x"
  by (simp_all add: expect_def)

lemma expect_eq_Inr [simp]: "expect e m = Inr x \<longleftrightarrow> m = Some x"
  by (cases m) simp_all

lemma expect_eq_Inl [simp]: "expect e m = Inl e' \<longleftrightarrow> m = None \<and> e' = e"
  by (cases m) auto

lemmas result_iffs = bind_sum_eq_Inr bind_sum_eq_Inl reject_if_eq_Inr reject_if_eq_Inl

text \<open>Joining the results of a loop that appends to a buffer: the first exception wins.\<close>

fun concat_res :: "('e + 'a list) list \<Rightarrow> 'e + 'a list" where
  "concat_res [] = Inr []"
| "concat_res (r # rs) = bind_sum r (\<lambda>x. bind_sum (concat_res rs) (\<lambda>y. Inr (x @ y)))"

subsection \<open>Decimal numerals\<close>

definition digit_char :: "nat \<Rightarrow> char" where
  "digit_char d = char_of (48 + d)"

fun show_nat :: "nat \<Rightarrow> string" where
  "show_nat n = (if n < 10 then [digit_char n] else show_nat (n div 10) @ [digit_char (n mod 10)])"

declare show_nat.simps [simp del]

definition show_int :: "int \<Rightarrow> string" where
  "show_int n = (if n < 0 then CHR ''-'' # show_nat (nat (- n)) else show_nat (nat n))"

definition is_digit :: "char \<Rightarrow> bool" where
  "is_digit c \<longleftrightarrow> CHR ''0'' \<le> c \<and> c \<le> CHR ''9''"

lemma of_char_digit_char: "d < 10 \<Longrightarrow> of_char (digit_char d) = (48 + d :: nat)"
  by (simp add: digit_char_def)

lemma is_digit_digit_char: "d < 10 \<Longrightarrow> is_digit (digit_char d)"
  by (simp add: is_digit_def less_eq_char_def of_char_digit_char)

lemma digit_char_inject: "a < 10 \<Longrightarrow> b < 10 \<Longrightarrow> digit_char a = digit_char b \<longleftrightarrow> a = b"
  by (metis add_left_cancel of_char_digit_char)

lemma show_nat_nonempty [simp]: "show_nat n \<noteq> []"
  by (subst show_nat.simps) simp

lemma show_nat_digits: "list_all is_digit (show_nat n)"
proof (induction n rule: show_nat.induct)
  case (1 n)
  then show ?case by (subst show_nat.simps) (simp add: is_digit_digit_char)
qed

lemma show_nat_inject: "show_nat m = show_nat n \<longleftrightarrow> m = n"
proof (induction m arbitrary: n rule: show_nat.induct)
  case (1 m)
  have len: "k < 10 \<longleftrightarrow> length (show_nat k) = 1" for k
    by (subst show_nat.simps) (cases "show_nat (k div 10)", auto)
  show ?case
  proof (cases "m < 10 \<longleftrightarrow> n < 10")
    case False
    then show ?thesis using len by metis
  next
    case same: True
    show ?thesis
    proof (cases "m < 10")
      case True
      with same show ?thesis
        by (subst show_nat.simps, subst (2) show_nat.simps) (simp add: digit_char_inject)
    next
      case False
      have "show_nat m = show_nat n \<longleftrightarrow> m div 10 = n div 10 \<and> m mod 10 = n mod 10"
        using False same "1.IH" [of "n div 10"]
        by (subst show_nat.simps, subst (2) show_nat.simps) (simp add: digit_char_inject)
      also have "\<dots> \<longleftrightarrow> m = n" by (metis div_mult_mod_eq)
      finally show ?thesis .
    qed
  qed
qed

subsection \<open>Operations on a mutable object\<close>

type_synonym ('s, 'e, 'a) op = "'s \<Rightarrow> ('e + 'a) \<times> 's"

definition ret :: "'a \<Rightarrow> ('s, 'e, 'a) op" where
  "ret x = (\<lambda>s. (Inr x, s))"

definition raise :: "'e \<Rightarrow> ('s, 'e, 'a) op" where
  "raise e = (\<lambda>s. (Inl e, s))"

definition bind_op :: "('s, 'e, 'a) op \<Rightarrow> ('a \<Rightarrow> ('s, 'e, 'b) op) \<Rightarrow> ('s, 'e, 'b) op" where
  "bind_op m f = (\<lambda>s. case m s of (Inl e, s') \<Rightarrow> (Inl e, s') | (Inr x, s') \<Rightarrow> f x s')"

definition seq_op :: "('s, 'e, 'a) op \<Rightarrow> ('s, 'e, 'b) op \<Rightarrow> ('s, 'e, 'b) op" where
  "seq_op m k = bind_op m (\<lambda>_. k)"

text \<open>\<open>try: m except ...: h\<close>, and reading or changing the object.\<close>

definition catch_op :: "('s, 'e, 'a) op \<Rightarrow> ('e \<Rightarrow> ('s, 'e, 'a) op) \<Rightarrow> ('s, 'e, 'a) op" where
  "catch_op m h = (\<lambda>s. case m s of (Inl e, s') \<Rightarrow> h e s' | (Inr x, s') \<Rightarrow> (Inr x, s'))"

definition gets_op :: "('s \<Rightarrow> 'a) \<Rightarrow> ('s, 'e, 'a) op" where
  "gets_op f = (\<lambda>s. (Inr (f s), s))"

definition modify_op :: "('s \<Rightarrow> 's) \<Rightarrow> ('s, 'e, unit) op" where
  "modify_op f = (\<lambda>s. (Inr (), f s))"

definition when_op :: "bool \<Rightarrow> ('s, 'e, unit) op \<Rightarrow> ('s, 'e, unit) op" where
  "when_op b m = (if b then m else ret ())"

definition map_op :: "('a \<Rightarrow> 'b) \<Rightarrow> ('s, 'e, 'a) op \<Rightarrow> ('s, 'e, 'b) op" where
  "map_op f m = bind_op m (\<lambda>x. ret (f x))"

definition lift_sum :: "'e + 'a \<Rightarrow> ('s, 'e, 'a) op" where
  "lift_sum r = (\<lambda>s. (r, s))"

lemma ret_apply [op_simps]: "ret x s = (Inr x, s)"
  by (simp add: ret_def)

lemma raise_apply [op_simps]: "raise e s = (Inl e, s)"
  by (simp add: raise_def)

lemma gets_op_apply [op_simps]: "gets_op f s = (Inr (f s), s)"
  by (simp add: gets_op_def)

lemma modify_op_apply [op_simps]: "modify_op f s = (Inr (), f s)"
  by (simp add: modify_op_def)

lemma lift_sum_apply [op_simps]: "lift_sum r s = (r, s)"
  by (simp add: lift_sum_def)

lemma bind_op_apply [op_simps]:
  "bind_op m f s = (case m s of (Inl e, s') \<Rightarrow> (Inl e, s') | (Inr x, s') \<Rightarrow> f x s')"
  by (simp add: bind_op_def)

lemma seq_op_apply [op_simps]:
  "seq_op m k s = (case m s of (Inl e, s') \<Rightarrow> (Inl e, s') | (Inr x, s') \<Rightarrow> k s')"
  by (simp add: seq_op_def bind_op_def)

lemma catch_op_apply [op_simps]:
  "catch_op m h s = (case m s of (Inl e, s') \<Rightarrow> h e s' | (Inr x, s') \<Rightarrow> (Inr x, s'))"
  by (simp add: catch_op_def)

lemma map_op_apply [op_simps]:
  "map_op f m s = (case m s of (Inl e, s') \<Rightarrow> (Inl e, s') | (Inr x, s') \<Rightarrow> (Inr (f x), s'))"
  by (simp add: map_op_def bind_op_def ret_def)

lemma snd_map_op [simp]: "snd (map_op f m s) = snd (m s)"
  by (simp add: map_op_apply split: prod.split sum.split)

lemma when_op_apply [op_simps]: "when_op b m s = (if b then m s else (Inr (), s))"
  by (simp add: when_op_def ret_def)

text \<open>An operation that returns: its steps returned.\<close>

lemma bind_op_Inr: "bind_op m f s = (Inr y, s') \<longleftrightarrow> (\<exists>x t. m s = (Inr x, t) \<and> f x t = (Inr y, s'))"
  by (auto simp: bind_op_apply split: prod.splits sum.splits)

lemma seq_op_Inr: "seq_op m k s = (Inr y, s') \<longleftrightarrow> (\<exists>x t. m s = (Inr x, t) \<and> k t = (Inr y, s'))"
  by (auto simp: seq_op_apply split: prod.splits sum.splits)

lemma if_raise_Inr: "(if b then raise e else m) s = (Inr y, s') \<longleftrightarrow> \<not> b \<and> m s = (Inr y, s')"
  by (simp add: raise_apply)

lemmas op_returns = bind_op_Inr seq_op_Inr if_raise_Inr

subsection \<open>A predicate that an operation keeps\<close>

text \<open>
  \<open>keeps P m\<close>: whatever \<open>m\<close> returns or raises, a state with \<open>P\<close> is left with \<open>P\<close>.
  The rules below carry it through the combinators, so that a method built from
  steps that keep an invariant keeps it too, on every error path.
\<close>

definition keeps :: "('s \<Rightarrow> bool) \<Rightarrow> ('s, 'e, 'a) op \<Rightarrow> bool" where
  "keeps P m \<longleftrightarrow> (\<forall>s. P s \<longrightarrow> P (snd (m s)))"

lemma keepsI [intro?]: "(\<And>s. P s \<Longrightarrow> P (snd (m s))) \<Longrightarrow> keeps P m"
  by (simp add: keeps_def)

lemma keepsD: "keeps P m \<Longrightarrow> P s \<Longrightarrow> P (snd (m s))"
  by (simp add: keeps_def)

lemma keeps_ret [inv_intros]: "keeps P (ret x)"
  by (simp add: keeps_def ret_def)

lemma keeps_raise [inv_intros]: "keeps P (raise e)"
  by (simp add: keeps_def raise_def)

lemma keeps_gets [inv_intros]: "keeps P (gets_op f)"
  by (simp add: keeps_def gets_op_def)

lemma keeps_lift_sum [inv_intros]: "keeps P (lift_sum r)"
  by (simp add: keeps_def lift_sum_def)

lemma keeps_modify [inv_intros]: "(\<And>s. P s \<Longrightarrow> P (f s)) \<Longrightarrow> keeps P (modify_op f)"
  by (simp add: keeps_def modify_op_def)

lemma keeps_bind [inv_intros]:
  assumes "keeps P m" and "\<And>x. keeps P (f x)"
  shows "keeps P (bind_op m f)"
proof
  fix s assume "P s"
  with assms(1) have "P (snd (m s))" by (rule keepsD)
  with assms(2) show "P (snd (bind_op m f s))"
    by (cases "m s") (auto simp: bind_op_def keeps_def split: sum.splits)
qed

lemma keeps_seq [inv_intros]: "keeps P m \<Longrightarrow> keeps P k \<Longrightarrow> keeps P (seq_op m k)"
  by (simp add: seq_op_def keeps_bind)

lemma keeps_map [inv_intros]: "keeps P m \<Longrightarrow> keeps P (map_op f m)"
  by (simp add: map_op_def keeps_bind keeps_ret)

lemma keeps_catch [inv_intros]:
  assumes "keeps P m" and "\<And>e. keeps P (h e)"
  shows "keeps P (catch_op m h)"
proof
  fix s assume "P s"
  with assms(1) have "P (snd (m s))" by (rule keepsD)
  with assms(2) show "P (snd (catch_op m h s))"
    by (cases "m s") (auto simp: catch_op_def keeps_def split: sum.splits)
qed

lemma keeps_when [inv_intros]: "(b \<Longrightarrow> keeps P m) \<Longrightarrow> keeps P (when_op b m)"
  by (simp add: when_op_def keeps_ret)

lemma keeps_if [inv_intros]: "(b \<Longrightarrow> keeps P m) \<Longrightarrow> (\<not> b \<Longrightarrow> keeps P k) \<Longrightarrow> keeps P (if b then m else k)"
  by simp

subsection \<open>Machines with an invariant\<close>

text \<open>
  The contract of a component whose operations all keep one invariant: a run of
  any finite sequence of its operations, whatever each returns or raises, stays
  inside the invariant.  The components interpret it with their own operation
  type and step function.
\<close>

fun run_ops :: "('o \<Rightarrow> 's \<Rightarrow> 'r \<times> 's) \<Rightarrow> 'o list \<Rightarrow> 's \<Rightarrow> 's" where
  "run_ops step [] s = s"
| "run_ops step (x # xs) s = run_ops step xs (snd (step x s))"

lemma run_ops_append: "run_ops step (xs @ ys) s = run_ops step ys (run_ops step xs s)"
  by (induction xs arbitrary: s) auto

locale invariant_machine =
  fixes step :: "'o \<Rightarrow> 's \<Rightarrow> 'r \<times> 's"
    and inv :: "'s \<Rightarrow> bool"
  assumes step_inv: "inv s \<Longrightarrow> inv (snd (step x s))"
begin

lemma run_inv: "inv s \<Longrightarrow> inv (run_ops step xs s)"
  by (induction xs arbitrary: s) (auto intro: step_inv)

end

text \<open>The same machine with a quantity that no operation decreases.\<close>

locale monotone_machine = invariant_machine step inv
  for step :: "'o \<Rightarrow> 's \<Rightarrow> 'r \<times> 's" and inv :: "'s \<Rightarrow> bool" +
  fixes level :: "'s \<Rightarrow> 'n::order"
  assumes step_level: "inv s \<Longrightarrow> level s \<le> level (snd (step x s))"
begin

lemma run_level: "inv s \<Longrightarrow> level s \<le> level (run_ops step xs s)"
proof (induction xs arbitrary: s)
  case Nil
  then show ?case by simp
next
  case (Cons x xs)
  from Cons.prems have "level s \<le> level (snd (step x s))" by (rule step_level)
  also have "\<dots> \<le> level (run_ops step xs (snd (step x s)))"
    using Cons.prems by (intro Cons.IH step_inv)
  finally show ?case by simp
qed

end

subsection \<open>A slot that one holder at a time occupies\<close>

text \<open>
  A component with room for one active thing (a trial, a run, a session) shares this
  contract: an acquiring call succeeds only on a free slot and leaves it occupied, a
  releasing call only on an occupied one and leaves it free, and no other call changes
  the occupation.  Then in every run acquisitions and releases alternate.
\<close>

fun op_trace :: "('o \<Rightarrow> 's \<Rightarrow> 'r \<times> 's) \<Rightarrow> 'o list \<Rightarrow> 's \<Rightarrow> ('o \<times> 'r) list" where
  "op_trace step [] s = []"
| "op_trace step (x # xs) s = (x, fst (step x s)) # op_trace step xs (snd (step x s))"

locale single_slot =
  fixes step :: "'o \<Rightarrow> 's \<Rightarrow> 'r \<times> 's"
    and occupied :: "'s \<Rightarrow> bool"
    and acquires :: "'o \<Rightarrow> 'r \<Rightarrow> bool"
    and releases :: "'o \<Rightarrow> 'r \<Rightarrow> bool"
  assumes acquire: "acquires x (fst (step x s)) \<Longrightarrow> \<not> occupied s \<and> occupied (snd (step x s))"
    and release: "releases x (fst (step x s)) \<Longrightarrow> occupied s \<and> \<not> occupied (snd (step x s))"
    and other: "\<not> acquires x (fst (step x s)) \<Longrightarrow> \<not> releases x (fst (step x s)) \<Longrightarrow>
      occupied (snd (step x s)) = occupied s"
begin

definition acquired :: "('o \<times> 'r) list \<Rightarrow> nat" where
  "acquired tr = length (filter (\<lambda>(x, r). acquires x r) tr)"

definition released :: "('o \<times> 'r) list \<Rightarrow> nat" where
  "released tr = length (filter (\<lambda>(x, r). releases x r) tr)"

lemma balance:
  "acquired (op_trace step xs s) + (if occupied s then 1 else 0)
     = released (op_trace step xs s) + (if occupied (run_ops step xs s) then 1 else 0)"
proof (induction xs arbitrary: s)
  case Nil
  then show ?case by (simp add: acquired_def released_def)
next
  case (Cons x xs)
  show ?case
    using Cons.IH [of "snd (step x s)"] acquire [of x s] release [of x s] other [of x s]
    by (auto simp: acquired_def released_def split: if_splits)
qed

lemma alternate:
  assumes "\<not> occupied s"
  shows "released (op_trace step xs s) \<le> acquired (op_trace step xs s)
    \<and> acquired (op_trace step xs s) \<le> Suc (released (op_trace step xs s))"
  using balance [of xs s] assms by (auto split: if_splits)

end

end
