(* ===== verification/Oven_Float.thy ===== *)
theory Oven_Float
  imports Oven_Prelude Complex_Main "HOL-Library.Log_Nat"
begin

text \<open>
  Python and NumPy floating point.  A value is a rational, one of the two
  infinities or not-a-number; every arithmetic operation computes the exact
  rational result and rounds it to the nearest binary64 number, ties to even,
  with gradual underflow and overflow to infinity.  The cast to \<open>float32\<close> is the
  same rounding with 24 bits.  The sign of a zero is not represented: Python's
  comparisons do not see it.
\<close>

datatype flt = Fin rat | PInf | NInf | NaN

subsection \<open>Rounding\<close>

definition round_half_even :: "rat \<Rightarrow> int" where
  "round_half_even x =
     (let f = \<lfloor>x\<rfloor>; r = x - of_int f in
      if r < 1/2 then f
      else if 1/2 < r then f + 1
      else if even f then f else f + 1)"

text \<open>
  The unit in the last place of the binade of a positive \<open>x\<close>: the power of two \<open>q\<close>
  with \<open>2 ^ (p - 1) \<le> x / q < 2 ^ p\<close>, but never below the smallest subnormal.
\<close>

definition quantum_exp :: "nat \<Rightarrow> int \<Rightarrow> rat \<Rightarrow> int" where
  "quantum_exp p emin x =
     (let (n, d) = quotient_of x;
          e = bitlen n - bitlen d - int p;
          e' = (if x < 2 powi (e + int p) then e else e + 1)
      in max emin e')"

definition round_pos :: "nat \<Rightarrow> int \<Rightarrow> int \<Rightarrow> rat \<Rightarrow> flt" where
  "round_pos p emin emax x =
     (let q = 2 powi (quantum_exp p emin x);
          y = of_int (round_half_even (x / q)) * q
      in if 2 powi emax \<le> y then PInf else Fin y)"

fun f_neg :: "flt \<Rightarrow> flt" where
  "f_neg (Fin a) = Fin (- a)"
| "f_neg PInf = NInf"
| "f_neg NInf = PInf"
| "f_neg NaN = NaN"

definition ieee_round :: "nat \<Rightarrow> int \<Rightarrow> int \<Rightarrow> rat \<Rightarrow> flt" where
  "ieee_round p emin emax x =
     (if x = 0 then Fin 0
      else if 0 < x then round_pos p emin emax x
      else f_neg (round_pos p emin emax (- x)))"

definition rnd64 :: "rat \<Rightarrow> flt" where
  "rnd64 = ieee_round 53 (-1074) 1024"

definition rnd32 :: "rat \<Rightarrow> flt" where
  "rnd32 = ieee_round 24 (-149) 128"

subsection \<open>Operations\<close>

fun f_add :: "flt \<Rightarrow> flt \<Rightarrow> flt" where
  "f_add (Fin a) (Fin b) = rnd64 (a + b)"
| "f_add NaN _ = NaN"
| "f_add _ NaN = NaN"
| "f_add PInf NInf = NaN"
| "f_add NInf PInf = NaN"
| "f_add PInf _ = PInf"
| "f_add _ PInf = PInf"
| "f_add NInf _ = NInf"
| "f_add _ NInf = NInf"

definition f_sub :: "flt \<Rightarrow> flt \<Rightarrow> flt" where
  "f_sub a b = f_add a (f_neg b)"

fun f_inf_times :: "flt \<Rightarrow> flt \<Rightarrow> flt" where
  \<comment> \<open>the product of an infinity (first argument) and another value\<close>
  "f_inf_times i (Fin a) = (if a = 0 then NaN else if 0 < a then i else f_neg i)"
| "f_inf_times i PInf = i"
| "f_inf_times i NInf = f_neg i"
| "f_inf_times i NaN = NaN"

fun f_mul :: "flt \<Rightarrow> flt \<Rightarrow> flt" where
  "f_mul (Fin a) (Fin b) = rnd64 (a * b)"
| "f_mul NaN _ = NaN"
| "f_mul PInf b = f_inf_times PInf b"
| "f_mul NInf b = f_inf_times NInf b"
| "f_mul a NaN = NaN"
| "f_mul a PInf = f_inf_times PInf a"
| "f_mul a NInf = f_inf_times NInf a"

text \<open>Division by a non-zero finite number, the only kind the code performs.\<close>

fun f_div_by :: "flt \<Rightarrow> rat \<Rightarrow> flt" where
  "f_div_by (Fin a) b = rnd64 (a / b)"
| "f_div_by NaN b = NaN"
| "f_div_by PInf b = (if b < 0 then NInf else PInf)"
| "f_div_by NInf b = (if b < 0 then PInf else NInf)"

fun f_abs :: "flt \<Rightarrow> flt" where
  "f_abs (Fin a) = Fin \<bar>a\<bar>"
| "f_abs PInf = PInf"
| "f_abs NInf = PInf"
| "f_abs NaN = NaN"

fun is_finite :: "flt \<Rightarrow> bool" where
  "is_finite (Fin a) = True"
| "is_finite _ = False"

fun f_le :: "flt \<Rightarrow> flt \<Rightarrow> bool" where
  "f_le NaN _ = False"
| "f_le _ NaN = False"
| "f_le NInf _ = True"
| "f_le _ PInf = True"
| "f_le (Fin a) (Fin b) = (a \<le> b)"
| "f_le _ _ = False"

fun f_lt :: "flt \<Rightarrow> flt \<Rightarrow> bool" where
  "f_lt NaN _ = False"
| "f_lt _ NaN = False"
| "f_lt NInf NInf = False"
| "f_lt NInf _ = True"
| "f_lt PInf _ = False"
| "f_lt (Fin a) PInf = True"
| "f_lt (Fin a) NInf = False"
| "f_lt (Fin a) (Fin b) = (a < b)"

text \<open>\<open>np.maximum\<close> and \<open>np.minimum\<close>: not-a-number wins over every number.\<close>

definition f_max :: "flt \<Rightarrow> flt \<Rightarrow> flt" where
  "f_max a b = (if a = NaN \<or> b = NaN then NaN else if f_le a b then b else a)"

definition f_min :: "flt \<Rightarrow> flt \<Rightarrow> flt" where
  "f_min a b = (if a = NaN \<or> b = NaN then NaN else if f_le a b then a else b)"

abbreviation f_zero :: flt where "f_zero \<equiv> Fin 0"

text \<open>Python's \<open>int(x)\<close> of a finite float truncates towards zero.\<close>

definition trunc_rat :: "rat \<Rightarrow> int" where
  "trunc_rat x = (if 0 \<le> x then \<lfloor>x\<rfloor> else - \<lfloor>- x\<rfloor>)"

subsection \<open>The order on numbers\<close>

lemma f_le_refl_iff [simp]: "f_le a a \<longleftrightarrow> a \<noteq> NaN"
  by (cases a) auto

lemma f_le_trans: "f_le a b \<Longrightarrow> f_le b c \<Longrightarrow> f_le a c"
  by (cases a; cases b; cases c) auto

lemma f_le_antisym: "f_le a b \<Longrightarrow> f_le b a \<Longrightarrow> a = b"
  by (cases a; cases b) auto

lemma f_le_linear: "a \<noteq> NaN \<Longrightarrow> b \<noteq> NaN \<Longrightarrow> f_le a b \<or> f_le b a"
  by (cases a; cases b) auto

lemma f_lt_iff: "f_lt a b \<longleftrightarrow> f_le a b \<and> a \<noteq> b"
  by (cases a; cases b) auto

lemma f_not_le: "a \<noteq> NaN \<Longrightarrow> b \<noteq> NaN \<Longrightarrow> \<not> f_le a b \<longleftrightarrow> f_lt b a"
  by (cases a; cases b) auto

lemma f_le_not_NaN: "f_le a b \<Longrightarrow> a \<noteq> NaN \<and> b \<noteq> NaN"
  by (cases a; cases b) auto

lemma f_max_ge:
  "f_max a b \<noteq> NaN \<Longrightarrow> f_le a (f_max a b) \<and> f_le b (f_max a b)"
  by (cases a; cases b) (auto simp: f_max_def)

lemma f_max_le_iff: "f_le (f_max a b) c \<longleftrightarrow> f_le a c \<and> f_le b c"
  by (cases a; cases b; cases c) (auto simp: f_max_def)

lemma f_max_cases: "f_max a b = a \<or> f_max a b = b"
  by (simp add: f_max_def)

lemma f_min_cases: "f_min a b = a \<or> f_min a b = b"
  by (simp add: f_min_def)

lemma is_finite_iff: "is_finite a \<longleftrightarrow> (\<exists>r. a = Fin r)"
  by (cases a) auto

lemma is_finite_not_NaN: "is_finite a \<Longrightarrow> a \<noteq> NaN"
  by auto

lemma f_le_finite: "f_le (f_abs a) b \<Longrightarrow> is_finite b \<Longrightarrow> is_finite a"
  by (cases a; cases b) auto

subsection \<open>Rounding is exact on zero, odd, and never moves past a representable bound\<close>

lemma f_neg_neg [simp]: "f_neg (f_neg a) = a"
  by (cases a) auto

lemma f_abs_neg [simp]: "f_abs (f_neg a) = f_abs a"
  by (cases a) auto

lemma f_le_neg: "f_le (f_neg a) (f_neg b) \<longleftrightarrow> f_le b a"
  by (cases a; cases b) auto

lemma ieee_round_zero [simp]: "ieee_round p emin emax 0 = Fin 0"
  by (simp add: ieee_round_def)

lemma ieee_round_neg: "ieee_round p emin emax (- x) = f_neg (ieee_round p emin emax x)"
  by (auto simp: ieee_round_def)

lemma round_half_even_mono: "x \<le> y \<Longrightarrow> round_half_even x \<le> round_half_even y"
proof -
  assume "x \<le> y"
  then have fl: "\<lfloor>x\<rfloor> \<le> \<lfloor>y\<rfloor>" by (rule floor_mono)
  show ?thesis
  proof (cases "\<lfloor>x\<rfloor> = \<lfloor>y\<rfloor>")
    case True
    with \<open>x \<le> y\<close> show ?thesis by (auto simp: round_half_even_def Let_def)
  next
    case False
    with fl have "\<lfloor>x\<rfloor> + 1 \<le> \<lfloor>y\<rfloor>" by simp
    then show ?thesis by (auto simp: round_half_even_def Let_def)
  qed
qed

lemma round_half_even_of_int [simp]: "round_half_even (of_int n) = n"
  by (simp add: round_half_even_def)

lemma round_half_even_nonneg: "0 \<le> x \<Longrightarrow> 0 \<le> round_half_even x"
  using round_half_even_mono [of 0 x] round_half_even_of_int [of 0] by simp

subsection \<open>Small integers are represented exactly\<close>

lemma quantum_exp_small_int:
  assumes "0 < n" and "n < 2 ^ 52"
  shows "quantum_exp 53 (-1074) (of_int n) \<le> 0"
proof -
  have "bitlen n \<le> 52" using assms bitlen_le_iff_power [of n 52] by simp
  moreover have "0 \<le> bitlen 1" by (rule bitlen_nonneg)
  ultimately show ?thesis by (simp add: quantum_exp_def Let_def quotient_of_int)
qed

lemma round_half_even_scaled:
  assumes "k \<le> 0"
  shows "of_int (round_half_even (of_int n / 2 powi k)) * 2 powi k = (of_int n :: rat)"
proof -
  have "(of_int n :: rat) / 2 powi k = of_int (n * 2 ^ nat (- k))"
    using assms by (simp add: power_int_def field_simps)
  then have "round_half_even (of_int n / 2 powi k :: rat) = n * 2 ^ nat (- k)"
    by (simp only: round_half_even_of_int)
  then show ?thesis using assms by (simp add: power_int_def field_simps)
qed

lemma rnd64_of_int:
  assumes "\<bar>n\<bar> < 2 ^ 52"
  shows "rnd64 (of_int n) = Fin (of_int n)"
proof -
  have pos: "round_pos 53 (-1074) 1024 (of_int m) = Fin (of_int m)" if m: "0 < m" "m < 2 ^ 52" for m
  proof -
    have "(of_int m :: rat) < 2 powi 1024"
    proof -
      have "(of_int m :: rat) < of_int (2 ^ 52)" using m(2) by (simp only: of_int_less_iff)
      also have "\<dots> \<le> 2 powi 1024" by simp
      finally show ?thesis .
    qed
    with round_half_even_scaled [OF quantum_exp_small_int [OF m], of m] show ?thesis
      by (simp add: round_pos_def Let_def)
  qed
  show ?thesis
    using pos [of n] pos [of "- n"] assms by (auto simp: rnd64_def ieee_round_def)
qed

end
