(* ===== verification/Oven_Values.thy ===== *)
theory Oven_Values
  imports Oven_Float
begin

text \<open>
  The dynamic values the messages of the runtime are made of: what the JSON, TOML
  and MessagePack decoders return and what the handlers test with \<open>isinstance\<close>.
  A dictionary is the list of its items in insertion order; its keys are strings,
  the only keys the three decoders produce for the messages of this program.
  A NumPy array carries its element type, its shape, the numbers it holds in C
  order and the bytes \<open>tobytes()\<close> returns.  Strings are lists of characters whose code
  points are below 256.
\<close>

type_synonym byte_list = "nat list"

record dtype =
  dt_name :: string      \<comment> \<open>\<open>str(dtype)\<close>, for instance \<open>float32\<close>\<close>
  dt_kind :: char        \<comment> \<open>\<open>dtype.kind\<close>\<close>
  dt_itemsize :: nat

datatype ndarray = NDArray (nd_dtype: dtype) (nd_shape: "nat list") (nd_data: "flt list") (nd_bytes: byte_list)

datatype pyval =
    PNone
  | PBool bool
  | PInt int
  | PFloat flt
  | PStr string
  | PBytes byte_list
  | PList "pyval list"
  | PDict "(string \<times> pyval) list"
  | PArr ndarray

type_synonym pydict = "(string \<times> pyval) list"

abbreviation dget :: "pydict \<Rightarrow> string \<Rightarrow> pyval option" where
  "dget d k \<equiv> map_of d k"

abbreviation dkeys :: "pydict \<Rightarrow> string list" where
  "dkeys d \<equiv> map fst d"

text \<open>\<open>d[k] = v\<close>: replaces the value in place, or appends a new item.\<close>

fun dset :: "pydict \<Rightarrow> string \<Rightarrow> pyval \<Rightarrow> pydict" where
  "dset [] k v = [(k, v)]"
| "dset ((k', v') # d) k v = (if k' = k then (k, v) # d else (k', v') # dset d k v)"

lemma dget_dset: "dget (dset d k v) k' = (if k' = k then Some v else dget d k')"
  by (induction d) auto

lemma dkeys_dset: "set (dkeys (dset d k v)) = insert k (set (dkeys d))"
proof (induction d)
  case Nil
  then show ?case by simp
next
  case (Cons e d)
  then show ?case by (cases e) (simp add: insert_commute)
qed

lemma distinct_dset: "distinct (dkeys d) \<Longrightarrow> distinct (dkeys (dset d k v))"
proof (induction d)
  case Nil
  then show ?case by simp
next
  case (Cons e d)
  then show ?case using dkeys_dset [of d k v] by (cases e) auto
qed

lemma dget_key: "k \<in> set (dkeys d) \<longleftrightarrow> (\<exists>v. dget d k = Some v)"
  by (metis dom_map_of_conv_image_fst domIff image_set not_Some_eq)

lemma dget_dom: "dom (map_of d) = set (dkeys d)"
  by (simp add: dom_map_of_conv_image_fst)

lemma dget_None: "dget d k = None \<longleftrightarrow> k \<notin> set (dkeys d)"
  by (simp add: map_of_eq_None_iff)

subsection \<open>\<open>isinstance\<close>\<close>

fun exact_int :: "pyval \<Rightarrow> int option" where
  \<comment> \<open>\<open>isinstance(v, int) and not isinstance(v, bool)\<close>\<close>
  "exact_int (PInt n) = Some n"
| "exact_int _ = None"

fun is_str :: "pyval \<Rightarrow> string option" where
  "is_str (PStr s) = Some s"
| "is_str _ = None"

fun is_bool :: "pyval \<Rightarrow> bool option" where
  "is_bool (PBool b) = Some b"
| "is_bool _ = None"

fun is_dict :: "pyval \<Rightarrow> pydict option" where
  "is_dict (PDict d) = Some d"
| "is_dict _ = None"

fun is_list :: "pyval \<Rightarrow> pyval list option" where
  "is_list (PList xs) = Some xs"
| "is_list _ = None"

lemma is_Some_iffs [simp]:
  "exact_int v = Some n \<longleftrightarrow> v = PInt n"
  "is_str v = Some s \<longleftrightarrow> v = PStr s"
  "is_bool v = Some b \<longleftrightarrow> v = PBool b"
  "is_dict v = Some d \<longleftrightarrow> v = PDict d"
  "is_list v = Some xs \<longleftrightarrow> v = PList xs"
  by (cases v; auto)+

subsection \<open>\<open>==\<close> against a value of a known type\<close>

text \<open>
  Python compares booleans, integers and floats by their numeric value, so
  \<open>True == 1\<close> and \<open>1.0 == 1\<close>.  An array is never equal to a scalar here; NumPy would
  compare it element by element, and the code's \<open>if\<close> on a longer array raises, so in
  both readings the message is rejected.
\<close>

fun py_num :: "pyval \<Rightarrow> flt option" where
  "py_num (PBool b) = Some (Fin (if b then 1 else 0))"
| "py_num (PInt n) = Some (Fin (of_int n))"
| "py_num (PFloat x) = Some x"
| "py_num _ = None"

definition eq_int :: "pyval \<Rightarrow> int \<Rightarrow> bool" where
  "eq_int v n \<longleftrightarrow> py_num v = Some (Fin (of_int n))"

definition eq_str :: "pyval \<Rightarrow> string \<Rightarrow> bool" where
  "eq_str v s \<longleftrightarrow> v = PStr s"

definition eq_bool :: "pyval \<Rightarrow> bool \<Rightarrow> bool" where
  "eq_bool v b \<longleftrightarrow> eq_int v (if b then 1 else 0)"

lemma eq_int_PInt [simp]: "eq_int (PInt m) n \<longleftrightarrow> m = n"
  by (simp add: eq_int_def)

lemma eq_str_PStr [simp]: "eq_str (PStr t) s \<longleftrightarrow> t = s"
  by (simp add: eq_str_def)

lemma eq_bool_PBool [simp]: "eq_bool (PBool a) b \<longleftrightarrow> a = b"
  by (simp add: eq_bool_def eq_int_def)

subsection \<open>Sets of field names\<close>

text \<open>\<open>sorted(required - set(payload))\<close> and \<open>sorted(set(payload) - allowed)\<close>.\<close>

definition missing_fields :: "string list \<Rightarrow> pydict \<Rightarrow> string list" where
  "missing_fields required d = sort (filter (\<lambda>k. k \<notin> set (dkeys d)) (remdups required))"

definition unexpected_fields :: "string list \<Rightarrow> pydict \<Rightarrow> string list" where
  "unexpected_fields allowed d = sort (filter (\<lambda>k. k \<notin> set allowed) (remdups (dkeys d)))"

lemma missing_fields_empty [simp]:
  "missing_fields req d = [] \<longleftrightarrow> set req \<subseteq> fst ` set d"
  by (auto simp: missing_fields_def filter_empty_conv simp flip: set_empty)

lemma unexpected_fields_empty [simp]:
  "unexpected_fields al d = [] \<longleftrightarrow> fst ` set d \<subseteq> set al"
  by (auto simp: unexpected_fields_def filter_empty_conv simp flip: set_empty)

abbreviation PStrs :: "string list \<Rightarrow> pyval" where
  "PStrs xs \<equiv> PList (map PStr xs)"

subsection \<open>Optional values: \<open>None\<close> or the value\<close>

definition opt_str :: "string option \<Rightarrow> pyval" where
  "opt_str x = (case x of None \<Rightarrow> PNone | Some s \<Rightarrow> PStr s)"

lemma opt_str_inject [simp]: "opt_str x = opt_str y \<longleftrightarrow> x = y"
  by (auto simp: opt_str_def split: option.splits)

end
