(* ===== verification/Oven_Errors.thy ===== *)
theory Oven_Errors
  imports Oven_Values
begin

text \<open>
  \<open>common/errors.py\<close>: the stable error codes, the fault that carries one, and the
  exceptions of the model.  An exception is a fault of the program, another Python
  exception (its class is all the code ever looks at) or the operator's interrupt,
  which \<open>except Exception\<close> does not catch.
\<close>

datatype error_code =
    PROTOCOL_VERSION_UNSUPPORTED | INVALID_MESSAGE_TYPE | MISSING_REQUIRED_FIELD
  | UNEXPECTED_FIELD | INVALID_FIELD_TYPE | INVALID_FIELD_VALUE | FRAME_TOO_LARGE
  | FRAME_TYPE_REJECTED | FRAME_DECODE_FAILED | RESPONSE_MISMATCH
  | CONTROL_SERVER_UNAVAILABLE | SESSION_REQUIRED | SESSION_INVALID | SESSION_EXPIRED
  | SESSION_ALREADY_ACTIVE | TRIAL_ALREADY_ACTIVE | TRIAL_REQUIRED | TRIAL_MISMATCH
  | SKILL_MISMATCH | GENERATION_MISMATCH | SEQUENCE_MISMATCH | STATE_REJECTED
  | INFERENCE_BUSY | INFERENCE_TIMEOUT | POLICY_FAILED | ACTION_INVALID
  | OBSERVATION_STALE | JOINT_GATE_FAILED | CHECKER_FAILED | APPROVAL_REQUIRED
  | PIPELINE_FAILED | AUDIT_COMMIT_FAILED | CONFIG_INVALID | PATH_OUTSIDE_ROOT
  | SERVER_FAILED

fun code_value :: "error_code \<Rightarrow> string" where
  "code_value PROTOCOL_VERSION_UNSUPPORTED = ''PROTOCOL_VERSION_UNSUPPORTED''"
| "code_value INVALID_MESSAGE_TYPE = ''INVALID_MESSAGE_TYPE''"
| "code_value MISSING_REQUIRED_FIELD = ''MISSING_REQUIRED_FIELD''"
| "code_value UNEXPECTED_FIELD = ''UNEXPECTED_FIELD''"
| "code_value INVALID_FIELD_TYPE = ''INVALID_FIELD_TYPE''"
| "code_value INVALID_FIELD_VALUE = ''INVALID_FIELD_VALUE''"
| "code_value FRAME_TOO_LARGE = ''FRAME_TOO_LARGE''"
| "code_value FRAME_TYPE_REJECTED = ''FRAME_TYPE_REJECTED''"
| "code_value FRAME_DECODE_FAILED = ''FRAME_DECODE_FAILED''"
| "code_value RESPONSE_MISMATCH = ''RESPONSE_MISMATCH''"
| "code_value CONTROL_SERVER_UNAVAILABLE = ''CONTROL_SERVER_UNAVAILABLE''"
| "code_value SESSION_REQUIRED = ''SESSION_REQUIRED''"
| "code_value SESSION_INVALID = ''SESSION_INVALID''"
| "code_value SESSION_EXPIRED = ''SESSION_EXPIRED''"
| "code_value SESSION_ALREADY_ACTIVE = ''SESSION_ALREADY_ACTIVE''"
| "code_value TRIAL_ALREADY_ACTIVE = ''TRIAL_ALREADY_ACTIVE''"
| "code_value TRIAL_REQUIRED = ''TRIAL_REQUIRED''"
| "code_value TRIAL_MISMATCH = ''TRIAL_MISMATCH''"
| "code_value SKILL_MISMATCH = ''SKILL_MISMATCH''"
| "code_value GENERATION_MISMATCH = ''GENERATION_MISMATCH''"
| "code_value SEQUENCE_MISMATCH = ''SEQUENCE_MISMATCH''"
| "code_value STATE_REJECTED = ''STATE_REJECTED''"
| "code_value INFERENCE_BUSY = ''INFERENCE_BUSY''"
| "code_value INFERENCE_TIMEOUT = ''INFERENCE_TIMEOUT''"
| "code_value POLICY_FAILED = ''POLICY_FAILED''"
| "code_value ACTION_INVALID = ''ACTION_INVALID''"
| "code_value OBSERVATION_STALE = ''OBSERVATION_STALE''"
| "code_value JOINT_GATE_FAILED = ''JOINT_GATE_FAILED''"
| "code_value CHECKER_FAILED = ''CHECKER_FAILED''"
| "code_value APPROVAL_REQUIRED = ''APPROVAL_REQUIRED''"
| "code_value PIPELINE_FAILED = ''PIPELINE_FAILED''"
| "code_value AUDIT_COMMIT_FAILED = ''AUDIT_COMMIT_FAILED''"
| "code_value CONFIG_INVALID = ''CONFIG_INVALID''"
| "code_value PATH_OUTSIDE_ROOT = ''PATH_OUTSIDE_ROOT''"
| "code_value SERVER_FAILED = ''SERVER_FAILED''"

definition all_codes :: "error_code list" where
  "all_codes =
    [PROTOCOL_VERSION_UNSUPPORTED, INVALID_MESSAGE_TYPE, MISSING_REQUIRED_FIELD,
     UNEXPECTED_FIELD, INVALID_FIELD_TYPE, INVALID_FIELD_VALUE, FRAME_TOO_LARGE,
     FRAME_TYPE_REJECTED, FRAME_DECODE_FAILED, RESPONSE_MISMATCH,
     CONTROL_SERVER_UNAVAILABLE, SESSION_REQUIRED, SESSION_INVALID, SESSION_EXPIRED,
     SESSION_ALREADY_ACTIVE, TRIAL_ALREADY_ACTIVE, TRIAL_REQUIRED, TRIAL_MISMATCH,
     SKILL_MISMATCH, GENERATION_MISMATCH, SEQUENCE_MISMATCH, STATE_REJECTED,
     INFERENCE_BUSY, INFERENCE_TIMEOUT, POLICY_FAILED, ACTION_INVALID,
     OBSERVATION_STALE, JOINT_GATE_FAILED, CHECKER_FAILED, APPROVAL_REQUIRED,
     PIPELINE_FAILED, AUDIT_COMMIT_FAILED, CONFIG_INVALID, PATH_OUTSIDE_ROOT,
     SERVER_FAILED]"

text \<open>\<open>ErrorCode(text)\<close>: the member with that value; \<open>None\<close> where Python raises.\<close>

definition code_of :: "pyval \<Rightarrow> error_code option" where
  "code_of v = (case is_str v of None \<Rightarrow> None | Some t \<Rightarrow> find (\<lambda>c. code_value c = t) all_codes)"

lemma code_of_value [simp]: "code_of (PStr (code_value c)) = Some c"
  by (cases c) (simp_all add: code_of_def all_codes_def)

lemma code_of_Some: "code_of v = Some c \<longleftrightarrow> v = PStr (code_value c)"
proof
  assume "code_of v = Some c"
  then show "v = PStr (code_value c)"
    by (auto simp: code_of_def find_Some_iff split: option.splits)
qed simp

lemma code_value_inject: "code_value c = code_value c' \<longleftrightarrow> c = c'"
  by (metis code_of_value option.inject)

subsection \<open>Faults and exceptions\<close>

record runtime_fault =
  rf_code :: error_code
  rf_message :: string
  rf_details :: "pydict option"

text \<open>
  \<open>fault(code, message, **details)\<close>: no keyword arguments give no details
  (\<open>details or None\<close>).
\<close>

definition fault :: "error_code \<Rightarrow> string \<Rightarrow> pydict \<Rightarrow> runtime_fault" where
  "fault c m details =
     \<lparr>rf_code = c, rf_message = m, rf_details = (if details = [] then None else Some details)\<rparr>"

definition fault_to_dict :: "runtime_fault \<Rightarrow> pydict" where
  "fault_to_dict f =
     [(''ok'', PBool False), (''error_code'', PStr (code_value (rf_code f))),
      (''message'', PStr (rf_message f))]
     @ (case rf_details f of
          None \<Rightarrow> []
        | Some d \<Rightarrow> if d = [] then [] else [(''details'', PDict d)])"

definition fault_str :: "runtime_fault \<Rightarrow> string" where
  "fault_str f = code_value (rf_code f) @ '': '' @ rf_message f"

datatype py_class =
    ValueError | TypeError | KeyError | IndexError | RuntimeError | AssertionError
  | AttributeError | OverflowError | OSError | FileExistsError | FileNotFoundError
  | TimeoutExpired | OtherException

fun class_name :: "py_class \<Rightarrow> string" where
  "class_name ValueError = ''ValueError''"
| "class_name TypeError = ''TypeError''"
| "class_name KeyError = ''KeyError''"
| "class_name IndexError = ''IndexError''"
| "class_name RuntimeError = ''RuntimeError''"
| "class_name AssertionError = ''AssertionError''"
| "class_name AttributeError = ''AttributeError''"
| "class_name OverflowError = ''OverflowError''"
| "class_name OSError = ''OSError''"
| "class_name FileExistsError = ''FileExistsError''"
| "class_name FileNotFoundError = ''FileNotFoundError''"
| "class_name TimeoutExpired = ''TimeoutExpired''"
| "class_name OtherException = ''Exception''"

datatype exn =
    Fault runtime_fault
  | PyExc py_class
  | Interrupt     \<comment> \<open>\<open>KeyboardInterrupt\<close> or \<open>SystemExit\<close>\<close>

type_synonym 'a res = "exn + 'a"
type_synonym ('s, 'a) meth = "('s, exn, 'a) op"

abbreviation err :: "error_code \<Rightarrow> string \<Rightarrow> pydict \<Rightarrow> exn" where
  "err c m d \<equiv> Fault (fault c m d)"

text \<open>\<open>isinstance(e, Exception)\<close> and \<open>isinstance(e, OSError)\<close> (its subclasses included).\<close>

fun is_exception :: "exn \<Rightarrow> bool" where
  "is_exception Interrupt = False"
| "is_exception _ = True"

fun is_os_error :: "exn \<Rightarrow> bool" where
  "is_os_error (PyExc c) = (c \<in> {OSError, FileExistsError, FileNotFoundError})"
| "is_os_error _ = False"

fun is_fault :: "exn \<Rightarrow> bool" where
  "is_fault (Fault f) = True"
| "is_fault _ = False"

fun exn_name :: "exn \<Rightarrow> string" where
  "exn_name (Fault f) = ''RuntimeFault''"
| "exn_name (PyExc c) = class_name c"
| "exn_name Interrupt = ''KeyboardInterrupt''"

text \<open>The code of a fault, for statements that do not speak of its message.\<close>

fun fails_with :: "error_code \<Rightarrow> exn + 'a \<Rightarrow> bool" where
  "fails_with c (Inl (Fault f)) = (rf_code f = c)"
| "fails_with c _ = False"

lemma fault_code [simp]: "rf_code (fault c m d) = c"
  by (simp add: fault_def)

lemma fault_message [simp]: "rf_message (fault c m d) = m"
  by (simp add: fault_def)

lemma fault_details_nonempty [simp]: "rf_details (fault c m d) \<noteq> Some []"
  by (simp add: fault_def)

lemma fails_with_iff: "fails_with c r \<longleftrightarrow> (\<exists>f. r = Inl (Fault f) \<and> rf_code f = c)"
  by (cases "(c, r)" rule: fails_with.cases) auto

lemma dget_fault_to_dict [simp]:
  "dget (fault_to_dict f) ''ok'' = Some (PBool False)"
  "dget (fault_to_dict f) ''error_code'' = Some (PStr (code_value (rf_code f)))"
  "dget (fault_to_dict f) ''message'' = Some (PStr (rf_message f))"
  by (simp_all add: fault_to_dict_def)

lemma dkeys_fault_to_dict:
  "set (dkeys (fault_to_dict f)) \<subseteq> {''ok'', ''error_code'', ''message'', ''details''}"
  by (auto simp: fault_to_dict_def split: option.splits if_splits)

end
