(* ===== verification/Oven_Hashing.thy ===== *)
theory Oven_Hashing
  imports Oven_Errors "HOL-Library.Word" "HOL-Library.Multiset"
begin

text \<open>
  \<open>common/hashing.py\<close>: the hash of a nested message.  \<open>walk\<close> is the byte stream the
  code feeds to the digest, one frame per node; \<open>stable_tree_hash\<close> is the hexadecimal
  SHA-256 digest of that stream.  The standard-library parts it uses are written out:
  \<open>json.dumps\<close> of a scalar, the shortest float literal and SHA-256 itself.
\<close>

unbundle bit_operations_syntax

subsection \<open>Bytes\<close>

definition ascii :: "string \<Rightarrow> byte_list" where
  "ascii s = map of_char s"

definition utf8_char :: "char \<Rightarrow> byte_list" where
  "utf8_char c = (let n = of_char c :: nat in if n < 128 then [n] else [192 + n div 64, 128 + n mod 64])"

definition utf8 :: "string \<Rightarrow> byte_list" where
  "utf8 s = concat (map utf8_char s)"

fun be_bytes :: "nat \<Rightarrow> nat \<Rightarrow> byte_list" where
  "be_bytes 0 n = []"
| "be_bytes (Suc k) n = be_bytes k (n div 256) @ [n mod 256]"

text \<open>\<open>n.to_bytes(k, "big")\<close>\<close>

definition to_bytes :: "nat \<Rightarrow> nat \<Rightarrow> byte_list res" where
  "to_bytes k n = (if n < 256 ^ k then Inr (be_bytes k n) else Inl (PyExc OverflowError))"

definition framed :: "string \<Rightarrow> byte_list \<Rightarrow> byte_list res" where
  "framed label payload =
     (let label_bytes = utf8 label in
      bind_sum (to_bytes 4 (length label_bytes)) (\<lambda>l.
      bind_sum (to_bytes 8 (length payload)) (\<lambda>p.
      Inr (l @ label_bytes @ p @ payload))))"

subsection \<open>\<open>json.dumps\<close> of a scalar\<close>

definition hex_digit :: "nat \<Rightarrow> char" where
  "hex_digit d = (if d < 10 then char_of (48 + d) else char_of (87 + d))"

definition json_char :: "char \<Rightarrow> string" where
  "json_char c =
     (if c = CHR 0x22 then [CHR 0x5C, CHR 0x22]
      else if c = CHR 0x5C then [CHR 0x5C, CHR 0x5C]
      else if c = CHR 0x0A then [CHR 0x5C, CHR ''n'']
      else if c = CHR 0x0D then [CHR 0x5C, CHR ''r'']
      else if c = CHR 0x09 then [CHR 0x5C, CHR ''t'']
      else if c = CHR 0x0C then [CHR 0x5C, CHR ''f'']
      else if c = CHR 0x08 then [CHR 0x5C, CHR ''b'']
      else if of_char c < (32 :: nat)
      then [CHR 0x5C, CHR ''u'', CHR ''0'', CHR ''0'',
            hex_digit (of_char c div 16), hex_digit (of_char c mod 16)]
      else [c])"

definition json_string :: "string \<Rightarrow> string" where
  "json_string s = CHR 0x22 # concat (map json_char s) @ [CHR 0x22]"

text \<open>
  The shortest decimal literal that reads back as the same binary64 number
  (\<open>float.__repr__\<close>).  \<open>decimal_exp x\<close> is the exponent of the leading digit of \<open>x > 0\<close>;
  with \<open>k\<close> digits there are two neighbouring decimals, and the closer one that rounds
  to \<open>x\<close> is taken for the least \<open>k\<close> that has one.
\<close>

definition decimal_exp :: "rat \<Rightarrow> int" where
  "decimal_exp x =
     (let (n, d) = quotient_of x;
          e = int (length (show_nat (nat n))) - int (length (show_nat (nat d)))
      in if x < 10 powi e then e - 1 else e)"

definition repr_candidate :: "rat \<Rightarrow> nat \<Rightarrow> nat option" where
  "repr_candidate x k =
     (let s = 10 powi (decimal_exp x - int k + 1);
          f = \<lfloor>x / s\<rfloor>;
          reads = (\<lambda>c :: int. rnd64 (of_int c * s) = Fin x);
          near = (if x / s - of_int f < 1/2 \<or> (x / s - of_int f = 1/2 \<and> even f) then [f, f + 1] else [f + 1, f])
      in map_option nat (find reads near))"

fun repr_digits :: "rat \<Rightarrow> nat list \<Rightarrow> nat \<times> int" where
  \<comment> \<open>the digits as a number, and the power of ten they are multiplied by\<close>
  "repr_digits x [] = (nat \<lfloor>x / 10 powi (decimal_exp x - 16)\<rfloor>, decimal_exp x - 16)"
| "repr_digits x (k # ks) =
     (case repr_candidate x k of
        Some d \<Rightarrow> (d, decimal_exp x - int k + 1)
      | None \<Rightarrow> repr_digits x ks)"

definition repr_pos :: "rat \<Rightarrow> string" where
  "repr_pos x =
     (let (d, e) = repr_digits x [1..<18];
          all_ds = show_nat d;
          ds = rev (dropWhile (\<lambda>c. c = CHR ''0'') (rev all_ds));
          decpt = e + int (length all_ds);
          n = length ds
      in if - 4 < decpt \<and> decpt \<le> 16
         then (if decpt \<le> 0 then ''0.'' @ replicate (nat (- decpt)) (CHR ''0'') @ ds
               else if int n \<le> decpt then ds @ replicate (nat decpt - n) (CHR ''0'') @ ''.0''
               else take (nat decpt) ds @ ''.'' @ drop (nat decpt) ds)
         else take 1 ds @ (if n = 1 then '''' else ''.'' @ drop 1 ds) @ ''e''
              @ (if decpt - 1 < 0 then ''-'' else ''+'')
              @ (let t = show_nat (nat \<bar>decpt - 1\<bar>) in if length t < 2 then ''0'' @ t else t))"

definition float_repr :: "rat \<Rightarrow> string" where
  "float_repr x =
     (if x = 0 then ''0.0'' else if 0 < x then repr_pos x else CHR ''-'' # repr_pos (- x))"

text \<open>
  \<open>type(item).__name__\<close> and the JSON text of a scalar; \<open>allow_nan=False\<close> makes a
  non-finite float a \<open>ValueError\<close>.
\<close>

fun scalar_text :: "pyval \<Rightarrow> (string \<times> string) res" where
  "scalar_text PNone = Inr (''NoneType'', ''null'')"
| "scalar_text (PBool b) = Inr (''bool'', if b then ''true'' else ''false'')"
| "scalar_text (PInt n) = Inr (''int'', show_int n)"
| "scalar_text (PFloat (Fin x)) = Inr (''float'', float_repr x)"
| "scalar_text (PFloat _) = Inl (PyExc ValueError)"
| "scalar_text (PStr s) = Inr (''str'', json_string s)"
| "scalar_text _ = Inl (PyExc TypeError)"

fun join :: "string \<Rightarrow> string list \<Rightarrow> string" where
  "join sep [] = []"
| "join sep [x] = x"
| "join sep (x # y # zs) = x @ sep @ join sep (y # zs)"

text \<open>\<open>np.ascontiguousarray\<close> gives a zero-dimensional array the shape \<open>(1,)\<close>.\<close>

definition array_metadata :: "ndarray \<Rightarrow> string" where
  "array_metadata a =
     (let shape = (if nd_shape a = [] then [1] else nd_shape a) in
      CHR 0x7B # json_string ''dtype'' @ '':'' @ json_string (dt_name (nd_dtype a)) @ '',''
      @ json_string ''shape'' @ '':['' @ join '','' (map show_nat shape) @ '']'' @ [CHR 0x7D])"

subsection \<open>The byte stream of a tree\<close>

lemma size_dict_value: "(k, v) \<in> set d \<Longrightarrow> size v < size (PDict d)"
  by (induction d) (auto simp: less_Suc_eq_le dest: order_trans)

lemma size_list_value: "v \<in> set xs \<Longrightarrow> size v < size (PList xs)"
  by (induction xs) auto

lemma size_list_nth: "i < length xs \<Longrightarrow> size (xs ! i) < size (PList xs)"
  by (rule size_list_value) simp

function (sequential) walk :: "pyval \<Rightarrow> string \<Rightarrow> byte_list res" where
  "walk (PDict d) path =
     bind_sum (framed path (ascii ''mapping'')) (\<lambda>h.
     bind_sum (concat_res (map (\<lambda>(key, child). walk child (path @ ''/'' @ key)) (sort_key fst d))) (\<lambda>t.
     Inr (h @ t)))"
| "walk (PList xs) path =
     bind_sum (framed path (ascii (''sequence:'' @ show_nat (length xs)))) (\<lambda>h.
     bind_sum (concat_res (map (\<lambda>(i, child). walk child (path @ ''/'' @ show_nat i)) (enumerate 0 xs))) (\<lambda>t.
     Inr (h @ t)))"
| "walk (PBytes b) path = framed path (ascii ''bytes:'' @ b)"
| "walk (PArr a) path =
     framed path (ascii ''array:'' @ ascii (array_metadata a) @ ascii '':'' @ nd_bytes a)"
| "walk v path =
     bind_sum (scalar_text v) (\<lambda>(name, text).
     framed path (ascii ''scalar:'' @ ascii name @ ascii '':'' @ utf8 text))"
  by pat_completeness auto
termination
  by (relation "measure (\<lambda>(v, path). size v)")
    (auto dest!: size_dict_value size_list_nth simp: in_set_enumerate_eq)

subsection \<open>SHA-256\<close>

type_synonym w32 = "32 word"
type_synonym sha_state = "w32 \<times> w32 \<times> w32 \<times> w32 \<times> w32 \<times> w32 \<times> w32 \<times> w32"

definition sha_k :: "w32 list" where
  "sha_k =
    [1116352408, 1899447441, 3049323471, 3921009573, 961987163, 1508970993, 2453635748, 2870763221,
     3624381080, 310598401, 607225278, 1426881987, 1925078388, 2162078206, 2614888103, 3248222580,
     3835390401, 4022224774, 264347078, 604807628, 770255983, 1249150122, 1555081692, 1996064986,
     2554220882, 2821834349, 2952996808, 3210313671, 3336571891, 3584528711, 113926993, 338241895,
     666307205, 773529912, 1294757372, 1396182291, 1695183700, 1986661051, 2177026350, 2456956037,
     2730485921, 2820302411, 3259730800, 3345764771, 3516065817, 3600352804, 4094571909, 275423344,
     430227734, 506948616, 659060556, 883997877, 958139571, 1322822218, 1537002063, 1747873779,
     1955562222, 2024104815, 2227730452, 2361852424, 2428436474, 2756734187, 3204031479, 3329325298]"

definition sha_init :: sha_state where
  "sha_init = (1779033703, 3144134277, 1013904242, 2773480762, 1359893119, 2600822924, 528734635, 1541459225)"

definition sha_s0 :: "w32 \<Rightarrow> w32" where
  "sha_s0 x = xor (xor (word_rotr 7 x) (word_rotr 18 x)) (drop_bit 3 x)"

definition sha_s1 :: "w32 \<Rightarrow> w32" where
  "sha_s1 x = xor (xor (word_rotr 17 x) (word_rotr 19 x)) (drop_bit 10 x)"

text \<open>The message schedule, most recent word first.\<close>

fun sha_schedule :: "nat \<Rightarrow> w32 list \<Rightarrow> w32 list" where
  "sha_schedule 0 ws = ws"
| "sha_schedule (Suc n) ws =
     sha_schedule n ((sha_s1 (ws ! 1) + ws ! 6 + sha_s0 (ws ! 14) + ws ! 15) # ws)"

fun sha_round :: "w32 \<times> w32 \<Rightarrow> sha_state \<Rightarrow> sha_state" where
  "sha_round (k, w) (a, b, c, d, e, f, g, h) =
     (let t1 = h + xor (xor (word_rotr 6 e) (word_rotr 11 e)) (word_rotr 25 e)
               + xor (e AND f) (NOT e AND g) + k + w;
          t2 = xor (xor (word_rotr 2 a) (word_rotr 13 a)) (word_rotr 22 a)
               + xor (xor (a AND b) (a AND c)) (b AND c)
      in (t1 + t2, a, b, c, d + t1, e, f, g))"

fun sha_add :: "sha_state \<Rightarrow> sha_state \<Rightarrow> sha_state" where
  "sha_add (a, b, c, d, e, f, g, h) (a', b', c', d', e', f', g', h') =
     (a + a', b + b', c + c', d + d', e + e', f + f', g + g', h + h')"

fun words_of :: "byte_list \<Rightarrow> w32 list" where
  "words_of (a # b # c # d # rest) =
     of_nat (a * 2 ^ 24 + b * 2 ^ 16 + c * 2 ^ 8 + d) # words_of rest"
| "words_of _ = []"

definition sha_block :: "byte_list \<Rightarrow> sha_state \<Rightarrow> sha_state" where
  "sha_block block st =
     sha_add st (fold sha_round (zip sha_k (rev (sha_schedule 48 (rev (words_of block))))) st)"

fun sha_blocks :: "nat \<Rightarrow> byte_list \<Rightarrow> sha_state \<Rightarrow> sha_state" where
  "sha_blocks 0 bs st = st"
| "sha_blocks (Suc n) bs st = sha_blocks n (drop 64 bs) (sha_block (take 64 bs) st)"

definition sha_pad :: "byte_list \<Rightarrow> byte_list" where
  "sha_pad m = m @ [128] @ replicate ((119 - length m mod 64) mod 64) 0 @ be_bytes 8 (8 * length m)"

fun sha_words :: "sha_state \<Rightarrow> w32 list" where
  "sha_words (a, b, c, d, e, f, g, h) = [a, b, c, d, e, f, g, h]"

definition hex_word :: "w32 \<Rightarrow> string" where
  "hex_word w = map (\<lambda>i. hex_digit (unat (drop_bit (4 * i) w AND 15))) [7, 6, 5, 4, 3, 2, 1, 0]"

definition sha256_hex :: "byte_list \<Rightarrow> string" where
  "sha256_hex m =
     (let p = sha_pad m in concat (map hex_word (sha_words (sha_blocks (length p div 64) p sha_init))))"

definition stable_tree_hash :: "pyval \<Rightarrow> string res" where
  "stable_tree_hash v = bind_sum (walk v ''root'') (\<lambda>stream. Inr (sha256_hex stream))"

subsection \<open>The digest is 64 lower-case hexadecimal digits\<close>

definition is_hex_digit :: "char \<Rightarrow> bool" where
  "is_hex_digit c \<longleftrightarrow> is_digit c \<or> (CHR ''a'' \<le> c \<and> c \<le> CHR ''f'')"

lemma is_hex_digit_hex_digit: "d < 16 \<Longrightarrow> is_hex_digit (hex_digit d)"
  by (auto simp: is_hex_digit_def is_digit_def hex_digit_def less_eq_char_def)

lemma nibble_less: "unat (w AND (15 :: w32)) < 16"
proof -
  have "unat (w AND 15) \<le> unat (15 :: w32)"
    by (rule word_and_le1 [THEN word_le_nat_alt [THEN iffD1]])
  then show ?thesis by simp
qed

lemma length_hex_word [simp]: "length (hex_word w) = 8"
  by (simp add: hex_word_def)

lemma hex_word_digits: "list_all is_hex_digit (hex_word w)"
  by (simp add: hex_word_def is_hex_digit_hex_digit nibble_less)

lemma length_sha256_hex [simp]: "length (sha256_hex m) = 64"
proof -
  have "length (sha_words st) = 8" for st by (cases st rule: sha_words.cases) simp
  then show ?thesis by (simp add: sha256_hex_def Let_def length_concat comp_def sum_list_triv)
qed

lemma sha256_hex_digits: "list_all is_hex_digit (sha256_hex m)"
  using hex_word_digits by (auto simp: sha256_hex_def Let_def list_all_iff)

lemma stable_tree_hash_Inr:
  "stable_tree_hash v = Inr h \<longleftrightarrow> (\<exists>stream. walk v ''root'' = Inr stream \<and> h = sha256_hex stream)"
  by (auto simp: stable_tree_hash_def result_iffs)

lemma length_stable_tree_hash: "stable_tree_hash v = Inr h \<Longrightarrow> length h = 64"
  by (auto simp: stable_tree_hash_Inr)

subsection \<open>The insertion order of a mapping does not matter\<close>

lemma sort_key_mset_cong:
  assumes "mset xs = mset ys" and "distinct (map f xs)"
  shows "sort_key f xs = sort_key f ys"
proof (rule map_sorted_distinct_set_unique [where f = f])
  have perm: "mset (map f (sort_key f zs)) = mset (map f zs)" for zs by simp
  have "distinct (map f ys)" using assms by (metis mset_eq_imp_distinct_iff mset_map)
  then show "distinct (map f (sort_key f ys))" using perm mset_eq_imp_distinct_iff by blast
  show "distinct (map f (sort_key f xs))" using assms(2) perm mset_eq_imp_distinct_iff by blast
  have sets: "set xs = set ys" using assms(1) by (rule mset_eq_setD)
  then show "set (sort_key f xs) = set (sort_key f ys)" by simp
  show "inj_on f (set (sort_key f xs) \<union> set (sort_key f ys))"
    using assms(2) sets by (simp add: distinct_map)
qed simp_all

lemma walk_dict_order:
  assumes "mset d = mset d'" and "distinct (dkeys d)"
  shows "walk (PDict d) path = walk (PDict d') path"
  using sort_key_mset_cong [OF assms] by simp

subsection \<open>Frames can be told apart\<close>

lemma length_be_bytes [simp]: "length (be_bytes k n) = k"
  by (induction k arbitrary: n) auto

lemma be_bytes_inject: "m < 256 ^ k \<Longrightarrow> n < 256 ^ k \<Longrightarrow> be_bytes k m = be_bytes k n \<longleftrightarrow> m = n"
proof (induction k arbitrary: m n)
  case 0
  then show ?case by simp
next
  case (Suc k)
  from Suc.prems have "m div 256 < 256 ^ k" "n div 256 < 256 ^ k"
    by (simp_all add: less_mult_imp_div_less mult.commute)
  then have "be_bytes (Suc k) m = be_bytes (Suc k) n \<longleftrightarrow> m div 256 = n div 256 \<and> m mod 256 = n mod 256"
    by (simp add: Suc.IH)
  also have "\<dots> \<longleftrightarrow> m = n" by (metis div_mult_mod_eq)
  finally show ?case .
qed

lemma framed_Inr:
  "framed l p = Inr f \<longleftrightarrow>
     length (utf8 l) < 256 ^ 4 \<and> length p < 256 ^ 8
     \<and> f = be_bytes 4 (length (utf8 l)) @ utf8 l @ be_bytes 8 (length p) @ p"
  by (auto simp: framed_def to_bytes_def result_iffs Let_def split: if_splits)

lemma append_same_length: "length a = length b \<Longrightarrow> a @ x = b @ y \<Longrightarrow> a = b \<and> x = y"
  by simp

lemma framed_unique:
  assumes "framed l p = Inr f" and "framed l' p' = Inr f'" and "f @ rest = f' @ rest'"
  shows "utf8 l = utf8 l' \<and> p = p' \<and> rest = rest'"
proof -
  from assms have sizes: "length (utf8 l) < 256 ^ 4" "length (utf8 l') < 256 ^ 4"
    "length p < 256 ^ 8" "length p' < 256 ^ 8"
    and eq: "be_bytes 4 (length (utf8 l)) @ utf8 l @ be_bytes 8 (length p) @ p @ rest
      = be_bytes 4 (length (utf8 l')) @ utf8 l' @ be_bytes 8 (length p') @ p' @ rest'"
    by (simp_all only: framed_Inr append_assoc)
  from append_same_length [OF _ eq]
  have "be_bytes 4 (length (utf8 l)) = be_bytes 4 (length (utf8 l'))"
    and eq2: "utf8 l @ be_bytes 8 (length p) @ p @ rest = utf8 l' @ be_bytes 8 (length p') @ p' @ rest'"
    by auto
  then have "length (utf8 l) = length (utf8 l')" using sizes be_bytes_inject by blast
  from append_same_length [OF this eq2] have u: "utf8 l = utf8 l'"
    and eq3: "be_bytes 8 (length p) @ p @ rest = be_bytes 8 (length p') @ p' @ rest'" by auto
  from append_same_length [OF _ eq3] have "be_bytes 8 (length p) = be_bytes 8 (length p')"
    and eq4: "p @ rest = p' @ rest'" by auto
  then have "length p = length p'" using sizes be_bytes_inject by blast
  from append_same_length [OF this eq4] u show ?thesis by simp
qed

lemma utf8_char_inject: "utf8_char c @ r = utf8_char d @ s \<longleftrightarrow> c = d \<and> r = s"
proof
  assume eq: "utf8_char c @ r = utf8_char d @ s"
  have small: "(of_char x :: nat) < 256" for x by simp
  have split: "(of_char c :: nat) = of_char d"
    if "(of_char c :: nat) div 64 = of_char d div 64" "(of_char c :: nat) mod 64 = of_char d mod 64"
    using that by (metis div_mult_mod_eq)
  show "c = d \<and> r = s"
    using eq small [of c] small [of d] split
    by (auto simp: utf8_char_def Let_def split: if_splits)
qed simp

lemma utf8_inject: "utf8 s = utf8 t \<longleftrightarrow> s = t"
proof
  assume "utf8 s = utf8 t"
  then show "s = t"
  proof (induction s arbitrary: t)
    case Nil
    then show ?case by (cases t) (auto simp: utf8_def utf8_char_def Let_def split: if_splits)
  next
    case (Cons c s)
    show ?case
    proof (cases t)
      case Nil
      with Cons.prems show ?thesis by (auto simp: utf8_def utf8_char_def Let_def split: if_splits)
    next
      case (Cons d t')
      with Cons.prems have "utf8_char c @ utf8 s = utf8_char d @ utf8 t'" by (simp add: utf8_def)
      then show ?thesis using Cons.IH Cons by (simp add: utf8_char_inject)
    qed
  qed
qed simp

lemma framed_inject:
  assumes "framed l p = Inr f" and "framed l' p' = Inr f'" and "f @ rest = f' @ rest'"
  shows "l = l' \<and> p = p' \<and> rest = rest'"
  using framed_unique [OF assms] by (simp add: utf8_inject)

lemma framed_nonempty: "framed l p = Inr f \<Longrightarrow> f \<noteq> []"
  by (auto simp: framed_Inr simp flip: length_0_conv)

subsection \<open>Flat mappings of scalars are always hashed\<close>

lemma length_utf8: "length (utf8 s) \<le> 2 * length s"
  by (induction s) (auto simp: utf8_def utf8_char_def Let_def)

lemma length_json_string: "length (json_string s) \<le> 6 * length s + 2"
proof -
  have "length (concat (map json_char s)) \<le> 6 * length s"
    by (induction s) (auto simp: json_char_def)
  then show ?thesis by (simp add: json_string_def)
qed

lemma framed_ok:
  assumes "length label \<le> 1000" and "length payload \<le> 10 ^ 10"
  shows "\<exists>x. framed label payload = Inr x"
proof -
  have "length (utf8 label) < 256 ^ 4" using length_utf8 [of label] assms(1) by simp
  moreover have "length payload < 256 ^ 8" using assms(2) by simp
  ultimately show ?thesis by (auto simp: framed_Inr)
qed

lemma concat_res_ok: "\<forall>r \<in> set rs. \<exists>x. r = Inr x \<Longrightarrow> \<exists>y. concat_res rs = Inr y"
  by (induction rs) auto

definition short_scalar :: "pyval \<Rightarrow> bool" where
  "short_scalar v \<longleftrightarrow>
     (case v of PNone \<Rightarrow> True | PBool b \<Rightarrow> True | PInt n \<Rightarrow> length (show_int n) \<le> 1000
      | PStr s \<Rightarrow> length s \<le> 10 ^ 6 | _ \<Rightarrow> False)"

lemma walk_short_scalar:
  assumes "short_scalar v" and "length path \<le> 1000"
  shows "\<exists>x. walk v path = Inr x"
proof (cases v)
  case PNone
  with assms framed_ok [of path] show ?thesis by (simp add: ascii_def utf8_def utf8_char_def Let_def)
next
  case (PBool b)
  with assms framed_ok [of path] show ?thesis by (cases b) (simp_all add: ascii_def utf8_def utf8_char_def Let_def)
next
  case (PInt n)
  with assms length_utf8 [of "show_int n"] show ?thesis
    by (auto intro!: framed_ok simp: ascii_def short_scalar_def)
next
  case (PStr s)
  with assms length_utf8 [of "json_string s"] length_json_string [of s] show ?thesis
    by (auto intro!: framed_ok simp: ascii_def short_scalar_def)
qed (use assms(1) in \<open>simp_all add: short_scalar_def\<close>)

lemma flat_mapping_hashed:
  assumes "\<forall>(k, v) \<in> set d. length k \<le> 900 \<and> short_scalar v"
  shows "\<exists>h. stable_tree_hash (PDict d) = Inr h"
proof -
  obtain x where x: "framed ''root'' (ascii ''mapping'') = Inr x"
    using framed_ok [of "''root''" "ascii ''mapping''"] by (auto simp: ascii_def)
  have "\<exists>y. concat_res (map (\<lambda>(key, child). walk child (''root'' @ ''/'' @ key)) (sort_key fst d)) = Inr y"
    by (rule concat_res_ok) (use assms in \<open>fastforce intro!: walk_short_scalar\<close>)
  with x show ?thesis by (auto simp: stable_tree_hash_Inr)
qed

end
