(* ===== verification/Oven_State.thy ===== *)
theory Oven_State
  imports Oven_Errors
begin

text \<open>
  \<open>common/state.py\<close> and \<open>common/audit_schema.py\<close>: the states of the policy runtime, of
  an action session and of the edge pipeline, the two transition tables with the
  guards that enforce them, and the evidence a stage needs to count as completed.
\<close>

datatype runtime_state =
  RS_STARTING | RS_LOADING | RS_READY | RS_DRAINING | RS_SWITCHING | RS_FAILED | RS_STOPPING

datatype session_state = SS_ACTIVE | SS_CLOSED | SS_EXPIRED | SS_ABORTED

datatype pipeline_state =
    PS_CREATED | PS_PREFLIGHT | PS_RESETTING | PS_PREPARING_POLICY | PS_READY_TO_ROLLOUT
  | PS_ROLLOUT | PS_JOINT_GATE | PS_CHECKING | PS_HANDOFF | PS_COMPLETED | PS_SAFE_STOP
  | PS_FAILED

fun runtime_value :: "runtime_state \<Rightarrow> string" where
  "runtime_value RS_STARTING = ''STARTING''"
| "runtime_value RS_LOADING = ''LOADING''"
| "runtime_value RS_READY = ''READY''"
| "runtime_value RS_DRAINING = ''DRAINING''"
| "runtime_value RS_SWITCHING = ''SWITCHING''"
| "runtime_value RS_FAILED = ''FAILED''"
| "runtime_value RS_STOPPING = ''STOPPING''"

fun pipeline_value :: "pipeline_state \<Rightarrow> string" where
  "pipeline_value PS_CREATED = ''CREATED''"
| "pipeline_value PS_PREFLIGHT = ''PREFLIGHT''"
| "pipeline_value PS_RESETTING = ''RESETTING''"
| "pipeline_value PS_PREPARING_POLICY = ''PREPARING_POLICY''"
| "pipeline_value PS_READY_TO_ROLLOUT = ''READY_TO_ROLLOUT''"
| "pipeline_value PS_ROLLOUT = ''ROLLOUT''"
| "pipeline_value PS_JOINT_GATE = ''JOINT_GATE''"
| "pipeline_value PS_CHECKING = ''CHECKING''"
| "pipeline_value PS_HANDOFF = ''HANDOFF''"
| "pipeline_value PS_COMPLETED = ''COMPLETED''"
| "pipeline_value PS_SAFE_STOP = ''SAFE_STOP''"
| "pipeline_value PS_FAILED = ''FAILED''"

subsection \<open>The transition tables\<close>

fun RUNTIME_TRANSITIONS :: "runtime_state \<Rightarrow> runtime_state list" where
  "RUNTIME_TRANSITIONS RS_STARTING = [RS_LOADING, RS_STOPPING, RS_FAILED]"
| "RUNTIME_TRANSITIONS RS_LOADING = [RS_READY, RS_FAILED, RS_STOPPING]"
| "RUNTIME_TRANSITIONS RS_READY = [RS_DRAINING, RS_FAILED, RS_STOPPING]"
| "RUNTIME_TRANSITIONS RS_DRAINING = [RS_SWITCHING, RS_FAILED, RS_STOPPING]"
| "RUNTIME_TRANSITIONS RS_SWITCHING = [RS_LOADING, RS_FAILED, RS_STOPPING]"
| "RUNTIME_TRANSITIONS RS_FAILED = [RS_STOPPING]"
| "RUNTIME_TRANSITIONS RS_STOPPING = []"

fun PIPELINE_TRANSITIONS :: "pipeline_state \<Rightarrow> pipeline_state list" where
  "PIPELINE_TRANSITIONS PS_CREATED = [PS_PREFLIGHT, PS_SAFE_STOP]"
| "PIPELINE_TRANSITIONS PS_PREFLIGHT = [PS_RESETTING, PS_SAFE_STOP]"
| "PIPELINE_TRANSITIONS PS_RESETTING = [PS_PREPARING_POLICY, PS_SAFE_STOP]"
| "PIPELINE_TRANSITIONS PS_PREPARING_POLICY = [PS_READY_TO_ROLLOUT, PS_SAFE_STOP]"
| "PIPELINE_TRANSITIONS PS_READY_TO_ROLLOUT = [PS_ROLLOUT, PS_SAFE_STOP]"
| "PIPELINE_TRANSITIONS PS_ROLLOUT = [PS_JOINT_GATE, PS_SAFE_STOP]"
| "PIPELINE_TRANSITIONS PS_JOINT_GATE = [PS_CHECKING, PS_SAFE_STOP]"
| "PIPELINE_TRANSITIONS PS_CHECKING = [PS_HANDOFF, PS_SAFE_STOP]"
| "PIPELINE_TRANSITIONS PS_HANDOFF = [PS_RESETTING, PS_COMPLETED, PS_SAFE_STOP]"
| "PIPELINE_TRANSITIONS PS_SAFE_STOP = [PS_FAILED]"
| "PIPELINE_TRANSITIONS PS_COMPLETED = []"
| "PIPELINE_TRANSITIONS PS_FAILED = []"

definition ensure_runtime_transition :: "runtime_state \<Rightarrow> runtime_state \<Rightarrow> unit res" where
  "ensure_runtime_transition current target =
     (if target \<notin> set (RUNTIME_TRANSITIONS current)
      then Inl (err STATE_REJECTED ''illegal runtime state transition''
                 [(''current'', PStr (runtime_value current)), (''target'', PStr (runtime_value target))])
      else Inr ())"

definition ensure_pipeline_transition :: "pipeline_state \<Rightarrow> pipeline_state \<Rightarrow> unit res" where
  "ensure_pipeline_transition current target =
     (if target \<notin> set (PIPELINE_TRANSITIONS current)
      then Inl (err STATE_REJECTED ''illegal pipeline state transition''
                 [(''current'', PStr (pipeline_value current)), (''target'', PStr (pipeline_value target))])
      else Inr ())"

lemma ensure_runtime_Inr [simp]:
  "ensure_runtime_transition a b = Inr u \<longleftrightarrow> b \<in> set (RUNTIME_TRANSITIONS a)"
  by (simp add: ensure_runtime_transition_def)

lemma ensure_pipeline_Inr [simp]:
  "ensure_pipeline_transition a b = Inr u \<longleftrightarrow> b \<in> set (PIPELINE_TRANSITIONS a)"
  by (simp add: ensure_pipeline_transition_def)

subsection \<open>Paths through a table\<close>

inductive guarded_path :: "('st \<Rightarrow> 'st list) \<Rightarrow> 'st \<Rightarrow> 'st list \<Rightarrow> 'st \<Rightarrow> bool" for table where
  path_nil: "guarded_path table a [] a"
| path_step: "b \<in> set (table a) \<Longrightarrow> guarded_path table b bs c \<Longrightarrow> guarded_path table a (b # bs) c"

inductive_simps guarded_path_simps:
  "guarded_path table a [] c"
  "guarded_path table a (b # bs) c"

lemma guarded_path_append:
  "guarded_path table a (xs @ ys) c \<longleftrightarrow>
     (\<exists>b. guarded_path table a xs b \<and> guarded_path table b ys c)"
  by (induction xs arbitrary: a) (auto simp: guarded_path_simps)

text \<open>
  The contract a transition table gives its component: a set of states that, once
  entered, is never left.
\<close>

locale trapped_states =
  fixes table :: "'st \<Rightarrow> 'st list"
    and trap :: "'st set"
  assumes trap_closed: "a \<in> trap \<Longrightarrow> b \<in> set (table a) \<Longrightarrow> b \<in> trap"
begin

lemma path_stays: "guarded_path table a bs c \<Longrightarrow> a \<in> trap \<Longrightarrow> set bs \<subseteq> trap \<and> c \<in> trap"
  by (induction rule: guarded_path.induct) (auto intro: trap_closed)

lemma path_into_trap:
  assumes "guarded_path table a bs c" and "b \<in> set bs" and "b \<in> trap"
  shows "c \<in> trap"
proof -
  from assms(2) obtain xs ys where "bs = xs @ b # ys" by (auto simp: in_set_conv_decomp)
  with assms(1) obtain m where "guarded_path table m (b # ys) c"
    by (auto simp: guarded_path_append)
  then have "guarded_path table b ys c" by (simp add: guarded_path_simps)
  with assms(3) show ?thesis using path_stays by blast
qed

end

interpretation runtime_trap: trapped_states RUNTIME_TRANSITIONS "{RS_FAILED, RS_STOPPING}"
  by unfold_locales auto

interpretation pipeline_trap: trapped_states PIPELINE_TRANSITIONS "{PS_SAFE_STOP, PS_FAILED}"
  by unfold_locales auto

text \<open>A list with no repeated adjacent predecessor: where a state can come from.\<close>

lemma pipeline_predecessor:
  "PS_COMPLETED \<in> set (PIPELINE_TRANSITIONS a) \<Longrightarrow> a = PS_HANDOFF"
  "PS_HANDOFF \<in> set (PIPELINE_TRANSITIONS a) \<Longrightarrow> a = PS_CHECKING"
  "PS_CHECKING \<in> set (PIPELINE_TRANSITIONS a) \<Longrightarrow> a = PS_JOINT_GATE"
  "PS_JOINT_GATE \<in> set (PIPELINE_TRANSITIONS a) \<Longrightarrow> a = PS_ROLLOUT"
  by (cases a; simp)+

lemma runtime_predecessor:
  "RS_READY \<in> set (RUNTIME_TRANSITIONS a) \<Longrightarrow> a = RS_LOADING"
  by (cases a) auto

text \<open>
  Every visit to a state \<open>b\<close> whose only predecessor is \<open>a\<close> comes right after a visit to
  \<open>a\<close> (or is the first step from \<open>a\<close> itself).
\<close>

lemma path_end: "guarded_path table a bs c \<Longrightarrow> c = last (a # bs)"
  by (induction rule: guarded_path.induct) auto

lemma visit_after:
  assumes "guarded_path table s (xs @ b # ys) c"
    and "\<And>m. b \<in> set (table m) \<Longrightarrow> m = a"
  shows "last (s # xs) = a"
proof -
  from assms(1) obtain m where "guarded_path table s xs m" and "b \<in> set (table m)"
    by (auto simp: guarded_path_append guarded_path_simps)
  with assms(2) path_end show ?thesis by metis
qed

subsection \<open>Stage evidence\<close>

datatype evidence_status =
  EV_NOT_RUN | EV_NOT_REQUIRED | EV_PASSED | EV_FAILED | EV_INCOMPLETE

fun evidence_value :: "evidence_status \<Rightarrow> string" where
  "evidence_value EV_NOT_RUN = ''NOT_RUN''"
| "evidence_value EV_NOT_REQUIRED = ''NOT_REQUIRED''"
| "evidence_value EV_PASSED = ''PASSED''"
| "evidence_value EV_FAILED = ''FAILED''"
| "evidence_value EV_INCOMPLETE = ''INCOMPLETE''"

record stage_evidence =
  rollout_exit_code :: "int option"
  rollout_end_reason :: "string option"
  rollout_end_reason_approved :: bool
  ev_joint_gate :: evidence_status
  ev_checker :: evidence_status
  ev_server_audit :: evidence_status
  ev_edge_audit :: evidence_status

definition evidence_completed :: "stage_evidence \<Rightarrow> bool" where
  "evidence_completed e \<longleftrightarrow>
     rollout_exit_code e = Some 0
     \<and> rollout_end_reason e \<noteq> None
     \<and> rollout_end_reason_approved e
     \<and> ev_joint_gate e = EV_PASSED
     \<and> ev_checker e \<in> {EV_PASSED, EV_NOT_REQUIRED}
     \<and> ev_server_audit e = EV_PASSED
     \<and> ev_edge_audit e = EV_PASSED"

end
