(* ===== verification/Oven_Protocol.thy ===== *)
theory Oven_Protocol
  imports Oven_State "HOL-Library.Sublist"
begin

text \<open>
  \<open>common/protocol.py\<close>: the inference request and response envelopes.  Parsing either
  raises one fault of the protocol or returns a request that satisfies every check.
\<close>

definition PROTOCOL_VERSION :: int where "PROTOCOL_VERSION = 1"

subsection \<open>Identifiers\<close>

definition is_alnum :: "char \<Rightarrow> bool" where
  "is_alnum c \<longleftrightarrow>
     (CHR ''A'' \<le> c \<and> c \<le> CHR ''Z'') \<or> (CHR ''a'' \<le> c \<and> c \<le> CHR ''z'')
     \<or> (CHR ''0'' \<le> c \<and> c \<le> CHR ''9'')"

definition is_id_char :: "char \<Rightarrow> bool" where
  "is_id_char c \<longleftrightarrow> is_alnum c \<or> c = CHR ''_'' \<or> c = CHR ''.'' \<or> c = CHR ''-''"

text \<open>\<open>TRIAL_ID_PATTERN.fullmatch\<close>: \<open>[A-Za-z0-9][A-Za-z0-9_.-]{0,127}\<close>.\<close>

fun trial_id_matches :: "string \<Rightarrow> bool" where
  "trial_id_matches [] = False"
| "trial_id_matches (c # cs) = (is_alnum c \<and> length cs \<le> 127 \<and> list_all is_id_char cs)"

text \<open>\<open>uuid.UUID(text)\<close>, as the standard library reads it.\<close>

fun remove_all :: "string \<Rightarrow> string \<Rightarrow> string" where
  "remove_all pat [] = []"
| "remove_all pat (c # cs) =
     (if prefix pat (c # cs) then remove_all pat (drop (length pat - 1) cs)
      else c # remove_all pat cs)"

definition strip_chars :: "char set \<Rightarrow> string \<Rightarrow> string" where
  "strip_chars A s = rev (dropWhile (\<lambda>c. c \<in> A) (rev (dropWhile (\<lambda>c. c \<in> A) s)))"

definition py_whitespace :: "char set" where
  "py_whitespace = char_of ` {9, 10, 11, 12, 13, 28, 29, 30, 31, 32, 133, 160 :: nat}"

definition hex_value :: "char \<Rightarrow> nat option" where
  "hex_value c =
     (if CHR ''0'' \<le> c \<and> c \<le> CHR ''9'' then Some (of_char c - 48)
      else if CHR ''a'' \<le> c \<and> c \<le> CHR ''f'' then Some (of_char c - 87)
      else if CHR ''A'' \<le> c \<and> c \<le> CHR ''F'' then Some (of_char c - 55)
      else None)"

fun hex_digits :: "bool \<Rightarrow> nat \<Rightarrow> string \<Rightarrow> nat option" where
  \<comment> \<open>the flag says that a digit has to come next: at the start and after \<open>_\<close>\<close>
  "hex_digits need acc [] = (if need then None else Some acc)"
| "hex_digits need acc (c # cs) =
     (if c = CHR ''_'' then (if need then None else hex_digits True acc cs)
      else case hex_value c of
        None \<Rightarrow> None
      | Some d \<Rightarrow> hex_digits False (16 * acc + d) cs)"

definition hex_magnitude :: "string \<Rightarrow> nat option" where
  "hex_magnitude s =
     (if prefix ''0x'' s \<or> prefix ''0X'' s
      then hex_digits True 0 (if prefix ''_'' (drop 2 s) then drop 3 s else drop 2 s)
      else hex_digits True 0 s)"

definition py_int16 :: "string \<Rightarrow> int option" where
  "py_int16 text =
     (let s = strip_chars py_whitespace text in
      if prefix ''-'' s then map_option (\<lambda>n. - int n) (hex_magnitude (tl s))
      else if prefix ''+'' s then map_option int (hex_magnitude (tl s))
      else map_option int (hex_magnitude s))"

definition uuid_ok :: "string \<Rightarrow> bool" where
  "uuid_ok text =
     (let h = filter (\<lambda>c. c \<noteq> CHR ''-'')
                (strip_chars {CHR ''{'', CHR ''}''}
                  (remove_all ''uuid:'' (remove_all ''urn:'' text)))
      in length h = 32 \<and>
         (case py_int16 h of None \<Rightarrow> False | Some n \<Rightarrow> 0 \<le> n \<and> n < 2 ^ 128))"

subsection \<open>Requests\<close>

datatype request_kind = INFER

fun kind_value :: "request_kind \<Rightarrow> string" where
  "kind_value INFER = ''infer''"

definition kind_of :: "pyval \<Rightarrow> request_kind option" where
  "kind_of v = (if eq_str v ''infer'' then Some INFER else None)"

definition REQUIRED_REQUEST_FIELDS :: "string list" where
  "REQUIRED_REQUEST_FIELDS =
     [''protocol_version'', ''message_type'', ''session_id'', ''session_token'', ''trial_id'',
      ''request_kind'', ''expected_skill'', ''expected_generation'', ''sequence'',
      ''sent_at_monotonic_ns'', ''observation'']"

record inference_request =
  rq_protocol_version :: int
  rq_session_id :: string
  rq_session_token :: string
  rq_trial_id :: string
  rq_request_kind :: request_kind
  rq_expected_skill :: string
  rq_expected_generation :: int
  rq_sequence :: int
  rq_sent_at :: int
  rq_observation :: pydict

definition item :: "pydict \<Rightarrow> string \<Rightarrow> pyval res" where
  \<comment> \<open>\<open>payload[name]\<close>\<close>
  "item d k = (case dget d k of None \<Rightarrow> Inl (PyExc KeyError) | Some v \<Rightarrow> Inr v)"

definition required_string :: "pydict \<Rightarrow> string \<Rightarrow> string res" where
  "required_string payload name =
     bind_sum (item payload name) (\<lambda>v.
     bind_sum (expect (err INVALID_FIELD_TYPE ''request field must be a string'' [(''field'', PStr name)])
                 (is_str v)) (\<lambda>s.
     reject_if (s = []) (err INVALID_FIELD_VALUE ''request field must not be empty'' [(''field'', PStr name)])
       (Inr s)))"

definition bounded_int :: "string \<Rightarrow> int \<Rightarrow> pyval \<Rightarrow> int res" where
  \<comment> \<open>one round of the loop over \<open>expected_generation\<close>, \<open>sequence\<close> and \<open>sent_at_monotonic_ns\<close>\<close>
  "bounded_int name minimum v =
     bind_sum (expect (err INVALID_FIELD_TYPE ''request field must be an integer'' [(''field'', PStr name)])
                 (exact_int v)) (\<lambda>n.
     reject_if (n < minimum)
       (err INVALID_FIELD_VALUE ''request integer is below minimum''
         [(''field'', PStr name), (''minimum'', PInt minimum)])
       (Inr n))"

definition check_version :: "pyval \<Rightarrow> int res" where
  "check_version v =
     bind_sum (expect (err INVALID_FIELD_TYPE ''protocol_version must be an integer'' []) (exact_int v)) (\<lambda>n.
     reject_if (n \<noteq> PROTOCOL_VERSION)
       (err PROTOCOL_VERSION_UNSUPPORTED ''unsupported protocol version''
         [(''received'', PInt n), (''supported'', PInt PROTOCOL_VERSION)])
       (Inr n))"

definition parse_fields :: "pydict \<Rightarrow> inference_request res" where
  "parse_fields payload =
     bind_sum (bind_sum (item payload ''protocol_version'') check_version) (\<lambda>version.
     bind_sum (item payload ''message_type'') (\<lambda>mt.
     reject_if (\<not> eq_str mt ''inference_request'')
       (err INVALID_MESSAGE_TYPE ''message_type must be inference_request'' []) (
     bind_sum (required_string payload ''session_id'') (\<lambda>session_id.
     reject_if (\<not> uuid_ok session_id) (err INVALID_FIELD_VALUE ''session_id must be a UUID'' []) (
     bind_sum (required_string payload ''session_token'') (\<lambda>token.
     reject_if (\<not> (32 \<le> length token \<and> length token \<le> 128))
       (err INVALID_FIELD_VALUE ''session_token length is invalid'' []) (
     bind_sum (required_string payload ''trial_id'') (\<lambda>trial_id.
     reject_if (\<not> trial_id_matches trial_id) (err INVALID_FIELD_VALUE ''trial_id format is invalid'' []) (
     bind_sum (item payload ''request_kind'') (\<lambda>kv.
     bind_sum (expect (err INVALID_FIELD_VALUE ''request_kind is invalid'' []) (kind_of kv)) (\<lambda>kind.
     bind_sum (required_string payload ''expected_skill'') (\<lambda>skill.
     bind_sum (item payload ''expected_generation'') (\<lambda>gv.
     bind_sum (item payload ''sequence'') (\<lambda>sv.
     bind_sum (item payload ''sent_at_monotonic_ns'') (\<lambda>tv.
     bind_sum (bounded_int ''expected_generation'' 1 gv) (\<lambda>generation.
     bind_sum (bounded_int ''sequence'' 0 sv) (\<lambda>sequence.
     bind_sum (bounded_int ''sent_at_monotonic_ns'' 0 tv) (\<lambda>sent_at.
     bind_sum (item payload ''observation'') (\<lambda>ov.
     bind_sum (expect (err INVALID_FIELD_TYPE ''observation must be a dictionary'' []) (is_dict ov)) (\<lambda>obs.
         Inr \<lparr>rq_protocol_version = version, rq_session_id = session_id, rq_session_token = token,
              rq_trial_id = trial_id, rq_request_kind = kind, rq_expected_skill = skill,
              rq_expected_generation = generation, rq_sequence = sequence, rq_sent_at = sent_at,
              rq_observation = obs\<rparr>))))))))))))))))))))"

definition parse_request :: "pyval \<Rightarrow> inference_request res" where
  "parse_request payload =
     bind_sum (expect (err INVALID_FIELD_TYPE ''inference request must be a mapping'' []) (is_dict payload)) (\<lambda>d.
     reject_if (missing_fields REQUIRED_REQUEST_FIELDS d \<noteq> [])
       (err MISSING_REQUIRED_FIELD ''inference request is missing required fields''
         [(''fields'', PStrs (missing_fields REQUIRED_REQUEST_FIELDS d))]) (
     reject_if (unexpected_fields REQUIRED_REQUEST_FIELDS d \<noteq> [])
       (err UNEXPECTED_FIELD ''inference request contains unexpected fields''
         [(''fields'', PStrs (unexpected_fields REQUIRED_REQUEST_FIELDS d))])
       (parse_fields d)))"

subsection \<open>Responses\<close>

record inference_response =
  rs_session_id :: string
  rs_trial_id :: string
  rs_skill :: string
  rs_generation :: int
  rs_sequence :: int
  rs_publishable :: bool
  rs_request_hash :: string
  rs_observation_hash :: string
  rs_noise_hash :: string
  rs_action_hash :: string
  rs_actions :: pyval

definition response_to_dict :: "inference_response \<Rightarrow> pydict" where
  "response_to_dict r =
     [(''protocol_version'', PInt PROTOCOL_VERSION), (''message_type'', PStr ''inference_response''),
      (''session_id'', PStr (rs_session_id r)), (''trial_id'', PStr (rs_trial_id r)),
      (''skill'', PStr (rs_skill r)), (''generation'', PInt (rs_generation r)),
      (''sequence'', PInt (rs_sequence r)), (''publishable'', PBool (rs_publishable r)),
      (''request_hash'', PStr (rs_request_hash r)), (''observation_hash'', PStr (rs_observation_hash r)),
      (''noise_hash'', PStr (rs_noise_hash r)), (''action_hash'', PStr (rs_action_hash r)),
      (''actions'', rs_actions r)]"

subsection \<open>What a parsed request satisfies\<close>

text \<open>The request as the dictionary a client sends.\<close>

definition request_dict :: "inference_request \<Rightarrow> pydict" where
  "request_dict r =
     [(''protocol_version'', PInt (rq_protocol_version r)), (''message_type'', PStr ''inference_request''),
      (''session_id'', PStr (rq_session_id r)), (''session_token'', PStr (rq_session_token r)),
      (''trial_id'', PStr (rq_trial_id r)), (''request_kind'', PStr (kind_value (rq_request_kind r))),
      (''expected_skill'', PStr (rq_expected_skill r)),
      (''expected_generation'', PInt (rq_expected_generation r)), (''sequence'', PInt (rq_sequence r)),
      (''sent_at_monotonic_ns'', PInt (rq_sent_at r)), (''observation'', PDict (rq_observation r))]"

definition request_wf :: "inference_request \<Rightarrow> bool" where
  "request_wf r \<longleftrightarrow>
     rq_protocol_version r = PROTOCOL_VERSION
     \<and> uuid_ok (rq_session_id r) \<and> rq_session_id r \<noteq> []
     \<and> 32 \<le> length (rq_session_token r) \<and> length (rq_session_token r) \<le> 128
     \<and> trial_id_matches (rq_trial_id r)
     \<and> rq_expected_skill r \<noteq> []
     \<and> 1 \<le> rq_expected_generation r \<and> 0 \<le> rq_sequence r \<and> 0 \<le> rq_sent_at r"

lemma item_eq_Inr [simp]: "item d k = Inr v \<longleftrightarrow> dget d k = Some v"
  by (simp add: item_def split: option.split)

lemma required_string_Inr:
  "required_string d k = Inr s \<longleftrightarrow> dget d k = Some (PStr s) \<and> s \<noteq> []"
  by (auto simp: required_string_def result_iffs)

lemma bounded_int_Inr: "bounded_int k m v = Inr n \<longleftrightarrow> v = PInt n \<and> m \<le> n"
  by (auto simp: bounded_int_def result_iffs)

lemma check_version_Inr: "check_version v = Inr n \<longleftrightarrow> v = PInt n \<and> n = PROTOCOL_VERSION"
  by (auto simp: check_version_def result_iffs)

lemma kind_of_Some: "kind_of v = Some k \<longleftrightarrow> v = PStr (kind_value k)"
  by (cases k) (auto simp: kind_of_def eq_str_def)

lemma kind_value_inject [simp]: "kind_value k = kind_value k'"
  by (cases k; cases k') simp

lemma trial_id_nonempty: "trial_id_matches s \<Longrightarrow> s \<noteq> []"
  by auto

definition dict_matches :: "pydict \<Rightarrow> inference_request \<Rightarrow> bool" where
  "dict_matches d r \<longleftrightarrow> (\<forall>(k, v) \<in> set (request_dict r). dget d k = Some v)"

lemmas parse_iffs =
  result_iffs required_string_Inr bounded_int_Inr check_version_Inr kind_of_Some eq_str_def

lemma parse_fields_Inr:
  "parse_fields d = Inr r \<longleftrightarrow> dict_matches d r \<and> request_wf r"
  by (cases r; cases "rq_request_kind r")
    (auto simp: parse_fields_def dict_matches_def request_dict_def request_wf_def parse_iffs
      trial_id_nonempty)

lemma parse_request_Inr:
  "parse_request p = Inr r \<longleftrightarrow>
     (\<exists>d. p = PDict d \<and> fst ` set d = set REQUIRED_REQUEST_FIELDS \<and> dict_matches d r \<and> request_wf r)"
  by (auto simp: parse_request_def result_iffs parse_fields_Inr set_eq_subset)

lemma distinct_request_dict: "distinct (dkeys (request_dict r))"
  by (simp add: request_dict_def)

lemma keys_request_dict: "fst ` set (request_dict r) = set REQUIRED_REQUEST_FIELDS"
  by (simp add: request_dict_def REQUIRED_REQUEST_FIELDS_def insert_commute)

lemma parse_request_dict: "request_wf r \<Longrightarrow> parse_request (PDict (request_dict r)) = Inr r"
  by (simp add: parse_request_Inr keys_request_dict dict_matches_def distinct_request_dict
      split: prod.split)

end
