(* ===== verification/Oven_Numpy.thy ===== *)
theory Oven_Numpy
  imports Oven_Errors
begin

text \<open>
  The numeric kernels of NumPy the runtime uses, over lists of floats: the rows of a
  two-dimensional array, maxima, minima and peak-to-peak values of a column, the
  median of a window.  A matrix is the list of its rows.  How NumPy turns an arbitrary
  Python object into an array (\<open>np.asarray\<close>) is not part of this repository: it is the
  parameter \<open>np_conv\<close> of the definitions that use it, which returns the shape
  and the numbers of the float64 array, or the exception NumPy raises.
\<close>

type_synonym matrix = "flt list list"
type_synonym np_conv = "pyval \<Rightarrow> (nat list \<times> flt list) res"

fun np_rows :: "nat \<Rightarrow> nat \<Rightarrow> flt list \<Rightarrow> matrix" where
  "np_rows 0 w xs = []"
| "np_rows (Suc n) w xs = take w xs # np_rows n w (drop w xs)"

definition np_columns :: "nat \<Rightarrow> matrix \<Rightarrow> matrix" where
  "np_columns w rows = map (\<lambda>j. map (\<lambda>r. r ! j) rows) [0..<w]"

text \<open>\<open>np.max\<close> and \<open>np.min\<close> of a non-empty vector; the code never takes them of an empty one.\<close>

fun np_max :: "flt list \<Rightarrow> flt" where
  "np_max [] = NInf"
| "np_max [x] = x"
| "np_max (x # y # zs) = f_max x (np_max (y # zs))"

fun np_min :: "flt list \<Rightarrow> flt" where
  "np_min [] = PInf"
| "np_min [x] = x"
| "np_min (x # y # zs) = f_min x (np_min (y # zs))"

definition np_ptp :: "flt list \<Rightarrow> flt" where
  "np_ptp xs = f_sub (np_max xs) (np_min xs)"

text \<open>
  \<open>np.median\<close> of a column of finite numbers: the middle element, or the mean of the
  two middle elements.
\<close>

fun f_insert :: "flt \<Rightarrow> flt list \<Rightarrow> flt list" where
  "f_insert x [] = [x]"
| "f_insert x (y # ys) = (if f_le x y then x # y # ys else y # f_insert x ys)"

definition f_sort :: "flt list \<Rightarrow> flt list" where
  "f_sort xs = foldr f_insert xs []"

definition np_median :: "flt list \<Rightarrow> flt" where
  "np_median xs =
     (let s = f_sort xs; n = length xs in
      if odd n then s ! (n div 2)
      else f_div_by (f_add (s ! (n div 2 - 1)) (s ! (n div 2))) 2)"

definition f_round :: "flt \<Rightarrow> flt" where
  \<comment> \<open>the cast to float64\<close>
  "f_round x = (case x of Fin a \<Rightarrow> rnd64 a | y \<Rightarrow> y)"

definition f_round32 :: "flt \<Rightarrow> flt" where
  \<comment> \<open>the cast to float32\<close>
  "f_round32 x = (case x of Fin a \<Rightarrow> rnd32 a | y \<Rightarrow> y)"

lemma length_np_rows [simp]: "length (np_rows n w xs) = n"
  by (induction n arbitrary: xs) auto

lemma np_rows_width:
  "length xs = n * w \<Longrightarrow> r \<in> set (np_rows n w xs) \<Longrightarrow> length r = w"
proof (induction n arbitrary: xs)
  case 0
  then show ?case by simp
next
  case (Suc n)
  have "length (drop w xs) = n * w" using Suc.prems(1) by simp
  then show ?case using Suc.prems Suc.IH [of "drop w xs"] by auto
qed

lemma np_rows_elements:
  "length xs = n * w \<Longrightarrow> concat (np_rows n w xs) = xs"
  by (induction n arbitrary: xs) auto

lemma np_max_le:
  "xs \<noteq> [] \<Longrightarrow> f_le (np_max xs) b \<longleftrightarrow> (\<forall>x \<in> set xs. f_le x b)"
  by (induction xs rule: np_max.induct) (auto simp: f_max_le_iff)

lemma np_max_in: "xs \<noteq> [] \<Longrightarrow> np_max xs \<in> set xs"
proof (induction xs rule: np_max.induct)
  case (3 x y zs)
  then show ?case using f_max_cases [of x "np_max (y # zs)"] by auto
qed auto

lemma np_min_in: "xs \<noteq> [] \<Longrightarrow> np_min xs \<in> set xs"
proof (induction xs rule: np_min.induct)
  case (3 x y zs)
  then show ?case using f_min_cases [of x "np_min (y # zs)"] by auto
qed auto

lemma set_f_insert [simp]: "set (f_insert x xs) = insert x (set xs)"
  by (induction xs) auto

lemma length_f_insert [simp]: "length (f_insert x xs) = Suc (length xs)"
  by (induction xs) auto

lemma set_f_sort [simp]: "set (f_sort xs) = set xs"
  by (induction xs) (auto simp: f_sort_def)

lemma length_f_sort [simp]: "length (f_sort xs) = length xs"
  by (induction xs) (auto simp: f_sort_def)

lemma np_median_odd_in: "odd (length xs) \<Longrightarrow> np_median xs \<in> set xs"
proof -
  assume "odd (length xs)"
  then have "0 < length xs" by (rule odd_pos)
  then have "length xs div 2 < length (f_sort xs)" by simp
  then have "f_sort xs ! (length xs div 2) \<in> set (f_sort xs)" by (rule nth_mem)
  with \<open>odd (length xs)\<close> show ?thesis by (simp add: np_median_def Let_def)
qed

lemma length_np_columns [simp]: "length (np_columns w rows) = w"
  by (simp add: np_columns_def)

lemma np_columns_nth: "j < w \<Longrightarrow> np_columns w rows ! j = map (\<lambda>r. r ! j) rows"
  by (simp add: np_columns_def)

end
