(* ===== verification/Oven_Backend.thy ===== *)
theory Oven_Backend
  imports Oven_Hashing Oven_Protocol Oven_Numpy
begin

text \<open>
  \<open>server/backend.py\<close> and \<open>server/fake_backend.py\<close>: the interface of a policy backend as
  a record of methods over the backend's own state, and the deterministic backend the
  tests run.  The backend contract the runtime checks for itself (that \<open>prepare\<close>
  reports the skill it was asked for) is the locale \<open>faithful_backend\<close>; the
  fake backend satisfies it.
\<close>

record backend_identity =
  bi_backend :: string
  bi_skill :: string
  bi_model_id :: string
  bi_asset_hashes :: "(string \<times> string) list"

record backend_result =
  br_actions :: ndarray
  br_noise_hash :: string
  br_metadata :: pydict

record 'b policy_backend =
  be_prepare :: "string \<Rightarrow> ('b, backend_identity) meth"
  be_infer :: "pydict \<Rightarrow> request_kind \<Rightarrow> ('b, backend_result) meth"
  be_reset_prng :: "int \<Rightarrow> ('b, unit) meth"
  be_close :: "('b, unit) meth"

locale faithful_backend =
  fixes be :: "'b policy_backend"
  assumes prepare_skill_identity: "be_prepare be skill b = (Inr i, b') \<Longrightarrow> bi_skill i = skill"

subsection \<open>The fake backend\<close>

text \<open>
  NumPy's random generator is not code of this repository: \<open>default_rng\<close>, the draw of
  one standard-normal chunk and the addition of a float to a float32 array are
  parameters.  The sleep of \<open>delay_sec\<close> and the \<open>started\<close> event have no effect on results.
\<close>

record 'g numpy_random =
  nr_default_rng :: "int \<Rightarrow> 'g res"
  nr_standard_normal :: "nat \<times> nat \<Rightarrow> 'g \<Rightarrow> ndarray \<times> 'g"
  nr_add_scalar :: "ndarray \<Rightarrow> flt \<Rightarrow> ndarray"

record 'g fake_state =
  fk_prepared_skill :: "string option"
  fk_prepare_count :: nat
  fk_infer_count :: nat
  fk_concurrent_calls :: nat
  fk_max_concurrent_calls :: nat
  fk_rng :: 'g

definition fake_init :: "'g \<Rightarrow> 'g fake_state" where
  "fake_init g =
     \<lparr>fk_prepared_skill = None, fk_prepare_count = 0, fk_infer_count = 0,
      fk_concurrent_calls = 0, fk_max_concurrent_calls = 0, fk_rng = g\<rparr>"

definition fake_set_rng :: "'g numpy_random \<Rightarrow> int \<Rightarrow> ('g fake_state, unit) meth" where
  "fake_set_rng nr seed =
     bind_op (lift_sum (nr_default_rng nr seed)) (\<lambda>g. modify_op (\<lambda>s. s\<lparr>fk_rng := g\<rparr>))"

definition fake_prepare :: "'g numpy_random \<Rightarrow> string \<Rightarrow> ('g fake_state, backend_identity) meth" where
  "fake_prepare nr skill =
     seq_op (modify_op (\<lambda>s. s\<lparr>fk_prepared_skill := Some skill, fk_prepare_count := fk_prepare_count s + 1\<rparr>))
       (seq_op (fake_set_rng nr 0)
         (ret \<lparr>bi_backend = ''fake'', bi_skill = skill,
               bi_model_id = ''fake:'' @ skill @ '':v1'', bi_asset_hashes = []\<rparr>))"

definition skill_bias :: "string \<Rightarrow> flt" where
  "skill_bias skill = f_div_by (Fin (of_nat (sum_list (utf8 skill) mod 101))) 1000"

definition fake_infer ::
  "'g numpy_random \<Rightarrow> nat \<times> nat \<Rightarrow> pydict \<Rightarrow> request_kind \<Rightarrow> ('g fake_state, backend_result) meth" where
  "fake_infer nr action_shape observation kind =
     bind_op (gets_op fk_prepared_skill) (\<lambda>prepared.
     case prepared of
       None \<Rightarrow> raise (PyExc RuntimeError)
     | Some skill \<Rightarrow>
         seq_op
           (modify_op (\<lambda>s. s\<lparr>fk_concurrent_calls := fk_concurrent_calls s + 1,
               fk_max_concurrent_calls := max (fk_max_concurrent_calls s) (fk_concurrent_calls s + 1),
               fk_infer_count := fk_infer_count s + 1\<rparr>))
           (bind_op (gets_op (\<lambda>s. nr_standard_normal nr action_shape (fk_rng s))) (\<lambda>(noise, g).
            seq_op (modify_op (\<lambda>s. s\<lparr>fk_rng := g\<rparr>))
              (let finish = modify_op (\<lambda>s. s\<lparr>fk_concurrent_calls := fk_concurrent_calls s - 1\<rparr>) in
               case stable_tree_hash (PArr noise) of
                 Inl e \<Rightarrow> seq_op finish (raise e)
               | Inr noise_hash \<Rightarrow>
                   seq_op finish
                     (ret \<lparr>br_actions = nr_add_scalar nr noise (skill_bias skill), br_noise_hash = noise_hash,
                           br_metadata = [(''request_kind'', PStr (kind_value kind)),
                             (''observation_keys'', PStrs (sort (dkeys observation)))]\<rparr>)))))"

definition fake_reset_prng :: "'g numpy_random \<Rightarrow> int \<Rightarrow> ('g fake_state, unit) meth" where
  "fake_reset_prng nr seed = fake_set_rng nr seed"

definition fake_close :: "('g fake_state, unit) meth" where
  "fake_close = modify_op (\<lambda>s. s\<lparr>fk_prepared_skill := None\<rparr>)"

definition fake_backend :: "'g numpy_random \<Rightarrow> nat \<times> nat \<Rightarrow> 'g fake_state policy_backend" where
  "fake_backend nr action_shape =
     \<lparr>be_prepare = fake_prepare nr, be_infer = fake_infer nr action_shape,
      be_reset_prng = fake_reset_prng nr, be_close = fake_close\<rparr>"

lemma fake_prepare_identity: "fake_prepare nr skill s = (Inr i, s') \<Longrightarrow> bi_skill i = skill"
  by (auto simp: fake_prepare_def fake_set_rng_def op_simps split: sum.splits)

text \<open>One inference is counted once, and the call leaves no concurrent call behind.\<close>

lemma fake_infer_counts:
  assumes "fake_infer nr sh obs k s = (r, s')"
  shows "fk_infer_count s' = (if fk_prepared_skill s = None then fk_infer_count s else fk_infer_count s + 1)"
    and "fk_concurrent_calls s' = fk_concurrent_calls s"
    and "fk_concurrent_calls s = 0 \<Longrightarrow> fk_max_concurrent_calls s \<le> 1 \<Longrightarrow> fk_max_concurrent_calls s' \<le> 1"
  using assms
  by (auto simp: fake_infer_def op_simps Let_def split: option.splits prod.splits sum.splits)

text \<open>
  A generator for concrete runs: it rejects negative seeds as NumPy does, its state is the
  seed and the number of chunks drawn, and every chunk is one fixed array.
\<close>

definition demo_chunk :: ndarray where
  "demo_chunk = NDArray \<lparr>dt_name = ''float32'', dt_kind = CHR ''f'', dt_itemsize = 4\<rparr> [1, 7]
     (replicate 7 (Fin 0)) (replicate 28 0)"

definition demo_random :: "(int \<times> nat) numpy_random" where
  "demo_random =
     \<lparr>nr_default_rng = (\<lambda>seed. if seed < 0 then Inl (PyExc ValueError) else Inr (seed, 0)),
      nr_standard_normal = (\<lambda>_ (seed, n). (demo_chunk, (seed, n + 1))),
      nr_add_scalar = (\<lambda>a _. a)\<rparr>"

interpretation fake: faithful_backend "fake_backend nr sh" for nr sh
  by unfold_locales (simp add: fake_backend_def fake_prepare_identity)

end
