(* ===== verification/Oven_ServerAudit.thy ===== *)
theory Oven_ServerAudit
  imports Oven_Numpy
begin

text \<open>
  \<open>server/audit.py\<close>: the one active, non-overwritable server-side trial.  The store
  holds the directories and files under its root; every external write consumes one
  entry of the schedule \<open>ta_io\<close>, which says whether it succeeds, fails before it
  took effect, or took effect and then failed (an error from the final directory
  \<open>fsync\<close>).  An exhausted schedule means success, so the finite schedules
  describe all behaviours of the disk.
\<close>

datatype io_outcome = Io_ok | Io_before | Io_after

datatype file_content = JsonFile pydict | JsonLines "pydict list" | NpyFile ndarray

record active_trial =
  at_trial_id :: string
  at_skill :: string
  at_generation :: int
  at_root_seed :: int
  at_request_count :: nat
  at_first_action_hash :: "string option"
  at_last_action_hash :: "string option"

record trial_store =
  ta_dirs :: "string list"
  ta_files :: "string \<times> string \<Rightarrow> file_content option"
  ta_active :: "active_trial option"
  ta_io :: "io_outcome list"

text \<open>The root may hold the directories and files of earlier trials; \<open>new_trial_store\<close> is an empty one.\<close>

definition open_trial_store ::
  "string list \<Rightarrow> (string \<times> string \<Rightarrow> file_content option) \<Rightarrow> io_outcome list \<Rightarrow> trial_store" where
  "open_trial_store dirs files io = \<lparr>ta_dirs = dirs, ta_files = files, ta_active = None, ta_io = io\<rparr>"

declare open_trial_store_def [simp]

definition new_trial_store :: "io_outcome list \<Rightarrow> trial_store" where
  "new_trial_store io = open_trial_store [] (\<lambda>_. None) io"

subsection \<open>Writes\<close>

definition next_io :: "(trial_store, io_outcome) meth" where
  "next_io = (\<lambda>st. case ta_io st of [] \<Rightarrow> (Inr Io_ok, st) | x # xs \<Rightarrow> (Inr x, st\<lparr>ta_io := xs\<rparr>))"

definition put_file :: "string \<times> string \<Rightarrow> file_content \<Rightarrow> trial_store \<Rightarrow> trial_store" where
  "put_file path c st = st\<lparr>ta_files := (ta_files st)(path \<mapsto> c)\<rparr>"

definition write_file :: "string \<times> string \<Rightarrow> file_content \<Rightarrow> (trial_store, unit) meth" where
  "write_file path c =
     bind_op next_io (\<lambda>outcome.
       case outcome of
         Io_ok \<Rightarrow> modify_op (put_file path c)
       | Io_before \<Rightarrow> raise (PyExc OSError)
       | Io_after \<Rightarrow> seq_op (modify_op (put_file path c)) (raise (PyExc OSError)))"

definition atomic_json :: "string \<times> string \<Rightarrow> pydict \<Rightarrow> (trial_store, unit) meth" where
  "atomic_json path value = write_file path (JsonFile value)"

definition append_line :: "string \<times> string \<Rightarrow> pydict \<Rightarrow> (trial_store, unit) meth" where
  "append_line path row =
     bind_op (gets_op ta_files) (\<lambda>files.
       write_file path
         (JsonLines ((case files path of Some (JsonLines rows) \<Rightarrow> rows | _ \<Rightarrow> []) @ [row])))"

definition mkdir_new :: "string \<Rightarrow> (trial_store, unit) meth" where
  "mkdir_new name =
     bind_op (gets_op ta_dirs) (\<lambda>dirs.
       if name \<in> set dirs then raise (PyExc FileExistsError)
       else bind_op next_io (\<lambda>outcome.
         if outcome = Io_ok then modify_op (\<lambda>st. st\<lparr>ta_dirs := name # ta_dirs st\<rparr>)
         else raise (PyExc OSError)))"

subsection \<open>Diagnostics\<close>

definition floats :: "flt list \<Rightarrow> pyval" where
  "floats xs = PList (map PFloat xs)"

definition shape_list :: "nat list \<Rightarrow> pyval" where
  "shape_list ns = PList (map (\<lambda>n. PInt (int n)) ns)"

definition diagnostics_of :: "ndarray \<Rightarrow> nat list \<Rightarrow> flt list \<Rightarrow> pydict" where
  "diagnostics_of actions state_shape state =
     (if length (nd_shape actions) \<noteq> 2
         \<or> nd_shape actions ! 0 = 0
         \<or> nd_shape actions ! 1 < 7
         \<or> dt_kind (nd_dtype actions) \<notin> set ''fiu''
         \<or> \<not> list_all is_finite (nd_data actions)
         \<or> state_shape \<noteq> [7]
         \<or> \<not> list_all is_finite state
      then [(''available'', PBool False), (''action_shape'', shape_list (nd_shape actions)),
            (''state_shape'', shape_list state_shape)]
      else
        let local_action = map (\<lambda>r. map f_round (take 7 r))
              (np_rows (nd_shape actions ! 0) (nd_shape actions ! 1) (nd_data actions));
            delta = map (\<lambda>r. map2 f_sub r state) local_action;
            columns = np_columns 7 local_action;
            delta_columns = np_columns 7 (map (map f_abs) delta)
        in [(''available'', PBool True), (''observation_state'', floats state),
            (''action_shape'', shape_list (nd_shape actions)),
            (''local_action_first'', floats (hd local_action)),
            (''local_action_last'', floats (last local_action)),
            (''local_action_min'', floats (map np_min columns)),
            (''local_action_max'', floats (map np_max columns)),
            (''local_action_span'', floats (map np_ptp columns)),
            (''max_abs_delta_from_state'', floats (map np_max delta_columns)),
            (''max_abs_delta_from_state_overall'', PFloat (np_max (concat (map (map f_abs) delta))))])"

definition inference_diagnostics :: "np_conv \<Rightarrow> ndarray \<Rightarrow> pydict \<Rightarrow> pydict res" where
  "inference_diagnostics np actions observation =
     (case np (case dget observation ''state'' of None \<Rightarrow> PNone | Some v \<Rightarrow> v) of
        Inr (state_shape, state) \<Rightarrow> Inr (diagnostics_of actions state_shape state)
      | Inl e \<Rightarrow>
          if e \<in> {PyExc TypeError, PyExc ValueError, PyExc OverflowError}
          then Inr [(''available'', PBool False), (''reason'', PStr ''diagnostic_conversion_failed'')]
          else Inl e)"

subsection \<open>The operations\<close>

definition trial_manifest :: "string \<Rightarrow> string \<Rightarrow> int \<Rightarrow> int \<Rightarrow> pydict" where
  "trial_manifest trial_id skill generation root_seed =
     [(''schema_version'', PInt 1), (''trial_id'', PStr trial_id), (''skill'', PStr skill),
      (''generation'', PInt generation), (''root_seed'', PInt root_seed), (''status'', PStr ''ACTIVE'')]"

definition audit_begin :: "string \<Rightarrow> string \<Rightarrow> int \<Rightarrow> int \<Rightarrow> (trial_store, active_trial) meth" where
  "audit_begin trial_id skill generation root_seed =
     bind_op (gets_op ta_active) (\<lambda>active.
     if active \<noteq> None then raise (err TRIAL_ALREADY_ACTIVE ''a server audit trial is already active'' [])
     else
       seq_op
         (catch_op
            (seq_op (mkdir_new trial_id)
              (atomic_json (trial_id, ''server_manifest.json'')
                (trial_manifest trial_id skill generation root_seed)))
            (\<lambda>e. if e = PyExc FileExistsError
                 then raise (err AUDIT_COMMIT_FAILED ''trial directory already exists'' [(''trial_id'', PStr trial_id)])
                 else if is_os_error e
                 then raise (err AUDIT_COMMIT_FAILED ''cannot create server audit trial'' [(''trial_id'', PStr trial_id)])
                 else raise e))
         (let trial = \<lparr>at_trial_id = trial_id, at_skill = skill, at_generation = generation,
                       at_root_seed = root_seed, at_request_count = 0,
                       at_first_action_hash = None, at_last_action_hash = None\<rparr>
          in seq_op (modify_op (\<lambda>st. st\<lparr>ta_active := Some trial\<rparr>)) (ret trial)))"

definition row_text :: "pydict \<Rightarrow> string \<Rightarrow> string res" where
  \<comment> \<open>\<open>str(row[name])\<close>; the rows the runtime builds hold strings there\<close>
  "row_text row name =
     (case dget row name of
        None \<Rightarrow> Inl (PyExc KeyError)
      | Some v \<Rightarrow> expect (PyExc TypeError) (is_str v))"

definition row_is_infer :: "pydict \<Rightarrow> bool" where
  "row_is_infer row \<longleftrightarrow> dget row ''request_kind'' = Some (PStr ''infer'')"

definition first_chunk_json :: "active_trial \<Rightarrow> pyval \<Rightarrow> ndarray \<Rightarrow> string \<Rightarrow> pydict" where
  "first_chunk_json active sequence actions action_hash =
     [(''schema_version'', PInt 1), (''trial_id'', PStr (at_trial_id active)), (''sequence'', sequence),
      (''shape'', shape_list (nd_shape actions)), (''dtype'', PStr (dt_name (nd_dtype actions))),
      (''action_hash'', PStr action_hash)]"

definition write_first_chunk :: "active_trial \<Rightarrow> pydict \<Rightarrow> ndarray \<Rightarrow> string \<Rightarrow> (trial_store, unit) meth" where
  "write_first_chunk active row actions action_hash =
     (if dt_kind (nd_dtype actions) = CHR ''O'' then raise (PyExc ValueError)
      else seq_op (write_file (at_trial_id active, ''first_action_chunk.npy'') (NpyFile actions))
        (case dget row ''sequence'' of
           None \<Rightarrow> raise (PyExc KeyError)
         | Some n \<Rightarrow> atomic_json (at_trial_id active, ''first_action_chunk.json'')
                      (first_chunk_json active n actions action_hash)))"

definition count_request :: "bool \<Rightarrow> string \<Rightarrow> active_trial \<Rightarrow> active_trial" where
  "count_request infer action_hash a =
     a\<lparr>at_request_count := at_request_count a + 1,
       at_first_action_hash :=
         (if infer \<and> at_first_action_hash a = None then Some action_hash else at_first_action_hash a),
       at_last_action_hash := (if infer then Some action_hash else at_last_action_hash a)\<rparr>"

definition record_evidence ::
  "np_conv \<Rightarrow> active_trial \<Rightarrow> pydict \<Rightarrow> ndarray \<Rightarrow> pydict \<Rightarrow> (trial_store, string) meth" where
  \<comment> \<open>the body of the \<open>try\<close>: diagnostics, the first chunk, the appended row\<close>
  "record_evidence np active row0 actions observation =
     bind_op (lift_sum (inference_diagnostics np actions observation)) (\<lambda>diag.
     let row = dset row0 ''diagnostics'' (PDict diag) in
     bind_op (lift_sum (row_text row ''action_hash'')) (\<lambda>action_hash.
     seq_op
       (when_op (row_is_infer row \<and> at_first_action_hash active = None)
          (write_first_chunk active row actions action_hash))
       (seq_op (append_line (at_trial_id active, ''requests.jsonl'') row)
          (ret action_hash))))"

definition record_request :: "np_conv \<Rightarrow> pydict \<Rightarrow> ndarray \<Rightarrow> pydict \<Rightarrow> (trial_store, unit) meth" where
  "record_request np row actions observation =
     bind_op (gets_op ta_active) (\<lambda>active_opt.
     case active_opt of
       None \<Rightarrow> raise (err TRIAL_REQUIRED ''no active server audit trial'' [])
     | Some active \<Rightarrow>
         bind_op
           (catch_op (record_evidence np active row actions observation)
              (\<lambda>e. if is_os_error e
                   then raise (err AUDIT_COMMIT_FAILED ''cannot append server request evidence'' [])
                   else raise e))
           (\<lambda>action_hash.
              modify_op (\<lambda>st. st\<lparr>ta_active :=
                map_option (count_request (row_is_infer row) action_hash) (ta_active st)\<rparr>)))"

definition trial_summary :: "active_trial \<Rightarrow> pydict" where
  "trial_summary a =
     [(''schema_version'', PInt 1), (''trial_id'', PStr (at_trial_id a)), (''skill'', PStr (at_skill a)),
      (''generation'', PInt (at_generation a)), (''root_seed'', PInt (at_root_seed a)),
      (''status'', PStr ''COMMITTED''), (''request_count'', PInt (int (at_request_count a))),
      (''first_action_hash'', opt_str (at_first_action_hash a)),
      (''last_action_hash'', opt_str (at_last_action_hash a))]"

definition audit_end :: "(trial_store, pydict) meth" where
  "audit_end =
     bind_op (gets_op ta_active) (\<lambda>active_opt.
     case active_opt of
       None \<Rightarrow> raise (err TRIAL_REQUIRED ''no active server audit trial'' [])
     | Some active \<Rightarrow>
         seq_op
           (catch_op
              (seq_op (atomic_json (at_trial_id active, ''trial_summary.json'') (trial_summary active))
                (atomic_json (at_trial_id active, ''server_manifest.json'') (trial_summary active)))
              (\<lambda>e. if is_os_error e \<or> is_fault e
                   then raise (err AUDIT_COMMIT_FAILED ''cannot commit server audit trial'' [])
                   else raise e))
           (seq_op (modify_op (\<lambda>st. st\<lparr>ta_active := None\<rparr>)) (ret (trial_summary active))))"

definition termination_summary :: "active_trial \<Rightarrow> string \<Rightarrow> string \<Rightarrow> int option \<Rightarrow> pydict" where
  "termination_summary a status reason sequence =
     [(''schema_version'', PInt 1), (''trial_id'', PStr (at_trial_id a)), (''skill'', PStr (at_skill a)),
      (''generation'', PInt (at_generation a)), (''root_seed'', PInt (at_root_seed a)),
      (''status'', PStr status), (''reason'', PStr reason),
      (''request_count'', PInt (int (at_request_count a)))]
     @ (case sequence of None \<Rightarrow> [] | Some n \<Rightarrow> [(''ambiguous_sequence'', PInt n)])"

definition audit_terminate :: "string \<Rightarrow> string \<Rightarrow> int option \<Rightarrow> (trial_store, pydict option) meth" where
  "audit_terminate status reason sequence =
     bind_op (gets_op ta_active) (\<lambda>active_opt.
     case active_opt of
       None \<Rightarrow> ret None
     | Some active \<Rightarrow>
         let summary = termination_summary active status reason sequence in
         seq_op
           (catch_op (atomic_json (at_trial_id active, ''server_manifest.json'') summary)
              (\<lambda>e. if is_os_error e
                   then raise (err AUDIT_COMMIT_FAILED ''cannot terminate server audit trial'' [])
                   else raise e))
           (seq_op (modify_op (\<lambda>st. st\<lparr>ta_active := None\<rparr>)) (ret (Some summary))))"

definition audit_abort :: "string \<Rightarrow> (trial_store, pydict option) meth" where
  "audit_abort reason = audit_terminate ''ABORTED'' reason None"

definition audit_mark_ambiguous :: "string \<Rightarrow> int \<Rightarrow> (trial_store, pydict option) meth" where
  "audit_mark_ambiguous reason sequence = audit_terminate ''AMBIGUOUS_INFERENCE'' reason (Some sequence)"

subsection \<open>What a write can change\<close>

lemma write_file_spec:
  assumes "write_file p c st = (r, st')"
  shows "ta_active st' = ta_active st" and "ta_dirs st' = ta_dirs st"
    and "q \<noteq> p \<Longrightarrow> ta_files st' q = ta_files st q"
    and "r = Inr u \<Longrightarrow> ta_files st' p = Some c"
    and "r = Inl e \<Longrightarrow> e = PyExc OSError"
    and "ta_files st' p = ta_files st p \<or> ta_files st' p = Some c"
  using assms
  by (auto simp: write_file_def next_io_def put_file_def op_simps
      split: list.splits io_outcome.splits)

text \<open>Nothing but the files of trial \<open>t\<close> changes.\<close>

definition same_except :: "string \<Rightarrow> trial_store \<Rightarrow> trial_store \<Rightarrow> bool" where
  "same_except t st st' \<longleftrightarrow>
     ta_active st' = ta_active st \<and> ta_dirs st' = ta_dirs st
     \<and> (\<forall>q. fst q \<noteq> t \<longrightarrow> ta_files st' q = ta_files st q)"

lemma same_except_refl [simp]: "same_except t st st"
  by (simp add: same_except_def)

lemma same_except_trans: "same_except t a b \<Longrightarrow> same_except t b c \<Longrightarrow> same_except t a c"
  by (simp add: same_except_def)

lemma write_file_same: "same_except t st (snd (write_file (t, n) c st))"
proof -
  obtain r st' where w: "write_file (t, n) c st = (r, st')" by (cases "write_file (t, n) c st")
  have "ta_files st' q = ta_files st q" if "fst q \<noteq> t" for q
    by (rule write_file_spec(3) [OF w]) (use that in auto)
  with w write_file_spec(1,2) [OF w] show ?thesis by (simp add: same_except_def)
qed

text \<open>An operation that only ever touches the files of one trial.\<close>

definition touches :: "string \<Rightarrow> (trial_store, 'a) meth \<Rightarrow> bool" where
  "touches t m \<longleftrightarrow> (\<forall>st. same_except t st (snd (m st)))"

lemma touchesD: "touches t m \<Longrightarrow> m st = (r, st') \<Longrightarrow> same_except t st st'"
  by (metis snd_conv touches_def)

lemma touches_write: "touches t (write_file (t, n) c)"
  by (simp add: touches_def write_file_same)

lemma touches_atomic_json: "touches t (atomic_json (t, n) v)"
  by (simp add: atomic_json_def touches_write)

lemma touches_append_line: "touches t (append_line (t, n) v)"
  by (simp add: append_line_def touches_def op_simps write_file_same)

lemma touches_pure: "touches t (ret x)" "touches t (raise e)" "touches t (lift_sum r)" "touches t (gets_op f)"
  by (simp_all add: touches_def op_simps)

lemma touches_bind:
  assumes "touches t m" and "\<And>x. touches t (f x)"
  shows "touches t (bind_op m f)"
  unfolding touches_def
proof
  fix st
  obtain r s1 where m: "m st = (r, s1)" by (cases "m st")
  with assms(1) have 1: "same_except t st s1" by (rule touchesD)
  from assms(2) have "same_except t s1 (snd (f x s1))" for x by (simp add: touches_def)
  with 1 m show "same_except t st (snd (bind_op m f st))"
    by (cases r) (auto simp: op_simps intro: same_except_trans)
qed

lemma touches_seq: "touches t m \<Longrightarrow> touches t k \<Longrightarrow> touches t (seq_op m k)"
  by (simp add: seq_op_def touches_bind)

lemma touches_catch:
  assumes "touches t m" and "\<And>e. touches t (h e)"
  shows "touches t (catch_op m h)"
  unfolding touches_def
proof
  fix st
  obtain r s1 where m: "m st = (r, s1)" by (cases "m st")
  with assms(1) have 1: "same_except t st s1" by (rule touchesD)
  from assms(2) have "same_except t s1 (snd (h x s1))" for x by (simp add: touches_def)
  with 1 m show "same_except t st (snd (catch_op m h st))"
    by (cases r) (auto simp: op_simps intro: same_except_trans)
qed

lemma touches_when: "(b \<Longrightarrow> touches t m) \<Longrightarrow> touches t (when_op b m)"
  by (simp add: when_op_def touches_pure)

lemma touches_if: "touches t m \<Longrightarrow> touches t k \<Longrightarrow> touches t (if b then m else k)"
  by simp

lemmas touches_intros = touches_write touches_atomic_json touches_append_line touches_pure
  touches_bind touches_seq touches_catch touches_when touches_if

lemma touches_first_chunk: "touches (at_trial_id a) (write_first_chunk a row actions h)"
  by (auto simp: write_first_chunk_def intro!: touches_intros split: option.split)

subsection \<open>Each operation, on success and on failure\<close>

definition new_trial :: "string \<Rightarrow> string \<Rightarrow> int \<Rightarrow> int \<Rightarrow> active_trial" where
  "new_trial t k g sd =
     \<lparr>at_trial_id = t, at_skill = k, at_generation = g, at_root_seed = sd, at_request_count = 0,
      at_first_action_hash = None, at_last_action_hash = None\<rparr>"

lemmas write_defs = op_simps mkdir_new_def next_io_def atomic_json_def write_file_def put_file_def Let_def

lemmas write_splits = list.splits io_outcome.splits option.splits if_splits sum.splits prod.splits

lemma audit_begin_Inr:
  assumes "audit_begin t k g sd st = (Inr a, st')"
  shows "ta_active st = None" and "t \<notin> set (ta_dirs st)" and "a = new_trial t k g sd"
    and "ta_active st' = Some a" and "ta_dirs st' = t # ta_dirs st"
    and "ta_files st' = (ta_files st)((t, ''server_manifest.json'') \<mapsto> JsonFile (trial_manifest t k g sd))"
  using assms by (auto simp: audit_begin_def new_trial_def write_defs split: write_splits)

lemma audit_begin_Inl:
  assumes "audit_begin t k g sd st = (Inl e, st')"
  shows "ta_active st' = ta_active st"
    and "\<exists>f. e = Fault f \<and> rf_code f \<in> {TRIAL_ALREADY_ACTIVE, AUDIT_COMMIT_FAILED}"
    and "set (ta_dirs st) \<subseteq> set (ta_dirs st')" and "set (ta_dirs st') \<subseteq> insert t (set (ta_dirs st))"
    and "fst q \<in> set (ta_dirs st) \<Longrightarrow> ta_files st' q = ta_files st q"
  using assms by (auto simp: audit_begin_def write_defs split: write_splits)

lemma audit_begin_distinct:
  "distinct (ta_dirs st) \<Longrightarrow> distinct (ta_dirs (snd (audit_begin t k g sd st)))"
  by (auto simp: audit_begin_def write_defs split: write_splits)

lemma audit_begin_existing:
  "ta_active st = None \<Longrightarrow> t \<in> set (ta_dirs st) \<Longrightarrow>
     audit_begin t k g sd st
       = (Inl (err AUDIT_COMMIT_FAILED ''trial directory already exists'' [(''trial_id'', PStr t)]), st)"
  by (simp add: audit_begin_def write_defs)

lemma touches_record_evidence: "touches (at_trial_id a) (record_evidence np a row actions obs)"
  unfolding record_evidence_def Let_def by (intro touches_intros touches_first_chunk)

lemma record_request_None:
  "ta_active st = None \<Longrightarrow>
     record_request np row actions obs st
       = (Inl (err TRIAL_REQUIRED ''no active server audit trial'' []), st)"
  by (simp add: record_request_def op_simps)

lemma record_request_Some:
  assumes "record_request np row actions obs st = (r, st')" and "ta_active st = Some a"
  shows "r = Inl e \<Longrightarrow> same_except (at_trial_id a) st st'"
    and "r = Inr u \<Longrightarrow>
      (\<exists>h. ta_active st' = Some (count_request (row_is_infer row) h a))
      \<and> ta_dirs st' = ta_dirs st \<and> (\<forall>q. fst q \<noteq> at_trial_id a \<longrightarrow> ta_files st' q = ta_files st q)"
proof -
  obtain r1 st1 where body: "record_evidence np a row actions obs st = (r1, st1)"
    by (cases "record_evidence np a row actions obs st")
  then have same: "same_except (at_trial_id a) st st1" by (rule touchesD [OF touches_record_evidence])
  show "same_except (at_trial_id a) st st'" if "r = Inl e"
    using assms body same that by (cases r1) (auto simp: record_request_def op_simps split: if_splits)
  show "(\<exists>h. ta_active st' = Some (count_request (row_is_infer row) h a))
      \<and> ta_dirs st' = ta_dirs st \<and> (\<forall>q. fst q \<noteq> at_trial_id a \<longrightarrow> ta_files st' q = ta_files st q)"
    if "r = Inr u"
    using assms body same that
    by (cases r1) (auto simp: record_request_def same_except_def op_simps split: if_splits)
qed

lemma audit_end_Inr:
  assumes "audit_end st = (Inr summary, st')"
  shows "\<exists>a. ta_active st = Some a \<and> summary = trial_summary a
      \<and> ta_files st' = (ta_files st)((at_trial_id a, ''trial_summary.json'') \<mapsto> JsonFile summary,
                                     (at_trial_id a, ''server_manifest.json'') \<mapsto> JsonFile summary)"
    and "ta_active st' = None" and "ta_dirs st' = ta_dirs st"
  using assms by (auto simp: audit_end_def write_defs split: write_splits)

lemma audit_end_Inl:
  assumes "audit_end st = (Inl e, st')"
  shows "ta_active st' = ta_active st"
    and "\<exists>f. e = Fault f \<and> rf_code f \<in> {TRIAL_REQUIRED, AUDIT_COMMIT_FAILED}"
    and "ta_active st = Some a \<Longrightarrow> same_except (at_trial_id a) st st'"
    and "ta_active st = None \<Longrightarrow> st' = st"
  using assms by (auto simp: audit_end_def same_except_def write_defs split: write_splits)

lemma audit_terminate_Inr:
  assumes "audit_terminate status reason sq st = (Inr r, st')"
  shows "ta_active st' = None" and "ta_dirs st' = ta_dirs st"
    and "ta_active st = None \<Longrightarrow> r = None \<and> st' = st"
    and "ta_active st = Some a \<Longrightarrow> r = Some (termination_summary a status reason sq)
      \<and> ta_files st' = (ta_files st)((at_trial_id a, ''server_manifest.json'') \<mapsto>
            JsonFile (termination_summary a status reason sq))"
  using assms by (auto simp: audit_terminate_def write_defs split: write_splits)

lemma audit_terminate_Inl:
  assumes "audit_terminate status reason sq st = (Inl e, st')"
  shows "\<exists>a. ta_active st = Some a \<and> same_except (at_trial_id a) st st'"
    and "ta_active st' = ta_active st"
    and "\<exists>f. e = Fault f \<and> rf_code f = AUDIT_COMMIT_FAILED"
  using assms by (auto simp: audit_terminate_def same_except_def write_defs split: write_splits)

subsection \<open>The store as a machine\<close>

datatype audit_call =
    Call_begin string string int int
  | Call_record pydict ndarray pydict
  | Call_end
  | Call_abort string
  | Call_mark_ambiguous string int

fun audit_step :: "np_conv \<Rightarrow> audit_call \<Rightarrow> (trial_store, pydict option) meth" where
  "audit_step np (Call_begin t k g sd) = map_op (\<lambda>_. None) (audit_begin t k g sd)"
| "audit_step np (Call_record row actions obs) = map_op (\<lambda>_. None) (record_request np row actions obs)"
| "audit_step np Call_end = map_op Some audit_end"
| "audit_step np (Call_abort reason) = audit_abort reason"
| "audit_step np (Call_mark_ambiguous reason sq) = audit_mark_ambiguous reason sq"

text \<open>The active trial has its own directory, and no two directories have one name.\<close>

definition store_inv :: "trial_store \<Rightarrow> bool" where
  "store_inv st \<longleftrightarrow>
     distinct (ta_dirs st) \<and> (\<forall>a. ta_active st = Some a \<longrightarrow> at_trial_id a \<in> set (ta_dirs st))"

lemma store_inv_open: "distinct dirs \<Longrightarrow> store_inv (open_trial_store dirs files io)"
  by (simp add: store_inv_def)

lemma store_inv_new: "store_inv (new_trial_store io)"
  by (simp add: store_inv_def new_trial_store_def)

lemma new_trial_id [simp]: "at_trial_id (new_trial t k g sd) = t"
  by (simp add: new_trial_def)

lemma count_request_id [simp]: "at_trial_id (count_request b h a) = at_trial_id a"
  by (simp add: count_request_def)

text \<open>
  What one call does to the rest of the store: nothing but the files of the trial that
  was active, or of a directory that did not exist before the call.
\<close>

definition step_frame :: "trial_store \<Rightarrow> trial_store \<Rightarrow> bool" where
  "step_frame st st' \<longleftrightarrow>
     store_inv st' \<and> set (ta_dirs st) \<subseteq> set (ta_dirs st')
     \<and> (\<forall>a. ta_active st' = Some a \<longrightarrow>
          at_trial_id a \<notin> set (ta_dirs st)
          \<or> (\<exists>a0. ta_active st = Some a0 \<and> at_trial_id a0 = at_trial_id a))
     \<and> (\<forall>q. fst q \<in> set (ta_dirs st) \<longrightarrow> (\<forall>a. ta_active st = Some a \<longrightarrow> fst q \<noteq> at_trial_id a)
          \<longrightarrow> ta_files st' q = ta_files st q)"

lemma step_frame_same:
  "store_inv st \<Longrightarrow> ta_active st = Some a \<Longrightarrow> same_except (at_trial_id a) st st' \<Longrightarrow> step_frame st st'"
  by (auto simp: step_frame_def store_inv_def same_except_def)

lemma step_frame_refl: "store_inv st \<Longrightarrow> step_frame st st"
  by (auto simp: step_frame_def)

lemma audit_begin_frame: "store_inv st \<Longrightarrow> step_frame st (snd (audit_begin t k g sd st))"
proof -
  assume inv: "store_inv st"
  obtain r st' where run: "audit_begin t k g sd st = (r, st')" by (cases "audit_begin t k g sd st")
  have dist: "distinct (ta_dirs st')" using audit_begin_distinct [of st t k g sd] inv run
    by (simp add: store_inv_def)
  show ?thesis
  proof (cases r)
    case (Inr a)
    with audit_begin_Inr [of t k g sd st a st'] run inv dist show ?thesis
      by (auto simp: step_frame_def store_inv_def)
  next
    case (Inl e)
    with audit_begin_Inl [of t k g sd st e st'] run inv dist show ?thesis
      by (auto simp: step_frame_def store_inv_def)
  qed
qed

lemma record_request_frame: "store_inv st \<Longrightarrow> step_frame st (snd (record_request np row actions obs st))"
proof -
  assume inv: "store_inv st"
  obtain r st' where run: "record_request np row actions obs st = (r, st')"
    by (cases "record_request np row actions obs st")
  show ?thesis
  proof (cases "ta_active st")
    case None
    with inv show ?thesis by (simp add: record_request_None step_frame_refl)
  next
    case (Some a)
    with record_request_Some [OF run Some] inv run show ?thesis
      by (cases r) (auto simp: step_frame_def store_inv_def same_except_def)
  qed
qed

lemma audit_end_frame: "store_inv st \<Longrightarrow> step_frame st (snd (audit_end st))"
proof -
  assume inv: "store_inv st"
  obtain r st' where run: "audit_end st = (r, st')" by (cases "audit_end st")
  show ?thesis
  proof (cases r)
    case (Inr summary)
    with audit_end_Inr [of st summary st'] run inv show ?thesis
      by (auto simp: step_frame_def store_inv_def)
  next
    case (Inl e)
    show ?thesis
    proof (cases "ta_active st")
      case None
      with audit_end_Inl(4) [of st e st'] run Inl inv show ?thesis by (simp add: step_frame_refl)
    next
      case (Some a)
      with audit_end_Inl(3) [of st e st' a] run Inl inv show ?thesis by (simp add: step_frame_same)
    qed
  qed
qed

lemma audit_terminate_frame: "store_inv st \<Longrightarrow> step_frame st (snd (audit_terminate status reason sq st))"
proof -
  assume inv: "store_inv st"
  obtain r st' where run: "audit_terminate status reason sq st = (r, st')"
    by (cases "audit_terminate status reason sq st")
  show ?thesis
  proof (cases r)
    case (Inl e)
    with audit_terminate_Inl(1) [of status reason sq st e st'] run inv show ?thesis
      by (auto intro: step_frame_same)
  next
    case (Inr x)
    show ?thesis
    proof (cases "ta_active st")
      case None
      with audit_terminate_Inr(3) [of status reason sq st x st'] run Inr inv show ?thesis
        by (simp add: step_frame_refl)
    next
      case (Some a)
      with audit_terminate_Inr [of status reason sq st x st'] run Inr inv show ?thesis
        by (auto simp: step_frame_def store_inv_def)
    qed
  qed
qed

lemma audit_step_frame: "store_inv st \<Longrightarrow> step_frame st (snd (audit_step np c st))"
  by (cases c)
    (simp_all add: audit_begin_frame record_request_frame audit_end_frame audit_terminate_frame
      audit_abort_def audit_mark_ambiguous_def)

interpretation audit_machine: invariant_machine "audit_step np" store_inv for np
  using audit_step_frame by unfold_locales (auto simp: step_frame_def)

text \<open>A trial whose directory exists and which is not active is finished, and stays so.\<close>

definition finished :: "string \<Rightarrow> trial_store \<Rightarrow> bool" where
  "finished t st \<longleftrightarrow> t \<in> set (ta_dirs st) \<and> (\<forall>a. ta_active st = Some a \<longrightarrow> at_trial_id a \<noteq> t)"

lemma finished_step:
  "store_inv st \<Longrightarrow> finished t st \<Longrightarrow>
     finished t (snd (audit_step np c st))
     \<and> ta_files (snd (audit_step np c st)) (t, n) = ta_files st (t, n)"
  using audit_step_frame [of st np c] by (auto simp: step_frame_def finished_def)

lemma finished_run:
  "store_inv st \<Longrightarrow> finished t st \<Longrightarrow>
     finished t (run_ops (audit_step np) cs st)
     \<and> ta_files (run_ops (audit_step np) cs st) (t, n) = ta_files st (t, n)"
proof (induction cs arbitrary: st)
  case Nil
  then show ?case by simp
next
  case (Cons c cs)
  then show ?case
    using finished_step [of st t np c n] audit_machine.step_inv [of st np c] by auto
qed

fun trial_acquires :: "audit_call \<Rightarrow> pydict option res \<Rightarrow> bool" where
  "trial_acquires (Call_begin t k g sd) (Inr _) = True"
| "trial_acquires _ _ = False"

fun trial_releases :: "audit_call \<Rightarrow> pydict option res \<Rightarrow> bool" where
  "trial_releases Call_end (Inr _) = True"
| "trial_releases (Call_abort _) (Inr (Some _)) = True"
| "trial_releases (Call_mark_ambiguous _ _) (Inr (Some _)) = True"
| "trial_releases _ _ = False"

text \<open>How each call moves the slot.\<close>

lemma audit_begin_slot:
  "case audit_begin t k g sd st of
     (Inr a, st') \<Rightarrow> ta_active st = None \<and> ta_active st' \<noteq> None
   | (Inl e, st') \<Rightarrow> ta_active st' = ta_active st"
  by (auto simp: audit_begin_def write_defs split: write_splits)

lemma record_request_slot:
  "(ta_active (snd (record_request np row actions obs st)) = None) = (ta_active st = None)"
proof (cases "ta_active st")
  case None
  then show ?thesis by (simp add: record_request_None)
next
  case (Some a)
  obtain r st' where run: "record_request np row actions obs st = (r, st')"
    by (cases "record_request np row actions obs st")
  from record_request_Some [OF run Some] run Some show ?thesis
    by (cases r) (auto simp: same_except_def)
qed

lemma audit_end_slot:
  "case audit_end st of
     (Inr s, st') \<Rightarrow> ta_active st \<noteq> None \<and> ta_active st' = None
   | (Inl e, st') \<Rightarrow> ta_active st' = ta_active st"
  by (auto simp: audit_end_def write_defs split: write_splits)

lemma audit_terminate_slot:
  "case audit_terminate status reason sq st of
     (Inr None, st') \<Rightarrow> ta_active st = None \<and> ta_active st' = None
   | (Inr (Some s), st') \<Rightarrow> ta_active st \<noteq> None \<and> ta_active st' = None
   | (Inl e, st') \<Rightarrow> ta_active st' = ta_active st"
  by (auto simp: audit_terminate_def write_defs split: write_splits)

lemma fst_map_op: "fst (map_op f m s) = (case fst (m s) of Inl e \<Rightarrow> Inl e | Inr x \<Rightarrow> Inr (f x))"
  by (cases "m s") (auto simp: op_simps split: sum.split)

interpretation trial_slot:
  single_slot "audit_step np" "\<lambda>st. ta_active st \<noteq> None" trial_acquires trial_releases for np
proof
  fix np c st
  let ?r = "fst (audit_step np c st)" and ?st' = "snd (audit_step np c st)"
  have slot: "(trial_acquires c ?r \<longrightarrow> ta_active st = None \<and> ta_active ?st' \<noteq> None)
      \<and> (trial_releases c ?r \<longrightarrow> ta_active st \<noteq> None \<and> ta_active ?st' = None)
      \<and> (\<not> trial_acquires c ?r \<longrightarrow> \<not> trial_releases c ?r \<longrightarrow>
           (ta_active ?st' = None) = (ta_active st = None))"
  proof (cases c)
    case (Call_begin t k g sd)
    with audit_begin_slot [where st = st and t = t and k = k and g = g and sd = sd] show ?thesis
      by (auto simp: fst_map_op split: sum.splits prod.splits)
  next
    case (Call_record row actions obs)
    then show ?thesis by (simp add: record_request_slot)
  next
    case Call_end
    with audit_end_slot [where st = st] show ?thesis by (auto simp: fst_map_op split: sum.splits prod.splits)
  next
    case (Call_abort reason)
    obtain r s1 where run: "audit_terminate ''ABORTED'' reason None st = (r, s1)" by fastforce
    with Call_abort audit_terminate_slot [where st = st and status = "''ABORTED''" and reason = reason and sq = "None"]
    show ?thesis by (cases r; cases "projr r") (auto simp: audit_abort_def)
  next
    case (Call_mark_ambiguous reason sq)
    obtain r s1 where run: "audit_terminate ''AMBIGUOUS_INFERENCE'' reason (Some sq) st = (r, s1)" by fastforce
    with Call_mark_ambiguous audit_terminate_slot [where st = st and status = "''AMBIGUOUS_INFERENCE''" and reason = reason and sq = "Some sq"]
    show ?thesis by (cases r; cases "projr r") (auto simp: audit_mark_ambiguous_def)
  qed
  show "trial_acquires c ?r \<Longrightarrow> \<not> ta_active st \<noteq> None \<and> ta_active ?st' \<noteq> None"
    and "trial_releases c ?r \<Longrightarrow> ta_active st \<noteq> None \<and> \<not> ta_active ?st' \<noteq> None"
    and "\<not> trial_acquires c ?r \<Longrightarrow> \<not> trial_releases c ?r \<Longrightarrow>
      (ta_active ?st' \<noteq> None) = (ta_active st \<noteq> None)"
    using slot by auto
qed

subsection \<open>The evidence on disk\<close>

text \<open>The rows of a trial's \<open>requests.jsonl\<close>.\<close>

definition rows_of :: "trial_store \<Rightarrow> string \<Rightarrow> pydict list" where
  "rows_of st t = (case ta_files st (t, ''requests.jsonl'') of Some (JsonLines rows) \<Rightarrow> rows | _ \<Rightarrow> [])"

lemma append_line_rows:
  assumes "append_line (t, ''requests.jsonl'') row st = (r, st')"
  shows "r = Inr u \<Longrightarrow> rows_of st' t = rows_of st t @ [row]"
    and "r = Inl e \<Longrightarrow> rows_of st' t = rows_of st t \<or> rows_of st' t = rows_of st t @ [row]"
  using assms
  by (auto simp: append_line_def rows_of_def write_defs split: write_splits)

lemma write_other_rows:
  assumes "n \<noteq> ''requests.jsonl''"
  shows "rows_of (snd (write_file (t, n) c st)) t' = rows_of st t'"
  using assms by (auto simp: rows_of_def write_defs split: write_splits)

lemma write_first_chunk_rows: "rows_of (snd (write_first_chunk a row actions h st)) t = rows_of st t"
proof -
  obtain r s1 where w: "write_file (at_trial_id a, ''first_action_chunk.npy'') (NpyFile actions) st = (r, s1)" by fastforce
  have "rows_of s1 t = rows_of st t"
    using write_other_rows [of "''first_action_chunk.npy''" "at_trial_id a" "NpyFile actions" st t] w by simp
  with w show ?thesis
    by (cases r; cases "dget row ''sequence''")
      (auto simp: write_first_chunk_def seq_op_apply raise_apply atomic_json_def write_other_rows)
qed

text \<open>A recorded request has exactly one new row, the given row with its diagnostics.\<close>

lemma record_evidence_rows:
  assumes "record_evidence np a row actions obs st = (r, st')"
  shows "r = Inr h \<Longrightarrow> (\<exists>diag. inference_diagnostics np actions obs = Inr diag
      \<and> dget (dset row ''diagnostics'' (PDict diag)) ''action_hash'' = Some (PStr h)
      \<and> rows_of st' (at_trial_id a) = rows_of st (at_trial_id a) @ [dset row ''diagnostics'' (PDict diag)])"
    and "length (rows_of st (at_trial_id a)) \<le> length (rows_of st' (at_trial_id a))"
proof -
  have "(r = Inr h \<longrightarrow> (\<exists>diag. inference_diagnostics np actions obs = Inr diag
      \<and> dget (dset row ''diagnostics'' (PDict diag)) ''action_hash'' = Some (PStr h)
      \<and> rows_of st' (at_trial_id a) = rows_of st (at_trial_id a) @ [dset row ''diagnostics'' (PDict diag)]))
    \<and> length (rows_of st (at_trial_id a)) \<le> length (rows_of st' (at_trial_id a))"
  proof (cases "inference_diagnostics np actions obs")
    case (Inl e)
    with assms show ?thesis by (auto simp: record_evidence_def op_simps)
  next
    case (Inr diag)
    let ?row = "dset row ''diagnostics'' (PDict diag)"
    show ?thesis
    proof (cases "row_text ?row ''action_hash''")
      case (Inl e)
      with Inr assms show ?thesis by (auto simp: record_evidence_def op_simps Let_def)
    next
      case (Inr h')
      then have h': "dget ?row ''action_hash'' = Some (PStr h')"
        by (auto simp: row_text_def split: option.splits)
      obtain r1 s1 where first: "when_op (row_is_infer ?row \<and> at_first_action_hash a = None)
          (write_first_chunk a ?row actions h') st = (r1, s1)" by fastforce
      have same: "rows_of s1 t = rows_of st t" for t
        using first write_first_chunk_rows [of a ?row actions h' st t]
        by (auto simp: when_op_apply split: if_splits)
      obtain r2 s2 where app: "append_line (at_trial_id a, ''requests.jsonl'') ?row s1 = (r2, s2)" by fastforce
      from append_line_rows [OF app]
      have rows2: "length (rows_of s1 (at_trial_id a)) \<le> length (rows_of s2 (at_trial_id a))"
        "r2 = Inr () \<Longrightarrow> rows_of s2 (at_trial_id a) = rows_of s1 (at_trial_id a) @ [?row]"
        by (cases r2; fastforce)+
      from assms \<open>inference_diagnostics np actions obs = Inr diag\<close> Inr first app
      have "(r, st') = (case r1 of Inl e \<Rightarrow> (Inl e, s1)
          | Inr _ \<Rightarrow> (case r2 of Inl e \<Rightarrow> (Inl e, s2) | Inr _ \<Rightarrow> (Inr h', s2)))"
        by (cases r1; cases r2)
          (auto simp: record_evidence_def Let_def bind_op_apply lift_sum_apply seq_op_apply ret_apply)
      with same rows2 h' \<open>inference_diagnostics np actions obs = Inr diag\<close> show ?thesis
        by (auto split: sum.splits)
    qed
  qed
  then show "r = Inr h \<Longrightarrow> (\<exists>diag. inference_diagnostics np actions obs = Inr diag
      \<and> dget (dset row ''diagnostics'' (PDict diag)) ''action_hash'' = Some (PStr h)
      \<and> rows_of st' (at_trial_id a) = rows_of st (at_trial_id a) @ [dset row ''diagnostics'' (PDict diag)])"
    and "length (rows_of st (at_trial_id a)) \<le> length (rows_of st' (at_trial_id a))" by simp_all
qed

lemma record_request_rows:
  assumes "record_request np row actions obs st = (r, st')" and "ta_active st = Some a"
  shows "r = Inr u \<Longrightarrow> (\<exists>diag h. inference_diagnostics np actions obs = Inr diag
      \<and> dget (dset row ''diagnostics'' (PDict diag)) ''action_hash'' = Some (PStr h)
      \<and> rows_of st' (at_trial_id a) = rows_of st (at_trial_id a) @ [dset row ''diagnostics'' (PDict diag)]
      \<and> ta_active st' = Some (count_request (row_is_infer row) h a))"
    and "length (rows_of st (at_trial_id a)) \<le> length (rows_of st' (at_trial_id a))"
proof -
  obtain r1 st1 where body: "record_evidence np a row actions obs st = (r1, st1)" by fastforce
  then have same: "same_except (at_trial_id a) st st1" by (rule touchesD [OF touches_record_evidence])
  note rows = record_evidence_rows [OF body]
  have active: "rows_of (st1\<lparr>ta_active := x\<rparr>) = rows_of st1" for x
    by (simp add: rows_of_def fun_eq_iff)
  show "\<exists>diag h. inference_diagnostics np actions obs = Inr diag
      \<and> dget (dset row ''diagnostics'' (PDict diag)) ''action_hash'' = Some (PStr h)
      \<and> rows_of st' (at_trial_id a) = rows_of st (at_trial_id a) @ [dset row ''diagnostics'' (PDict diag)]
      \<and> ta_active st' = Some (count_request (row_is_infer row) h a)" if "r = Inr u"
  proof (cases r1)
    case (Inl e)
    with assms body that show ?thesis by (auto simp: record_request_def op_simps split: if_splits)
  next
    case (Inr h)
    with assms body same that
    have "st' = st1\<lparr>ta_active := Some (count_request (row_is_infer row) h a)\<rparr>"
      by (auto simp: record_request_def op_simps same_except_def)
    with rows(1) [OF Inr] active show ?thesis by auto
  qed
  show "length (rows_of st (at_trial_id a)) \<le> length (rows_of st' (at_trial_id a))"
    using assms body rows(2) active
    by (cases r1) (auto simp: record_request_def op_simps split: if_splits)
qed

text \<open>
  Files live in directories that exist, and no more requests are counted than have a row:
  an append may take effect and still report a failure, which is then not counted.
\<close>

definition count_inv :: "trial_store \<Rightarrow> bool" where
  "count_inv st \<longleftrightarrow>
     store_inv st
     \<and> (\<forall>t n. ta_files st (t, n) \<noteq> None \<longrightarrow> t \<in> set (ta_dirs st))
     \<and> (\<forall>a. ta_active st = Some a \<longrightarrow> at_request_count a \<le> length (rows_of st (at_trial_id a)))"

lemma count_inv_new: "count_inv (new_trial_store io)"
  by (simp add: count_inv_def store_inv_new) (simp add: new_trial_store_def)

lemma begin_count_inv: "count_inv st \<Longrightarrow> count_inv (snd (audit_begin t k g sd st))"
proof -
  assume inv: "count_inv st"
  then have st: "store_inv (snd (audit_begin t k g sd st))"
    using audit_begin_frame [of st t k g sd] by (simp add: count_inv_def step_frame_def)
  from inv have "(\<forall>t' n. ta_files (snd (audit_begin t k g sd st)) (t', n) \<noteq> None \<longrightarrow>
      t' \<in> set (ta_dirs (snd (audit_begin t k g sd st))))
    \<and> (\<forall>a. ta_active (snd (audit_begin t k g sd st)) = Some a \<longrightarrow>
        at_request_count a \<le> length (rows_of (snd (audit_begin t k g sd st)) (at_trial_id a)))"
    by (auto simp: count_inv_def audit_begin_def rows_of_def write_defs split: write_splits)
  with st show ?thesis by (simp add: count_inv_def)
qed

lemma same_except_files:
  "same_except t st st' \<Longrightarrow> t \<in> set (ta_dirs st) \<Longrightarrow>
     \<forall>u n. ta_files st (u, n) \<noteq> None \<longrightarrow> u \<in> set (ta_dirs st) \<Longrightarrow>
     \<forall>u n. ta_files st' (u, n) \<noteq> None \<longrightarrow> u \<in> set (ta_dirs st')"
  by (metis fst_conv same_except_def)

lemma record_count_inv: "count_inv st \<Longrightarrow> count_inv (snd (record_request np row actions obs st))"
proof -
  assume inv: "count_inv st"
  obtain r st' where run: "record_request np row actions obs st = (r, st')" by fastforce
  show ?thesis
  proof (cases "ta_active st")
    case None
    with inv show ?thesis by (simp add: record_request_None)
  next
    case (Some a)
    from inv have store: "store_inv st'"
      using record_request_frame [of st np row actions obs] run
      by (simp add: count_inv_def step_frame_def)
    from inv Some have dir: "at_trial_id a \<in> set (ta_dirs st)" by (simp add: count_inv_def store_inv_def)
    have frame: "ta_dirs st' = ta_dirs st" "\<forall>q. fst q \<noteq> at_trial_id a \<longrightarrow> ta_files st' q = ta_files st q"
      using record_request_Some [OF run Some] by (cases r; auto simp: same_except_def)+
    have files: "\<forall>t n. ta_files st' (t, n) \<noteq> None \<longrightarrow> t \<in> set (ta_dirs st')"
      using inv dir frame by (metis count_inv_def fst_conv)
    have "\<forall>b. ta_active st' = Some b \<longrightarrow> at_request_count b \<le> length (rows_of st' (at_trial_id b))"
      using record_request_Some(1) [OF run Some] record_request_rows [OF run Some] inv Some
      by (cases r) (fastforce simp: count_inv_def same_except_def count_request_def)+
    with store files run show ?thesis by (simp add: count_inv_def)
  qed
qed

lemma end_count_inv:
  "count_inv st \<Longrightarrow> count_inv (snd (audit_end st))"
  "count_inv st \<Longrightarrow> count_inv (snd (audit_terminate status reason sq st))"
proof -
  assume inv: "count_inv st"
  then have dir: "\<forall>a. ta_active st = Some a \<longrightarrow> at_trial_id a \<in> set (ta_dirs st)"
    by (simp add: count_inv_def store_inv_def)
  have store: "store_inv (snd (audit_end st))" "store_inv (snd (audit_terminate status reason sq st))"
    using audit_end_frame [of st] audit_terminate_frame [of st status reason sq] inv
    by (simp_all add: count_inv_def step_frame_def)
  from inv dir store show "count_inv (snd (audit_end st))"
    unfolding count_inv_def
    by (auto simp: audit_end_def rows_of_def write_defs split: write_splits)
  from inv dir store show "count_inv (snd (audit_terminate status reason sq st))"
    unfolding count_inv_def
    by (auto simp: audit_terminate_def rows_of_def write_defs split: write_splits)
qed

interpretation counted: invariant_machine "audit_step np" count_inv for np
proof
  fix np c st assume "count_inv st"
  then show "count_inv (snd (audit_step np c st))"
    by (cases c)
      (simp_all add: begin_count_inv record_count_inv end_count_inv audit_abort_def audit_mark_ambiguous_def)
qed

end
