(* ===== verification/Oven_Runtime.thy ===== *)
theory Oven_Runtime
  imports Oven_Backend Oven_ServerAudit
begin

text \<open>
  \<open>server/runtime.py\<close>: \<open>PolicyRuntime\<close>, the fail-closed owner of one policy, one trial and
  one action session.  Every public method is built from its critical sections (the
  \<open>with self._condition\<close> blocks and the part that runs under the execution lock only), so
  that the same section functions give the method as one caller sees it and the
  steps of the interleaved runtime in \<open>Oven_Concurrent\<close>.

  A \<open>SessionLease\<close> is a shared mutable object: \<open>infer\<close> keeps a reference to it across the
  backend call.  The leases live in the list \<open>rt_leases\<close>, a reference is an index, and
  \<open>rt_session\<close> is the runtime's reference.  Clock readings, fresh identifiers and the
  outcome of a timed lock acquisition are arguments of the sections that use them.
\<close>

record session_lease =
  sl_session_id :: string
  sl_token :: string
  sl_skill :: string
  sl_generation :: int
  sl_trial_id :: string
  sl_expires_at :: flt
  sl_next_sequence :: int
  sl_state :: session_state

record 'b runtime =
  rt_state :: runtime_state
  rt_active_skill :: "string option"
  rt_generation :: int
  rt_identity :: "backend_identity option"
  rt_session :: "nat option"
  rt_leases :: "session_lease list"
  rt_trial_id :: "string option"
  rt_trial_root_seed :: "int option"
  rt_in_flight :: int
  rt_last_error :: "error_code option"
  rt_exec_lock :: bool            \<comment> \<open>\<open>_execution_lock.locked()\<close>\<close>
  rt_audit :: trial_store
  rt_backend :: 'b

text \<open>The constructor's collaborators and limits.\<close>

record 'b runtime_deps =
  rd_backend :: "'b policy_backend"
  rd_np :: np_conv
  rd_session_ttl_sec :: flt
  rd_inference_lock_timeout_sec :: flt

definition runtime_init :: "'b runtime_deps \<Rightarrow> 'b \<Rightarrow> trial_store \<Rightarrow> 'b runtime res" where
  "runtime_init d b store =
     reject_if (f_le (rd_session_ttl_sec d) f_zero \<or> f_le (rd_inference_lock_timeout_sec d) f_zero)
       (PyExc ValueError)
       (Inr \<lparr>rt_state = RS_STARTING, rt_active_skill = None, rt_generation = 0, rt_identity = None,
             rt_session = None, rt_leases = [], rt_trial_id = None, rt_trial_root_seed = None,
             rt_in_flight = 0, rt_last_error = None, rt_exec_lock = False, rt_audit = store,
             rt_backend = b\<rparr>)"

subsection \<open>Running a collaborator's method\<close>

definition on_audit :: "(trial_store, 'a) meth \<Rightarrow> ('b runtime, 'a) meth" where
  "on_audit m = (\<lambda>s. case m (rt_audit s) of (r, a) \<Rightarrow> (r, s\<lparr>rt_audit := a\<rparr>))"

definition on_backend :: "('b, 'a) meth \<Rightarrow> ('b runtime, 'a) meth" where
  "on_backend m = (\<lambda>s. case m (rt_backend s) of (r, b) \<Rightarrow> (r, s\<lparr>rt_backend := b\<rparr>))"

lemma on_audit_apply [op_simps]: "on_audit m s = (case m (rt_audit s) of (r, a) \<Rightarrow> (r, s\<lparr>rt_audit := a\<rparr>))"
  by (simp add: on_audit_def)

lemma on_backend_apply [op_simps]: "on_backend m s = (case m (rt_backend s) of (r, b) \<Rightarrow> (r, s\<lparr>rt_backend := b\<rparr>))"
  by (simp add: on_backend_def)

subsection \<open>The locked helpers\<close>

definition transition_locked :: "runtime_state \<Rightarrow> ('b runtime, unit) meth" where
  "transition_locked target =
     bind_op (gets_op rt_state) (\<lambda>current.
     seq_op (lift_sum (ensure_runtime_transition current target))
       (modify_op (\<lambda>s. s\<lparr>rt_state := target\<rparr>)))"

definition update_lease :: "nat \<Rightarrow> (session_lease \<Rightarrow> session_lease) \<Rightarrow> 'b runtime \<Rightarrow> 'b runtime" where
  "update_lease a f s = s\<lparr>rt_leases := (rt_leases s)[a := f (rt_leases s ! a)]\<rparr>"

definition invalidate_session :: "session_state \<Rightarrow> 'b runtime \<Rightarrow> 'b runtime" where
  "invalidate_session st s =
     (case rt_session s of
        None \<Rightarrow> s
      | Some a \<Rightarrow> (update_lease a (\<lambda>l. l\<lparr>sl_state := st, sl_token := []\<rparr>) s)\<lparr>rt_session := None\<rparr>)"

definition invalidate_session_locked :: "session_state \<Rightarrow> ('b runtime, unit) meth" where
  "invalidate_session_locked st = modify_op (invalidate_session st)"

definition fail_locked :: "error_code \<Rightarrow> ('b runtime, unit) meth" where
  "fail_locked code =
     seq_op (modify_op (\<lambda>s. s\<lparr>rt_last_error := Some code\<rparr>))
     (seq_op (invalidate_session_locked SS_ABORTED)
     (bind_op (gets_op rt_state) (\<lambda>st.
      when_op (st \<notin> {RS_FAILED, RS_STOPPING}) (transition_locked RS_FAILED))))"

definition fail_and_raise :: "error_code \<Rightarrow> exn \<Rightarrow> ('b runtime, 'a) meth" where
  "fail_and_raise code e = seq_op (fail_locked code) (raise e)"

definition active_lease :: "'b runtime \<Rightarrow> (nat \<times> session_lease) option" where
  \<comment> \<open>\<open>self._session\<close> when it is not \<open>None\<close> and its state is \<open>ACTIVE\<close>\<close>
  "active_lease s =
     (case rt_session s of
        None \<Rightarrow> None
      | Some a \<Rightarrow> if sl_state (rt_leases s ! a) = SS_ACTIVE then Some (a, rt_leases s ! a) else None)"

subsection \<open>\<open>status\<close>\<close>

definition status_dict :: "'b runtime \<Rightarrow> pydict" where
  "status_dict s =
     [(''state'', PStr (runtime_value (rt_state s))),
      (''active_skill'', opt_str (rt_active_skill s)),
      (''generation'', PInt (rt_generation s)),
      (''backend'', opt_str (map_option bi_backend (rt_identity s))),
      (''model_id'', opt_str (map_option bi_model_id (rt_identity s))),
      (''active_session_id'', opt_str (map_option (\<lambda>(a, l). sl_session_id l) (active_lease s))),
      (''active_trial_id'', opt_str (rt_trial_id s)),
      (''in_flight'', PInt (rt_in_flight s)),
      (''last_error'', opt_str (map_option code_value (rt_last_error s)))]"

definition status :: "('b runtime, pydict) meth" where
  "status = gets_op status_dict"

subsection \<open>The execution lock\<close>

text \<open>
  \<open>acquire(timeout=...)\<close>: a caller that runs alone finds the lock free, or finds it held
  until the timeout expires.
\<close>

definition acquire_exec :: "('b runtime, bool) meth" where
  "acquire_exec =
     bind_op (gets_op rt_exec_lock) (\<lambda>held.
     if held then ret False else seq_op (modify_op (\<lambda>s. s\<lparr>rt_exec_lock := True\<rparr>)) (ret True))"

definition release_exec :: "'b runtime \<Rightarrow> 'b runtime" where
  "release_exec s = s\<lparr>rt_exec_lock := False\<rparr>"

text \<open>\<open>try: m finally: f\<close> for a clean-up that cannot raise.\<close>

definition finally_op :: "('s, 'e, 'a) op \<Rightarrow> ('s \<Rightarrow> 's) \<Rightarrow> ('s, 'e, 'a) op" where
  "finally_op m f = (\<lambda>s. case m s of (r, s') \<Rightarrow> (r, f s'))"

lemma finally_op_apply [op_simps]: "finally_op m f s = (case m s of (r, s') \<Rightarrow> (r, f s'))"
  by (simp add: finally_op_def)

subsection \<open>\<open>prepare_skill\<close>\<close>

text \<open>The first critical section, up to the drain loop; the result says whether it drains.\<close>

definition prepare_enter :: "string \<Rightarrow> flt \<Rightarrow> ('b runtime, bool) meth" where
  "prepare_enter skill drain_timeout =
     (if skill = [] then raise (err INVALID_FIELD_VALUE ''skill must not be empty'' [])
      else if f_le drain_timeout f_zero then raise (PyExc ValueError)
      else
        bind_op (gets_op id) (\<lambda>s.
        if rt_trial_id s \<noteq> None
        then raise (err STATE_REJECTED ''end or abort the active trial before preparing a skill'' [])
        else if rt_state s \<in> {RS_FAILED, RS_STOPPING, RS_LOADING, RS_SWITCHING}
        then raise (err STATE_REJECTED ''runtime cannot prepare a skill in its current state''
                     [(''state'', PStr (runtime_value (rt_state s)))])
        else
          seq_op (invalidate_session_locked SS_ABORTED)
            (if rt_state s = RS_STARTING
             then seq_op (transition_locked RS_LOADING) (ret False)
             else seq_op (transition_locked RS_DRAINING) (ret True))))"

text \<open>
  One round of \<open>while self._in_flight\<close>: \<open>True\<close> when the loop is done and the state has moved
  on to \<open>LOADING\<close>, \<open>False\<close> when the thread goes back to waiting on the condition.
\<close>

definition prepare_drain :: "flt \<Rightarrow> flt \<Rightarrow> ('b runtime, bool) meth" where
  "prepare_drain deadline now =
     bind_op (gets_op rt_in_flight) (\<lambda>n.
     if n \<noteq> 0
     then if f_le (f_sub deadline now) f_zero
          then fail_and_raise INFERENCE_TIMEOUT
                 (err INFERENCE_TIMEOUT ''timed out draining active inference'' [])
          else ret False
     else seq_op (transition_locked RS_SWITCHING) (seq_op (transition_locked RS_LOADING) (ret True)))"

definition prepare_busy :: "('b runtime, 'a) meth" where
  "prepare_busy =
     fail_and_raise INFERENCE_BUSY
       (err INFERENCE_BUSY ''cannot acquire policy execution lock for model preparation'' [])"

text \<open>The backend call, under the execution lock only.\<close>

definition prepare_backend :: "'b runtime_deps \<Rightarrow> string \<Rightarrow> ('b runtime, backend_identity) meth" where
  "prepare_backend d skill =
     bind_op (on_backend (be_prepare (rd_backend d) skill)) (\<lambda>identity.
     if bi_skill identity \<noteq> skill then raise (PyExc RuntimeError) else ret identity)"

definition prepare_failed :: "exn \<Rightarrow> ('b runtime, 'a) meth" where
  \<comment> \<open>\<open>except Exception\<close>\<close>
  "prepare_failed e =
     (if is_exception e
      then fail_and_raise POLICY_FAILED
             (if is_fault e then e
              else err POLICY_FAILED ''policy backend failed to prepare the requested skill'' [])
      else raise e)"

definition prepare_commit :: "string \<Rightarrow> backend_identity \<Rightarrow> ('b runtime, pydict) meth" where
  "prepare_commit skill identity =
     seq_op (modify_op (\<lambda>s. s\<lparr>rt_active_skill := Some skill, rt_identity := Some identity,
                               rt_generation := rt_generation s + 1\<rparr>))
     (seq_op (transition_locked RS_READY) status)"

text \<open>
  The method as a caller sees it when no other thread runs: an inference left in flight is
  never finished, so the drain loop ends at its deadline.
\<close>

definition prepare_skill :: "'b runtime_deps \<Rightarrow> string \<Rightarrow> flt \<Rightarrow> ('b runtime, pydict) meth" where
  "prepare_skill d skill drain_timeout =
     bind_op (prepare_enter skill drain_timeout) (\<lambda>drain.
     seq_op (when_op drain
        (bind_op (prepare_drain f_zero f_zero) (\<lambda>_. ret ())))
     (bind_op acquire_exec (\<lambda>acquired.
      if \<not> acquired then prepare_busy
      else
        bind_op (finally_op (catch_op (prepare_backend d skill) prepare_failed) release_exec)
          (prepare_commit skill))))"

subsection \<open>\<open>begin_trial\<close>\<close>

definition begin_trial_section :: "'b runtime_deps \<Rightarrow> string \<Rightarrow> int \<Rightarrow> ('b runtime, pydict) meth" where
  "begin_trial_section d trial_id root_seed =
     bind_op (gets_op id) (\<lambda>s.
     if rt_state s \<noteq> RS_READY
     then raise (err STATE_REJECTED ''trial can begin only when runtime is ready''
                  [(''state'', PStr (runtime_value (rt_state s)))])
     else if rt_trial_id s \<noteq> None
     then raise (err STATE_REJECTED ''another trial is already active'' [])
     else case rt_active_skill s of
       None \<Rightarrow> raise (err SERVER_FAILED ''runtime has no active skill'' [])
     | Some skill \<Rightarrow>
         seq_op (on_backend (be_reset_prng (rd_backend d) root_seed))
         (bind_op (on_audit (audit_begin trial_id skill (rt_generation s) root_seed)) (\<lambda>active.
          seq_op (modify_op (\<lambda>s. s\<lparr>rt_trial_id := Some (at_trial_id active),
                                    rt_trial_root_seed := Some root_seed\<rparr>))
            status)))"

definition begin_trial_failed :: "exn \<Rightarrow> ('b runtime, 'a) meth" where
  "begin_trial_failed e =
     (if is_fault e \<or> \<not> is_exception e then raise e
      else fail_and_raise POLICY_FAILED
             (err POLICY_FAILED ''policy backend failed to initialize trial PRNG'' []))"

text \<open>The arguments come from the control message, so their types are checked here.\<close>

definition begin_arguments :: "pyval \<Rightarrow> pyval \<Rightarrow> (string \<times> int) res" where
  "begin_arguments trial_id root_seed =
     (case is_str trial_id of
        None \<Rightarrow> Inl (err INVALID_FIELD_VALUE ''trial_id format is invalid'' [])
      | Some t \<Rightarrow>
          reject_if (\<not> trial_id_matches t) (err INVALID_FIELD_VALUE ''trial_id format is invalid'' [])
            (case exact_int root_seed of
               None \<Rightarrow> Inl (err INVALID_FIELD_TYPE ''root_seed must be an integer'' [])
             | Some seed \<Rightarrow> Inr (t, seed)))"

definition begin_trial :: "'b runtime_deps \<Rightarrow> pyval \<Rightarrow> pyval \<Rightarrow> ('b runtime, pydict) meth" where
  "begin_trial d trial_id root_seed =
     bind_op (lift_sum (begin_arguments trial_id root_seed)) (\<lambda>(t, seed).
     bind_op acquire_exec (\<lambda>acquired.
     if \<not> acquired
     then raise (err INFERENCE_BUSY ''cannot acquire policy execution lock for trial initialization'' [])
     else finally_op
            (catch_op (begin_trial_section d t seed) begin_trial_failed) release_exec))"

subsection \<open>\<open>open_session\<close> and \<open>close_session\<close>\<close>

definition new_lease ::
  "'b runtime_deps \<Rightarrow> string \<Rightarrow> string \<Rightarrow> flt \<Rightarrow> string \<Rightarrow> int \<Rightarrow> string \<Rightarrow> session_lease" where
  "new_lease d session_id token now skill generation trial_id =
     \<lparr>sl_session_id = session_id, sl_token = token, sl_skill = skill, sl_generation = generation,
      sl_trial_id = trial_id, sl_expires_at = f_add now (rd_session_ttl_sec d),
      sl_next_sequence = 0, sl_state = SS_ACTIVE\<rparr>"

definition session_dict :: "'b runtime_deps \<Rightarrow> session_lease \<Rightarrow> pydict" where
  "session_dict d lease =
     [(''session_id'', PStr (sl_session_id lease)), (''session_token'', PStr (sl_token lease)),
      (''skill'', PStr (sl_skill lease)), (''generation'', PInt (sl_generation lease)),
      (''trial_id'', PStr (sl_trial_id lease)), (''expires_in_sec'', PFloat (rd_session_ttl_sec d))]"

text \<open>\<open>str(uuid4())\<close>, \<open>secrets.token_urlsafe(32)\<close> and the clock reading are arguments.\<close>

definition open_session :: "'b runtime_deps \<Rightarrow> string \<Rightarrow> string \<Rightarrow> flt \<Rightarrow> ('b runtime, pydict) meth" where
  "open_session d session_id token now =
     bind_op (gets_op id) (\<lambda>s.
     if rt_state s \<noteq> RS_READY
     then raise (err STATE_REJECTED ''session cannot open in the current state''
                  [(''state'', PStr (runtime_value (rt_state s)))])
     else case (rt_trial_id s, rt_active_skill s) of
       (Some trial_id, Some skill) \<Rightarrow>
         if active_lease s \<noteq> None
         then raise (err SESSION_ALREADY_ACTIVE ''an action session is already active'' [])
         else
           let lease = new_lease d session_id token now skill (rt_generation s) trial_id in
           seq_op (modify_op (\<lambda>s. s\<lparr>rt_session := Some (length (rt_leases s)),
                                     rt_leases := rt_leases s @ [lease]\<rparr>))
             (ret (session_dict d lease))
     | _ \<Rightarrow> raise (err TRIAL_REQUIRED ''begin a trial before opening a session'' []))"

definition close_session :: "string \<Rightarrow> ('b runtime, pydict) meth" where
  "close_session session_id =
     bind_op (gets_op id) (\<lambda>s.
     case active_lease s of
       None \<Rightarrow> raise (err SESSION_REQUIRED ''no active session'' [])
     | Some (a, lease) \<Rightarrow>
         if sl_session_id lease \<noteq> session_id
         then raise (err SESSION_INVALID ''session ID does not match the active lease'' [])
         else if rt_in_flight s \<noteq> 0
         then raise (err INFERENCE_BUSY ''cannot close a session with inference in flight'' [])
         else seq_op (invalidate_session_locked SS_CLOSED) status)"

subsection \<open>\<open>infer\<close>\<close>

text \<open>
  \<open>secrets.compare_digest\<close> on strings refuses characters outside ASCII with a \<open>TypeError\<close>;
  the session identifiers are compared first.
\<close>

definition compare_digest :: "string \<Rightarrow> string \<Rightarrow> bool res" where
  "compare_digest a b =
     (if list_all (\<lambda>c. of_char c < (128 :: nat)) (a @ b) then Inr (a = b) else Inl (PyExc TypeError))"

definition credentials_match :: "inference_request \<Rightarrow> session_lease \<Rightarrow> bool res" where
  "credentials_match r lease =
     (if rq_session_id r \<noteq> sl_session_id lease then Inr False
      else compare_digest (rq_session_token r) (sl_token lease))"

definition validate_request_locked :: "inference_request \<Rightarrow> flt \<Rightarrow> ('b runtime, nat) meth" where
  "validate_request_locked r now =
     bind_op (gets_op id) (\<lambda>s.
     case active_lease s of
       None \<Rightarrow> raise (err SESSION_REQUIRED ''an active session is required'' [])
     | Some (a, lease) \<Rightarrow>
         if f_le (sl_expires_at lease) now
         then seq_op (invalidate_session_locked SS_EXPIRED)
                (raise (err SESSION_EXPIRED ''the active session has expired'' []))
         else bind_op (lift_sum (credentials_match r lease)) (\<lambda>valid.
         if \<not> valid
         then raise (err SESSION_INVALID ''session credentials are invalid'' [])
         else if rq_trial_id r \<noteq> sl_trial_id lease \<or> Some (rq_trial_id r) \<noteq> rt_trial_id s
         then raise (err TRIAL_MISMATCH ''request trial does not match the active trial'' [])
         else if rq_expected_skill r \<noteq> sl_skill lease \<or> Some (rq_expected_skill r) \<noteq> rt_active_skill s
         then raise (err SKILL_MISMATCH ''request skill does not match the active policy'' [])
         else if rq_expected_generation r \<noteq> sl_generation lease \<or> rq_expected_generation r \<noteq> rt_generation s
         then raise (err GENERATION_MISMATCH ''request generation does not match the active policy'' [])
         else if rq_sequence r \<noteq> sl_next_sequence lease
         then raise (err SEQUENCE_MISMATCH ''request sequence is not the next expected value''
                      [(''expected'', PInt (sl_next_sequence lease)), (''received'', PInt (rq_sequence r))])
         else if rq_request_kind r \<noteq> INFER
         then raise (err INVALID_FIELD_VALUE ''warm-up requests are not supported'' [])
         else if rt_state s \<noteq> RS_READY
         then raise (err STATE_REJECTED ''request kind is not allowed in the current state''
                      [(''state'', PStr (runtime_value (rt_state s))),
                       (''request_kind'', PStr (kind_value (rq_request_kind r)))])
         else ret a))"

definition infer_enter :: "inference_request \<Rightarrow> flt \<Rightarrow> ('b runtime, nat) meth" where
  "infer_enter r now =
     bind_op (validate_request_locked r now) (\<lambda>a.
     seq_op (modify_op (\<lambda>s. s\<lparr>rt_in_flight := rt_in_flight s + 1\<rparr>)) (ret a))"

text \<open>The hash of the request and of what it identifies.\<close>

definition request_identity :: "inference_request \<Rightarrow> string \<Rightarrow> pyval" where
  "request_identity r observation_hash =
     PDict [(''protocol_version'', PInt (rq_protocol_version r)), (''session_id'', PStr (rq_session_id r)),
            (''trial_id'', PStr (rq_trial_id r)), (''request_kind'', PStr (kind_value (rq_request_kind r))),
            (''expected_skill'', PStr (rq_expected_skill r)),
            (''expected_generation'', PInt (rq_expected_generation r)),
            (''sequence'', PInt (rq_sequence r)), (''observation_hash'', PStr observation_hash)]"

record inference_outcome =
  io_result :: backend_result
  io_observation_hash :: string
  io_request_hash :: string
  io_action_hash :: string

definition request_row :: "inference_request \<Rightarrow> inference_outcome \<Rightarrow> pydict" where
  "request_row r oc =
     [(''schema_version'', PInt 1), (''session_id'', PStr (rq_session_id r)),
      (''trial_id'', PStr (rq_trial_id r)), (''skill'', PStr (rq_expected_skill r)),
      (''generation'', PInt (rq_expected_generation r)), (''sequence'', PInt (rq_sequence r)),
      (''request_kind'', PStr (kind_value (rq_request_kind r))),
      (''request_hash'', PStr (io_request_hash oc)), (''observation_hash'', PStr (io_observation_hash oc)),
      (''noise_hash'', PStr (br_noise_hash (io_result oc))), (''action_hash'', PStr (io_action_hash oc))]"

text \<open>
  The backend call, then the hashes and the audit row: under the execution lock only, and two
  steps, because another thread can end the trial in between.
\<close>

definition infer_record ::
  "'b runtime_deps \<Rightarrow> inference_request \<Rightarrow> backend_result \<Rightarrow> ('b runtime, inference_outcome) meth" where
  "infer_record d r result =
     bind_op (lift_sum (stable_tree_hash (PDict (rq_observation r)))) (\<lambda>observation_hash.
     bind_op (lift_sum (stable_tree_hash (request_identity r observation_hash))) (\<lambda>request_hash.
     bind_op (lift_sum (stable_tree_hash (PArr (br_actions result)))) (\<lambda>action_hash.
     let oc = \<lparr>io_result = result, io_observation_hash = observation_hash,
               io_request_hash = request_hash, io_action_hash = action_hash\<rparr> in
     seq_op (on_audit (record_request (rd_np d) (request_row r oc) (br_actions result) (rq_observation r)))
       (ret oc))))"

definition infer_compute :: "'b runtime_deps \<Rightarrow> inference_request \<Rightarrow> ('b runtime, inference_outcome) meth" where
  "infer_compute d r =
     bind_op (on_backend (be_infer (rd_backend d) (rq_observation r) (rq_request_kind r))) (infer_record d r)"

definition infer_failed :: "exn \<Rightarrow> ('b runtime, 'a) meth" where
  "infer_failed e =
     (case e of
        Fault f \<Rightarrow> fail_and_raise (rf_code f) e
      | PyExc c \<Rightarrow> fail_and_raise POLICY_FAILED (err POLICY_FAILED ''policy inference failed'' [])
      | Interrupt \<Rightarrow> raise e)"

definition response_of :: "inference_request \<Rightarrow> inference_outcome \<Rightarrow> inference_response" where
  "response_of r oc =
     \<lparr>rs_session_id = rq_session_id r, rs_trial_id = rq_trial_id r, rs_skill = rq_expected_skill r,
      rs_generation = rq_expected_generation r, rs_sequence = rq_sequence r, rs_publishable = True,
      rs_request_hash = io_request_hash oc, rs_observation_hash = io_observation_hash oc,
      rs_noise_hash = br_noise_hash (io_result oc), rs_action_hash = io_action_hash oc,
      rs_actions = PArr (br_actions (io_result oc))\<rparr>"

definition infer_commit :: "inference_request \<Rightarrow> nat \<Rightarrow> inference_outcome \<Rightarrow> ('b runtime, pydict) meth" where
  "infer_commit r a oc =
     bind_op (gets_op id) (\<lambda>s.
     if rt_session s \<noteq> Some a \<or> sl_state (rt_leases s ! a) \<noteq> SS_ACTIVE
     then fail_and_raise SESSION_INVALID (err SESSION_INVALID ''session changed during inference'' [])
     else
       seq_op (modify_op (update_lease a (\<lambda>l. l\<lparr>sl_next_sequence := sl_next_sequence l + 1\<rparr>)))
         (ret (response_to_dict (response_of r oc))))"

definition infer_leave :: "'b runtime \<Rightarrow> 'b runtime" where
  \<comment> \<open>the \<open>finally\<close> block of a request that entered\<close>
  "infer_leave s = release_exec (s\<lparr>rt_in_flight := rt_in_flight s - 1\<rparr>)"

definition infer_locked :: "'b runtime_deps \<Rightarrow> inference_request \<Rightarrow> flt \<Rightarrow> ('b runtime, pydict) meth" where
  "infer_locked d r now =
     (\<lambda>s. case infer_enter r now s of
            (Inl e, s1) \<Rightarrow> (Inl e, release_exec s1)
          | (Inr a, s1) \<Rightarrow>
              finally_op (bind_op (catch_op (infer_compute d r) infer_failed) (infer_commit r a)) infer_leave s1)"

definition infer :: "'b runtime_deps \<Rightarrow> flt \<Rightarrow> pyval \<Rightarrow> ('b runtime, pydict) meth" where
  "infer d now payload =
     bind_op (lift_sum (parse_request payload)) (\<lambda>r.
     bind_op acquire_exec (\<lambda>acquired.
     if \<not> acquired then raise (err INFERENCE_BUSY ''policy execution lock is busy'' [])
     else infer_locked d r now))"

subsection \<open>Ending a trial\<close>

definition clear_trial :: "'b runtime \<Rightarrow> 'b runtime" where
  "clear_trial s = s\<lparr>rt_trial_id := None, rt_trial_root_seed := None\<rparr>"

definition commit_failed :: "exn \<Rightarrow> ('b runtime, 'a) meth" where
  \<comment> \<open>\<open>except RuntimeFault: self._fail_locked(AUDIT_COMMIT_FAILED); raise\<close>\<close>
  "commit_failed e = (if is_fault e then fail_and_raise AUDIT_COMMIT_FAILED e else raise e)"

definition end_trial :: "('b runtime, pydict) meth" where
  "end_trial =
     bind_op (gets_op id) (\<lambda>s.
     if active_lease s \<noteq> None
     then raise (err SESSION_ALREADY_ACTIVE ''close the active session before ending the trial'' [])
     else if rt_trial_id s = None then raise (err TRIAL_REQUIRED ''no active trial'' [])
     else
       bind_op (catch_op (on_audit audit_end) commit_failed) (\<lambda>summary.
       seq_op (modify_op clear_trial) (ret summary)))"

definition opt_dict :: "pydict option \<Rightarrow> pyval" where
  "opt_dict x = (case x of None \<Rightarrow> PNone | Some d \<Rightarrow> PDict d)"

definition state_and_trial :: "pydict option \<Rightarrow> ('b runtime, pydict) meth" where
  "state_and_trial trial =
     gets_op (\<lambda>s. [(''state'', PStr (runtime_value (rt_state s))), (''trial'', opt_dict trial)])"

definition abort_section :: "string \<Rightarrow> ('b runtime, pydict) meth" where
  "abort_section reason =
     seq_op (invalidate_session_locked SS_ABORTED)
     (bind_op (catch_op (on_audit (audit_abort reason)) commit_failed) (\<lambda>trial.
      seq_op (modify_op clear_trial) (state_and_trial trial)))"

definition abort :: "string \<Rightarrow> ('b runtime, pydict) meth" where
  "abort reason =
     bind_op acquire_exec (\<lambda>acquired.
     if \<not> acquired
     then fail_and_raise INFERENCE_TIMEOUT
            (err INFERENCE_TIMEOUT ''timed out waiting for active inference before abort'' [])
     else finally_op (abort_section reason) release_exec)"

definition mark_transport_ambiguous :: "string \<Rightarrow> int \<Rightarrow> ('b runtime, pydict) meth" where
  "mark_transport_ambiguous session_id sequence =
     bind_op (gets_op id) (\<lambda>s.
     case rt_session s of
       None \<Rightarrow> state_and_trial None
     | Some a \<Rightarrow>
         if sl_session_id (rt_leases s ! a) \<noteq> session_id then state_and_trial None
         else
           seq_op (invalidate_session_locked SS_ABORTED)
           (bind_op (catch_op (on_audit (audit_mark_ambiguous ''inference response transport failed'' sequence))
                       commit_failed) (\<lambda>trial.
            seq_op (modify_op clear_trial)
            (seq_op (fail_locked SERVER_FAILED) (state_and_trial trial)))))"

text \<open>\<open>close\<close>: the section under the condition returns the audit error it kept.\<close>

definition close_section :: "('b runtime, exn option) meth" where
  "close_section =
     bind_op (gets_op id) (\<lambda>s0.
     seq_op (when_op (rt_state s0 \<noteq> RS_STOPPING) (transition_locked RS_STOPPING))
     (seq_op (invalidate_session_locked SS_ABORTED)
     (bind_op (gets_op rt_trial_id) (\<lambda>trial.
      if trial = None then ret None
      else
        (\<lambda>s. case on_audit (audit_abort ''server shutdown'') s of
               (Inl e, s') \<Rightarrow> if is_fault e then (Inr (Some e), s') else (Inl e, s')
             | (Inr x, s') \<Rightarrow> (Inr None, clear_trial s'))))))"

definition close :: "'b runtime_deps \<Rightarrow> ('b runtime, unit) meth" where
  "close d =
     bind_op close_section (\<lambda>audit_error.
       (\<lambda>s. case on_backend (be_close (rd_backend d)) s of
              (r, s') \<Rightarrow> (case audit_error of None \<Rightarrow> (r, s') | Some e \<Rightarrow> (Inl e, s'))))"

end
