(* ===== verification/Oven_RuntimeInv.thy ===== *)
theory Oven_RuntimeInv
  imports Oven_Runtime
begin

text \<open>
  The invariant of \<open>PolicyRuntime\<close>, section by section.  A section is one critical section of
  \<open>Oven_Runtime\<close>; the same lemmas carry the methods below and the interleaved runtime in
  \<open>Oven_Concurrent\<close>.  The public methods are the operations of an invariant machine
  whose level is the policy generation.
\<close>

subsection \<open>The invariant\<close>

text \<open>
  The current session is an active lease of a ready runtime, for its trial, its skill and
  its generation; every other lease is inactive and has lost its token; the trial the
  runtime believes in is the one the audit store has open, for the loaded skill and generation.
\<close>

definition lease_current :: "'b runtime \<Rightarrow> session_lease \<Rightarrow> bool" where
  "lease_current s l \<longleftrightarrow>
     sl_state l = SS_ACTIVE \<and> rt_state s = RS_READY \<and> rt_trial_id s = Some (sl_trial_id l)
     \<and> rt_active_skill s = Some (sl_skill l) \<and> sl_generation l = rt_generation s"

definition revoked :: "session_lease \<Rightarrow> bool" where
  "revoked l \<longleftrightarrow> sl_state l \<noteq> SS_ACTIVE \<and> sl_token l = []"

definition leases_ok :: "'b runtime \<Rightarrow> bool" where
  "leases_ok s \<longleftrightarrow>
     (\<forall>a. rt_session s = Some a \<longrightarrow> a < length (rt_leases s) \<and> lease_current s (rt_leases s ! a))
     \<and> (\<forall>a < length (rt_leases s). rt_session s \<noteq> Some a \<longrightarrow> revoked (rt_leases s ! a))"

definition trial_ok :: "'b runtime \<Rightarrow> bool" where
  "trial_ok s \<longleftrightarrow>
     store_inv (rt_audit s)
     \<and> rt_trial_id s = map_option at_trial_id (ta_active (rt_audit s))
     \<and> (\<forall>a. ta_active (rt_audit s) = Some a \<longrightarrow>
          rt_active_skill s = Some (at_skill a) \<and> at_generation a = rt_generation s)"

definition runtime_inv :: "'b runtime \<Rightarrow> bool" where
  "runtime_inv s \<longleftrightarrow> leases_ok s \<and> trial_ok s"

text \<open>A runtime with no session: the state in which its state and skill may change.\<close>

definition idle_inv :: "'b runtime \<Rightarrow> bool" where
  "idle_inv s \<longleftrightarrow> runtime_inv s \<and> rt_session s = None"

lemma idle_imp_inv: "idle_inv s \<Longrightarrow> runtime_inv s"
  by (simp add: idle_inv_def)

lemma runtime_init_inv:
  "runtime_init d b store = Inr s \<Longrightarrow> store_inv store \<Longrightarrow> ta_active store = None \<Longrightarrow> runtime_inv s"
  by (auto simp: runtime_init_def reject_if_def runtime_inv_def leases_ok_def trial_ok_def split: if_splits)

subsection \<open>Updates the invariant does not look at\<close>

lemma inv_update [simp]:
  "runtime_inv (s\<lparr>rt_last_error := e\<rparr>) = runtime_inv s"
  "runtime_inv (s\<lparr>rt_exec_lock := b\<rparr>) = runtime_inv s"
  "runtime_inv (s\<lparr>rt_backend := be\<rparr>) = runtime_inv s"
  "runtime_inv (s\<lparr>rt_in_flight := n\<rparr>) = runtime_inv s"
  "runtime_inv (s\<lparr>rt_identity := i\<rparr>) = runtime_inv s"
  "runtime_inv (s\<lparr>rt_trial_root_seed := sd\<rparr>) = runtime_inv s"
  by (simp_all add: runtime_inv_def leases_ok_def lease_current_def trial_ok_def)

lemma idle_update [simp]:
  "idle_inv (s\<lparr>rt_last_error := e\<rparr>) = idle_inv s"
  "idle_inv (s\<lparr>rt_exec_lock := b\<rparr>) = idle_inv s"
  "idle_inv (s\<lparr>rt_backend := be\<rparr>) = idle_inv s"
  "idle_inv (s\<lparr>rt_in_flight := n\<rparr>) = idle_inv s"
  "idle_inv (s\<lparr>rt_identity := i\<rparr>) = idle_inv s"
  "idle_inv (s\<lparr>rt_trial_root_seed := sd\<rparr>) = idle_inv s"
  "idle_inv (s\<lparr>rt_state := st\<rparr>) = idle_inv s"
  by (simp_all add: idle_inv_def) (auto simp: runtime_inv_def leases_ok_def lease_current_def trial_ok_def)

lemma release_exec_inv [simp]: "runtime_inv (release_exec s) = runtime_inv s" "idle_inv (release_exec s) = idle_inv s"
  by (simp_all add: release_exec_def)

lemma infer_leave_inv [simp]: "runtime_inv (infer_leave s) = runtime_inv s"
  by (simp add: infer_leave_def)

subsection \<open>The locked helpers\<close>

lemma invalidate_fields [simp]:
  "rt_session (invalidate_session st s) = None"
  "rt_state (invalidate_session st s) = rt_state s"
  "rt_active_skill (invalidate_session st s) = rt_active_skill s"
  "rt_generation (invalidate_session st s) = rt_generation s"
  "rt_trial_id (invalidate_session st s) = rt_trial_id s"
  "rt_audit (invalidate_session st s) = rt_audit s"
  "rt_backend (invalidate_session st s) = rt_backend s"
  "rt_exec_lock (invalidate_session st s) = rt_exec_lock s"
  "rt_in_flight (invalidate_session st s) = rt_in_flight s"
  "rt_last_error (invalidate_session st s) = rt_last_error s"
  "length (rt_leases (invalidate_session st s)) = length (rt_leases s)"
  by (simp_all add: invalidate_session_def update_lease_def split: option.split)

lemma invalidate_set_state:
  "invalidate_session st (s\<lparr>rt_state := t\<rparr>) = (invalidate_session st s)\<lparr>rt_state := t\<rparr>"
  by (cases s) (simp add: invalidate_session_def update_lease_def split: option.split)

lemma set_same_state: "rt_state s = t \<Longrightarrow> s\<lparr>rt_state := t\<rparr> = s"
  by (cases s) simp

lemma invalidate_idle: "runtime_inv s \<Longrightarrow> st \<noteq> SS_ACTIVE \<Longrightarrow> idle_inv (invalidate_session st s)"
  by (auto simp: idle_inv_def runtime_inv_def leases_ok_def trial_ok_def revoked_def
      invalidate_session_def update_lease_def nth_list_update split: option.splits)

lemma invalidate_inv [simp]: "runtime_inv s \<Longrightarrow> st \<noteq> SS_ACTIVE \<Longrightarrow> runtime_inv (invalidate_session st s)"
  by (simp add: invalidate_idle idle_imp_inv)

lemma transition_locked_cases:
  "transition_locked t s =
     (if t \<in> set (RUNTIME_TRANSITIONS (rt_state s)) then (Inr (), s\<lparr>rt_state := t\<rparr>)
      else (Inl (err STATE_REJECTED ''illegal runtime state transition''
              [(''current'', PStr (runtime_value (rt_state s))), (''target'', PStr (runtime_value t))]), s))"
  by (simp add: transition_locked_def ensure_runtime_transition_def op_simps)

lemma transition_idle [inv_intros]: "keeps idle_inv (transition_locked t)"
  by (rule keepsI) (simp add: transition_locked_cases)

text \<open>Failing closed never raises, and ends in \<open>FAILED\<close> or \<open>STOPPING\<close> without a session.\<close>

lemma fail_locked_apply:
  "fail_locked c s =
     (Inr (), (invalidate_session SS_ABORTED (s\<lparr>rt_last_error := Some c\<rparr>))
        \<lparr>rt_state := (if rt_state s = RS_STOPPING then RS_STOPPING else RS_FAILED)\<rparr>)"
  by (cases "rt_state s")
    (simp_all add: fail_locked_def invalidate_session_locked_def transition_locked_cases op_simps)

lemma fail_and_raise_apply: "fail_and_raise c e s = (Inl e, snd (fail_locked c s))"
  by (simp add: fail_and_raise_def op_simps fail_locked_apply)

lemma fail_locked_idle: "runtime_inv s \<Longrightarrow> idle_inv (snd (fail_locked c s))"
  by (simp add: fail_locked_apply invalidate_idle)

lemma fail_and_raise_inv [inv_intros]: "keeps runtime_inv (fail_and_raise c e)"
  by (rule keepsI) (simp add: fail_and_raise_apply fail_locked_idle idle_imp_inv)

lemma fail_locked_inv [inv_intros]: "keeps runtime_inv (fail_locked c)"
  by (rule keepsI) (simp add: fail_locked_idle idle_imp_inv)

lemma fail_locked_fields [simp]:
  "rt_session (snd (fail_locked c s)) = None"
  "rt_state (snd (fail_locked c s)) = (if rt_state s = RS_STOPPING then RS_STOPPING else RS_FAILED)"
  "rt_last_error (snd (fail_locked c s)) = Some c"
  "rt_generation (snd (fail_locked c s)) = rt_generation s"
  "rt_trial_id (snd (fail_locked c s)) = rt_trial_id s"
  "rt_active_skill (snd (fail_locked c s)) = rt_active_skill s"
  "rt_audit (snd (fail_locked c s)) = rt_audit s"
  "rt_backend (snd (fail_locked c s)) = rt_backend s"
  "rt_exec_lock (snd (fail_locked c s)) = rt_exec_lock s"
  "rt_in_flight (snd (fail_locked c s)) = rt_in_flight s"
  "length (rt_leases (snd (fail_locked c s))) = length (rt_leases s)"
  by (simp_all add: fail_locked_apply)

lemma active_lease_Some:
  "active_lease s = Some (a, l) \<longleftrightarrow>
     rt_session s = Some a \<and> sl_state (rt_leases s ! a) = SS_ACTIVE \<and> l = rt_leases s ! a"
  by (auto simp: active_lease_def split: option.splits)

lemma active_lease_None:
  "runtime_inv s \<Longrightarrow> active_lease s = None \<longleftrightarrow> rt_session s = None"
  by (auto simp: active_lease_def runtime_inv_def leases_ok_def lease_current_def split: option.splits)

lemma keeps_finally [inv_intros]:
  "keeps P m \<Longrightarrow> (\<And>s. P s \<Longrightarrow> P (f s)) \<Longrightarrow> keeps P (finally_op m f)"
  by (auto simp: keeps_def finally_op_def split: prod.splits)

lemma acquire_exec_apply:
  "acquire_exec s = (if rt_exec_lock s then (Inr False, s) else (Inr True, s\<lparr>rt_exec_lock := True\<rparr>))"
  by (simp add: acquire_exec_def op_simps)

lemma acquire_exec_inv [inv_intros]: "keeps runtime_inv acquire_exec" "keeps idle_inv acquire_exec"
  by (rule keepsI; simp add: acquire_exec_apply)+

lemma on_backend_inv [inv_intros]: "keeps runtime_inv (on_backend m)" "keeps idle_inv (on_backend m)"
  by (rule keepsI; simp add: op_simps split: prod.split)+

lemma status_inv [inv_intros]: "keeps P status"
  by (simp add: status_def keeps_gets)

lemma invalidate_session_locked_inv [inv_intros]:
  "st \<noteq> SS_ACTIVE \<Longrightarrow> keeps runtime_inv (invalidate_session_locked st)"
  by (rule keepsI) (simp add: invalidate_session_locked_def op_simps invalidate_idle idle_imp_inv)

subsection \<open>\<open>prepare_skill\<close>\<close>

text \<open>While a skill is prepared there is neither a session nor a trial.\<close>

definition quiet_inv :: "'b runtime \<Rightarrow> bool" where
  "quiet_inv s \<longleftrightarrow> idle_inv s \<and> rt_trial_id s = None"

lemma quiet_imp_inv: "quiet_inv s \<Longrightarrow> runtime_inv s"
  by (simp add: quiet_inv_def idle_inv_def)

lemma prepare_enter_spec:
  assumes "prepare_enter skill timeout s = (r, s')" and "runtime_inv s"
  shows "r = Inr drain \<Longrightarrow>
      quiet_inv s' \<and> skill \<noteq> [] \<and> rt_trial_id s = None
      \<and> (if drain then rt_state s' = RS_DRAINING \<and> rt_state s = RS_READY
         else rt_state s' = RS_LOADING \<and> rt_state s = RS_STARTING)"
    and "r = Inl e \<Longrightarrow> is_exception e \<and> (s' = s \<or> (idle_inv s' \<and> rt_state s' = rt_state s))"
proof -
  have idle: "idle_inv (invalidate_session SS_ABORTED s)" using assms(2) by (simp add: invalidate_idle)
  show "quiet_inv s' \<and> skill \<noteq> [] \<and> rt_trial_id s = None
      \<and> (if drain then rt_state s' = RS_DRAINING \<and> rt_state s = RS_READY
         else rt_state s' = RS_LOADING \<and> rt_state s = RS_STARTING)" if "r = Inr drain"
    using assms(1) that idle
    by (cases "rt_state s")
      (auto simp: prepare_enter_def invalidate_session_locked_def transition_locked_cases op_simps
        quiet_inv_def split: if_splits)
  show "is_exception e \<and> (s' = s \<or> (idle_inv s' \<and> rt_state s' = rt_state s))" if "r = Inl e"
    using assms(1) that idle
    by (cases "rt_state s")
      (auto simp: prepare_enter_def invalidate_session_locked_def transition_locked_cases op_simps
        split: if_splits)
qed

lemma prepare_enter_inv [inv_intros]: "keeps runtime_inv (prepare_enter skill timeout)"
proof
  fix s :: "'a runtime" assume inv: "runtime_inv s"
  obtain r s' where run: "prepare_enter skill timeout s = (r, s')" by fastforce
  show "runtime_inv (snd (prepare_enter skill timeout s))"
    using prepare_enter_spec [OF run inv] inv run
    by (cases r) (auto simp: quiet_imp_inv idle_imp_inv)
qed

lemma quiet_update [simp]:
  "quiet_inv (s\<lparr>rt_exec_lock := b\<rparr>) = quiet_inv s"
  "quiet_inv (s\<lparr>rt_backend := be\<rparr>) = quiet_inv s"
  "quiet_inv (s\<lparr>rt_in_flight := n\<rparr>) = quiet_inv s"
  "quiet_inv (s\<lparr>rt_state := st\<rparr>) = quiet_inv s"
  "quiet_inv (release_exec s) = quiet_inv s"
  by (simp_all add: quiet_inv_def release_exec_def)

lemma fail_and_raise_quiet [inv_intros]: "keeps quiet_inv (fail_and_raise c e)"
proof
  fix s assume "quiet_inv s"
  then show "quiet_inv (snd (fail_and_raise c e s))"
    using fail_locked_idle [of s c]
    by (simp add: quiet_inv_def fail_and_raise_apply idle_imp_inv)
qed

lemma transition_quiet [inv_intros]: "keeps quiet_inv (transition_locked t)"
  by (rule keepsI) (simp add: transition_locked_cases)

lemma prepare_drain_quiet [inv_intros]: "keeps quiet_inv (prepare_drain deadline now)"
  unfolding prepare_drain_def by (intro inv_intros)

lemma acquire_exec_quiet [inv_intros]: "keeps quiet_inv acquire_exec"
  by (rule keepsI) (simp add: acquire_exec_apply)

lemma on_backend_quiet [inv_intros]: "keeps quiet_inv (on_backend m)"
  by (rule keepsI) (simp add: op_simps split: prod.split)

lemma prepare_backend_quiet [inv_intros]: "keeps quiet_inv (prepare_backend d skill)"
  unfolding prepare_backend_def by (intro inv_intros)

lemma prepare_failed_quiet [inv_intros]: "keeps quiet_inv (prepare_failed e)"
  unfolding prepare_failed_def by (intro inv_intros)

lemma prepare_busy_quiet [inv_intros]: "keeps quiet_inv prepare_busy"
  unfolding prepare_busy_def by (intro inv_intros)

lemma prepare_commit_apply:
  "prepare_commit skill i s =
     (let s1 = s\<lparr>rt_active_skill := Some skill, rt_identity := Some i, rt_generation := rt_generation s + 1\<rparr>
      in if rt_state s = RS_LOADING then (Inr (status_dict (s1\<lparr>rt_state := RS_READY\<rparr>)), s1\<lparr>rt_state := RS_READY\<rparr>)
         else (Inl (err STATE_REJECTED ''illegal runtime state transition''
                [(''current'', PStr (runtime_value (rt_state s))), (''target'', PStr ''READY'')]), s1))"
  by (cases "rt_state s")
    (simp_all add: prepare_commit_def transition_locked_cases op_simps status_def Let_def)

lemma prepare_commit_quiet [inv_intros]: "keeps quiet_inv (prepare_commit skill i)"
proof
  fix s assume q: "quiet_inv s"
  then have "ta_active (rt_audit s) = None"
    by (auto simp: quiet_inv_def idle_inv_def runtime_inv_def trial_ok_def)
  with q show "quiet_inv (snd (prepare_commit skill i s))"
    by (simp add: prepare_commit_apply Let_def quiet_inv_def idle_inv_def runtime_inv_def
        leases_ok_def trial_ok_def)
qed

lemma prepare_rest_quiet:
  "keeps quiet_inv (seq_op (when_op drain (bind_op (prepare_drain x y) (\<lambda>_. ret ())))
     (bind_op acquire_exec (\<lambda>acquired.
      if \<not> acquired then prepare_busy
      else bind_op (finally_op (catch_op (prepare_backend d skill) prepare_failed) release_exec)
             (prepare_commit skill))))"
  by (intro inv_intros) auto

lemma prepare_skill_inv [inv_intros]: "keeps runtime_inv (prepare_skill d skill timeout)"
proof
  fix s :: "'a runtime" assume inv: "runtime_inv s"
  obtain r s' where run: "prepare_enter skill timeout s = (r, s')" by fastforce
  show "runtime_inv (snd (prepare_skill d skill timeout s))"
  proof (cases r)
    case (Inl e)
    with run keepsD [OF prepare_enter_inv inv, of skill timeout] show ?thesis
      by (simp add: prepare_skill_def op_simps)
  next
    case (Inr drain)
    with prepare_enter_spec(1) [OF run inv] have "quiet_inv s'" by blast
    from keepsD [OF prepare_rest_quiet this] run Inr show ?thesis
      by (simp add: prepare_skill_def bind_op_apply [of "prepare_enter skill timeout"] quiet_imp_inv)
  qed
qed

subsection \<open>The trial\<close>

lemma trial_ok_audit:
  assumes "trial_ok s" and "store_inv st'" and "ta_active st' = ta_active (rt_audit s)"
  shows "trial_ok (s\<lparr>rt_audit := st'\<rparr>)"
  using assms by (simp add: trial_ok_def)

lemma leases_ok_audit [simp]:
  "leases_ok (s\<lparr>rt_audit := st\<rparr>) = leases_ok s"
  "leases_ok (s\<lparr>rt_backend := b\<rparr>) = leases_ok s"
  by (simp_all add: leases_ok_def lease_current_def)

text \<open>With no session, the leases do not depend on the trial.\<close>

lemma leases_ok_idle:
  "rt_session s = None \<Longrightarrow> leases_ok s \<longleftrightarrow> (\<forall>a < length (rt_leases s). revoked (rt_leases s ! a))"
  by (simp add: leases_ok_def)

lemma begin_trial_section_spec:
  assumes "begin_trial_section d t seed s = (r, s')" and inv: "runtime_inv s"
  shows "runtime_inv s'"
    and "r = Inr st \<Longrightarrow> rt_state s = RS_READY \<and> rt_trial_id s = None \<and> rt_trial_id s' = Some t
      \<and> st = status_dict s'"
    and "r = Inr st \<Longrightarrow>
      fst (be_reset_prng (rd_backend d) seed (rt_backend s)) = Inr ()
      \<and> rt_backend s' = snd (be_reset_prng (rd_backend d) seed (rt_backend s))"
proof -
  obtain rb b where reset: "be_reset_prng (rd_backend d) seed (rt_backend s) = (rb, b)" by fastforce
  note unfolds = begin_trial_section_def op_simps status_def
  have all: "runtime_inv s' \<and> (\<forall>st. r = Inr st \<longrightarrow>
      rt_state s = RS_READY \<and> rt_trial_id s = None \<and> rt_trial_id s' = Some t \<and> st = status_dict s'
      \<and> rb = Inr () \<and> rt_backend s' = b)"
  proof (cases "rt_state s = RS_READY \<and> rt_trial_id s = None")
    case False
    with assms show ?thesis by (auto simp: unfolds split: if_splits)
  next
    case ready: True
    show ?thesis
    proof (cases "rt_active_skill s")
      case None
      with ready assms show ?thesis by (auto simp: unfolds)
    next
      case (Some skill)
      obtain ra st' where started: "audit_begin t skill (rt_generation s) seed (rt_audit s) = (ra, st')" by fastforce
      from inv ready have none: "rt_session s = None" "ta_active (rt_audit s) = None" "store_inv (rt_audit s)"
        by (auto simp: runtime_inv_def leases_ok_def lease_current_def trial_ok_def)
      have st': "store_inv st'" using audit_begin_frame [OF none(3), of t skill "rt_generation s" seed] started
        by (simp add: step_frame_def)
      show ?thesis
      proof (cases ra)
        case (Inl e)
        with started audit_begin_Inl(1) [of t skill "rt_generation s" seed "rt_audit s" e st']
        have "ta_active st' = ta_active (rt_audit s)" by simp
        with assms ready Some reset started Inl st' inv trial_ok_audit [of s st'] show ?thesis
          by (auto simp: unfolds runtime_inv_def trial_ok_def split: sum.splits)
      next
        case (Inr a)
        with started audit_begin_Inr [of t skill "rt_generation s" seed "rt_audit s" a st']
        have "a = new_trial t skill (rt_generation s) seed" "ta_active st' = Some a" by simp_all
        with assms ready Some reset started Inr st' inv none show ?thesis
          by (auto simp: unfolds runtime_inv_def leases_ok_idle trial_ok_def new_trial_def split: sum.splits)
      qed
    qed
  qed
  then show "runtime_inv s'" by blast
  show "r = Inr st \<Longrightarrow> rt_state s = RS_READY \<and> rt_trial_id s = None \<and> rt_trial_id s' = Some t
      \<and> st = status_dict s'"
    and "r = Inr st \<Longrightarrow>
      fst (be_reset_prng (rd_backend d) seed (rt_backend s)) = Inr ()
      \<and> rt_backend s' = snd (be_reset_prng (rd_backend d) seed (rt_backend s))"
    using all reset by auto
qed

lemma begin_trial_section_inv [inv_intros]: "keeps runtime_inv (begin_trial_section d t seed)"
  by (rule keepsI) (metis begin_trial_section_spec(1) prod.collapse)

lemma begin_trial_failed_inv [inv_intros]: "keeps runtime_inv (begin_trial_failed e)"
  unfolding begin_trial_failed_def by (intro inv_intros)

lemma keeps_split_pair [inv_intros]: "keeps P (f (fst p) (snd p)) \<Longrightarrow> keeps P (case p of (x, y) \<Rightarrow> f x y)"
  by (simp add: case_prod_beta)

lemma begin_trial_inv [inv_intros]: "keeps runtime_inv (begin_trial d t seed)"
  unfolding begin_trial_def by (intro inv_intros) simp_all

subsection \<open>Sessions\<close>

lemma open_session_inv [inv_intros]: "keeps runtime_inv (open_session d i tok now)"
proof
  fix s :: "'a runtime" assume inv: "runtime_inv s"
  show "runtime_inv (snd (open_session d i tok now s))"
  proof (cases "active_lease s")
    case (Some p)
    with inv show ?thesis by (auto simp: open_session_def op_simps split: option.splits)
  next
    case None
    with inv have "rt_session s = None" by (simp add: active_lease_None)
    with None inv show ?thesis
      by (auto simp: open_session_def op_simps Let_def runtime_inv_def leases_ok_def trial_ok_def
          lease_current_def new_lease_def nth_append less_Suc_eq split: option.splits)
  qed
qed

lemma close_session_inv [inv_intros]: "keeps runtime_inv (close_session i)"
  by (rule keepsI)
    (auto simp: close_session_def op_simps invalidate_session_locked_def status_def
      intro: idle_imp_inv invalidate_idle split: option.splits)

subsection \<open>\<open>infer\<close>\<close>

lemma validate_request_locked_spec:
  assumes "validate_request_locked r now s = (res, s')" and inv: "runtime_inv s"
  shows "runtime_inv s'" and "rt_backend s' = rt_backend s" and "rt_audit s' = rt_audit s"
    and "rt_exec_lock s' = rt_exec_lock s" and "rt_in_flight s' = rt_in_flight s"
    and "rt_state s' = rt_state s" and "rt_generation s' = rt_generation s"
    and "res = Inr a \<Longrightarrow> s' = s"
  using assms
  by (auto simp: validate_request_locked_def op_simps invalidate_session_locked_def
      intro: idle_imp_inv invalidate_idle split: option.splits if_splits sum.splits)

lemma validate_inv [inv_intros]: "keeps runtime_inv (validate_request_locked r now)"
  by (rule keepsI) (metis validate_request_locked_spec(1) prod.collapse)

lemma infer_enter_inv [inv_intros]: "keeps runtime_inv (infer_enter r now)"
  unfolding infer_enter_def by (intro inv_intros) (simp add: keeps_def op_simps)

lemma record_request_trial:
  "map_option (\<lambda>a. (at_trial_id a, at_skill a, at_generation a))
       (ta_active (snd (record_request np row actions obs st)))
     = map_option (\<lambda>a. (at_trial_id a, at_skill a, at_generation a)) (ta_active st)"
proof (cases "ta_active st")
  case None
  then show ?thesis by (simp add: record_request_None)
next
  case (Some a)
  obtain r st' where run: "record_request np row actions obs st = (r, st')" by fastforce
  with record_request_Some [OF run Some] Some show ?thesis
    by (cases r) (auto simp: same_except_def count_request_def)
qed

lemma record_request_inv [inv_intros]: "keeps runtime_inv (on_audit (record_request np row actions obs))"
proof
  fix s :: "'a runtime" assume inv: "runtime_inv s"
  let ?st' = "snd (record_request np row actions obs (rt_audit s))"
  have "store_inv ?st'" using record_request_frame inv
    by (auto simp: runtime_inv_def trial_ok_def step_frame_def)
  moreover note record_request_trial [of np row actions obs "rt_audit s"]
  ultimately show "runtime_inv (snd (on_audit (record_request np row actions obs) s))"
    using inv
    by (cases "ta_active (rt_audit s)")
      (auto simp: runtime_inv_def trial_ok_def op_simps split: prod.splits)
qed

lemma infer_compute_inv [inv_intros]: "keeps runtime_inv (infer_compute d r)"
  unfolding infer_compute_def infer_record_def Let_def by (intro inv_intros)

lemma infer_failed_inv [inv_intros]: "keeps runtime_inv (infer_failed e)"
  unfolding infer_failed_def by (cases e) (auto intro!: inv_intros)

lemma update_sequence_nth:
  fixes s :: "'b runtime" and a :: nat and n :: "session_lease \<Rightarrow> int"
  defines "s' \<equiv> update_lease a (\<lambda>l. l\<lparr>sl_next_sequence := n l\<rparr>) s"
  shows "sl_state (rt_leases s' ! b) = sl_state (rt_leases s ! b)"
    and "sl_token (rt_leases s' ! b) = sl_token (rt_leases s ! b)"
    and "sl_trial_id (rt_leases s' ! b) = sl_trial_id (rt_leases s ! b)"
    and "sl_skill (rt_leases s' ! b) = sl_skill (rt_leases s ! b)"
    and "sl_generation (rt_leases s' ! b) = sl_generation (rt_leases s ! b)"
    and "sl_session_id (rt_leases s' ! b) = sl_session_id (rt_leases s ! b)"
proof -
  have "rt_leases s' ! b = rt_leases s ! b
      \<or> rt_leases s' ! b = (rt_leases s ! b)\<lparr>sl_next_sequence := n (rt_leases s ! b)\<rparr>"
    by (cases "a < length (rt_leases s)"; cases "a = b")
      (simp_all add: s'_def update_lease_def list_update_beyond not_less)
  then show "sl_state (rt_leases s' ! b) = sl_state (rt_leases s ! b)"
    and "sl_token (rt_leases s' ! b) = sl_token (rt_leases s ! b)"
    and "sl_trial_id (rt_leases s' ! b) = sl_trial_id (rt_leases s ! b)"
    and "sl_skill (rt_leases s' ! b) = sl_skill (rt_leases s ! b)"
    and "sl_generation (rt_leases s' ! b) = sl_generation (rt_leases s ! b)"
    and "sl_session_id (rt_leases s' ! b) = sl_session_id (rt_leases s ! b)"
    by auto
qed

lemma update_lease_fields [simp]:
  "rt_session (update_lease a f s) = rt_session s"
  "rt_state (update_lease a f s) = rt_state s"
  "rt_trial_id (update_lease a f s) = rt_trial_id s"
  "rt_active_skill (update_lease a f s) = rt_active_skill s"
  "rt_generation (update_lease a f s) = rt_generation s"
  "rt_audit (update_lease a f s) = rt_audit s"
  "rt_backend (update_lease a f s) = rt_backend s"
  "rt_exec_lock (update_lease a f s) = rt_exec_lock s"
  "rt_in_flight (update_lease a f s) = rt_in_flight s"
  "length (rt_leases (update_lease a f s)) = length (rt_leases s)"
  by (simp_all add: update_lease_def)

lemma update_sequence_inv:
  "runtime_inv (update_lease a (\<lambda>l. l\<lparr>sl_next_sequence := n l\<rparr>) s) = runtime_inv s"
  by (simp add: runtime_inv_def leases_ok_def trial_ok_def lease_current_def revoked_def
      update_sequence_nth)

lemma infer_commit_inv [inv_intros]: "keeps runtime_inv (infer_commit r a oc)"
  unfolding infer_commit_def
  by (intro inv_intros) (simp add: keeps_def op_simps update_sequence_inv)

lemma infer_locked_inv [inv_intros]: "keeps runtime_inv (infer_locked d r now)"
proof
  fix s :: "'a runtime" assume inv: "runtime_inv s"
  obtain res s1 where run: "infer_enter r now s = (res, s1)" by fastforce
  with keepsD [OF infer_enter_inv inv, of r now] have s1: "runtime_inv s1" by simp
  have "keeps runtime_inv
      (finally_op (bind_op (catch_op (infer_compute d r) infer_failed) (infer_commit r a)) infer_leave)" for a
    by (intro inv_intros) simp
  with run s1 show "runtime_inv (snd (infer_locked d r now s))"
    by (cases res) (auto simp: infer_locked_def dest: keepsD)
qed

lemma infer_inv [inv_intros]: "keeps runtime_inv (infer d now payload)"
  unfolding infer_def by (intro inv_intros)

subsection \<open>Ending a trial\<close>

text \<open>An audit call that ends the trial: it closes it, or raises a fault and leaves it active.\<close>

definition ends_trial :: "(trial_store, 'a) meth \<Rightarrow> bool" where
  "ends_trial m \<longleftrightarrow>
     (\<forall>st. store_inv st \<longrightarrow> store_inv (snd (m st))
        \<and> (case fst (m st) of Inr x \<Rightarrow> ta_active (snd (m st)) = None
           | Inl e \<Rightarrow> is_fault e \<and> ta_active (snd (m st)) = ta_active st))"

lemma ends_trial_end: "ends_trial audit_end"
proof -
  have "store_inv (snd (audit_end st))" if "store_inv st" for st
    using audit_end_frame [OF that] by (simp add: step_frame_def)
  moreover have "case fst (audit_end st) of Inr x \<Rightarrow> ta_active (snd (audit_end st)) = None
      | Inl e \<Rightarrow> is_fault e \<and> ta_active (snd (audit_end st)) = ta_active st" for st
    using audit_end_Inr(2) [of st _ "snd (audit_end st)"] audit_end_Inl(1,2) [of st _ "snd (audit_end st)"]
    by (cases "audit_end st") (auto split: sum.split)
  ultimately show ?thesis by (simp add: ends_trial_def)
qed

lemma ends_trial_terminate: "ends_trial (audit_terminate stat reason sq)"
proof -
  let ?m = "audit_terminate stat reason sq"
  have "store_inv (snd (?m st))" if "store_inv st" for st
    using audit_terminate_frame [OF that] by (simp add: step_frame_def)
  moreover have "case fst (?m st) of Inr x \<Rightarrow> ta_active (snd (?m st)) = None
      | Inl e \<Rightarrow> is_fault e \<and> ta_active (snd (?m st)) = ta_active st" for st
    using audit_terminate_Inr(1) [of stat reason sq st _ "snd (?m st)"]
      audit_terminate_Inl(2,3) [of stat reason sq st _ "snd (?m st)"]
    by (cases "?m st") (auto split: sum.split)
  ultimately show ?thesis by (simp add: ends_trial_def)
qed

lemma ends_trial_abort: "ends_trial (audit_abort reason)" "ends_trial (audit_mark_ambiguous reason n)"
  by (simp_all add: audit_abort_def audit_mark_ambiguous_def ends_trial_terminate)

text \<open>The common tail of \<open>end_trial\<close>, \<open>abort\<close> and \<open>mark_transport_ambiguous\<close>.\<close>

lemma commit_trial_apply:
  assumes "ends_trial m" and "store_inv (rt_audit s)"
  shows "bind_op (catch_op (on_audit m) commit_failed) (\<lambda>x. seq_op (modify_op clear_trial) (k x)) s
    = (let st' = snd (m (rt_audit s)) in
       case fst (m (rt_audit s)) of
         Inr x \<Rightarrow> k x (clear_trial (s\<lparr>rt_audit := st'\<rparr>))
       | Inl e \<Rightarrow> (Inl e, snd (fail_locked AUDIT_COMMIT_FAILED (s\<lparr>rt_audit := st'\<rparr>))))"
  using assms
  by (cases "m (rt_audit s)")
    (auto simp: ends_trial_def op_simps commit_failed_def fail_and_raise_apply split: sum.splits)

lemma idle_audit:
  assumes "idle_inv s" and "store_inv st'" and "ta_active st' = ta_active (rt_audit s)"
  shows "idle_inv (s\<lparr>rt_audit := st'\<rparr>)"
  using assms by (auto simp: idle_inv_def runtime_inv_def trial_ok_def)

lemma idle_clear:
  assumes "idle_inv s" and "store_inv st'" and "ta_active st' = None"
  shows "idle_inv (clear_trial (s\<lparr>rt_audit := st'\<rparr>))"
  using assms by (auto simp: idle_inv_def runtime_inv_def leases_ok_def trial_ok_def clear_trial_def)

lemma commit_trial_idle:
  assumes "ends_trial m" and "idle_inv s" and "\<And>x. keeps idle_inv (k x)"
  shows "idle_inv (snd (bind_op (catch_op (on_audit m) commit_failed)
    (\<lambda>x. seq_op (modify_op clear_trial) (k x)) s))"
proof -
  from assms(2) have st: "store_inv (rt_audit s)" by (simp add: idle_inv_def runtime_inv_def trial_ok_def)
  with assms(1) have m: "store_inv (snd (m (rt_audit s)))"
    "case fst (m (rt_audit s)) of Inr x \<Rightarrow> ta_active (snd (m (rt_audit s))) = None
     | Inl e \<Rightarrow> is_fault e \<and> ta_active (snd (m (rt_audit s))) = ta_active (rt_audit s)"
    by (simp_all add: ends_trial_def)
  show ?thesis
  proof (cases "fst (m (rt_audit s))")
    case (Inl e)
    with m assms(2) have "idle_inv (s\<lparr>rt_audit := snd (m (rt_audit s))\<rparr>)" by (simp add: idle_audit)
    with Inl show ?thesis
      by (simp add: commit_trial_apply [OF assms(1) st] fail_locked_idle idle_imp_inv)
  next
    case (Inr x)
    with m assms(2) have "idle_inv (clear_trial (s\<lparr>rt_audit := snd (m (rt_audit s))\<rparr>))"
      by (simp add: idle_clear)
    with Inr keepsD [OF assms(3)] show ?thesis by (simp add: commit_trial_apply [OF assms(1) st])
  qed
qed

lemma end_trial_inv [inv_intros]: "keeps runtime_inv end_trial"
proof
  fix s :: "'a runtime" assume inv: "runtime_inv s"
  show "runtime_inv (snd (end_trial s))"
  proof (cases "active_lease s = None \<and> rt_trial_id s \<noteq> None")
    case False
    with inv show ?thesis by (auto simp: end_trial_def op_simps)
  next
    case True
    with inv have "idle_inv s" by (simp add: idle_inv_def active_lease_None)
    from commit_trial_idle [OF ends_trial_end this, of ret] True show ?thesis
      by (auto simp: end_trial_def gets_op_apply bind_op_apply [of "gets_op _"] keeps_ret idle_imp_inv)
  qed
qed

lemma state_and_trial_idle [inv_intros]: "keeps P (state_and_trial t)"
  unfolding state_and_trial_def by (rule keeps_gets)

lemma abort_section_inv [inv_intros]: "keeps runtime_inv (abort_section reason)"
proof
  fix s :: "'a runtime" assume "runtime_inv s"
  then have "idle_inv (invalidate_session SS_ABORTED s)" by (simp add: invalidate_idle)
  from commit_trial_idle [OF ends_trial_abort(1) this, of state_and_trial reason]
  show "runtime_inv (snd (abort_section reason s))"
    by (simp add: abort_section_def invalidate_session_locked_def seq_op_apply [of "modify_op _"]
        modify_op_apply state_and_trial_idle idle_imp_inv)
qed

lemma abort_inv [inv_intros]: "keeps runtime_inv (abort reason)"
  unfolding abort_def by (intro inv_intros) simp

lemma fail_locked_keeps_idle: "keeps idle_inv (fail_locked c)"
  by (rule keepsI) (simp add: fail_locked_idle idle_imp_inv)

lemma mark_transport_ambiguous_inv [inv_intros]: "keeps runtime_inv (mark_transport_ambiguous i n)"
proof
  fix s :: "'a runtime" assume inv: "runtime_inv s"
  then have idle: "idle_inv (invalidate_session SS_ABORTED s)" by (simp add: invalidate_idle)
  have k: "keeps idle_inv (seq_op (fail_locked SERVER_FAILED) (state_and_trial x))" for x
    by (intro keeps_seq fail_locked_keeps_idle state_and_trial_idle)
  from commit_trial_idle [OF ends_trial_abort(2) idle, of "\<lambda>x. seq_op (fail_locked SERVER_FAILED) (state_and_trial x)" "''inference response transport failed''" n, OF k]
  show "runtime_inv (snd (mark_transport_ambiguous i n s))"
    using inv
    by (auto simp: mark_transport_ambiguous_def bind_op_apply [of "gets_op _"] gets_op_apply
        invalidate_session_locked_def seq_op_apply [of "modify_op _"] modify_op_apply
        state_and_trial_def idle_imp_inv split: option.split)
qed

lemma close_section_apply:
  fixes s :: "'b runtime"
  assumes "trial_ok s"
  shows "close_section s =
    (let s1 = (invalidate_session SS_ABORTED s)\<lparr>rt_state := RS_STOPPING\<rparr>;
         st' = snd (audit_abort ''server shutdown'' (rt_audit s))
     in if rt_trial_id s = None then (Inr None, s1)
        else case fst (audit_abort ''server shutdown'' (rt_audit s)) of
               Inr _ \<Rightarrow> (Inr None, clear_trial (s1\<lparr>rt_audit := st'\<rparr>))
             | Inl e \<Rightarrow> (Inr (Some e), s1\<lparr>rt_audit := st'\<rparr>))"
proof -
  obtain r st' where abort: "audit_abort ''server shutdown'' (rt_audit s) = (r, st')" by fastforce
  have state: "seq_op (when_op (rt_state s \<noteq> RS_STOPPING) (transition_locked RS_STOPPING))
      (seq_op (invalidate_session_locked SS_ABORTED) k) s
    = k ((invalidate_session SS_ABORTED s)\<lparr>rt_state := RS_STOPPING\<rparr>)" for k :: "('b runtime, exn option) meth"
    by (cases "rt_state s")
      (simp_all add: op_simps transition_locked_cases invalidate_session_locked_def
        invalidate_set_state set_same_state)
  show ?thesis
  proof (cases r)
    case (Inl e)
    with abort have "is_fault e"
      using audit_terminate_Inl(3) [of "''ABORTED''" "''server shutdown''" None "rt_audit s" e st']
      by (auto simp: audit_abort_def)
    with Inl abort show ?thesis
      by (simp add: close_section_def gets_op_apply bind_op_apply state)
        (simp add: op_simps Let_def)
  next
    case (Inr x)
    with abort show ?thesis
      by (simp add: close_section_def gets_op_apply bind_op_apply state)
        (simp add: op_simps Let_def)
  qed
qed

lemma close_section_inv [inv_intros]: "keeps runtime_inv close_section"
proof
  fix s :: "'a runtime" assume inv: "runtime_inv s"
  let ?s1 = "(invalidate_session SS_ABORTED s)\<lparr>rt_state := RS_STOPPING\<rparr>"
  let ?st' = "snd (audit_abort ''server shutdown'' (rt_audit s))"
  from inv have trial: "trial_ok s" "store_inv (rt_audit s)" by (simp_all add: runtime_inv_def trial_ok_def)
  from inv have s1: "idle_inv ?s1" by (simp add: invalidate_idle)
  have "case fst (audit_abort ''server shutdown'' (rt_audit s)) of Inr x \<Rightarrow> ta_active ?st' = None
      | Inl e \<Rightarrow> ta_active ?st' = ta_active (rt_audit s)" "store_inv ?st'"
    using ends_trial_abort(1) [of "''server shutdown''"] trial(2)
    by (auto simp: ends_trial_def split: sum.splits)
  with s1 idle_audit [OF s1, of ?st'] idle_clear [OF s1, of ?st']
  show "runtime_inv (snd (close_section s))"
    by (auto simp: close_section_apply [OF trial(1)] Let_def idle_imp_inv split: sum.splits)
qed

lemma close_inv [inv_intros]: "keeps runtime_inv (close d)"
proof -
  have "keeps runtime_inv (\<lambda>s. case on_backend (be_close (rd_backend d)) s of
      (r, s') \<Rightarrow> (case e of None \<Rightarrow> (r, s') | Some x \<Rightarrow> (Inl x, s')))" for e
    using on_backend_inv(1) [of "be_close (rd_backend d)"]
    by (auto simp: keeps_def split: prod.splits option.splits)
  then show ?thesis unfolding close_def by (intro inv_intros)
qed

subsection \<open>The public methods as one machine\<close>

datatype runtime_call =
    Do_status
  | Do_prepare string flt
  | Do_begin_trial pyval pyval
  | Do_open_session string string flt
  | Do_infer flt pyval
  | Do_close_session string
  | Do_end_trial
  | Do_abort string
  | Do_mark_ambiguous string int
  | Do_close

fun runtime_step :: "'b runtime_deps \<Rightarrow> runtime_call \<Rightarrow> ('b runtime, pydict) meth" where
  "runtime_step d Do_status = status"
| "runtime_step d (Do_prepare skill timeout) = prepare_skill d skill timeout"
| "runtime_step d (Do_begin_trial t seed) = begin_trial d t seed"
| "runtime_step d (Do_open_session i tok now) = open_session d i tok now"
| "runtime_step d (Do_infer now payload) = infer d now payload"
| "runtime_step d (Do_close_session i) = close_session i"
| "runtime_step d Do_end_trial = end_trial"
| "runtime_step d (Do_abort reason) = abort reason"
| "runtime_step d (Do_mark_ambiguous i n) = mark_transport_ambiguous i n"
| "runtime_step d Do_close = map_op (\<lambda>_. []) (close d)"

lemma runtime_step_inv: "keeps runtime_inv (runtime_step d c)"
  by (cases c) (simp_all add: inv_intros)

interpretation runtime_machine: invariant_machine "runtime_step d" runtime_inv for d
  by unfold_locales (rule keepsD [OF runtime_step_inv])

end
