(* ===== verification/Oven_RuntimeProgress.thy ===== *)
theory Oven_RuntimeProgress
  imports Oven_RuntimeInv
begin

text \<open>
  What no operation of the runtime undoes: the generation never decreases, a failed or
  stopping runtime stays so, leases are never forgotten and a revoked lease stays revoked.
  Each section keeps \<open>progress s0\<close> for every earlier state \<open>s0\<close>, so every method does, and the
  runtime is a machine with the generation as its level.
\<close>

definition closed_state :: "runtime_state \<Rightarrow> bool" where
  "closed_state st \<longleftrightarrow> st \<in> {RS_FAILED, RS_STOPPING}"

definition lease_progress :: "session_lease \<Rightarrow> session_lease \<Rightarrow> bool" where
  "lease_progress l l' \<longleftrightarrow>
     (revoked l \<longrightarrow> revoked l') \<and> sl_session_id l' = sl_session_id l
     \<and> sl_next_sequence l \<le> sl_next_sequence l' \<and> sl_token l' \<in> {sl_token l, []}"

definition progress :: "'b runtime \<Rightarrow> 'b runtime \<Rightarrow> bool" where
  "progress s0 s \<longleftrightarrow>
     rt_generation s0 \<le> rt_generation s
     \<and> (closed_state (rt_state s0) \<longrightarrow> closed_state (rt_state s))
     \<and> length (rt_leases s0) \<le> length (rt_leases s)
     \<and> (\<forall>a < length (rt_leases s0). lease_progress (rt_leases s0 ! a) (rt_leases s ! a))"

lemma lease_progress_refl [simp]: "lease_progress l l"
  by (simp add: lease_progress_def)

lemma lease_progress_trans: "lease_progress a b \<Longrightarrow> lease_progress b c \<Longrightarrow> lease_progress a c"
  by (auto simp: lease_progress_def)

lemma progress_refl [simp]: "progress s s"
  by (simp add: progress_def)

lemma progress_trans:
  assumes "progress a b" and "progress b c"
  shows "progress a c"
  unfolding progress_def
proof (intro conjI allI impI)
  fix i assume "i < length (rt_leases a)"
  with assms show "lease_progress (rt_leases a ! i) (rt_leases c ! i)"
    by (auto simp: progress_def intro: lease_progress_trans)
qed (use assms in \<open>auto simp: progress_def\<close>)

lemma progress_update [simp]:
  "progress s0 (s\<lparr>rt_last_error := e\<rparr>) = progress s0 s"
  "progress s0 (s\<lparr>rt_exec_lock := b\<rparr>) = progress s0 s"
  "progress s0 (s\<lparr>rt_backend := be\<rparr>) = progress s0 s"
  "progress s0 (s\<lparr>rt_audit := au\<rparr>) = progress s0 s"
  "progress s0 (s\<lparr>rt_in_flight := n\<rparr>) = progress s0 s"
  "progress s0 (s\<lparr>rt_trial_id := t\<rparr>) = progress s0 s"
  "progress s0 (s\<lparr>rt_trial_root_seed := sd\<rparr>) = progress s0 s"
  "progress s0 (release_exec s) = progress s0 s"
  "progress s0 (infer_leave s) = progress s0 s"
  "progress s0 (clear_trial s) = progress s0 s"
  by (simp_all add: progress_def release_exec_def infer_leave_def clear_trial_def)

lemma progress_lease:
  assumes "progress s0 s"
    and "\<And>l. lease_progress l (f l)"
  shows "progress s0 (update_lease a f s)"
proof -
  have nth: "rt_leases (update_lease a f s) ! b =
      (if b = a then f (rt_leases s ! b) else rt_leases s ! b)" if "b < length (rt_leases s)" for b
    using that by (simp add: update_lease_def nth_list_update)
  have "progress s (update_lease a f s)"
    using assms(2) by (simp add: progress_def nth)
  with assms(1) show ?thesis by (rule progress_trans)
qed

lemma progress_drop_session [simp]: "progress s0 (s\<lparr>rt_session := x\<rparr>) = progress s0 s"
  by (simp add: progress_def)

lemma progress_invalidate:
  "progress s0 s \<Longrightarrow> st \<noteq> SS_ACTIVE \<Longrightarrow> progress s0 (invalidate_session st s)"
  by (auto simp: invalidate_session_def lease_progress_def revoked_def intro!: progress_lease split: option.split)

lemma progress_transition [inv_intros]: "keeps (progress s0) (transition_locked t)"
proof
  fix s assume p: "progress s0 s"
  have "closed_state (rt_state s) \<Longrightarrow> t \<in> set (RUNTIME_TRANSITIONS (rt_state s)) \<Longrightarrow> closed_state t"
    using runtime_trap.trap_closed [of "rt_state s" t] by (simp add: closed_state_def)
  with p show "progress s0 (snd (transition_locked t s))"
    by (auto simp: transition_locked_cases progress_def)
qed

lemma progress_invalidate_locked [inv_intros]:
  "st \<noteq> SS_ACTIVE \<Longrightarrow> keeps (progress s0) (invalidate_session_locked st)"
  unfolding invalidate_session_locked_def by (intro inv_intros progress_invalidate)

lemma progress_fail_locked [inv_intros]: "keeps (progress s0) (fail_locked c)"
  unfolding fail_locked_def by (intro inv_intros) simp_all

lemma progress_fail_and_raise [inv_intros]: "keeps (progress s0) (fail_and_raise c e)"
  unfolding fail_and_raise_def by (intro inv_intros)

lemma progress_on_audit [inv_intros]: "keeps (progress s0) (on_audit m)"
  by (rule keepsI) (simp add: op_simps split: prod.split)

lemma progress_on_backend [inv_intros]: "keeps (progress s0) (on_backend m)"
  by (rule keepsI) (simp add: op_simps split: prod.split)

lemma progress_acquire [inv_intros]: "keeps (progress s0) acquire_exec"
  by (rule keepsI) (simp add: acquire_exec_apply)

lemma progress_commit:
  "progress s0 s \<Longrightarrow> progress s0 (s\<lparr>rt_active_skill := k, rt_identity := i,
     rt_generation := rt_generation s + 1\<rparr>)"
  by (simp add: progress_def)

lemma progress_prepare [inv_intros]: "keeps (progress s0) (prepare_skill d skill timeout)"
  unfolding prepare_skill_def prepare_enter_def prepare_drain_def prepare_busy_def prepare_backend_def
    prepare_failed_def prepare_commit_def
  by (intro inv_intros) (simp_all add: progress_commit)

lemma keeps_case_option [inv_intros]:
  "keeps P m \<Longrightarrow> (\<And>x. keeps P (f x)) \<Longrightarrow> keeps P (case opt of None \<Rightarrow> m | Some x \<Rightarrow> f x)"
  by (cases opt) simp_all

lemma progress_begin_trial [inv_intros]: "keeps (progress s0) (begin_trial d t seed)"
  unfolding begin_trial_def begin_trial_section_def begin_trial_failed_def
  by (intro inv_intros) simp_all

lemma progress_open_session [inv_intros]: "keeps (progress s0) (open_session d i tok now)"
  unfolding open_session_def Let_def
  by (intro inv_intros) (auto simp: progress_def nth_append)

lemma progress_close_session [inv_intros]: "keeps (progress s0) (close_session i)"
  unfolding close_session_def by (intro inv_intros) simp_all

lemma progress_infer_compute [inv_intros]: "keeps (progress s0) (infer_compute d r)"
  unfolding infer_compute_def infer_record_def Let_def by (intro inv_intros)

lemma progress_infer_failed [inv_intros]: "keeps (progress s0) (infer_failed e)"
  unfolding infer_failed_def by (cases e) (auto intro!: inv_intros)

lemma progress_infer_commit [inv_intros]: "keeps (progress s0) (infer_commit r a oc)"
  unfolding infer_commit_def
  by (intro inv_intros) (auto simp: lease_progress_def revoked_def intro!: progress_lease)

lemma progress_infer_enter [inv_intros]: "keeps (progress s0) (infer_enter r now)"
  unfolding infer_enter_def validate_request_locked_def by (intro inv_intros) simp_all

lemma keeps_infer_locked:
  assumes "keeps P (infer_enter r now)" and "keeps P (infer_compute d r)"
    and "\<And>e :: exn. keeps P (infer_failed e :: ('b runtime, inference_outcome) meth)"
    and "\<And>a oc. keeps P (infer_commit r a oc)"
    and "\<And>s. P s \<Longrightarrow> P (infer_leave s)" and "\<And>s. P s \<Longrightarrow> P (release_exec s)"
  shows "keeps P (infer_locked d r now)"
proof
  fix s assume "P s"
  obtain res s1 where run: "infer_enter r now s = (res, s1)" by fastforce
  with keepsD [OF assms(1) \<open>P s\<close>] have s1: "P s1" by simp
  have "keeps P (finally_op (bind_op (catch_op (infer_compute d r) infer_failed) (infer_commit r a)) infer_leave)" for a
    by (intro keeps_finally keeps_bind keeps_catch assms)
  with run s1 assms(6) show "P (snd (infer_locked d r now s))"
    by (cases res) (auto simp: infer_locked_def dest: keepsD)
qed

lemma progress_infer [inv_intros]: "keeps (progress s0) (infer d now payload)"
  unfolding infer_def by (intro inv_intros keeps_infer_locked) simp_all

lemma progress_end_trial [inv_intros]: "keeps (progress s0) end_trial"
  unfolding end_trial_def commit_failed_def by (intro inv_intros) simp_all

lemma progress_abort [inv_intros]: "keeps (progress s0) (abort reason)"
  unfolding abort_def abort_section_def commit_failed_def state_and_trial_def
  by (intro inv_intros) simp_all

lemma progress_mark [inv_intros]: "keeps (progress s0) (mark_transport_ambiguous i n)"
  unfolding mark_transport_ambiguous_def commit_failed_def state_and_trial_def
  by (intro inv_intros) simp_all

lemma progress_close [inv_intros]: "keeps (progress s0) (close d)"
proof -
  have abort: "keeps (progress s0) (\<lambda>s. case on_audit m s of
      (Inl e, s') \<Rightarrow> if is_fault e then (Inr (Some e), s') else (Inl e, s')
    | (Inr x, s') \<Rightarrow> (Inr None, clear_trial s'))" for m :: "(trial_store, pydict option) meth"
    using progress_on_audit [of s0 m] by (auto simp: keeps_def split: prod.splits sum.splits)
  have tail: "keeps (progress s0) (\<lambda>s. case on_backend (be_close (rd_backend d)) s of
      (r, s') \<Rightarrow> (case e of None \<Rightarrow> (r, s') | Some x \<Rightarrow> (Inl x, s')))" for e
    using progress_on_backend [of s0 "be_close (rd_backend d)"]
    by (auto simp: keeps_def split: prod.splits option.splits)
  show ?thesis unfolding close_def close_section_def by (intro inv_intros abort tail) simp_all
qed

lemma progress_step: "progress s (snd (runtime_step d c s))"
proof -
  have "keeps (progress s) (runtime_step d c)"
    by (cases c) (simp_all add: inv_intros)
  then show ?thesis by (rule keepsD) simp
qed

interpretation runtime_generations: monotone_machine "runtime_step d" runtime_inv rt_generation for d
  using progress_step by unfold_locales (auto simp: progress_def)

lemma progress_run: "progress s (run_ops (runtime_step d) cs s)"
proof (induction cs arbitrary: s)
  case Nil
  then show ?case by simp
next
  case (Cons c cs)
  from progress_step Cons.IH show ?case by (metis progress_trans run_ops.simps(2))
qed

end
