(* ===== verification/Oven_RuntimeProps.thy ===== *)
theory Oven_RuntimeProps
  imports Oven_RuntimeProgress
begin

text \<open>
  What \<open>PolicyRuntime\<close> promises its callers: which requests reach the policy, what an
  accepted request leaves behind, how each failure closes the runtime, and what no
  sequence of calls can undo.
\<close>

subsection \<open>Admission\<close>

text \<open>The conditions under which a request may run, over the lease \<open>l\<close> of the current session.\<close>

definition admitted :: "inference_request \<Rightarrow> flt \<Rightarrow> 'b runtime \<Rightarrow> nat \<Rightarrow> bool" where
  "admitted r now s a \<longleftrightarrow>
     rt_session s = Some a \<and> rt_state s = RS_READY \<and>
     (let l = rt_leases s ! a in
        sl_state l = SS_ACTIVE \<and> \<not> f_le (sl_expires_at l) now
        \<and> rq_session_id r = sl_session_id l
        \<and> rq_session_token r = sl_token l \<and> list_all (\<lambda>c. of_char c < (128 :: nat)) (sl_token l)
        \<and> rq_trial_id r = sl_trial_id l \<and> rt_trial_id s = Some (sl_trial_id l)
        \<and> rq_expected_skill r = sl_skill l \<and> rt_active_skill s = Some (sl_skill l)
        \<and> rq_expected_generation r = sl_generation l \<and> sl_generation l = rt_generation s
        \<and> rq_sequence r = sl_next_sequence l)"

lemma request_kind_INFER [simp]: "rq_request_kind r = INFER"
  by (cases "rq_request_kind r") simp

lemma credentials_match_True:
  "credentials_match r l = Inr True \<longleftrightarrow>
     rq_session_id r = sl_session_id l \<and> rq_session_token r = sl_token l
     \<and> list_all (\<lambda>c. of_char c < (128 :: nat)) (sl_token l)"
  by (auto simp: credentials_match_def compare_digest_def)

lemma validate_admitted:
  "validate_request_locked r now s = (Inr a, s') \<longleftrightarrow> admitted r now s a \<and> s' = s"
proof (cases "active_lease s")
  case None
  then have "\<not> admitted r now s a" by (auto simp: admitted_def active_lease_def Let_def split: option.splits)
  with None show ?thesis by (simp add: validate_request_locked_def op_simps)
next
  case (Some p)
  obtain a0 l where p: "p = (a0, l)" by (cases p)
  with Some have lease: "rt_session s = Some a0" "sl_state l = SS_ACTIVE" "l = rt_leases s ! a0"
    by (auto simp: active_lease_Some)
  show ?thesis
  proof (cases "credentials_match r l")
    case (Inl e)
    then have "\<not> admitted r now s a" using lease credentials_match_True [of r l]
      by (auto simp: admitted_def Let_def)
    with Inl Some p show ?thesis
      by (auto simp: validate_request_locked_def op_simps invalidate_session_locked_def)
  next
    case (Inr valid)
    with Some p lease credentials_match_True [of r l] show ?thesis
      by (cases valid)
        (auto simp: validate_request_locked_def op_simps admitted_def Let_def invalidate_session_locked_def)
  qed
qed

lemma infer_enter_admitted:
  "infer_enter r now s = (Inr a, s') \<longleftrightarrow>
     admitted r now s a \<and> s' = s\<lparr>rt_in_flight := rt_in_flight s + 1\<rparr>"
proof -
  have "infer_enter r now s = (Inr a, s') \<longleftrightarrow>
      (\<exists>s1. validate_request_locked r now s = (Inr a, s1) \<and> s' = s1\<lparr>rt_in_flight := rt_in_flight s1 + 1\<rparr>)"
    by (cases "validate_request_locked r now s"; cases "fst (validate_request_locked r now s)")
      (auto simp: infer_enter_def op_simps)
  then show ?thesis by (auto simp: validate_admitted)
qed

text \<open>A request that does not parse, finds the lock held or is not admitted never reaches the policy.\<close>

lemma infer_rejected:
  assumes "\<And>r a. parse_request p = Inr r \<Longrightarrow> \<not> rt_exec_lock s \<Longrightarrow> \<not> admitted r now (s\<lparr>rt_exec_lock := True\<rparr>) a"
    and "infer d now p s = (res, s')"
  shows "\<exists>e. res = Inl e" and "rt_backend s' = rt_backend s" and "rt_audit s' = rt_audit s"
    and "rt_state s' = rt_state s"
proof -
  have "(\<exists>e. res = Inl e) \<and> rt_backend s' = rt_backend s \<and> rt_audit s' = rt_audit s \<and> rt_state s' = rt_state s"
  proof (cases "parse_request p")
    case (Inl e)
    with assms(2) show ?thesis by (auto simp: infer_def op_simps)
  next
    case (Inr r)
    show ?thesis
    proof (cases "rt_exec_lock s")
      case True
      with Inr assms(2) show ?thesis by (auto simp: infer_def op_simps acquire_exec_apply)
    next
      case False
      let ?s1 = "s\<lparr>rt_exec_lock := True\<rparr>"
      obtain vr vs where v: "validate_request_locked r now ?s1 = (vr, vs)" by fastforce
      from assms(1) [OF Inr False] validate_admitted [of r now ?s1] v obtain e where "vr = Inl e"
        by (cases vr) auto
      moreover from v have "rt_backend vs = rt_backend s \<and> rt_audit vs = rt_audit s \<and> rt_state vs = rt_state s"
        by (auto simp: validate_request_locked_def op_simps invalidate_session_locked_def
            split: option.splits if_splits sum.splits)
      ultimately show ?thesis
        using Inr False assms(2) v
        by (auto simp: infer_def infer_locked_def infer_enter_def op_simps acquire_exec_apply release_exec_def)
    qed
  qed
  then show "\<exists>e. res = Inl e" "rt_backend s' = rt_backend s" "rt_audit s' = rt_audit s" "rt_state s' = rt_state s"
    by auto
qed

lemma admitted_lock [simp]: "admitted r now (s\<lparr>rt_exec_lock := b\<rparr>) a = admitted r now s a"
  by (simp add: admitted_def)

subsection \<open>An accepted request\<close>

lemma infer_compute_frame:
  assumes "infer_compute d r s = (res, s')"
  shows "rt_session s' = rt_session s" and "rt_leases s' = rt_leases s" and "rt_state s' = rt_state s"
    and "rt_in_flight s' = rt_in_flight s" and "rt_generation s' = rt_generation s"
    and "rt_trial_id s' = rt_trial_id s" and "rt_active_skill s' = rt_active_skill s"
    and "rt_exec_lock s' = rt_exec_lock s"
  using assms
  by (auto simp: infer_compute_def infer_record_def op_simps Let_def split: sum.splits prod.splits)

text \<open>What the computation of an accepted request produced, and the row it left on disk.\<close>

lemma infer_compute_Inr:
  assumes "infer_compute d r s = (Inr oc, s')"
  shows "be_infer (rd_backend d) (rq_observation r) (rq_request_kind r) (rt_backend s)
           = (Inr (io_result oc), rt_backend s')"
    and "stable_tree_hash (PDict (rq_observation r)) = Inr (io_observation_hash oc)"
    and "stable_tree_hash (request_identity r (io_observation_hash oc)) = Inr (io_request_hash oc)"
    and "stable_tree_hash (PArr (br_actions (io_result oc))) = Inr (io_action_hash oc)"
    and "record_request (rd_np d) (request_row r oc) (br_actions (io_result oc)) (rq_observation r) (rt_audit s)
           = (Inr (), rt_audit s')"
  using assms
  by (auto simp: infer_compute_def infer_record_def op_simps Let_def split: sum.splits prod.splits)

lemma dget_request_row [simp]:
  "dget (request_row r oc) ''action_hash'' = Some (PStr (io_action_hash oc))"
  "dget (request_row r oc) ''sequence'' = Some (PInt (rq_sequence r))"
  "row_is_infer (request_row r oc)"
  by (simp_all add: request_row_def row_is_infer_def)

text \<open>The whole of \<open>infer\<close> on an admitted request.\<close>

lemma infer_admitted_apply:
  assumes "parse_request p = Inr r" and "\<not> rt_exec_lock s" and "admitted r now s a"
  shows "infer d now p s =
    (let s1 = s\<lparr>rt_exec_lock := True, rt_in_flight := rt_in_flight s + 1\<rparr> in
     case infer_compute d r s1 of
       (Inr oc, s2) \<Rightarrow>
         (Inr (response_to_dict (response_of r oc)),
          infer_leave (update_lease a (\<lambda>l. l\<lparr>sl_next_sequence := sl_next_sequence l + 1\<rparr>) s2))
     | (Inl e, s2) \<Rightarrow>
         (case infer_failed e s2 of
            (Inl e', s3) \<Rightarrow> (Inl e', infer_leave s3)
          | (Inr oc, s3) \<Rightarrow> (case infer_commit r a oc s3 of (res, s4) \<Rightarrow> (res, infer_leave s4))))"
proof -
  let ?s0 = "s\<lparr>rt_exec_lock := True\<rparr>"
  let ?s1 = "s\<lparr>rt_exec_lock := True, rt_in_flight := rt_in_flight s + 1\<rparr>"
  have enter: "infer_enter r now ?s0 = (Inr a, ?s1)"
    using assms(3) by (simp add: infer_enter_admitted)
  obtain res s2 where comp: "infer_compute d r ?s1 = (res, s2)" by fastforce
  from infer_compute_frame [OF comp] assms(3)
  have "rt_session s2 = Some a" "sl_state (rt_leases s2 ! a) = SS_ACTIVE"
    by (simp_all add: admitted_def Let_def)
  then have commit: "infer_commit r a oc s2 =
      (Inr (response_to_dict (response_of r oc)),
       update_lease a (\<lambda>l. l\<lparr>sl_next_sequence := sl_next_sequence l + 1\<rparr>) s2)" for oc
    by (simp add: infer_commit_def op_simps)
  from assms enter comp commit show ?thesis
    by (auto simp: infer_def infer_locked_def op_simps acquire_exec_apply Let_def
        split: sum.splits prod.splits)
qed

lemma infer_failed_raises: "infer_failed e s = (r, s') \<Longrightarrow> \<exists>e'. r = Inl e'"
  by (cases e) (auto simp: infer_failed_def fail_and_raise_apply op_simps)

lemma infer_Inr:
  assumes "infer d now p s = (Inr resp, s')"
  obtains r a oc s2 where "parse_request p = Inr r" and "\<not> rt_exec_lock s" and "admitted r now s a"
    and "infer_compute d r (s\<lparr>rt_exec_lock := True, rt_in_flight := rt_in_flight s + 1\<rparr>) = (Inr oc, s2)"
    and "resp = response_to_dict (response_of r oc)"
    and "s' = infer_leave (update_lease a (\<lambda>l. l\<lparr>sl_next_sequence := sl_next_sequence l + 1\<rparr>) s2)"
proof -
  from infer_rejected(1) [OF _ assms] obtain r a where
    r: "parse_request p = Inr r" "\<not> rt_exec_lock s" "admitted r now s a" by force
  obtain res s2 where comp:
    "infer_compute d r (s\<lparr>rt_exec_lock := True, rt_in_flight := rt_in_flight s + 1\<rparr>) = (res, s2)" by fastforce
  show thesis
  proof (cases res)
    case (Inl e)
    obtain r3 s3 where failed: "infer_failed e s2 = (r3 :: inference_outcome res, s3)" by fastforce
    then obtain e' where "r3 = Inl e'" using infer_failed_raises by blast
    with assms infer_admitted_apply [OF r, of d] comp Inl failed show ?thesis by (simp add: Let_def)
  next
    case (Inr oc)
    with assms infer_admitted_apply [OF r, of d] comp r that show ?thesis by (simp add: Let_def)
  qed
qed

end
