(* ===== verification/Oven_RuntimeLeases.thy ===== *)
theory Oven_RuntimeLeases
  imports Oven_RuntimeProps
begin

text \<open>
  The contract of a fact about the leases alone: it survives the revocation of the current
  lease.  Every method keeps such a fact except the two places that grant something,
  \<open>open_session\<close> (a new lease) and the commit of an inference (the next sequence number).
\<close>

locale lease_predicate =
  fixes P :: "nat option \<Rightarrow> session_lease list \<Rightarrow> bool"
  assumes revoke: "P (Some a) ls \<Longrightarrow> st \<noteq> SS_ACTIVE \<Longrightarrow>
    P None (ls[a := (ls ! a)\<lparr>sl_state := st, sl_token := []\<rparr>])"
begin

definition on_leases :: "'b runtime \<Rightarrow> bool" where
  "on_leases s \<longleftrightarrow> P (rt_session s) (rt_leases s)"

lemma on_leases_update [simp]:
  "on_leases (s\<lparr>rt_last_error := e\<rparr>) = on_leases s"
  "on_leases (s\<lparr>rt_exec_lock := b\<rparr>) = on_leases s"
  "on_leases (s\<lparr>rt_backend := be\<rparr>) = on_leases s"
  "on_leases (s\<lparr>rt_audit := au\<rparr>) = on_leases s"
  "on_leases (s\<lparr>rt_in_flight := n\<rparr>) = on_leases s"
  "on_leases (s\<lparr>rt_trial_id := t\<rparr>) = on_leases s"
  "on_leases (s\<lparr>rt_trial_root_seed := sd\<rparr>) = on_leases s"
  "on_leases (s\<lparr>rt_state := st\<rparr>) = on_leases s"
  "on_leases (s\<lparr>rt_active_skill := k, rt_identity := i, rt_generation := g\<rparr>) = on_leases s"
  "on_leases (release_exec s) = on_leases s"
  "on_leases (infer_leave s) = on_leases s"
  "on_leases (clear_trial s) = on_leases s"
  by (simp_all add: on_leases_def release_exec_def infer_leave_def clear_trial_def)

lemma revoke_locked: "st \<noteq> SS_ACTIVE \<Longrightarrow> keeps on_leases (invalidate_session_locked st)"
  unfolding invalidate_session_locked_def
  by (intro keeps_modify)
    (auto simp: on_leases_def invalidate_session_def update_lease_def intro: revoke split: option.split)

lemma transition: "keeps on_leases (transition_locked t)"
  by (rule keepsI) (simp add: transition_locked_cases)

lemma collaborators: "keeps on_leases (on_audit m)" "keeps on_leases (on_backend n)" "keeps on_leases acquire_exec"
  by (rule keepsI; simp add: op_simps acquire_exec_apply split: prod.split)+

lemma fail: "keeps on_leases (fail_locked c)" "keeps on_leases (fail_and_raise c e)"
  unfolding fail_and_raise_def fail_locked_def
  by (intro inv_intros revoke_locked transition; simp)+

lemmas sections = revoke_locked transition collaborators fail

lemma prepare: "keeps on_leases (prepare_skill d skill timeout)"
  unfolding prepare_skill_def prepare_enter_def prepare_drain_def prepare_busy_def prepare_backend_def
    prepare_failed_def prepare_commit_def
  by (intro inv_intros sections) simp_all

lemma begin_trial: "keeps on_leases (begin_trial d t seed)"
  unfolding begin_trial_def begin_trial_section_def begin_trial_failed_def
  by (intro inv_intros sections) simp_all

lemma close_session: "keeps on_leases (close_session i)"
  unfolding close_session_def by (intro inv_intros sections) simp_all

lemma end_trial: "keeps on_leases end_trial"
  unfolding end_trial_def commit_failed_def by (intro inv_intros sections) simp_all

lemma abort: "keeps on_leases (abort reason)"
  unfolding abort_def abort_section_def commit_failed_def state_and_trial_def
  by (intro inv_intros sections) simp_all

lemma mark: "keeps on_leases (mark_transport_ambiguous i n)"
  unfolding mark_transport_ambiguous_def commit_failed_def state_and_trial_def
  by (intro inv_intros sections) simp_all

lemma close: "keeps on_leases (close d)"
proof -
  have abort: "keeps on_leases (\<lambda>s. case on_audit m s of
      (Inl e, s') \<Rightarrow> if is_fault e then (Inr (Some e), s') else (Inl e, s')
    | (Inr x, s') \<Rightarrow> (Inr None, clear_trial s'))" for m :: "(trial_store, pydict option) meth"
    using collaborators(1) [of m] by (auto simp: keeps_def split: prod.splits sum.splits)
  have tail: "keeps on_leases (\<lambda>s. case on_backend (be_close (rd_backend d)) s of
      (r, s') \<Rightarrow> (case e of None \<Rightarrow> (r, s') | Some x \<Rightarrow> (Inl x, s')))" for e
    using collaborators(2) [of "be_close (rd_backend d)"]
    by (auto simp: keeps_def split: prod.splits option.splits)
  show ?thesis unfolding close_def close_section_def by (intro inv_intros abort tail sections) simp_all
qed

lemma infer_enter: "keeps on_leases (infer_enter r now)"
  unfolding infer_enter_def validate_request_locked_def by (intro inv_intros sections) simp_all

lemma infer_compute: "keeps on_leases (infer_compute d r)"
  unfolding infer_compute_def infer_record_def Let_def by (intro inv_intros sections)

lemma infer_failed: "keeps on_leases (infer_failed e)"
  unfolding infer_failed_def by (cases e) (auto intro!: inv_intros sections)

text \<open>An inference that raises keeps it too: the commit was not reached.\<close>

lemma infer_Inl:
  assumes "infer d now p s = (Inl e, s')" and "on_leases s"
  shows "on_leases s'"
proof (cases "\<exists>r a. parse_request p = Inr r \<and> \<not> rt_exec_lock s \<and> admitted r now s a")
  case True
  then obtain r a where r: "parse_request p = Inr r" "\<not> rt_exec_lock s" "admitted r now s a" by blast
  let ?s1 = "s\<lparr>rt_exec_lock := True, rt_in_flight := rt_in_flight s + 1\<rparr>"
  obtain res s2 where comp: "infer_compute d r ?s1 = (res, s2)" by fastforce
  with keepsD [OF infer_compute, of ?s1 d r] assms(2) have s2: "on_leases s2" by simp
  from infer_admitted_apply [OF r, of d] assms(1) comp obtain e' where res: "res = Inl e'"
    by (cases res) (auto simp: Let_def)
  obtain r3 s3 where failed: "infer_failed e' s2 = (r3 :: inference_outcome res, s3)" by fastforce
  with keepsD [OF infer_failed s2, of e'] have "on_leases s3" by (metis snd_conv)
  moreover from failed infer_failed_raises obtain e2 where "r3 = Inl e2" by blast
  ultimately show ?thesis using infer_admitted_apply [OF r, of d] assms(1) comp res failed
    by (auto simp: Let_def)
next
  case False
  show ?thesis
  proof (cases "parse_request p")
    case (Inl e)
    with assms show ?thesis by (simp add: infer_def op_simps)
  next
    case (Inr r)
    show ?thesis
    proof (cases "rt_exec_lock s")
      case True
      with Inr assms show ?thesis by (auto simp: infer_def op_simps acquire_exec_apply)
    next
      case free: False
      obtain er s1 where enter: "infer_enter r now (s\<lparr>rt_exec_lock := True\<rparr>) = (er, s1)" by fastforce
      with keepsD [OF infer_enter, of "s\<lparr>rt_exec_lock := True\<rparr>" r now] assms(2) have "on_leases s1" by simp
      moreover from enter infer_enter_admitted [of r now "s\<lparr>rt_exec_lock := True\<rparr>"] False Inr free
      obtain e1 where "er = Inl e1" by (cases er) auto
      ultimately show ?thesis using Inr free enter assms(1)
        by (auto simp: infer_def infer_locked_def op_simps acquire_exec_apply)
    qed
  qed
qed

lemma step_keeps:
  assumes "\<And>i tok now. c \<noteq> Do_open_session i tok now" and "\<And>now p. c \<noteq> Do_infer now p"
  shows "keeps on_leases (runtime_step d c)"
proof (cases c)
  case (Do_open_session i tok now)
  with assms(1) show ?thesis by blast
next
  case (Do_infer now p)
  with assms(2) show ?thesis by blast
qed (simp_all add: prepare begin_trial close_session end_trial abort mark close status_inv keeps_map)

end

text \<open>The number of leases, and the next sequence number of the lease that is current.\<close>

interpretation lease_count: lease_predicate "\<lambda>_ ls. length ls = n" for n
  by unfold_locales simp

interpretation lease_sequence:
  lease_predicate "\<lambda>session ls. a < length ls \<and> (session = Some a \<longrightarrow> sl_next_sequence (ls ! a) = n)" for a n
  by unfold_locales simp

text \<open>Where a current lease comes from: nobody but \<open>open_session\<close> makes one.\<close>

lemma lease_count_step:
  assumes "\<And>i tok now. c \<noteq> Do_open_session i tok now"
  shows "length (rt_leases (snd (runtime_step d c s))) = length (rt_leases s)"
proof -
  let ?P = "lease_count.on_leases (length (rt_leases s)) :: 'a runtime \<Rightarrow> bool"
  have P: "?P s' \<longleftrightarrow> length (rt_leases s') = length (rt_leases s)" for s'
    by (simp add: lease_count.on_leases_def)
  have "?P (snd (runtime_step d c s))"
  proof (cases c)
    case (Do_infer now p)
    obtain r s' where run: "infer d now p s = (r, s')" by fastforce
    show ?thesis
    proof (cases r)
      case (Inl e)
      with run have "?P s'" using lease_count.infer_Inl [of d now p s e s' "length (rt_leases s)"] P by blast
      with run Do_infer show ?thesis by simp
    next
      case (Inr resp)
      with run have "infer d now p s = (Inr resp, s')" by simp
      then show ?thesis
      proof (rule infer_Inr)
        fix r a oc s2
        assume comp: "infer_compute d r (s\<lparr>rt_exec_lock := True, rt_in_flight := rt_in_flight s + 1\<rparr>) = (Inr oc, s2)"
          and s': "s' = infer_leave (update_lease a (\<lambda>l. l\<lparr>sl_next_sequence := sl_next_sequence l + 1\<rparr>) s2)"
        from infer_compute_frame(2) [OF comp] s' run Do_infer P show ?thesis
          by (simp add: infer_leave_def release_exec_def)
      qed
    qed
  next
    case (Do_open_session i tok now)
    with assms show ?thesis by blast
  qed (use P keepsD [OF lease_count.step_keeps, of c "length (rt_leases s)" s d] in simp_all)
  then show ?thesis by (simp add: P)
qed

lemma open_session_cases:
  assumes "open_session d i tok now s = (r, s')"
  obtains (opened) l where "r = Inr (session_dict d l)" and "active_lease s = None" and "rt_state s = RS_READY"
      and "s' = s\<lparr>rt_session := Some (length (rt_leases s)), rt_leases := rt_leases s @ [l]\<rparr>"
      and "sl_token l = tok" and "sl_session_id l = i" and "sl_next_sequence l = 0"
  | (refused) e where "r = Inl e" and "s' = s"
proof (cases "rt_state s = RS_READY \<and> active_lease s = None")
  case False
  with assms that(2) show ?thesis
    by (auto simp: open_session_def op_simps split: if_splits option.splits)
next
  case True
  show ?thesis
  proof (cases "rt_trial_id s"; cases "rt_active_skill s")
    fix t k assume "rt_trial_id s = Some t" "rt_active_skill s = Some k"
    with True assms that(1) [of "new_lease d i tok now k (rt_generation s) t"] show ?thesis
      by (simp add: open_session_def op_simps Let_def new_lease_def)
  qed (use True assms that(2) in \<open>auto simp: open_session_def op_simps\<close>)
qed

lemma lease_token_step:
  assumes "a < length (rt_leases (snd (runtime_step d c s)))"
    and "sl_token (rt_leases (snd (runtime_step d c s)) ! a) = tok" and "tok \<noteq> []"
  shows "(a < length (rt_leases s) \<and> sl_token (rt_leases s ! a) = tok)
      \<or> (\<exists>i now. c = Do_open_session i tok now)"
proof (cases "a < length (rt_leases s)")
  case True
  with progress_step [of s d c] assms(2,3) show ?thesis
    by (auto simp: progress_def lease_progress_def)
next
  case False
  with assms(1) lease_count_step [of c d s] obtain i tok' now where c: "c = Do_open_session i tok' now" by force
  obtain r s' where run: "open_session d i tok' now s = (r, s')" by fastforce
  then show ?thesis
  proof (cases rule: open_session_cases)
    case (opened l)
    with assms(1,2) c run False show ?thesis by (auto simp: nth_append)
  next
    case (refused e)
    with assms(1) c run False show ?thesis by simp
  qed
qed

lemma lease_token_run:
  assumes "a < length (rt_leases (run_ops (runtime_step d) cs s))"
    and "sl_token (rt_leases (run_ops (runtime_step d) cs s) ! a) = tok" and "tok \<noteq> []"
  shows "(a < length (rt_leases s) \<and> sl_token (rt_leases s ! a) = tok)
      \<or> (\<exists>i now. Do_open_session i tok now \<in> set cs)"
  using assms
proof (induction cs arbitrary: s)
  case Nil
  then show ?case by simp
next
  case (Cons c cs)
  from Cons.IH [of "snd (runtime_step d c s)"] Cons.prems
  consider "a < length (rt_leases (snd (runtime_step d c s)))"
      "sl_token (rt_leases (snd (runtime_step d c s)) ! a) = tok"
    | i now where "Do_open_session i tok now \<in> set cs" by auto
  then show ?case
  proof cases
    case 1
    from lease_token_step [OF 1 Cons.prems(3)] show ?thesis by (metis list.set_intros(1))
  next
    case 2
    then show ?thesis by auto
  qed
qed

subsection \<open>Methods that do not call the policy\<close>

lemma keeps_backend [inv_intros]:
  "keeps (\<lambda>s. rt_backend s = b) (on_audit m)"
  "keeps (\<lambda>s. rt_backend s = b) (transition_locked t)"
  "keeps (\<lambda>s. rt_backend s = b) (invalidate_session_locked st)"
  "keeps (\<lambda>s. rt_backend s = b) (fail_locked c)"
  "keeps (\<lambda>s. rt_backend s = b) (fail_and_raise c e)"
  "keeps (\<lambda>s. rt_backend s = b) acquire_exec"
  by (rule keepsI;
      simp add: op_simps transition_locked_cases invalidate_session_locked_def fail_and_raise_apply
        acquire_exec_apply split: prod.split)+

lemma backend_untouched:
  "rt_backend (snd (status s)) = rt_backend s"
  "rt_backend (snd (open_session d i tok now s)) = rt_backend s"
  "rt_backend (snd (close_session i s)) = rt_backend s"
  "rt_backend (snd (end_trial s)) = rt_backend s"
  "rt_backend (snd (abort reason s)) = rt_backend s"
  "rt_backend (snd (mark_transport_ambiguous i n s)) = rt_backend s"
proof -
  note unfolds = status_def open_session_def close_session_def end_trial_def abort_def abort_section_def
    mark_transport_ambiguous_def commit_failed_def state_and_trial_def Let_def
  show "rt_backend (snd (status s)) = rt_backend s"
    "rt_backend (snd (open_session d i tok now s)) = rt_backend s"
    "rt_backend (snd (close_session i s)) = rt_backend s"
    "rt_backend (snd (end_trial s)) = rt_backend s"
    "rt_backend (snd (abort reason s)) = rt_backend s"
    "rt_backend (snd (mark_transport_ambiguous i n s)) = rt_backend s"
    by (rule keepsD [where P = "\<lambda>s'. rt_backend s' = rt_backend s"];
        (unfold unfolds)?; (intro inv_intros)?;
        simp add: clear_trial_def release_exec_def)+
qed

subsection \<open>Sequence numbers\<close>

fun accepted_sequence :: "runtime_call \<times> pydict res \<Rightarrow> int list" where
  "accepted_sequence (Do_infer now p, Inr resp) =
     (case parse_request p of Inr r \<Rightarrow> [rq_sequence r] | Inl e \<Rightarrow> [])"
| "accepted_sequence _ = []"

lemma sequence_step:
  assumes "runtime_inv s" and "rt_session s = Some a"
    and "rt_session (snd (runtime_step d c s)) = Some a"
  shows "accepted_sequence (c, fst (runtime_step d c s))
     = [sl_next_sequence (rt_leases s ! a) ..
        sl_next_sequence (rt_leases (snd (runtime_step d c s)) ! a) - 1]"
proof -
  let ?n = "sl_next_sequence (rt_leases s ! a)"
  let ?P = "lease_sequence.on_leases a ?n :: 'a runtime \<Rightarrow> bool"
  from assms(1,2) have a: "a < length (rt_leases s)" by (auto simp: runtime_inv_def leases_ok_def)
  then have P: "?P s" by (simp add: lease_sequence.on_leases_def)
  have unchanged: "sl_next_sequence (rt_leases (snd (runtime_step d c s)) ! a) = ?n"
    if "?P (snd (runtime_step d c s))"
    using that assms(3) by (simp add: lease_sequence.on_leases_def)
  show ?thesis
  proof (cases c)
    case (Do_infer now p)
    obtain r s' where run: "infer d now p s = (r, s')" by fastforce
    show ?thesis
    proof (cases r)
      case (Inl e)
      with run lease_sequence.infer_Inl [of d now p s e s' a ?n] P Do_infer unchanged show ?thesis by simp
    next
      case (Inr resp)
      with run have "infer d now p s = (Inr resp, s')" by simp
      then show ?thesis
      proof (rule infer_Inr)
        fix r a' oc s2
        assume parse: "parse_request p = Inr r" and adm: "admitted r now s a'"
          and comp: "infer_compute d r (s\<lparr>rt_exec_lock := True, rt_in_flight := rt_in_flight s + 1\<rparr>) = (Inr oc, s2)"
          and s': "s' = infer_leave (update_lease a' (\<lambda>l. l\<lparr>sl_next_sequence := sl_next_sequence l + 1\<rparr>) s2)"
        from adm assms(2) have "a' = a" "rq_sequence r = ?n" by (simp_all add: admitted_def Let_def)
        moreover have "sl_next_sequence (rt_leases s' ! a) = ?n + 1"
          using infer_compute_frame(2) [OF comp] a s' \<open>a' = a\<close>
          by (simp add: infer_leave_def release_exec_def update_lease_def)
        ultimately show ?thesis using Do_infer run Inr parse by simp
      qed
    qed
  next
    case (Do_open_session i tok now)
    obtain r s' where run: "open_session d i tok now s = (r, s')" by fastforce
    then show ?thesis
    proof (cases rule: open_session_cases)
      case (opened l)
      with assms(1,2) have False by (simp add: active_lease_None)
      then show ?thesis ..
    next
      case (refused e)
      with run Do_open_session show ?thesis by simp
    qed
  qed (use P unchanged keepsD [OF lease_sequence.step_keeps, of c a ?n s d] in simp_all)
qed

text \<open>A session that is no longer current never becomes current again.\<close>

lemma session_gone:
  assumes "runtime_inv s" and "a < length (rt_leases s)" and "rt_session s \<noteq> Some a"
  shows "rt_session (run_ops (runtime_step d) cs s) \<noteq> Some a"
proof
  assume again: "rt_session (run_ops (runtime_step d) cs s) = Some a"
  from assms have "revoked (rt_leases s ! a)" by (auto simp: runtime_inv_def leases_ok_def)
  with progress_run [of s d cs] assms(2) have "revoked (rt_leases (run_ops (runtime_step d) cs s) ! a)"
    by (simp add: progress_def lease_progress_def)
  moreover from runtime_machine.run_inv [OF assms(1), of d cs] again
  have "sl_state (rt_leases (run_ops (runtime_step d) cs s) ! a) = SS_ACTIVE"
    by (simp add: runtime_inv_def leases_ok_def lease_current_def)
  ultimately show False by (simp add: revoked_def)
qed

lemma upto_join: "i \<le> j \<Longrightarrow> j \<le> k \<Longrightarrow> [i..j - 1] @ [j..k - 1] = [i..(k :: int) - 1]"
  using upto_split2 [of i "j - 1" "k - 1"] by (cases "i = j") auto

lemma sequences_run:
  assumes "runtime_inv s" and "rt_session s = Some a"
    and "rt_session (run_ops (runtime_step d) cs s) = Some a"
  shows "concat (map accepted_sequence (op_trace (runtime_step d) cs s))
     = [sl_next_sequence (rt_leases s ! a) ..
        sl_next_sequence (rt_leases (run_ops (runtime_step d) cs s) ! a) - 1]"
  using assms
proof (induction cs arbitrary: s)
  case Nil
  then show ?case by simp
next
  case (Cons c cs)
  let ?s1 = "snd (runtime_step d c s)" and ?s2 = "run_ops (runtime_step d) (c # cs) s"
  have inv1: "runtime_inv ?s1" by (rule runtime_machine.step_inv [OF Cons.prems(1)])
  from Cons.prems have a: "a < length (rt_leases s)" by (auto simp: runtime_inv_def leases_ok_def)
  with progress_step [of s d c] have a1: "a < length (rt_leases ?s1)" by (simp add: progress_def)
  have same: "rt_session ?s1 = Some a"
    using session_gone [OF inv1 a1, of d cs] Cons.prems(3) by auto
  have "sl_next_sequence (rt_leases s ! a) \<le> sl_next_sequence (rt_leases ?s1 ! a)"
    "sl_next_sequence (rt_leases ?s1 ! a) \<le> sl_next_sequence (rt_leases ?s2 ! a)"
    using progress_step [of s d c] progress_run [of ?s1 d cs] a a1
    by (simp_all add: progress_def lease_progress_def)
  with Cons.IH [OF inv1 same] sequence_step [OF Cons.prems(1,2) same] Cons.prems(3) show ?case
    by (simp add: upto_join)
qed

end
