(* ===== verification/Oven_RuntimeSpec.thy ===== *)
theory Oven_RuntimeSpec
  imports Oven_RuntimeLeases
begin

text \<open>
  The properties of \<open>PolicyRuntime\<close>, each with an application to one concrete runtime: the
  fake backend, a ready policy \<open>fold\<close> of generation 1, the trial \<open>trial-1\<close> and an open session.
\<close>

subsection \<open>A concrete runtime\<close>

definition demo_deps :: "(int \<times> nat) fake_state runtime_deps" where
  "demo_deps =
     \<lparr>rd_backend = fake_backend demo_random (1, 7), rd_np = (\<lambda>_. Inl (PyExc ValueError)),
      rd_session_ttl_sec = Fin 600, rd_inference_lock_timeout_sec = Fin 5\<rparr>"

definition demo_uuid :: string where
  "demo_uuid = ''00000000-0000-4000-8000-000000000007''"

definition demo_token :: string where
  "demo_token = replicate 32 (CHR ''k'')"

definition demo_trial :: active_trial where
  "demo_trial = new_trial ''trial-1'' ''fold'' 1 7"

definition demo_store :: trial_store where
  "demo_store =
     \<lparr>ta_dirs = [''trial-1''],
      ta_files = [(''trial-1'', ''server_manifest.json'') \<mapsto> JsonFile (trial_manifest ''trial-1'' ''fold'' 1 7)],
      ta_active = Some demo_trial, ta_io = []\<rparr>"

definition demo_lease :: session_lease where
  "demo_lease =
     \<lparr>sl_session_id = demo_uuid, sl_token = demo_token, sl_skill = ''fold'', sl_generation = 1,
      sl_trial_id = ''trial-1'', sl_expires_at = Fin 600, sl_next_sequence = 0, sl_state = SS_ACTIVE\<rparr>"

definition demo_backend :: "(int \<times> nat) fake_state" where
  "demo_backend =
     \<lparr>fk_prepared_skill = Some ''fold'', fk_prepare_count = 1, fk_infer_count = 0,
      fk_concurrent_calls = 0, fk_max_concurrent_calls = 0, fk_rng = (7, 0)\<rparr>"

definition demo_identity :: backend_identity where
  "demo_identity =
     \<lparr>bi_backend = ''fake'', bi_skill = ''fold'', bi_model_id = ''fake:fold:v1'', bi_asset_hashes = []\<rparr>"

definition demo_runtime :: "(int \<times> nat) fake_state runtime" where
  "demo_runtime =
     \<lparr>rt_state = RS_READY, rt_active_skill = Some ''fold'', rt_generation = 1,
      rt_identity = Some demo_identity, rt_session = Some 0, rt_leases = [demo_lease],
      rt_trial_id = Some ''trial-1'', rt_trial_root_seed = Some 7, rt_in_flight = 0,
      rt_last_error = None, rt_exec_lock = False, rt_audit = demo_store, rt_backend = demo_backend\<rparr>"

definition demo_request :: inference_request where
  "demo_request =
     \<lparr>rq_protocol_version = PROTOCOL_VERSION, rq_session_id = demo_uuid, rq_session_token = demo_token,
      rq_trial_id = ''trial-1'', rq_request_kind = INFER, rq_expected_skill = ''fold'',
      rq_expected_generation = 1, rq_sequence = 0, rq_sent_at = 5,
      rq_observation = [(''prompt'', PStr ''fold the cloth'')]\<rparr>"

definition demo_payload :: pyval where
  "demo_payload = PDict (request_dict demo_request)"

lemma demo_uuid_ok: "uuid_ok demo_uuid"
proof -
  have "remove_all ''uuid:'' (remove_all ''urn:'' demo_uuid) = demo_uuid" by (simp add: demo_uuid_def)
  moreover have "filter (\<lambda>c. c \<noteq> CHR ''-'') (strip_chars {CHR ''{'', CHR ''}''} demo_uuid)
      = ''00000000000040008000000000000007''"
    by (simp add: demo_uuid_def strip_chars_def)
  moreover have "strip_chars py_whitespace ''00000000000040008000000000000007''
      = ''00000000000040008000000000000007''"
    by (simp add: strip_chars_def py_whitespace_def char_of_def)
  moreover have "hex_digits True 0 ''00000000000040008000000000000007'' = Some 302240678275694148452359"
    by (simp add: hex_value_def less_eq_char_def)
  ultimately show ?thesis
    by (simp add: uuid_ok_def py_int16_def hex_magnitude_def del: hex_digits.simps)
qed

lemma demo_request_wf: "request_wf demo_request"
  by (simp add: request_wf_def demo_request_def demo_token_def demo_uuid_ok)
    (simp add: demo_uuid_def is_alnum_def is_id_char_def less_eq_char_def is_digit_def)

lemma demo_parse: "parse_request demo_payload = Inr demo_request"
  unfolding demo_payload_def by (rule parse_request_dict [OF demo_request_wf])

lemma demo_admitted: "admitted demo_request (Fin 1) demo_runtime 0"
proof -
  have "list_all (\<lambda>c. of_char c < (128 :: nat)) demo_token"
    by (simp add: demo_token_def list_all_iff)
  then show ?thesis
    by (simp add: admitted_def demo_runtime_def demo_lease_def demo_request_def)
qed

lemma demo_inv: "runtime_inv demo_runtime"
  by (simp add: runtime_inv_def leases_ok_def lease_current_def trial_ok_def store_inv_def
      demo_runtime_def demo_lease_def demo_store_def demo_trial_def new_trial_def)

lemma demo_unlocked: "\<not> rt_exec_lock demo_runtime"
  by (simp add: demo_runtime_def)

text \<open>One accepted inference, with the digests left as they are.\<close>

definition demo_result :: backend_result where
  "demo_result =
     \<lparr>br_actions = demo_chunk, br_noise_hash = projr (stable_tree_hash (PArr demo_chunk)),
      br_metadata = [(''request_kind'', PStr ''infer''), (''observation_keys'', PStrs [''prompt''])]\<rparr>"

lemma demo_chunk_hash: "\<exists>h. stable_tree_hash (PArr demo_chunk) = Inr h"
proof -
  have "length (array_metadata demo_chunk) \<le> 1000"
    by (simp add: array_metadata_def demo_chunk_def json_string_def json_char_def show_nat.simps digit_char_def)
  then have "\<exists>x. framed ''root'' (ascii ''array:'' @ ascii (array_metadata demo_chunk) @ ascii '':''
      @ nd_bytes demo_chunk) = Inr x"
    by (intro framed_ok) (simp_all add: ascii_def demo_chunk_def)
  then show ?thesis by (auto simp: stable_tree_hash_Inr)
qed

lemma demo_fake_infer:
  "fake_infer demo_random (1, 7) (rq_observation demo_request) INFER demo_backend
     = (Inr demo_result, demo_backend\<lparr>fk_infer_count := 1, fk_max_concurrent_calls := 1, fk_rng := (7, 1)\<rparr>)"
  using demo_chunk_hash
  by (auto simp: fake_infer_def op_simps demo_backend_def demo_random_def demo_result_def Let_def
      demo_request_def)

lemma demo_request_hashes:
  "\<exists>h. stable_tree_hash (PDict (rq_observation demo_request)) = Inr h"
  "stable_tree_hash (PDict (rq_observation demo_request)) = Inr oh \<Longrightarrow>
     \<exists>h. stable_tree_hash (request_identity demo_request oh) = Inr h"
proof -
  show "\<exists>h. stable_tree_hash (PDict (rq_observation demo_request)) = Inr h"
    by (rule flat_mapping_hashed) (simp add: demo_request_def short_scalar_def)
  assume "stable_tree_hash (PDict (rq_observation demo_request)) = Inr oh"
  then have "length oh = 64" by (rule length_stable_tree_hash)
  then show "\<exists>h. stable_tree_hash (request_identity demo_request oh) = Inr h"
    unfolding request_identity_def
    by (intro flat_mapping_hashed)
      (simp add: demo_request_def short_scalar_def demo_uuid_def demo_token_def PROTOCOL_VERSION_def
        show_int_def show_nat.simps)
qed

lemma demo_compute:
  assumes "rt_backend s = demo_backend" and "rt_audit s = demo_store"
  shows "\<exists>oc s'. infer_compute demo_deps demo_request s = (Inr oc, s')"
proof -
  obtain oh where oh: "stable_tree_hash (PDict (rq_observation demo_request)) = Inr oh"
    using demo_request_hashes(1) by blast
  then obtain rh where rh: "stable_tree_hash (request_identity demo_request oh) = Inr rh"
    using demo_request_hashes(2) by blast
  obtain ah where ah: "stable_tree_hash (PArr demo_chunk) = Inr ah" using demo_chunk_hash by blast
  have np: "inference_diagnostics (rd_np demo_deps) actions obs
      = Inr [(''available'', PBool False), (''reason'', PStr ''diagnostic_conversion_failed'')]" for actions obs
    by (simp add: inference_diagnostics_def demo_deps_def)
  have "\<exists>st'. record_request (rd_np demo_deps) (request_row demo_request oc) demo_chunk obs demo_store = (Inr (), st')"
    if "io_action_hash oc = ah" for oc obs
    using that
    by (simp add: record_request_def record_evidence_def np row_text_def write_first_chunk_def
        append_line_def demo_store_def demo_trial_def demo_chunk_def new_trial_def dget_dset
        row_is_infer_def write_defs request_row_def)
  then obtain st' where "record_request (rd_np demo_deps)
      (request_row demo_request \<lparr>io_result = demo_result, io_observation_hash = oh,
         io_request_hash = rh, io_action_hash = ah\<rparr>) demo_chunk (rq_observation demo_request) demo_store
    = (Inr (), st')" by force
  with oh rh ah assms demo_fake_infer show ?thesis
    by (simp add: infer_compute_def infer_record_def op_simps demo_deps_def fake_backend_def demo_result_def Let_def)
qed

lemma demo_infer: "\<exists>resp s'. infer demo_deps (Fin 1) demo_payload demo_runtime = (Inr resp, s')"
proof -
  let ?s1 = "demo_runtime\<lparr>rt_exec_lock := True, rt_in_flight := rt_in_flight demo_runtime + 1\<rparr>"
  have "rt_backend ?s1 = demo_backend" "rt_audit ?s1 = demo_store" by (simp_all add: demo_runtime_def)
  then obtain oc s2 where "infer_compute demo_deps demo_request ?s1 = (Inr oc, s2)"
    using demo_compute by blast
  with infer_admitted_apply [OF demo_parse demo_unlocked demo_admitted, of demo_deps] show ?thesis
    by (simp add: Let_def)
qed

subsection \<open>Which requests reach the policy\<close>

text \<open>
  C1. The policy is called, and a response is returned, only for a request that parses, while
  the execution lock is free, and whose session, token, trial, skill, generation and sequence
  are those of the current, unexpired lease of a ready runtime.
\<close>

theorem policy_called_only_when_admitted:
  assumes "rt_backend (snd (infer d now p s)) \<noteq> rt_backend s \<or> fst (infer d now p s) = Inr resp"
  shows "\<exists>r a. parse_request p = Inr r \<and> \<not> rt_exec_lock s \<and> admitted r now s a"
proof (rule ccontr)
  assume "\<not> ?thesis"
  then have none: "\<And>r a. parse_request p = Inr r \<Longrightarrow> \<not> rt_exec_lock s \<Longrightarrow>
      \<not> admitted r now (s\<lparr>rt_exec_lock := True\<rparr>) a" by auto
  have run: "infer d now p s = (fst (infer d now p s), snd (infer d now p s))" by simp
  from infer_rejected(1,2) [OF none run] assms show False by auto
qed

theorem policy_called_only_when_admitted_witness:
  "\<exists>resp. fst (infer demo_deps (Fin 1) demo_payload demo_runtime) = Inr resp
     \<and> (\<exists>r a. parse_request demo_payload = Inr r \<and> \<not> rt_exec_lock demo_runtime
          \<and> admitted r (Fin 1) demo_runtime a)"
  using demo_infer policy_called_only_when_admitted [of demo_deps "Fin 1" demo_payload demo_runtime]
  by fastforce

text \<open>
  C2. An accepted request: the policy ran once on the request's observation, the response
  repeats the request's identity and carries the four digests and the policy's actions, the
  trial's \<open>requests.jsonl\<close> has exactly one new row with that evidence, the next sequence
  number is one more, and the session stays current.
\<close>

theorem infer_accepted:
  assumes "infer d now p s = (Inr resp, s')" and "runtime_inv s"
  shows "\<exists>r a oc diag.
      parse_request p = Inr r \<and> admitted r now s a
      \<and> be_infer (rd_backend d) (rq_observation r) INFER (rt_backend s) = (Inr (io_result oc), rt_backend s')
      \<and> stable_tree_hash (PDict (rq_observation r)) = Inr (io_observation_hash oc)
      \<and> stable_tree_hash (request_identity r (io_observation_hash oc)) = Inr (io_request_hash oc)
      \<and> stable_tree_hash (PArr (br_actions (io_result oc))) = Inr (io_action_hash oc)
      \<and> resp = response_to_dict (response_of r oc)
      \<and> rows_of (rt_audit s') (rq_trial_id r)
          = rows_of (rt_audit s) (rq_trial_id r) @ [dset (request_row r oc) ''diagnostics'' (PDict diag)]
      \<and> rt_session s' = Some a \<and> sl_next_sequence (rt_leases s' ! a) = rq_sequence r + 1
      \<and> rt_in_flight s' = rt_in_flight s \<and> \<not> rt_exec_lock s' \<and> rt_state s' = RS_READY"
  using assms(1)
proof (rule infer_Inr)
  let ?s1 = "s\<lparr>rt_exec_lock := True, rt_in_flight := rt_in_flight s + 1\<rparr>"
  fix r a oc s2
  assume parse: "parse_request p = Inr r" and adm: "admitted r now s a"
    and comp: "infer_compute d r ?s1 = (Inr oc, s2)"
    and resp: "resp = response_to_dict (response_of r oc)"
    and s': "s' = infer_leave (update_lease a (\<lambda>l. l\<lparr>sl_next_sequence := sl_next_sequence l + 1\<rparr>) s2)"
  note out = infer_compute_Inr [OF comp] and frame = infer_compute_frame [OF comp]
  from adm assms(2) have a: "a < length (rt_leases s)" and state: "rt_state s = RS_READY"
    by (auto simp: runtime_inv_def leases_ok_def admitted_def)
  from adm assms(2) obtain tr where tr: "ta_active (rt_audit s) = Some tr" "at_trial_id tr = rq_trial_id r"
    by (cases "ta_active (rt_audit s)") (auto simp: admitted_def Let_def runtime_inv_def trial_ok_def)
  from record_request_rows(1) [OF out(5), of tr "()"] tr obtain diag where
    "rows_of (rt_audit s2) (rq_trial_id r) = rows_of (rt_audit s) (rq_trial_id r)
       @ [dset (request_row r oc) ''diagnostics'' (PDict diag)]" by auto
  moreover have "rt_audit s' = rt_audit s2" "rt_backend s' = rt_backend s2"
    "rt_session s' = Some a" "rt_in_flight s' = rt_in_flight s" "\<not> rt_exec_lock s'" "rt_state s' = RS_READY"
    "sl_next_sequence (rt_leases s' ! a) = rq_sequence r + 1"
    using frame adm a state s'
    by (simp_all add: infer_leave_def release_exec_def update_lease_def admitted_def Let_def)
  ultimately show ?thesis using parse adm out resp by auto
qed

theorem infer_accepted_witness:
  "\<exists>resp s' r a oc diag.
      infer demo_deps (Fin 1) demo_payload demo_runtime = (Inr resp, s')
      \<and> parse_request demo_payload = Inr r \<and> admitted r (Fin 1) demo_runtime a
      \<and> resp = response_to_dict (response_of r oc)
      \<and> rows_of (rt_audit s') (rq_trial_id r)
          = rows_of (rt_audit demo_runtime) (rq_trial_id r) @ [dset (request_row r oc) ''diagnostics'' (PDict diag)]
      \<and> sl_next_sequence (rt_leases s' ! a) = rq_sequence r + 1"
proof -
  obtain resp s' where run: "infer demo_deps (Fin 1) demo_payload demo_runtime = (Inr resp, s')"
    using demo_infer by blast
  from infer_accepted [OF run demo_inv] run show ?thesis by blast
qed

text \<open>
  C3. An admitted request that fails after the policy was called closes the runtime: the state
  is \<open>FAILED\<close>, the recorded error is the code the caller gets, and the session is over and its
  token gone, so that the same session cannot be used again.
\<close>

theorem infer_failure_closes:
  assumes "parse_request p = Inr r" and "\<not> rt_exec_lock s" and "admitted r now s a" and "runtime_inv s"
    and "infer d now p s = (Inl e, s')" and "e \<noteq> Interrupt"
  shows "(\<exists>f. e = Fault f \<and> rt_last_error s' = Some (rf_code f))
    \<and> rt_state s' = RS_FAILED \<and> rt_session s' = None \<and> revoked (rt_leases s' ! a)
    \<and> rt_in_flight s' = rt_in_flight s \<and> \<not> rt_exec_lock s'"
proof -
  let ?s1 = "s\<lparr>rt_exec_lock := True, rt_in_flight := rt_in_flight s + 1\<rparr>"
  obtain res s2 where comp: "infer_compute d r ?s1 = (res, s2)" by fastforce
  note frame = infer_compute_frame [OF comp]
  from assms(5) infer_admitted_apply [OF assms(1-3), of d] comp obtain e0 where res: "res = Inl e0"
    by (cases res) (auto simp: Let_def)
  obtain r3 s3 where failed: "infer_failed e0 s2 = (r3 :: inference_outcome res, s3)" by fastforce
  then obtain e1 where r3: "r3 = Inl e1" using infer_failed_raises by blast
  with assms(5) infer_admitted_apply [OF assms(1-3), of d] comp res failed
  have e1: "e1 = e" and s': "s' = infer_leave s3" by (auto simp: Let_def)
  obtain c where e: "\<exists>f. e = Fault f \<and> rf_code f = c" and s3: "s3 = snd (fail_locked c s2)"
    using failed r3 e1 assms(6)
    by (cases e0) (auto simp: infer_failed_def fail_and_raise_apply op_simps)
  from assms(3) frame have "rt_state s2 = RS_READY" by (simp add: admitted_def)
  with e s3 s' frame have closed: "\<exists>f. e = Fault f \<and> rt_last_error s' = Some (rf_code f)"
    "rt_state s' = RS_FAILED" "rt_session s' = None"
    "rt_in_flight s' = rt_in_flight s" "\<not> rt_exec_lock s'"
    by (auto simp: infer_leave_def release_exec_def)
  have "runtime_inv s'" using keepsD [OF infer_inv assms(4), of d now p] assms(5) by simp
  moreover have "a < length (rt_leases s')"
    using assms(3,4) s' s3 frame
    by (auto simp: admitted_def runtime_inv_def leases_ok_def infer_leave_def release_exec_def)
  ultimately have "revoked (rt_leases s' ! a)" using closed(3)
    by (simp add: runtime_inv_def leases_ok_def)
  with closed show ?thesis by blast
qed

text \<open>A policy that counts its calls and always raises.\<close>

definition broken_deps :: "(int \<times> nat) fake_state runtime_deps" where
  "broken_deps = demo_deps\<lparr>rd_backend := (fake_backend demo_random (1, 7))
     \<lparr>be_infer := (\<lambda>_ _ b. (Inl (PyExc RuntimeError), b\<lparr>fk_infer_count := fk_infer_count b + 1\<rparr>))\<rparr>\<rparr>"

lemma broken_infer:
  "\<exists>s'. infer broken_deps (Fin 1) demo_payload demo_runtime
     = (Inl (err POLICY_FAILED ''policy inference failed'' []), s')"
  using infer_admitted_apply [OF demo_parse demo_unlocked demo_admitted, of broken_deps]
  by (simp add: infer_compute_def infer_record_def op_simps broken_deps_def infer_failed_def fail_and_raise_apply Let_def)

theorem infer_failure_closes_witness:
  "\<exists>e s'. infer broken_deps (Fin 1) demo_payload demo_runtime = (Inl e, s')
     \<and> rt_state s' = RS_FAILED \<and> rt_session s' = None \<and> revoked (rt_leases s' ! 0)"
proof -
  obtain s' where run: "infer broken_deps (Fin 1) demo_payload demo_runtime
      = (Inl (err POLICY_FAILED ''policy inference failed'' []), s')" using broken_infer by blast
  from infer_failure_closes [OF demo_parse demo_unlocked demo_admitted demo_inv run] run
  show ?thesis by auto
qed

text \<open>
  C5. Over any sequence of calls during which a session stays current, the sequence numbers of
  the accepted inferences are consecutive, starting where the session was: none is skipped,
  repeated or reordered, whatever other calls and rejected requests come between.
\<close>

theorem accepted_sequences_consecutive:
  assumes "runtime_inv s" and "rt_session s = Some a"
    and "rt_session (run_ops (runtime_step d) cs s) = Some a"
  shows "concat (map accepted_sequence (op_trace (runtime_step d) cs s))
     = [sl_next_sequence (rt_leases s ! a) ..
        sl_next_sequence (rt_leases (run_ops (runtime_step d) cs s) ! a) - 1]"
  using assms by (rule sequences_run)

theorem accepted_sequences_consecutive_witness:
  "\<exists>s'. s' = run_ops (runtime_step demo_deps) [Do_infer (Fin 1) demo_payload, Do_status] demo_runtime
     \<and> rt_session s' = Some 0
     \<and> concat (map accepted_sequence (op_trace (runtime_step demo_deps)
          [Do_infer (Fin 1) demo_payload, Do_status] demo_runtime))
        = [0 .. sl_next_sequence (rt_leases s' ! 0) - 1]"
proof -
  obtain resp s1 where run: "infer demo_deps (Fin 1) demo_payload demo_runtime = (Inr resp, s1)"
    using demo_infer by blast
  then have session: "rt_session s1 = Some 0"
    by (rule infer_Inr)
      (auto simp: infer_leave_def release_exec_def demo_runtime_def dest: infer_compute_frame(1))
  have "rt_session demo_runtime = Some 0" "sl_next_sequence (rt_leases demo_runtime ! 0) = 0"
    by (simp_all add: demo_runtime_def demo_lease_def)
  with accepted_sequences_consecutive [OF demo_inv, of 0 demo_deps "[Do_infer (Fin 1) demo_payload, Do_status]"]
    run session show ?thesis
    by (simp add: status_def gets_op_apply)
qed

text \<open>
  C6. A request that was accepted once is never accepted again: resending the same message
  after any sequence of calls is an error, provided the session tokens issued in between
  are new ones.
\<close>

theorem accepted_request_never_replayed:
  assumes "runtime_inv s" and "infer d now p s = (Inr resp, s1)" and "parse_request p = Inr r"
    and "\<And>i tok t. Do_open_session i tok t \<in> set cs \<Longrightarrow> tok \<noteq> rq_session_token r"
  shows "\<exists>e. fst (infer d now' p (run_ops (runtime_step d) cs s1)) = Inl e"
  using assms(2)
proof (rule infer_Inr)
  let ?s2 = "run_ops (runtime_step d) cs s1"
  fix r' a oc s0
  assume parse: "parse_request p = Inr r'" and adm: "admitted r' now s a"
    and comp: "infer_compute d r' (s\<lparr>rt_exec_lock := True, rt_in_flight := rt_in_flight s + 1\<rparr>) = (Inr oc, s0)"
    and s1: "s1 = infer_leave (update_lease a (\<lambda>l. l\<lparr>sl_next_sequence := sl_next_sequence l + 1\<rparr>) s0)"
  have r': "r' = r" using parse assms(3) by simp
  have inv1: "runtime_inv s1" using keepsD [OF infer_inv assms(1), of d now p] assms(2) by simp
  have token: "rq_session_token r \<noteq> []" using assms(3) by (auto simp: parse_request_Inr request_wf_def)
  have frame: "rt_leases s0 = rt_leases s" "rt_session s0 = rt_session s" using infer_compute_frame [OF comp] by simp_all
  have a: "a < length (rt_leases s1)" "rt_session s1 = Some a"
    "sl_next_sequence (rt_leases s1 ! a) = rq_sequence r + 1"
    using adm assms(1) frame s1 r'
    by (auto simp: admitted_def Let_def runtime_inv_def leases_ok_def infer_leave_def release_exec_def update_lease_def)
  show ?thesis
  proof (cases "fst (infer d now' p ?s2)")
    case (Inr resp')
    then obtain s3 where "infer d now' p ?s2 = (Inr resp', s3)" by (metis prod.collapse)
    then obtain b where b: "admitted r now' ?s2 b" using assms(3) by (rule_tac infer_Inr) auto
    have inv2: "runtime_inv ?s2" by (rule runtime_machine.run_inv [OF inv1])
    with b have len: "b < length (rt_leases ?s2)" by (auto simp: admitted_def runtime_inv_def leases_ok_def)
    moreover from b have tok: "sl_token (rt_leases ?s2 ! b) = rq_session_token r" by (simp add: admitted_def Let_def)
    ultimately have old: "b < length (rt_leases s1)" "sl_token (rt_leases s1 ! b) = rq_session_token r"
      using lease_token_run [of b d cs s1 "rq_session_token r"] assms(4) token by auto
    have "b = a"
    proof (rule ccontr)
      assume "b \<noteq> a"
      with inv1 a(2) old have "revoked (rt_leases s1 ! b)" by (auto simp: runtime_inv_def leases_ok_def)
      with old token show False by (simp add: revoked_def)
    qed
    with progress_run [of s1 d cs] a have "rq_sequence r + 1 \<le> sl_next_sequence (rt_leases ?s2 ! b)"
      by (auto simp: progress_def lease_progress_def)
    with b have False by (simp add: admitted_def Let_def)
    then show ?thesis ..
  qed auto
qed

theorem accepted_request_never_replayed_witness:
  "\<exists>resp s1 e. infer demo_deps (Fin 1) demo_payload demo_runtime = (Inr resp, s1)
     \<and> fst (infer demo_deps (Fin 2) demo_payload
          (run_ops (runtime_step demo_deps) [Do_abort ''retry'', Do_open_session demo_uuid ''fresh'' (Fin 2)] s1)) = Inl e"
proof -
  obtain resp s1 where run: "infer demo_deps (Fin 1) demo_payload demo_runtime = (Inr resp, s1)"
    using demo_infer by blast
  have "''fresh'' \<noteq> demo_token" by (simp add: demo_token_def numeral_nat)
  then show ?thesis
    using accepted_request_never_replayed [OF demo_inv run demo_parse,
        of "[Do_abort ''retry'', Do_open_session demo_uuid ''fresh'' (Fin 2)]" "Fin 2"] run
    by (auto simp: demo_request_def)
qed

text \<open>
  A request for a generation older than the current one is rejected without calling the
  policy, then and after any later sequence of calls: the generation never goes back.
\<close>

theorem old_generation_rejected:
  assumes "runtime_inv s" and "parse_request p = Inr r" and "rq_expected_generation r < rt_generation s"
  shows "(\<exists>e. fst (infer d now p (run_ops (runtime_step d) cs s)) = Inl e)
    \<and> rt_backend (snd (infer d now p (run_ops (runtime_step d) cs s)))
        = rt_backend (run_ops (runtime_step d) cs s)"
proof -
  let ?s2 = "run_ops (runtime_step d) cs s"
  from runtime_generations.run_level [OF assms(1), of d cs] assms(3)
  have "rq_expected_generation r < rt_generation ?s2" by simp
  then have "\<not> admitted r now ?s2 a" for a by (auto simp: admitted_def Let_def)
  with assms(2) have none: "\<And>r a. parse_request p = Inr r \<Longrightarrow> \<not> rt_exec_lock ?s2 \<Longrightarrow>
      \<not> admitted r now (?s2\<lparr>rt_exec_lock := True\<rparr>) a" by simp
  have run: "infer d now p ?s2 = (fst (infer d now p ?s2), snd (infer d now p ?s2))" by simp
  from infer_rejected(1,2) [OF none run] show ?thesis by blast
qed

theorem old_generation_rejected_witness:
  "\<exists>e. fst (infer demo_deps (Fin 1) demo_payload (demo_runtime\<lparr>rt_generation := 2, rt_session := None,
     rt_leases := [], rt_trial_id := None, rt_audit := demo_store\<lparr>ta_active := None\<rparr>\<rparr>)) = Inl e"
proof -
  let ?s = "demo_runtime\<lparr>rt_generation := 2, rt_session := None, rt_leases := [], rt_trial_id := None,
      rt_audit := demo_store\<lparr>ta_active := None\<rparr>\<rparr>"
  have "runtime_inv ?s"
    by (simp add: runtime_inv_def leases_ok_def trial_ok_def store_inv_def demo_store_def)
  from old_generation_rejected [OF this demo_parse, of demo_deps "Fin 1" "[]"] show ?thesis
    by (simp add: demo_request_def)
qed

text \<open>
  C4. A failed or stopping runtime is closed for good: after any sequence of calls it is still
  failed or stopping, and it prepares no skill, begins no trial, opens no session and answers
  no inference; only \<open>close\<close> still touches the policy backend.
\<close>

theorem closed_forever:
  assumes "runtime_inv s" and "closed_state (rt_state s)"
  shows "closed_state (rt_state (run_ops (runtime_step d) cs s))
    \<and> (\<forall>skill timeout t seed i tok now p.
         let s' = run_ops (runtime_step d) cs s in
         (\<exists>e. fst (prepare_skill d skill timeout s') = Inl e) \<and> (\<exists>e. fst (begin_trial d t seed s') = Inl e)
         \<and> (\<exists>e. fst (open_session d i tok now s') = Inl e) \<and> (\<exists>e. fst (infer d now p s') = Inl e))
    \<and> (Do_close \<notin> set cs \<longrightarrow> rt_backend (run_ops (runtime_step d) cs s) = rt_backend s)"
proof -
  have refused: "(\<exists>e. fst (prepare_skill d skill timeout s') = Inl e) \<and> rt_backend (snd (prepare_skill d skill timeout s')) = rt_backend s'"
    "(\<exists>e. fst (begin_trial d t seed s') = Inl e) \<and> rt_backend (snd (begin_trial d t seed s')) = rt_backend s'"
    "(\<exists>e. fst (open_session d i tok now s') = Inl e)"
    "(\<exists>e. fst (infer d now p s') = Inl e) \<and> rt_backend (snd (infer d now p s')) = rt_backend s'"
    if "closed_state (rt_state s')" for skill timeout t seed i tok now p s'
  proof -
    from that have st: "rt_state s' \<noteq> RS_READY" "rt_state s' \<in> {RS_FAILED, RS_STOPPING}"
      by (auto simp: closed_state_def)
    then show "(\<exists>e. fst (prepare_skill d skill timeout s') = Inl e) \<and> rt_backend (snd (prepare_skill d skill timeout s')) = rt_backend s'"
      by (auto simp: prepare_skill_def prepare_enter_def op_simps)
    from st show "(\<exists>e. fst (begin_trial d t seed s') = Inl e) \<and> rt_backend (snd (begin_trial d t seed s')) = rt_backend s'"
      by (auto simp: begin_trial_def begin_trial_section_def begin_trial_failed_def acquire_exec_apply
          release_exec_def op_simps split: sum.split)
    from st show "\<exists>e. fst (open_session d i tok now s') = Inl e" by (simp add: open_session_def op_simps)
    from st have none: "\<And>r a. parse_request p = Inr r \<Longrightarrow> \<not> rt_exec_lock s' \<Longrightarrow>
        \<not> admitted r now (s'\<lparr>rt_exec_lock := True\<rparr>) a" by (simp add: admitted_def)
    have run: "infer d now p s' = (fst (infer d now p s'), snd (infer d now p s'))" by simp
    from infer_rejected(1,2) [OF none run]
    show "(\<exists>e. fst (infer d now p s') = Inl e) \<and> rt_backend (snd (infer d now p s')) = rt_backend s'" by blast
  qed
  have closed: "closed_state (rt_state (run_ops (runtime_step d) cs s))" for cs
    using progress_run [of s d cs] assms(2) by (simp add: progress_def)
  have step: "rt_backend (snd (runtime_step d c s')) = rt_backend s'"
    if "closed_state (rt_state s')" "c \<noteq> Do_close" for c s'
  proof (cases c)
    case (Do_prepare skill t)
    with refused(1) [OF that(1)] show ?thesis by simp
  next
    case (Do_begin_trial t seed)
    with refused(2) [OF that(1)] show ?thesis by simp
  next
    case (Do_infer now p)
    with refused(4) [OF that(1)] show ?thesis by simp
  qed (use that(2) in \<open>simp_all add: backend_untouched\<close>)
  have "rt_backend (run_ops (runtime_step d) cs s') = rt_backend s'"
    if "Do_close \<notin> set cs" "closed_state (rt_state s')" for cs s'
    using that
  proof (induction cs arbitrary: s')
    case (Cons c cs)
    moreover have "closed_state (rt_state (snd (runtime_step d c s')))"
      using progress_step [of s' d c] Cons.prems(2) by (simp add: progress_def)
    ultimately show ?case using step [of s' c] by auto
  qed simp
  with refused closed assms(2) show ?thesis by (simp add: Let_def)
qed

theorem closed_forever_witness:
  "closed_state (rt_state (run_ops (runtime_step demo_deps) [Do_end_trial, Do_open_session [] [] (Fin 0)]
     (snd (fail_locked POLICY_FAILED demo_runtime))))"
proof -
  let ?s = "snd (fail_locked POLICY_FAILED demo_runtime)"
  have "runtime_inv ?s" using fail_locked_idle [OF demo_inv] by (rule idle_imp_inv)
  moreover have "closed_state (rt_state ?s)" by (simp add: closed_state_def)
  ultimately show ?thesis
    using closed_forever [of ?s demo_deps "[Do_end_trial, Do_open_session [] [] (Fin 0)]"] by blast
qed

subsection \<open>Skills, trials and sessions\<close>

lemma prepare_backend_Inr:
  "prepare_backend d skill s = (Inr i, s') \<longleftrightarrow>
     (\<exists>b. be_prepare (rd_backend d) skill (rt_backend s) = (Inr i, b) \<and> bi_skill i = skill
          \<and> s' = s\<lparr>rt_backend := b\<rparr>)"
  by (auto simp: prepare_backend_def op_simps split: sum.splits prod.splits)

lemma prepare_backend_frame:
  assumes "prepare_backend d skill s = (r, s')"
  shows "rt_state s' = rt_state s" and "rt_active_skill s' = rt_active_skill s"
    and "rt_generation s' = rt_generation s" and "rt_session s' = rt_session s"
    and "rt_trial_id s' = rt_trial_id s" and "rt_exec_lock s' = rt_exec_lock s"
    and "rt_leases s' = rt_leases s" and "rt_audit s' = rt_audit s" and "rt_in_flight s' = rt_in_flight s"
  using assms by (auto simp: prepare_backend_def op_simps split: sum.splits prod.splits if_splits)

text \<open>The method from the state its guards accept, with no inference in flight.\<close>

definition preparable :: "'b runtime \<Rightarrow> bool" where
  "preparable s \<longleftrightarrow>
     rt_trial_id s = None \<and> rt_state s \<in> {RS_STARTING, RS_READY} \<and> rt_in_flight s = 0 \<and> \<not> rt_exec_lock s"

definition loading :: "'b runtime \<Rightarrow> 'b runtime" where
  "loading s = (invalidate_session SS_ABORTED s)\<lparr>rt_state := RS_LOADING\<rparr>"

lemma loading_fields [simp]:
  "rt_state (loading s) = RS_LOADING" "rt_session (loading s) = None" "rt_generation (loading s) = rt_generation s"
  "rt_active_skill (loading s) = rt_active_skill s" "rt_backend (loading s) = rt_backend s"
  "rt_exec_lock (loading s) = rt_exec_lock s" "rt_trial_id (loading s) = rt_trial_id s"
  by (simp_all add: loading_def)

lemma prepare_failed_apply:
  "prepare_failed e s =
     (if is_exception e
      then (Inl (if is_fault e then e
                 else err POLICY_FAILED ''policy backend failed to prepare the requested skill'' []),
            snd (fail_locked POLICY_FAILED s))
      else (Inl e, s))"
  by (simp add: prepare_failed_def fail_and_raise_apply op_simps)

lemma prepare_skill_apply:
  assumes "preparable s" and "skill \<noteq> []" and "\<not> f_le timeout f_zero"
  shows "prepare_skill d skill timeout s =
    (case prepare_backend d skill ((loading s)\<lparr>rt_exec_lock := True\<rparr>) of
       (Inr i, s1) \<Rightarrow> prepare_commit skill i (release_exec s1)
     | (Inl e, s1) \<Rightarrow>
         if is_exception e
         then (Inl (if is_fault e then e
                    else err POLICY_FAILED ''policy backend failed to prepare the requested skill'' []),
               release_exec (snd (fail_locked POLICY_FAILED s1)))
         else (Inl e, release_exec s1))"
proof -
  obtain r s1 where b: "prepare_backend d skill ((loading s)\<lparr>rt_exec_lock := True\<rparr>) = (r, s1)" by fastforce
  have state: "invalidate_session SS_ABORTED s\<lparr>rt_state := RS_LOADING\<rparr> = loading s"
    by (simp add: loading_def)
  from assms b show ?thesis
    by (cases "rt_state s"; cases r)
      (simp_all add: preparable_def prepare_skill_def prepare_enter_def prepare_drain_def op_simps
        transition_locked_cases invalidate_session_locked_def acquire_exec_apply state prepare_failed_apply)
qed

text \<open>
  Preparing a skill: from a fresh or ready runtime without a trial, either the policy was
  loaded as the skill asked for, and the runtime is ready with that skill, the next generation
  and no session; or the method raises and the runtime is \<open>FAILED\<close> with the old skill and
  generation. The execution lock is free again in both cases.
\<close>

theorem prepare_skill_outcome:
  assumes "preparable s" and "runtime_inv s" and "skill \<noteq> []" and "\<not> f_le timeout f_zero"
    and "prepare_skill d skill timeout s = (res, s')" and "res \<noteq> Inl Interrupt"
  shows "rt_session s' = None \<and> rt_trial_id s' = None \<and> \<not> rt_exec_lock s'
    \<and> (\<forall>a < length (rt_leases s'). revoked (rt_leases s' ! a))
    \<and> (case res of
         Inr st \<Rightarrow> st = status_dict s' \<and> rt_state s' = RS_READY \<and> rt_active_skill s' = Some skill
           \<and> rt_generation s' = rt_generation s + 1
           \<and> (\<exists>i. be_prepare (rd_backend d) skill (rt_backend s) = (Inr i, rt_backend s')
                \<and> bi_skill i = skill \<and> rt_identity s' = Some i)
       | Inl e \<Rightarrow> rt_state s' = RS_FAILED \<and> rt_last_error s' = Some POLICY_FAILED
           \<and> rt_active_skill s' = rt_active_skill s \<and> rt_generation s' = rt_generation s)"
proof -
  obtain r s1 where b: "prepare_backend d skill ((loading s)\<lparr>rt_exec_lock := True\<rparr>) = (r, s1)" by fastforce
  note frame = prepare_backend_frame [OF b]
  note run = prepare_skill_apply [OF assms(1,3,4), of d]
  have trial: "rt_trial_id s = None" using assms(1) by (simp add: preparable_def)
  have inv: "runtime_inv s'" using keepsD [OF prepare_skill_inv assms(2), of d skill timeout] assms(5) by simp
  have fields: "rt_session s' = None \<and> rt_trial_id s' = None \<and> \<not> rt_exec_lock s'
    \<and> (case res of
         Inr st \<Rightarrow> st = status_dict s' \<and> rt_state s' = RS_READY \<and> rt_active_skill s' = Some skill
           \<and> rt_generation s' = rt_generation s + 1
           \<and> (\<exists>i. be_prepare (rd_backend d) skill (rt_backend s) = (Inr i, rt_backend s')
                \<and> bi_skill i = skill \<and> rt_identity s' = Some i)
       | Inl e \<Rightarrow> rt_state s' = RS_FAILED \<and> rt_last_error s' = Some POLICY_FAILED
           \<and> rt_active_skill s' = rt_active_skill s \<and> rt_generation s' = rt_generation s)"
  proof (cases r)
    case (Inl e)
    with assms(5,6) run b have "is_exception e" by (cases e) auto
    with Inl assms(5) run b frame trial show ?thesis
      by (auto simp: release_exec_def)
  next
    case (Inr i)
    with b prepare_backend_Inr [of d skill "(loading s)\<lparr>rt_exec_lock := True\<rparr>" i s1]
    have "be_prepare (rd_backend d) skill (rt_backend s) = (Inr i, rt_backend s1)" "bi_skill i = skill"
      by auto
    with Inr assms(5) run b frame trial show ?thesis
      by (auto simp: prepare_commit_apply Let_def release_exec_def)
  qed
  then have "\<forall>a < length (rt_leases s'). revoked (rt_leases s' ! a)"
    using inv by (simp add: runtime_inv_def leases_ok_def)
  with fields show ?thesis by blast
qed

definition demo_start :: "(int \<times> nat) fake_state runtime" where
  "demo_start = projr (runtime_init demo_deps (fake_init (0, 0)) (new_trial_store []))"

lemma demo_start:
  "runtime_init demo_deps (fake_init (0, 0)) (new_trial_store []) = Inr demo_start"
  "preparable demo_start" "runtime_inv demo_start"
proof -
  show init: "runtime_init demo_deps (fake_init (0, 0)) (new_trial_store []) = Inr demo_start"
    by (simp add: demo_start_def runtime_init_def demo_deps_def)
  show "preparable demo_start" by (simp add: demo_start_def runtime_init_def demo_deps_def preparable_def)
  show "runtime_inv demo_start"
    by (rule runtime_init_inv [OF init store_inv_new]) (simp add: new_trial_store_def)
qed

text \<open>
  A backend that keeps its contract never trips the runtime's own check: whenever it prepares
  the skill, the runtime becomes ready.
\<close>

context faithful_backend
begin

lemma prepare_backend_faithful:
  assumes "rd_backend d = be" and "be_prepare be skill (rt_backend s) = (Inr i, b)"
  shows "prepare_backend d skill s = (Inr i, s\<lparr>rt_backend := b\<rparr>)"
  using assms prepare_skill_identity by (simp add: prepare_backend_Inr)

lemma prepare_skill_ready:
  assumes "rd_backend d = be" and "be_prepare be skill (rt_backend s) = (Inr i, b)"
    and "preparable s" and "skill \<noteq> []" and "\<not> f_le timeout f_zero"
  shows "\<exists>st s'. prepare_skill d skill timeout s = (Inr st, s') \<and> rt_state s' = RS_READY"
  using prepare_backend_faithful [of d skill "(loading s)\<lparr>rt_exec_lock := True\<rparr>" i b] assms
  by (simp add: prepare_skill_apply prepare_commit_apply release_exec_def Let_def)

end

theorem prepare_skill_outcome_witness:
  "\<exists>st s'. prepare_skill demo_deps ''fold'' (Fin 30) demo_start = (Inr st, s')
     \<and> rt_state s' = RS_READY \<and> rt_generation s' = 1"
proof -
  have "rd_backend demo_deps = fake_backend demo_random (1, 7)" by (simp add: demo_deps_def)
  moreover have "be_prepare (fake_backend demo_random (1, 7)) ''fold'' (rt_backend demo_start)
      = (Inr demo_identity, snd (be_prepare (fake_backend demo_random (1, 7)) ''fold'' (rt_backend demo_start)))"
    by (simp add: op_simps fake_backend_def fake_prepare_def fake_set_rng_def demo_random_def
        demo_identity_def)
  moreover have "\<not> f_le (Fin 30) f_zero" by simp
  ultimately obtain st s' where run: "prepare_skill demo_deps ''fold'' (Fin 30) demo_start = (Inr st, s')"
    using fake.prepare_skill_ready [of demo_deps demo_random "(1, 7)" "''fold''" demo_start, OF _ _ demo_start(2)]
    by blast
  have "rt_generation demo_start = 0" by (simp add: demo_start_def runtime_init_def demo_deps_def)
  with prepare_skill_outcome [OF demo_start(2,3) _ _ run] run show ?thesis by simp
qed

lemma status_release [simp]: "status_dict (release_exec s) = status_dict s"
  by (simp add: status_dict_def release_exec_def active_lease_def split: option.split)

text \<open>
  Beginning a trial: on success the runtime was ready without a trial, the policy's random
  generator was reset to the given seed and nothing else of the policy ran, the trial has a
  directory of its own with an \<open>ACTIVE\<close> manifest, and the runtime's trial is that one.
\<close>

theorem begin_trial_success:
  assumes "begin_trial d t seed s = (Inr st, s')" and "runtime_inv s"
  shows "\<exists>tid n k. t = PStr tid \<and> seed = PInt n \<and> trial_id_matches tid
    \<and> rt_state s = RS_READY \<and> rt_trial_id s = None \<and> rt_active_skill s = Some k
    \<and> be_reset_prng (rd_backend d) n (rt_backend s) = (Inr (), rt_backend s')
    \<and> tid \<notin> set (ta_dirs (rt_audit s)) \<and> ta_dirs (rt_audit s') = tid # ta_dirs (rt_audit s)
    \<and> ta_files (rt_audit s') (tid, ''server_manifest.json'')
        = Some (JsonFile (trial_manifest tid k (rt_generation s) n))
    \<and> rt_trial_id s' = Some tid \<and> st = status_dict s' \<and> \<not> rt_exec_lock s'"
proof -
  from assms(1) obtain tid n where args: "begin_arguments t seed = Inr (tid, n)"
    by (cases "begin_arguments t seed") (auto simp: begin_trial_def op_simps)
  then have types: "t = PStr tid" "seed = PInt n" "trial_id_matches tid"
    by (auto simp: begin_arguments_def reject_if_def split: option.splits if_splits)
  let ?s1 = "s\<lparr>rt_exec_lock := True\<rparr>"
  obtain r s2 where sec: "begin_trial_section d tid n ?s1 = (r, s2)" by fastforce
  have failed: "\<exists>e'. fst (begin_trial_failed e s0 :: pydict res \<times> 'a runtime) = Inl e'" for e s0
    by (auto simp: begin_trial_failed_def fail_and_raise_apply op_simps)
  from assms(1) args sec have "\<not> rt_exec_lock s"
    by (auto simp: begin_trial_def op_simps acquire_exec_apply)
  then have run: "begin_trial d t seed s = finally_op (catch_op (begin_trial_section d tid n) begin_trial_failed)
      release_exec ?s1"
    using args by (simp add: begin_trial_def op_simps acquire_exec_apply)
  have r: "r = Inr st \<and> s' = release_exec s2"
  proof (cases r)
    case (Inl e)
    obtain e' s3 where "(begin_trial_failed e s2 :: pydict res \<times> 'a runtime) = (Inl e', s3)"
      using failed by (metis prod.collapse)
    with run sec Inl assms(1) show ?thesis by (simp add: op_simps)
  next
    case (Inr x)
    with run sec assms(1) show ?thesis by (simp add: op_simps)
  qed
  have "\<exists>k. rt_active_skill s = Some k \<and> be_reset_prng (rd_backend d) n (rt_backend s) = (Inr (), rt_backend s2)
      \<and> (\<exists>a. audit_begin tid k (rt_generation s) n (rt_audit s) = (Inr a, rt_audit s2)
            \<and> rt_trial_id s2 = Some (at_trial_id a)) \<and> rt_state s = RS_READY \<and> rt_trial_id s = None
      \<and> st = status_dict s2 \<and> rt_exec_lock s2"
    using sec r
    by (auto simp: begin_trial_section_def op_simps status_def split: if_splits option.splits sum.splits prod.splits)
  then obtain k a where k: "rt_active_skill s = Some k" "rt_state s = RS_READY" "rt_trial_id s = None"
      "be_reset_prng (rd_backend d) n (rt_backend s) = (Inr (), rt_backend s2)"
      "audit_begin tid k (rt_generation s) n (rt_audit s) = (Inr a, rt_audit s2)"
      "rt_trial_id s2 = Some (at_trial_id a)" "st = status_dict s2" "rt_exec_lock s2" by blast
  have "st = status_dict s'" using k(7) r by simp
  with types k audit_begin_Inr [OF k(5)] r show ?thesis by (auto simp: release_exec_def new_trial_def)
qed

definition demo_prepared :: "(int \<times> nat) fake_state runtime" where
  "demo_prepared = demo_runtime\<lparr>rt_session := None, rt_leases := [], rt_trial_id := None,
     rt_trial_root_seed := None, rt_audit := new_trial_store []\<rparr>"

lemma demo_prepared_inv: "runtime_inv demo_prepared"
  by (simp add: demo_prepared_def runtime_inv_def leases_ok_def trial_ok_def store_inv_new)
    (simp add: new_trial_store_def)

theorem begin_trial_success_witness:
  "\<exists>st s'. begin_trial demo_deps (PStr ''t7'') (PInt 7) demo_prepared = (Inr st, s')
     \<and> rt_trial_id s' = Some ''t7'' \<and> ta_dirs (rt_audit s') = [''t7'']"
proof -
  have "trial_id_matches ''t7''" by (simp add: is_alnum_def is_id_char_def less_eq_char_def is_digit_def)
  then have "\<exists>st s'. begin_trial demo_deps (PStr ''t7'') (PInt 7) demo_prepared = (Inr st, s')"
    by (simp add: begin_trial_def begin_arguments_def op_simps acquire_exec_apply begin_trial_section_def
        demo_prepared_def demo_runtime_def demo_deps_def fake_backend_def fake_reset_prng_def fake_set_rng_def
        demo_random_def audit_begin_def write_defs new_trial_store_def status_def)
  then obtain st s' where run: "begin_trial demo_deps (PStr ''t7'') (PInt 7) demo_prepared = (Inr st, s')" by blast
  from begin_trial_success [OF run demo_prepared_inv] run show ?thesis
    by (auto simp: demo_prepared_def new_trial_store_def)
qed

subsection \<open>Ending a trial\<close>

lemma end_trial_apply:
  assumes "runtime_inv s" and "rt_session s = None" and "rt_trial_id s \<noteq> None"
  shows "end_trial s =
    (case audit_end (rt_audit s) of
       (Inr summary, st') \<Rightarrow> (Inr summary, clear_trial (s\<lparr>rt_audit := st'\<rparr>))
     | (Inl e, st') \<Rightarrow> (Inl e, snd (fail_locked AUDIT_COMMIT_FAILED (s\<lparr>rt_audit := st'\<rparr>))))"
proof -
  have "active_lease s = None" using assms(1,2) by (simp add: active_lease_None)
  moreover have st: "store_inv (rt_audit s)" using assms(1) by (simp add: runtime_inv_def trial_ok_def)
  ultimately show ?thesis
    using assms(3) commit_trial_apply [OF ends_trial_end st, of "ret"]
    by (auto simp: end_trial_def gets_op_apply bind_op_apply [of "gets_op _"] ret_apply Let_def
        split: prod.splits sum.splits)
qed

text \<open>
  Committing a trial: with the session closed, either the summary and the manifest on disk
  both say \<open>COMMITTED\<close> with the trial's counters, and the runtime is free for the next trial; or
  the commit failed, the caller gets \<open>AUDIT_COMMIT_FAILED\<close>, the runtime is closed and keeps the
  uncommitted trial.
\<close>

theorem end_trial_outcome:
  assumes "runtime_inv s" and "rt_session s = None" and "rt_trial_id s = Some t"
    and "end_trial s = (res, s')"
  shows "case res of
      Inr summary \<Rightarrow>
        (\<exists>a. ta_active (rt_audit s) = Some a \<and> at_trial_id a = t \<and> summary = trial_summary a)
        \<and> ta_files (rt_audit s') (t, ''trial_summary.json'') = Some (JsonFile summary)
        \<and> ta_files (rt_audit s') (t, ''server_manifest.json'') = Some (JsonFile summary)
        \<and> rt_trial_id s' = None \<and> ta_active (rt_audit s') = None \<and> rt_state s' = rt_state s
    | Inl e \<Rightarrow> fails_with AUDIT_COMMIT_FAILED (Inl e :: unit res) \<and> closed_state (rt_state s')
        \<and> rt_last_error s' = Some AUDIT_COMMIT_FAILED
        \<and> rt_trial_id s' = Some t \<and> ta_active (rt_audit s') = ta_active (rt_audit s)"
proof -
  obtain r st' where run: "audit_end (rt_audit s) = (r, st')" by fastforce
  from assms(1,3) obtain a where a: "ta_active (rt_audit s) = Some a" "at_trial_id a = t"
    by (cases "ta_active (rt_audit s)") (auto simp: runtime_inv_def trial_ok_def)
  show ?thesis
  proof (cases r)
    case (Inr summary)
    with assms run a audit_end_Inr [of "rt_audit s" summary st'] end_trial_apply [OF assms(1,2)]
    show ?thesis by (auto simp: clear_trial_def)
  next
    case (Inl e)
    with run audit_end_Inl(1,2) [of "rt_audit s" e st'] obtain f where
      f: "e = Fault f" "rf_code f \<in> {TRIAL_REQUIRED, AUDIT_COMMIT_FAILED}" "ta_active st' = ta_active (rt_audit s)"
      by blast
    have "rf_code f = AUDIT_COMMIT_FAILED"
      using run Inl f(1) a by (auto simp: audit_end_def write_defs split: write_splits)
    with f Inl assms run end_trial_apply [OF assms(1,2)] show ?thesis
      by (auto simp: closed_state_def)
  qed
qed

theorem end_trial_outcome_witness:
  "\<exists>e s'. end_trial (demo_runtime\<lparr>rt_session := None, rt_leases := [],
        rt_audit := demo_store\<lparr>ta_io := [Io_ok, Io_after]\<rparr>\<rparr>) = (Inl e, s')
     \<and> closed_state (rt_state s') \<and> rt_trial_id s' = Some ''trial-1''"
proof -
  let ?s = "demo_runtime\<lparr>rt_session := None, rt_leases := [], rt_audit := demo_store\<lparr>ta_io := [Io_ok, Io_after]\<rparr>\<rparr>"
  have inv: "runtime_inv ?s"
    by (simp add: runtime_inv_def leases_ok_def trial_ok_def store_inv_def demo_store_def
        demo_trial_def new_trial_def demo_runtime_def)
  have s: "rt_session ?s = None" "rt_trial_id ?s = Some ''trial-1''" by (simp_all add: demo_runtime_def)
  obtain res s' where run: "end_trial ?s = (res, s')" by fastforce
  have "\<exists>e. fst (audit_end (rt_audit ?s)) = Inl e"
    by (simp add: audit_end_def write_defs demo_store_def)
  with run end_trial_apply [OF inv s(1)] s(2) obtain e where "res = Inl e"
    by (auto split: prod.splits sum.splits)
  with end_trial_outcome [OF inv s run] run show ?thesis by auto
qed

lemma mark_ambiguous_outcome:
  assumes "runtime_inv s" and "mark_transport_ambiguous i n s = (res, s')"
  shows "(case rt_session s of
            Some a \<Rightarrow>
              if sl_session_id (rt_leases s ! a) = i
              then rt_state s' = RS_FAILED \<and> rt_session s' = None \<and> revoked (rt_leases s' ! a)
                \<and> (case res of
                     Inr out \<Rightarrow> rt_trial_id s' = None \<and> rt_last_error s' = Some SERVER_FAILED
                       \<and> (\<exists>tr. ta_active (rt_audit s) = Some tr
                            \<and> ta_files (rt_audit s') (at_trial_id tr, ''server_manifest.json'')
                                = Some (JsonFile (termination_summary tr ''AMBIGUOUS_INFERENCE''
                                    ''inference response transport failed'' (Some n))))
                   | Inl e \<Rightarrow> fails_with AUDIT_COMMIT_FAILED (Inl e :: unit res)
                       \<and> rt_trial_id s' = rt_trial_id s)
              else s' = s
          | None \<Rightarrow> s' = s)"
proof (cases "rt_session s")
  case None
  with assms(2) show ?thesis by (auto simp: mark_transport_ambiguous_def state_and_trial_def op_simps)
next
  case (Some a)
  show ?thesis
  proof (cases "sl_session_id (rt_leases s ! a) = i")
    case False
    with Some assms(2) show ?thesis
      by (auto simp: mark_transport_ambiguous_def state_and_trial_def op_simps)
  next
    case True
    let ?s1 = "invalidate_session SS_ABORTED s"
    obtain r st' where run: "audit_mark_ambiguous ''inference response transport failed'' n (rt_audit s) = (r, st')"
      by fastforce
    note ended = run [unfolded audit_mark_ambiguous_def]
    have st: "store_inv (rt_audit ?s1)" using assms(1) by (simp add: runtime_inv_def trial_ok_def)
    from assms(1) Some obtain tr where tr: "ta_active (rt_audit s) = Some tr" and ready: "rt_state s = RS_READY"
      and a: "a < length (rt_leases s)"
      by (cases "ta_active (rt_audit s)") (auto simp: runtime_inv_def leases_ok_def lease_current_def trial_ok_def)
    have eq: "mark_transport_ambiguous i n s =
        (case r of Inr x \<Rightarrow> seq_op (fail_locked SERVER_FAILED) (state_and_trial x) (clear_trial (?s1\<lparr>rt_audit := st'\<rparr>))
         | Inl e \<Rightarrow> (Inl e, snd (fail_locked AUDIT_COMMIT_FAILED (?s1\<lparr>rt_audit := st'\<rparr>))))"
      using commit_trial_apply [OF ends_trial_abort(2) st, of "''inference response transport failed''" n
          "\<lambda>x. seq_op (fail_locked SERVER_FAILED) (state_and_trial x)"] run Some True
      by (simp add: mark_transport_ambiguous_def gets_op_apply bind_op_apply [of "gets_op _"]
          invalidate_session_locked_def seq_op_apply [of "modify_op _"] modify_op_apply Let_def)
    have inv: "runtime_inv s'"
      using keepsD [OF mark_transport_ambiguous_inv assms(1), of i n] assms(2) by simp
    have "rt_state s' = RS_FAILED \<and> rt_session s' = None \<and> a < length (rt_leases s')
        \<and> (case res of
             Inr out \<Rightarrow> rt_trial_id s' = None \<and> rt_last_error s' = Some SERVER_FAILED
               \<and> ta_files (rt_audit s') (at_trial_id tr, ''server_manifest.json'')
                   = Some (JsonFile (termination_summary tr ''AMBIGUOUS_INFERENCE''
                       ''inference response transport failed'' (Some n)))
           | Inl e \<Rightarrow> fails_with AUDIT_COMMIT_FAILED (Inl e :: unit res) \<and> rt_trial_id s' = rt_trial_id s)"
    proof (cases r)
      case (Inl e)
      with eq assms(2) ready a audit_terminate_Inl(3) [OF ended [unfolded Inl]] show ?thesis by auto
    next
      case (Inr x)
      with eq assms(2) ready a audit_terminate_Inr(4) [OF ended [unfolded Inr] tr] show ?thesis
        by (auto simp: seq_op_apply fail_locked_apply state_and_trial_def gets_op_apply clear_trial_def)
    qed
    with inv Some True tr show ?thesis
      by (cases res) (auto simp: runtime_inv_def leases_ok_def)
  qed
qed

text \<open>
  A response that may not have reached the client closes the runtime: if it belongs to the
  current session, the session is revoked, the trial's manifest says \<open>AMBIGUOUS_INFERENCE\<close> with
  that sequence number, or its commit failed, and in every case no further inference can run;
  for any other session nothing changes.
\<close>

theorem ambiguous_response_closes:
  assumes "runtime_inv s" and "mark_transport_ambiguous i n s = (res, s')"
  shows "(case rt_session s of
            Some a \<Rightarrow>
              if sl_session_id (rt_leases s ! a) = i
              then rt_state s' = RS_FAILED \<and> rt_session s' = None \<and> revoked (rt_leases s' ! a)
                \<and> (case res of
                     Inr out \<Rightarrow> rt_trial_id s' = None \<and> rt_last_error s' = Some SERVER_FAILED
                       \<and> (\<exists>tr. ta_active (rt_audit s) = Some tr
                            \<and> ta_files (rt_audit s') (at_trial_id tr, ''server_manifest.json'')
                                = Some (JsonFile (termination_summary tr ''AMBIGUOUS_INFERENCE''
                                    ''inference response transport failed'' (Some n))))
                   | Inl e \<Rightarrow> fails_with AUDIT_COMMIT_FAILED (Inl e :: unit res)
                       \<and> rt_trial_id s' = rt_trial_id s)
              else s' = s
          | None \<Rightarrow> s' = s)"
  using assms by (rule mark_ambiguous_outcome)

theorem ambiguous_response_closes_witness:
  "\<exists>res s'. mark_transport_ambiguous demo_uuid 0 demo_runtime = (res, s')
     \<and> rt_state s' = RS_FAILED \<and> rt_session s' = None"
proof -
  obtain res s' where run: "mark_transport_ambiguous demo_uuid 0 demo_runtime = (res, s')" by fastforce
  have "rt_session demo_runtime = Some 0" "sl_session_id (rt_leases demo_runtime ! 0) = demo_uuid"
    by (simp_all add: demo_runtime_def demo_lease_def)
  with ambiguous_response_closes [OF demo_inv run] run show ?thesis by simp
qed

text \<open>
  Shutting down always stops the runtime, revokes the session and closes the policy backend
  exactly once, also when the trial cannot be aborted on disk; that failure is then what the
  caller gets, and the trial stays on record.
\<close>

theorem close_always_closes_backend:
  assumes "runtime_inv s" and "close d s = (res, s')"
  shows "rt_state s' = RS_STOPPING \<and> rt_session s' = None
    \<and> rt_backend s' = snd (be_close (rd_backend d) (rt_backend s))
    \<and> (rt_trial_id s' = None
       \<or> (fails_with AUDIT_COMMIT_FAILED res \<and> rt_trial_id s' = rt_trial_id s
          \<and> ta_active (rt_audit s') = ta_active (rt_audit s)))"
proof -
  obtain r st' where run: "audit_abort ''server shutdown'' (rt_audit s) = (r, st')" by fastforce
  note ended = run [unfolded audit_abort_def]
  obtain rb b where b: "be_close (rd_backend d) (rt_backend s) = (rb, b)" by fastforce
  have trial: "trial_ok s" using assms(1) by (simp add: runtime_inv_def)
  show ?thesis
  proof (cases r)
    case (Inl e)
    with audit_terminate_Inl(2,3) [OF ended [unfolded Inl]] assms(2) run b close_section_apply [OF trial]
    show ?thesis
      by (cases "rt_trial_id s") (auto simp: close_def bind_op_apply on_backend_apply Let_def)
  next
    case (Inr x)
    with assms(2) run b close_section_apply [OF trial] show ?thesis
      by (cases "rt_trial_id s") (auto simp: close_def bind_op_apply on_backend_apply Let_def clear_trial_def)
  qed
qed

theorem close_always_closes_backend_witness:
  "\<exists>res s'. close demo_deps (demo_runtime\<lparr>rt_audit := demo_store\<lparr>ta_io := [Io_before]\<rparr>\<rparr>) = (res, s')
     \<and> rt_state s' = RS_STOPPING \<and> fk_prepared_skill (rt_backend s') = None"
proof -
  let ?s = "demo_runtime\<lparr>rt_audit := demo_store\<lparr>ta_io := [Io_before]\<rparr>\<rparr>"
  have "runtime_inv ?s" using demo_inv
    by (simp add: runtime_inv_def leases_ok_def lease_current_def trial_ok_def store_inv_def demo_runtime_def demo_store_def
        demo_lease_def demo_trial_def new_trial_def)
  moreover obtain res s' where "close demo_deps ?s = (res, s')" by fastforce
  ultimately show ?thesis using close_always_closes_backend [of ?s demo_deps res s']
    by (auto simp: demo_deps_def fake_backend_def fake_close_def modify_op_apply)
qed

text \<open>
  The status a caller can read never depends on a session token: replacing the tokens of
  all leases gives the same status.
\<close>

theorem status_hides_tokens:
  assumes "runtime_inv s"
  shows "status_dict (s\<lparr>rt_leases := map (\<lambda>l. l\<lparr>sl_token := f l\<rparr>) (rt_leases s)\<rparr>) = status_dict s"
proof (cases "rt_session s")
  case None
  then show ?thesis by (simp add: status_dict_def active_lease_def)
next
  case (Some a)
  with assms have "a < length (rt_leases s)" by (simp add: runtime_inv_def leases_ok_def)
  with Some show ?thesis by (simp add: status_dict_def active_lease_def)
qed

theorem status_hides_tokens_witness:
  "status_dict (demo_runtime\<lparr>rt_leases := [demo_lease\<lparr>sl_token := ''other''\<rparr>]\<rparr>) = status_dict demo_runtime"
  using status_hides_tokens [OF demo_inv, of "\<lambda>_. ''other''"] by (simp add: demo_runtime_def)

text \<open>
  C7. In every state a run of calls can reach from a new runtime, whatever trials its audit
  directory holds from earlier runs, the current session is an
  active lease of a ready runtime for its trial, skill and generation, every other lease is
  revoked, and the runtime and the audit store agree on the open trial.
\<close>

theorem runtime_reachable_inv:
  assumes "distinct dirs" and "runtime_init d b (open_trial_store dirs files io) = Inr s"
  shows "runtime_inv (run_ops (runtime_step d) cs s)"
proof -
  have "runtime_inv s" by (rule runtime_init_inv [OF assms(2) store_inv_open [OF assms(1)]]) simp
  then show ?thesis by (rule runtime_machine.run_inv)
qed

theorem runtime_reachable_inv_witness:
  "runtime_inv (run_ops (runtime_step demo_deps) [Do_prepare ''fold'' (Fin 30), Do_status] demo_start)"
  by (rule runtime_reachable_inv [OF distinct.simps(1) [THEN iffD2, OF TrueI] demo_start(1) [unfolded new_trial_store_def]])

end
