(* ===== verification/Oven_Concurrent.thy ===== *)
theory Oven_Concurrent
  imports Oven_RuntimeSpec
begin

text \<open>
  The runtime under concurrent callers.  The inference server runs every request in a thread
  of its own and the control server calls the same object, so the methods interleave.  A
  thread's program counter says which section it runs next; the sections under
  \<open>self._condition\<close> are single steps, the calls of the policy backend and the parts under the
  execution lock alone are steps of their own, and a step of any thread may come between.
  Timed lock acquisition either succeeds on a free lock or times out while it is held; the
  section of \<open>prepare\<close> and \<open>abort\<close> that then marks the runtime \<open>FAILED\<close> is a later step, when the
  lock may be free again.
\<close>

datatype pc =
    Idle
  | Infer_wait inference_request
  | Infer_locked inference_request
  | Infer_backend inference_request nat
  | Infer_record inference_request nat backend_result
  | Infer_failed exn
  | Infer_commit inference_request nat inference_outcome
  | Infer_leave
  | Prepare_drain string flt
  | Prepare_wait string
  | Prepare_backend string
  | Prepare_failed exn
  | Prepare_release string backend_identity
  | Prepare_commit string backend_identity
  | Prepare_gives_up string
  | Begin_wait string int
  | Begin_locked string int
  | Begin_failed exn
  | Abort_wait string
  | Abort_locked string
  | Abort_gives_up string
  | Release
  | Close_backend

text \<open>Where the thread holds the execution lock, counts as in flight, or prepares a skill.\<close>

fun holds :: "pc \<Rightarrow> bool" where
  "holds (Infer_locked r) = True"
| "holds (Infer_backend r a) = True"
| "holds (Infer_record r a b) = True"
| "holds (Infer_failed e) = True"
| "holds (Infer_commit r a oc) = True"
| "holds Infer_leave = True"
| "holds (Prepare_backend skill) = True"
| "holds (Prepare_failed e) = True"
| "holds (Prepare_release skill i) = True"
| "holds (Begin_locked t n) = True"
| "holds (Begin_failed e) = True"
| "holds (Abort_locked reason) = True"
| "holds Release = True"
| "holds _ = False"

fun entered :: "pc \<Rightarrow> bool" where
  "entered (Infer_backend r a) = True"
| "entered (Infer_record r a b) = True"
| "entered (Infer_failed e) = True"
| "entered (Infer_commit r a oc) = True"
| "entered Infer_leave = True"
| "entered _ = False"

fun preparing :: "pc \<Rightarrow> bool" where
  "preparing (Prepare_drain skill deadline) = True"
| "preparing (Prepare_wait skill) = True"
| "preparing (Prepare_backend skill) = True"
| "preparing (Prepare_release skill i) = True"
| "preparing (Prepare_commit skill i) = True"
| "preparing (Prepare_gives_up skill) = True"
| "preparing _ = False"

text \<open>Inside a call of the policy backend that the execution lock protects.\<close>

fun in_policy :: "pc \<Rightarrow> bool" where
  "in_policy (Infer_backend r a) = True"
| "in_policy (Prepare_backend skill) = True"
| "in_policy (Begin_locked t n) = True"
| "in_policy _ = False"

subsection \<open>One step of one thread\<close>

text \<open>The sections that are a whole method.\<close>

fun atomic_call :: "runtime_call \<Rightarrow> bool" where
  "atomic_call Do_status = True"
| "atomic_call (Do_open_session i tok now) = True"
| "atomic_call (Do_close_session i) = True"
| "atomic_call Do_end_trial = True"
| "atomic_call (Do_mark_ambiguous i n) = True"
| "atomic_call _ = False"

inductive thread_step :: "'b runtime_deps \<Rightarrow> pc \<Rightarrow> 'b runtime \<Rightarrow> pc \<Rightarrow> 'b runtime \<Rightarrow> bool" for d where
  call: "atomic_call c \<Longrightarrow> runtime_step d c s = (res, s') \<Longrightarrow> thread_step d Idle s Idle s'"
| infer_call: "parse_request payload = Inr r \<Longrightarrow> thread_step d Idle s (Infer_wait r) s"
| infer_busy: "rt_exec_lock s \<Longrightarrow> thread_step d (Infer_wait r) s Idle s"
| infer_acquire: "acquire_exec s = (Inr True, s') \<Longrightarrow> thread_step d (Infer_wait r) s (Infer_locked r) s'"
| infer_enter: "infer_enter r now s = (Inr a, s') \<Longrightarrow> thread_step d (Infer_locked r) s (Infer_backend r a) s'"
| infer_reject: "infer_enter r now s = (Inl e, s') \<Longrightarrow> thread_step d (Infer_locked r) s Release s'"
| infer_policy: "on_backend (be_infer (rd_backend d) (rq_observation r) (rq_request_kind r)) s = (Inr b, s') \<Longrightarrow>
    thread_step d (Infer_backend r a) s (Infer_record r a b) s'"
| infer_policy_fails: "on_backend (be_infer (rd_backend d) (rq_observation r) (rq_request_kind r)) s = (Inl e, s') \<Longrightarrow>
    thread_step d (Infer_backend r a) s (Infer_failed e) s'"
| infer_recorded: "infer_record d r b s = (Inr oc, s') \<Longrightarrow>
    thread_step d (Infer_record r a b) s (Infer_commit r a oc) s'"
| infer_record_fails: "infer_record d r b s = (Inl e, s') \<Longrightarrow>
    thread_step d (Infer_record r a b) s (Infer_failed e) s'"
| infer_fail: "infer_failed e s = (res :: unit res, s') \<Longrightarrow> thread_step d (Infer_failed e) s Infer_leave s'"
| infer_commit: "infer_commit r a oc s = (res, s') \<Longrightarrow> thread_step d (Infer_commit r a oc) s Infer_leave s'"
| infer_leave: "thread_step d Infer_leave s Release (s\<lparr>rt_in_flight := rt_in_flight s - 1\<rparr>)"
| release: "thread_step d Release s Idle (release_exec s)"
| prepare_start: "prepare_enter skill timeout s = (Inr False, s') \<Longrightarrow> thread_step d Idle s (Prepare_wait skill) s'"
| prepare_drain: "prepare_enter skill timeout s = (Inr True, s') \<Longrightarrow>
    thread_step d Idle s (Prepare_drain skill deadline) s'"
| prepare_reject: "prepare_enter skill timeout s = (Inl e, s') \<Longrightarrow> thread_step d Idle s Idle s'"
| drain_done: "prepare_drain deadline now s = (Inr True, s') \<Longrightarrow>
    thread_step d (Prepare_drain skill deadline) s (Prepare_wait skill) s'"
| drain_wait: "prepare_drain deadline now s = (Inr False, s') \<Longrightarrow>
    thread_step d (Prepare_drain skill deadline) s (Prepare_drain skill deadline) s'"
| drain_timeout: "prepare_drain deadline now s = (Inl e, s') \<Longrightarrow>
    thread_step d (Prepare_drain skill deadline) s Idle s'"
| prepare_timeout: "rt_exec_lock s \<Longrightarrow> thread_step d (Prepare_wait skill) s (Prepare_gives_up skill) s"
| prepare_gives_up: "prepare_busy s = (res :: unit res, s') \<Longrightarrow>
    thread_step d (Prepare_gives_up skill) s Idle s'"
| prepare_acquire: "acquire_exec s = (Inr True, s') \<Longrightarrow>
    thread_step d (Prepare_wait skill) s (Prepare_backend skill) s'"
| prepare_policy: "prepare_backend d skill s = (Inr i, s') \<Longrightarrow>
    thread_step d (Prepare_backend skill) s (Prepare_release skill i) s'"
| prepare_policy_fails: "prepare_backend d skill s = (Inl e, s') \<Longrightarrow>
    thread_step d (Prepare_backend skill) s (Prepare_failed e) s'"
| prepare_fail: "prepare_failed e s = (res :: unit res, s') \<Longrightarrow> thread_step d (Prepare_failed e) s Release s'"
| prepare_release: "thread_step d (Prepare_release skill i) s (Prepare_commit skill i) (release_exec s)"
| prepare_commit: "prepare_commit skill i s = (res, s') \<Longrightarrow> thread_step d (Prepare_commit skill i) s Idle s'"
| begin_call: "begin_arguments t seed = Inr (tid, n) \<Longrightarrow> thread_step d Idle s (Begin_wait tid n) s"
| begin_busy: "rt_exec_lock s \<Longrightarrow> thread_step d (Begin_wait tid n) s Idle s"
| begin_acquire: "acquire_exec s = (Inr True, s') \<Longrightarrow> thread_step d (Begin_wait tid n) s (Begin_locked tid n) s'"
| begin_done: "begin_trial_section d tid n s = (Inr st, s') \<Longrightarrow> thread_step d (Begin_locked tid n) s Release s'"
| begin_section_fails: "begin_trial_section d tid n s = (Inl e, s') \<Longrightarrow>
    thread_step d (Begin_locked tid n) s (Begin_failed e) s'"
| begin_fail: "begin_trial_failed e s = (res :: unit res, s') \<Longrightarrow> thread_step d (Begin_failed e) s Release s'"
| abort_call: "thread_step d Idle s (Abort_wait reason) s"
| abort_timeout: "rt_exec_lock s \<Longrightarrow> thread_step d (Abort_wait reason) s (Abort_gives_up reason) s"
| abort_gives_up: "fail_and_raise INFERENCE_TIMEOUT e s = (res :: unit res, s') \<Longrightarrow>
    thread_step d (Abort_gives_up reason) s Idle s'"
| abort_acquire: "acquire_exec s = (Inr True, s') \<Longrightarrow> thread_step d (Abort_wait reason) s (Abort_locked reason) s'"
| abort_done: "abort_section reason s = (res, s') \<Longrightarrow> thread_step d (Abort_locked reason) s Release s'"
| close_call: "close_section s = (Inr e, s') \<Longrightarrow> thread_step d Idle s Close_backend s'"
| close_policy: "on_backend (be_close (rd_backend d)) s = (res, s') \<Longrightarrow> thread_step d Close_backend s Idle s'"

inductive_cases thread_stepE: "thread_step d p s p' s'"

text \<open>The system: any thread takes its next step.\<close>

inductive system_step :: "'b runtime_deps \<Rightarrow> 'b runtime \<times> pc list \<Rightarrow> 'b runtime \<times> pc list \<Rightarrow> bool" for d where
  step: "i < length ps \<Longrightarrow> thread_step d (ps ! i) s p' s' \<Longrightarrow> system_step d (s, ps) (s', ps[i := p'])"

inductive reachable :: "'b runtime_deps \<Rightarrow> 'b runtime \<times> pc list \<Rightarrow> 'b runtime \<times> pc list \<Rightarrow> bool" for d c0 where
  start: "reachable d c0 c0"
| more: "reachable d c0 c \<Longrightarrow> system_step d c c' \<Longrightarrow> reachable d c0 c'"

subsection \<open>What the sections do to the lock and the counter\<close>

definition same_counts :: "'b runtime \<Rightarrow> 'b runtime \<Rightarrow> bool" where
  "same_counts s0 s \<longleftrightarrow> rt_exec_lock s = rt_exec_lock s0 \<and> rt_in_flight s = rt_in_flight s0"

lemma counts_sections [inv_intros]:
  "keeps (same_counts s0) (on_audit m)" "keeps (same_counts s0) (on_backend n)"
  "keeps (same_counts s0) (transition_locked t)" "keeps (same_counts s0) (invalidate_session_locked st)"
  "keeps (same_counts s0) (fail_locked c)" "keeps (same_counts s0) (fail_and_raise c e)"
  by (rule keepsI;
      simp add: same_counts_def op_simps transition_locked_cases invalidate_session_locked_def
        fail_and_raise_apply split: prod.split)+

lemma same_counts_update [simp]:
  "same_counts s0 (update_lease a f s) = same_counts s0 s"
  "same_counts s0 (clear_trial s) = same_counts s0 s"
  "same_counts s0 (s\<lparr>rt_trial_id := t, rt_trial_root_seed := sd\<rparr>) = same_counts s0 s"
  "same_counts s0 (s\<lparr>rt_session := x, rt_leases := ls\<rparr>) = same_counts s0 s"
  "same_counts s0 (s\<lparr>rt_active_skill := k, rt_identity := i, rt_generation := g\<rparr>) = same_counts s0 s"
  by (simp_all add: same_counts_def clear_trial_def)

lemma counts_status [inv_intros]: "keeps (same_counts s0) status"
  by (rule status_inv)

lemma keeps_case_exn [inv_intros]:
  "(\<And>f. keeps P (m f)) \<Longrightarrow> (\<And>c. keeps P (k c)) \<Longrightarrow> keeps P n \<Longrightarrow>
     keeps P (case e of Fault f \<Rightarrow> m f | PyExc c \<Rightarrow> k c | Interrupt \<Rightarrow> n)"
  by (cases e) simp_all

lemma counts_methods:
  "keeps (same_counts s0) (open_session d i tok now)" "keeps (same_counts s0) (close_session i)"
  "keeps (same_counts s0) end_trial" "keeps (same_counts s0) (mark_transport_ambiguous i n)"
  "keeps (same_counts s0) (prepare_enter skill timeout)" "keeps (same_counts s0) (prepare_drain dl now)"
  "keeps (same_counts s0) prepare_busy" "keeps (same_counts s0) (prepare_backend d skill)"
  "keeps (same_counts s0) (prepare_failed e)" "keeps (same_counts s0) (prepare_commit skill ident)"
  "keeps (same_counts s0) (begin_trial_section d tid sd)" "keeps (same_counts s0) (begin_trial_failed e)"
  "keeps (same_counts s0) (abort_section reason)" "keeps (same_counts s0) (infer_record d r b)"
  "keeps (same_counts s0) (infer_failed e)" "keeps (same_counts s0) (infer_commit r a oc)"
  "keeps (same_counts s0) (validate_request_locked r now)"
  unfolding open_session_def close_session_def end_trial_def mark_transport_ambiguous_def prepare_enter_def
    prepare_drain_def prepare_busy_def prepare_backend_def prepare_failed_def prepare_commit_def
    begin_trial_section_def begin_trial_failed_def abort_section_def infer_record_def infer_failed_def
    infer_commit_def validate_request_locked_def Let_def commit_failed_def state_and_trial_def
  by (intro inv_intros; simp)+

lemma atomic_counts: "atomic_call c \<Longrightarrow> keeps (same_counts s0) (runtime_step d c)"
  by (cases c) (simp_all add: counts_methods counts_status)

lemma counts_close_section:
  assumes "trial_ok s"
  shows "same_counts s (snd (close_section s))"
  by (simp add: close_section_apply [OF assms] same_counts_def Let_def clear_trial_def split: sum.split)

lemma infer_enter_counts:
  assumes "infer_enter r now s = (res, s')"
  shows "rt_exec_lock s' = rt_exec_lock s"
    and "rt_in_flight s' = (if res \<in> range Inr then rt_in_flight s + 1 else rt_in_flight s)"
proof -
  obtain v s1 where run: "validate_request_locked r now s = (v, s1)" by fastforce
  have "same_counts s s1"
    using keepsD [OF counts_methods(17), of s s r now] run by (simp add: same_counts_def)
  with run assms show "rt_exec_lock s' = rt_exec_lock s"
    and "rt_in_flight s' = (if res \<in> range Inr then rt_in_flight s + 1 else rt_in_flight s)"
    by (cases v; auto simp: infer_enter_def op_simps same_counts_def)+
qed

subsection \<open>While a thread prepares a skill\<close>

text \<open>
  No session, no trial, and a state in which nothing else can start: \<open>DRAINING\<close>, \<open>LOADING\<close>, or
  \<open>FAILED\<close> or \<open>STOPPING\<close> when another thread closed the runtime meanwhile.
\<close>

definition busy_inv :: "'b runtime \<Rightarrow> bool" where
  "busy_inv s \<longleftrightarrow> quiet_inv s \<and> rt_state s \<in> {RS_DRAINING, RS_LOADING, RS_FAILED, RS_STOPPING}"

lemma busy_no_trial: "busy_inv s \<Longrightarrow> ta_active (rt_audit s) = None \<and> store_inv (rt_audit s)"
  by (auto simp: busy_inv_def quiet_inv_def idle_inv_def runtime_inv_def trial_ok_def)

lemma busy_no_lease: "busy_inv s \<Longrightarrow> active_lease s = None"
  by (simp add: busy_inv_def quiet_inv_def idle_inv_def active_lease_def)

lemma busy_update [simp]:
  "busy_inv (s\<lparr>rt_exec_lock := b\<rparr>) = busy_inv s"
  "busy_inv (s\<lparr>rt_backend := be\<rparr>) = busy_inv s"
  "busy_inv (s\<lparr>rt_in_flight := n\<rparr>) = busy_inv s"
  "busy_inv (release_exec s) = busy_inv s"
  by (simp_all add: busy_inv_def release_exec_def)

lemma busy_fail_locked: "busy_inv s \<Longrightarrow> busy_inv (snd (fail_locked c s))"
  using fail_locked_idle [of s c] by (simp add: busy_inv_def quiet_inv_def idle_imp_inv)

lemma busy_fail [inv_intros]: "keeps busy_inv (fail_locked c)" "keeps busy_inv (fail_and_raise c' e)"
  by (rule keepsI; simp add: fail_and_raise_apply busy_fail_locked)+

lemma busy_on_backend [inv_intros]: "keeps busy_inv (on_backend m)"
  by (rule keepsI) (simp add: op_simps split: prod.split)

lemma busy_record [inv_intros]: "keeps busy_inv (on_audit (record_request np row actions obs))"
  by (rule keepsI) (simp add: op_simps record_request_None busy_no_trial)

lemma busy_rejects:
  assumes "busy_inv s"
  shows "\<exists>e. open_session d i tok now s = (Inl e, s)" and "\<exists>e. close_session i s = (Inl e, s)"
    and "\<exists>e. end_trial s = (Inl e, s)" and "\<exists>x. mark_transport_ambiguous i n s = (x, s)"
    and "\<exists>e. infer_enter r now s = (Inl e, s)" and "\<exists>e. begin_trial_section d tid sd s = (Inl e, s)"
    and "infer_commit r a oc s = (res, s') \<Longrightarrow> busy_inv s'"
    and "prepare_enter skill timeout s = (res', s') \<Longrightarrow> (\<exists>e. res' = Inl e) \<and> busy_inv s'"
    and "abort_section reason s = (res, s') \<Longrightarrow> busy_inv s'"
proof -
  note lease = busy_no_lease [OF assms] and trial = busy_no_trial [OF assms]
  have st: "rt_state s \<noteq> RS_READY" "rt_session s = None" "rt_trial_id s = None"
    using assms by (auto simp: busy_inv_def quiet_inv_def idle_inv_def)
  have inv: "invalidate_session st s = s" for st using st by (simp add: invalidate_session_def)
  show "\<exists>e. open_session d i tok now s = (Inl e, s)" "\<exists>e. close_session i s = (Inl e, s)"
    "\<exists>e. end_trial s = (Inl e, s)" "\<exists>x. mark_transport_ambiguous i n s = (x, s)"
    "\<exists>e. infer_enter r now s = (Inl e, s)" "\<exists>e. begin_trial_section d tid sd s = (Inl e, s)"
    using lease st
    by (simp_all add: open_session_def close_session_def end_trial_def mark_transport_ambiguous_def
        infer_enter_def validate_request_locked_def begin_trial_section_def state_and_trial_def op_simps)
  show "busy_inv s'" if "infer_commit r a oc s = (res, s')"
    using that st assms keepsD [OF busy_fail(1) assms]
    by (simp add: infer_commit_def op_simps fail_and_raise_apply split: if_splits) auto
  show "(\<exists>e. res' = Inl e) \<and> busy_inv s'" if "prepare_enter skill timeout s = (res', s')"
    using that st assms inv
    by (cases "rt_state s")
      (auto simp: busy_inv_def prepare_enter_def op_simps transition_locked_cases
        invalidate_session_locked_def split: if_splits)
  show "busy_inv s'" if "abort_section reason s = (res, s')"
    using that st trial inv assms
    by (auto simp: abort_section_def invalidate_session_locked_def audit_abort_def audit_terminate_def
        state_and_trial_def clear_trial_def op_simps busy_inv_def quiet_inv_def idle_inv_def runtime_inv_def
        leases_ok_def trial_ok_def)
qed

lemma busy_close:
  assumes "busy_inv s"
  shows "busy_inv (snd (close_section s))"
proof -
  have "trial_ok s" "rt_trial_id s = None"
    using assms by (auto simp: busy_inv_def quiet_inv_def idle_inv_def runtime_inv_def)
  with assms invalidate_idle [of s SS_ABORTED] show ?thesis
    by (simp add: close_section_apply Let_def busy_inv_def quiet_inv_def idle_imp_inv)
qed

subsection \<open>What one step does\<close>

lemma keeps_run: "keeps (same_counts s) m \<Longrightarrow> m s = (r, s') \<Longrightarrow> same_counts s s'"
  by (metis keepsD same_counts_def snd_conv)

lemmas counts_runs = counts_methods [THEN keeps_run] counts_sections [THEN keeps_run]

lemma thread_step_counts:
  assumes "thread_step d p s p' s'" and "runtime_inv s"
  shows "rt_exec_lock s' = (if holds p = holds p' then rt_exec_lock s else holds p')
    \<and> (\<not> holds p \<and> holds p' \<longrightarrow> \<not> rt_exec_lock s)
    \<and> rt_in_flight s' = rt_in_flight s + of_bool (entered p') - of_bool (entered p)"
  using assms
proof (induction rule: thread_step.induct)
  case (call c s res s')
  from keeps_run [OF atomic_counts [OF call(1)] call(2)] show ?case by (simp add: same_counts_def)
next
  case (close_call s e s')
  with counts_close_section [of s] show ?case by (simp add: runtime_inv_def same_counts_def)
next
  case (infer_enter r now s a s')
  with infer_enter_counts [of r now s "Inr a" s'] show ?case by simp
next
  case (infer_reject r now s e s')
  with infer_enter_counts [of r now s "Inl e" s'] show ?case by auto
qed (auto simp: acquire_exec_apply release_exec_def same_counts_def dest: counts_runs split: if_splits)

lemma keeps_result: "keeps P m \<Longrightarrow> P s \<Longrightarrow> m s = (r, s') \<Longrightarrow> P s'"
  by (metis keepsD snd_conv)

lemma keeps_result_dest: "keeps P m \<Longrightarrow> m s = (r, s') \<Longrightarrow> P s \<Longrightarrow> P s'"
  by (rule keeps_result)

lemma infer_record_inv: "keeps runtime_inv (infer_record d r b)"
  unfolding infer_record_def Let_def by (intro inv_intros)

lemmas inv_runs = infer_enter_inv [THEN keeps_result_dest] acquire_exec_inv(1) [THEN keeps_result_dest]
  on_backend_inv(1) [THEN keeps_result_dest] infer_record_inv [THEN keeps_result_dest]
  infer_failed_inv [THEN keeps_result_dest] infer_commit_inv [THEN keeps_result_dest]
  prepare_enter_inv [THEN keeps_result_dest] begin_trial_section_inv [THEN keeps_result_dest]
  begin_trial_failed_inv [THEN keeps_result_dest] abort_section_inv [THEN keeps_result_dest]
  close_section_inv [THEN keeps_result_dest] fail_and_raise_inv [THEN keeps_result_dest]

lemma thread_step_inv:
  assumes "thread_step d p s p' s'" and "runtime_inv s" and "preparing p \<Longrightarrow> busy_inv s"
  shows "runtime_inv s'"
  using assms
proof (induction rule: thread_step.induct)
  case (call c s res s')
  with keeps_result [OF runtime_step_inv] show ?case by blast
next
  case (prepare_policy skill s i s')
  then show ?case using keeps_result [OF prepare_backend_quiet, of s d skill "Inr i" s']
    by (simp add: busy_inv_def quiet_imp_inv)
next
  case (prepare_policy_fails skill s e s')
  then show ?case using keeps_result [OF prepare_backend_quiet, of s d skill "Inl e" s']
    by (simp add: busy_inv_def quiet_imp_inv)
next
  case (prepare_commit skill i s res s')
  then show ?case using keeps_result [OF prepare_commit_quiet, of s skill i res s']
    by (simp add: busy_inv_def quiet_imp_inv)
next
  case (drain_done deadline now s s' skill)
  then show ?case using keeps_result [OF prepare_drain_quiet, of s deadline now "Inr True" s']
    by (simp add: busy_inv_def quiet_imp_inv)
next
  case (drain_wait deadline now s s' skill)
  then show ?case using keeps_result [OF prepare_drain_quiet, of s deadline now "Inr False" s']
    by (simp add: busy_inv_def quiet_imp_inv)
next
  case (drain_timeout deadline now s e s' skill)
  then show ?case using keeps_result [OF prepare_drain_quiet, of s deadline now "Inl e" s']
    by (simp add: busy_inv_def quiet_imp_inv)
next
  case (prepare_fail e s res s')
  then show ?case
    by (auto simp: prepare_failed_def intro: keeps_result [OF fail_and_raise_inv] split: if_splits simp: raise_apply)
next
  case (prepare_gives_up s res s' skill)
  then show ?case by (auto simp: prepare_busy_def intro: keeps_result [OF fail_and_raise_inv])
qed (auto dest: inv_runs)

lemma busy_infer_record: "keeps busy_inv (infer_record d r b)"
  unfolding infer_record_def Let_def by (intro inv_intros)

lemma busy_infer_failed: "keeps busy_inv (infer_failed e)"
  unfolding infer_failed_def by (intro inv_intros)

lemma busy_prepare_failed: "keeps busy_inv (prepare_failed e)"
  unfolding prepare_failed_def by (intro inv_intros)

lemma busy_begin_failed: "keeps busy_inv (begin_trial_failed e)"
  unfolding begin_trial_failed_def by (intro inv_intros)

lemma busy_prepare_backend: "keeps busy_inv (prepare_backend d skill)"
  unfolding prepare_backend_def by (intro inv_intros)

lemma busy_acquire: "keeps busy_inv acquire_exec"
  by (rule keepsI) (simp add: acquire_exec_apply)

lemma busy_close_section: "keeps busy_inv close_section"
  by (rule keepsI) (rule busy_close)

lemma busy_atomic: "atomic_call c \<Longrightarrow> keeps busy_inv (runtime_step d c)"
proof (rule keepsI)
  fix s :: "'a runtime" assume "atomic_call c" and busy: "busy_inv s"
  then show "busy_inv (snd (runtime_step d c s))"
    using busy_rejects(1) [OF busy, of d] busy_rejects(2) [OF busy] busy_rejects(3) [OF busy]
      busy_rejects(4) [OF busy]
    by (cases c) (simp_all add: status_def gets_op_apply, (metis snd_conv)+)
qed

lemmas busy_runs = busy_on_backend [THEN keeps_result_dest] busy_infer_record [THEN keeps_result_dest]
  busy_infer_failed [THEN keeps_result_dest] busy_prepare_failed [THEN keeps_result_dest]
  busy_begin_failed [THEN keeps_result_dest] busy_acquire [THEN keeps_result_dest]
  busy_close_section [THEN keeps_result_dest] busy_fail(2) [THEN keeps_result_dest]
  busy_prepare_backend [THEN keeps_result_dest]

text \<open>A thread that is not preparing keeps the busy state and cannot start preparing in it.\<close>

lemma other_step_busy:
  assumes "thread_step d p s p' s'" and "\<not> preparing p" and "busy_inv s"
  shows "busy_inv s' \<and> \<not> preparing p'"
  using assms
proof (induction rule: thread_step.induct)
  case (call c s res s')
  then show ?case using keeps_result [OF busy_atomic] by auto
next
  case (infer_enter r now s a s')
  then show ?case using busy_rejects(5) [of s r now] by auto
next
  case (infer_reject r now s e s')
  then show ?case using busy_rejects(5) [of s r now] by auto
next
  case (infer_commit r a oc s res s')
  then show ?case using busy_rejects(7) by auto
next
  case (prepare_start skill timeout s s')
  then show ?case using busy_rejects(8) by blast
next
  case (prepare_drain skill timeout s s' deadline)
  then show ?case using busy_rejects(8) by blast
next
  case (prepare_reject skill timeout s e s')
  from busy_rejects(8) [OF prepare_reject(3) prepare_reject(1)] show ?case by simp
next
  case (begin_done tid n s st s')
  then show ?case using busy_rejects(6) [of s d tid n] by auto
next
  case (begin_section_fails tid n s e s')
  then show ?case using busy_rejects(6) [of s d tid n] by auto
next
  case (abort_done reason s res s')
  then show ?case using busy_rejects(9) by auto
qed (auto dest: busy_runs)

text \<open>A thread starts preparing only from a state with no session and no trial, and stays there.\<close>

lemma prepare_enter_busy:
  assumes "prepare_enter skill timeout s = (Inr drain, s')" and "runtime_inv s"
  shows "busy_inv s'"
  using prepare_enter_spec(1) [OF assms, of drain] by (auto simp: busy_inv_def split: if_splits)

lemma prepare_drain_busy:
  assumes "prepare_drain deadline now s = (Inr b, s')" and "busy_inv s"
  shows "busy_inv s'"
proof -
  from assms have "quiet_inv s'"
    using keeps_result [OF prepare_drain_quiet, of s deadline now "Inr b" s'] by (simp add: busy_inv_def)
  with assms show ?thesis
    by (cases "rt_state s")
      (auto simp: busy_inv_def prepare_drain_def op_simps transition_locked_cases fail_and_raise_apply
        split: if_splits)
qed

lemma own_step_busy:
  assumes "thread_step d p s p' s'" and "preparing p'" and "runtime_inv s"
    and "preparing p \<Longrightarrow> busy_inv s"
  shows "busy_inv s'"
  using assms
  by (induction rule: thread_step.induct)
    (auto dest: busy_runs prepare_enter_busy prepare_drain_busy)

subsection \<open>The invariant of the system\<close>

definition holders :: "(pc \<Rightarrow> bool) \<Rightarrow> pc list \<Rightarrow> nat" where
  "holders P ps = length (filter P ps)"

lemma holders_update:
  assumes "i < length ps"
  shows "int (holders P (ps[i := p'])) = int (holders P ps) - of_bool (P (ps ! i)) + of_bool (P p')"
  using assms
proof (induction ps arbitrary: i)
  case Nil
  then show ?case by simp
next
  case (Cons p ps)
  then show ?case by (cases i) (auto simp: holders_def)
qed

lemma holders_member: "p \<in> set ps \<Longrightarrow> P p \<Longrightarrow> 0 < holders P ps"
  by (induction ps) (auto simp: holders_def)

lemma holders_mono: "(\<And>p. P p \<Longrightarrow> Q p) \<Longrightarrow> holders P ps \<le> holders Q ps"
  by (induction ps) (auto simp: holders_def le_SucI)

definition system_inv :: "'b runtime \<times> pc list \<Rightarrow> bool" where
  "system_inv c \<longleftrightarrow>
     (case c of (s, ps) \<Rightarrow>
        runtime_inv s
        \<and> holders holds ps = of_bool (rt_exec_lock s)
        \<and> rt_in_flight s = int (holders entered ps)
        \<and> holders preparing ps \<le> 1 \<and> (0 < holders preparing ps \<longrightarrow> busy_inv s))"

lemma system_step_inv:
  assumes "system_step d c c'" and "system_inv c"
  shows "system_inv c'"
  using assms
proof cases
  case (step i ps s p' s')
  let ?p = "ps ! i"
  from step assms(2) have inv: "runtime_inv s" and lock: "holders holds ps = of_bool (rt_exec_lock s)"
    and flight: "rt_in_flight s = int (holders entered ps)"
    and one: "holders preparing ps \<le> 1" and busy: "0 < holders preparing ps \<longrightarrow> busy_inv s"
    by (simp_all add: system_inv_def)
  have mem: "?p \<in> set ps" using step(3) by simp
  have own: "preparing ?p \<Longrightarrow> busy_inv s" using holders_member [OF mem, of preparing] busy by simp
  have held: "holds ?p \<Longrightarrow> rt_exec_lock s" using holders_member [OF mem, of holds] lock by (cases "rt_exec_lock s") auto
  note counts = thread_step_counts [OF step(4) inv]
  have "runtime_inv s'" by (rule thread_step_inv [OF step(4) inv own])
  moreover have "int (holders holds (ps[i := p'])) = int (of_bool (rt_exec_lock s'))"
    using holders_update [OF step(3), of holds p'] lock held counts
    by (cases "holds ?p"; cases "holds p'") auto
  then have "holders holds (ps[i := p']) = of_bool (rt_exec_lock s')" by (simp only: of_nat_eq_iff)
  moreover have "rt_in_flight s' = int (holders entered (ps[i := p']))"
    using holders_update [OF step(3), of entered p'] flight counts by simp
  moreover have "holders preparing (ps[i := p']) \<le> 1
      \<and> (0 < holders preparing (ps[i := p']) \<longrightarrow> busy_inv s')"
  proof (cases "preparing ?p")
    case True
    then have "holders preparing ps = 1" using one holders_member [OF mem, of preparing] by simp
    with True holders_update [OF step(3), of preparing p'] own_step_busy [OF step(4) _ inv own]
    show ?thesis by (cases "preparing p'") auto
  next
    case False
    show ?thesis
    proof (cases "0 < holders preparing ps")
      case True
      with busy other_step_busy [OF step(4) False] holders_update [OF step(3), of preparing p'] one False
      show ?thesis by auto
    next
      case none: False
      with holders_update [OF step(3), of preparing p'] own_step_busy [OF step(4) _ inv own] False
      show ?thesis by (cases "preparing p'") auto
    qed
  qed
  ultimately show ?thesis using step by (simp add: system_inv_def)
qed

lemma reachable_inv: "reachable d c0 c \<Longrightarrow> system_inv c0 \<Longrightarrow> system_inv c"
  by (induction rule: reachable.induct) (auto intro: system_step_inv)

lemma reachable_length: "reachable d c0 c \<Longrightarrow> length (snd c) = length (snd c0)"
  by (induction rule: reachable.induct) (auto elim: system_step.cases)

lemma reachable_from_idle:
  assumes "reachable d (s0, replicate n Idle) (s, ps)" and "runtime_inv s0"
    and "\<not> rt_exec_lock s0" and "rt_in_flight s0 = 0"
  shows "system_inv (s, ps)"
proof -
  have "holders P (replicate n Idle) = (if P Idle then n else 0)" for P
    by (induction n) (auto simp: holders_def)
  with assms(2-4) have "system_inv (s0, replicate n Idle)" by (simp add: system_inv_def)
  with assms(1) show ?thesis by (rule reachable_inv)
qed

text \<open>
  C8. Under any interleaving of any number of callers, the execution lock is held exactly when
  a thread is inside a section that it protects, and then by that one thread; so at most one
  thread is inside a policy call of an inference, a preparation or a trial's start,
  \<open>in_flight\<close> is the number of requests that entered (never more than one), no request is in
  flight while a skill is being loaded, and the runtime's invariant holds.
\<close>

theorem interleaved_mutual_exclusion:
  assumes "reachable d (s0, replicate n Idle) (s, ps)" and "runtime_inv s0"
    and "\<not> rt_exec_lock s0" and "rt_in_flight s0 = 0"
  shows "holders holds ps = of_bool (rt_exec_lock s) \<and> holders in_policy ps \<le> of_bool (rt_exec_lock s)
    \<and> rt_in_flight s = int (holders entered ps) \<and> rt_in_flight s \<le> of_bool (rt_exec_lock s)
    \<and> (\<forall>skill. Prepare_backend skill \<in> set ps \<longrightarrow> rt_in_flight s = 0) \<and> runtime_inv s"
proof -
  from reachable_from_idle [OF assms] have inv: "runtime_inv s"
    and lock: "holders holds ps = of_bool (rt_exec_lock s)"
    and flight: "rt_in_flight s = int (holders entered ps)" by (simp_all add: system_inv_def)
  have "holders in_policy ps \<le> holders holds ps"
    by (rule holders_mono) (erule in_policy.elims(2); simp)
  moreover have entered: "holders entered ps + holders (\<lambda>p. \<exists>skill. p = Prepare_backend skill) ps \<le> holders holds ps"
  proof (induction ps)
    case (Cons p ps)
    then show ?case by (cases p) (auto simp: holders_def)
  qed (simp add: holders_def)
  moreover have "0 < holders (\<lambda>p. \<exists>skill. p = Prepare_backend skill) ps" if "Prepare_backend skill \<in> set ps" for skill
    using holders_member [OF that] by auto
  ultimately have "holders in_policy ps \<le> of_bool (rt_exec_lock s)" "holders entered ps \<le> of_bool (rt_exec_lock s)"
    "Prepare_backend skill \<in> set ps \<Longrightarrow> holders entered ps = 0" for skill
    using lock by (fastforce simp: of_bool_def split: if_splits)+
  with inv flight lock show ?thesis by auto
qed

lemma reachable_step:
  "reachable d c0 (s, ps) \<Longrightarrow> i < length ps \<Longrightarrow> thread_step d (ps ! i) s p' s' \<Longrightarrow>
     reachable d c0 (s', ps[i := p'])"
  by (rule reachable.more) (auto intro: system_step.intros)

text \<open>Two callers on the concrete runtime: an inference inside the policy, a shutdown beside it.\<close>

lemma demo_two_callers:
  "\<exists>s. reachable demo_deps (demo_runtime, replicate 2 Idle) (s, [Infer_backend demo_request 0, Close_backend])"
proof -
  let ?s1 = "demo_runtime\<lparr>rt_exec_lock := True\<rparr>"
  let ?s2 = "?s1\<lparr>rt_in_flight := rt_in_flight ?s1 + 1\<rparr>"
  have "reachable demo_deps (demo_runtime, replicate 2 Idle) (demo_runtime, replicate 2 Idle)" by (rule reachable.start)
  then have "reachable demo_deps (demo_runtime, replicate 2 Idle) (demo_runtime, [Infer_wait demo_request, Idle])"
    using reachable_step [of demo_deps "(demo_runtime, replicate 2 Idle)" demo_runtime "replicate 2 Idle" 0
        "Infer_wait demo_request" demo_runtime] infer_call [OF demo_parse, of demo_deps demo_runtime]
    by (simp add: numeral_2_eq_2)
  then have "reachable demo_deps (demo_runtime, replicate 2 Idle) (?s1, [Infer_locked demo_request, Idle])"
    using reachable_step [of demo_deps "(demo_runtime, replicate 2 Idle)" demo_runtime "[Infer_wait demo_request, Idle]" 0]
      infer_acquire [of demo_runtime ?s1 demo_deps] demo_unlocked by (simp add: acquire_exec_apply)
  then have "reachable demo_deps (demo_runtime, replicate 2 Idle) (?s2, [Infer_backend demo_request 0, Idle])"
    using reachable_step [of demo_deps "(demo_runtime, replicate 2 Idle)" ?s1 "[Infer_locked demo_request, Idle]" 0]
      infer_enter [of demo_request "Fin 1" ?s1 0 ?s2 demo_deps] demo_admitted by (simp add: infer_enter_admitted)
  moreover obtain e s3 where "close_section ?s2 = (Inr e, s3)"
    using close_section_apply [of ?s2] demo_inv
    by (fastforce simp: runtime_inv_def trial_ok_def Let_def split: sum.split if_splits)
  ultimately have "reachable demo_deps (demo_runtime, replicate 2 Idle) (s3, [Infer_backend demo_request 0, Close_backend])"
    using reachable_step [of demo_deps "(demo_runtime, replicate 2 Idle)" ?s2 "[Infer_backend demo_request 0, Idle]" 1]
      close_call [of ?s2 e s3 demo_deps] by simp
  then show ?thesis by blast
qed

theorem interleaved_mutual_exclusion_witness:
  "\<exists>s. reachable demo_deps (demo_runtime, replicate 2 Idle) (s, [Infer_backend demo_request 0, Close_backend])
     \<and> rt_exec_lock s \<and> rt_in_flight s = 1 \<and> runtime_inv s"
proof -
  obtain s where s: "reachable demo_deps (demo_runtime, replicate 2 Idle)
      (s, [Infer_backend demo_request 0, Close_backend])" using demo_two_callers by blast
  have "\<not> rt_exec_lock demo_runtime" "rt_in_flight demo_runtime = 0" by (simp_all add: demo_runtime_def)
  from interleaved_mutual_exclusion [OF s demo_inv this] s show ?thesis by (auto simp: holders_def of_bool_def split: if_splits)
qed

subsection \<open>Every method ends\<close>

text \<open>The sections a thread still has to run before it is out of its method, at most.\<close>

fun work :: "pc \<Rightarrow> nat" where
  "work Idle = 0"
| "work (Infer_wait r) = 7"
| "work (Infer_locked r) = 6"
| "work (Infer_backend r a) = 5"
| "work (Infer_record r a b) = 4"
| "work (Infer_failed e) = 3"
| "work (Infer_commit r a oc) = 3"
| "work Infer_leave = 2"
| "work (Prepare_drain skill deadline) = 5"
| "work (Prepare_wait skill) = 4"
| "work (Prepare_backend skill) = 3"
| "work (Prepare_failed e) = 2"
| "work (Prepare_release skill i) = 2"
| "work (Prepare_commit skill i) = 1"
| "work (Prepare_gives_up skill) = 1"
| "work (Begin_wait t n) = 4"
| "work (Begin_locked t n) = 3"
| "work (Begin_failed e) = 2"
| "work (Abort_wait reason) = 3"
| "work (Abort_locked reason) = 2"
| "work (Abort_gives_up reason) = 1"
| "work Release = 1"
| "work Close_backend = 1"

text \<open>
  A run in which the callers inside a method go on and no new call starts: \<open>k\<close> steps, \<open>w\<close> of
  them rounds of a drain loop that waits on.
\<close>

inductive finishing :: "'b runtime_deps \<Rightarrow> nat \<Rightarrow> nat \<Rightarrow> 'b runtime \<times> pc list \<Rightarrow> 'b runtime \<times> pc list \<Rightarrow> bool" for d where
  stay: "finishing d 0 0 c c"
| go_on: "i < length ps \<Longrightarrow> ps ! i \<noteq> Idle \<Longrightarrow> thread_step d (ps ! i) s p' s' \<Longrightarrow> p' \<noteq> ps ! i \<Longrightarrow>
    finishing d k w (s', ps[i := p']) c \<Longrightarrow> finishing d (Suc k) w (s, ps) c"
| wait_on: "i < length ps \<Longrightarrow> ps ! i \<noteq> Idle \<Longrightarrow> thread_step d (ps ! i) s (ps ! i) s' \<Longrightarrow>
    finishing d k w (s', ps) c \<Longrightarrow> finishing d (Suc k) (Suc w) (s, ps) c"

lemma work_le: "work p \<le> 7"
  by (cases p) simp_all

lemma work_0 [simp]: "work p = 0 \<longleftrightarrow> p = Idle"
  by (cases p) simp_all

lemma step_works:
  assumes "thread_step d p s p' s'" and "p \<noteq> Idle" and "p' \<noteq> p"
  shows "work p' < work p"
  using assms by (induction rule: thread_step.induct) simp_all

text \<open>Only the drain loop comes back to where it was, and only before its deadline, with a request in flight.\<close>

lemma step_waits:
  assumes "thread_step d p s p s'" and "p \<noteq> Idle"
  shows "\<exists>skill deadline now. p = Prepare_drain skill deadline \<and> prepare_drain deadline now s = (Inr False, s')"
  using assms by (cases rule: thread_step.cases) auto

lemma prepare_drain_waits:
  "fst (prepare_drain deadline now s) = Inr False \<longleftrightarrow>
     rt_in_flight s \<noteq> 0 \<and> \<not> f_le (f_sub deadline now) f_zero"
  by (cases "rt_state s")
    (auto simp: prepare_drain_def op_simps transition_locked_cases fail_and_raise_apply split: if_splits)

text \<open>A thread that does not drain has a next section in every state, a draining one when nothing is in flight.\<close>

lemma can_go_on:
  fixes s :: "'b runtime"
  assumes "p \<noteq> Idle" and "\<And>skill deadline. p = Prepare_drain skill deadline \<Longrightarrow> rt_in_flight s = 0"
  shows "\<exists>p' s'. thread_step d p s p' s' \<and> p' \<noteq> p"
proof (cases p)
  case (Infer_wait r)
  then show ?thesis using infer_busy infer_acquire [of s]
    by (cases "rt_exec_lock s") (auto simp: acquire_exec_apply, blast+)
next
  case (Infer_locked r)
  obtain res s' where "infer_enter r (Fin 0) s = (res, s')" by fastforce
  with Infer_locked show ?thesis using infer_enter infer_reject by (cases res) blast+
next
  case (Infer_backend r a)
  obtain res s' where "on_backend (be_infer (rd_backend d) (rq_observation r) (rq_request_kind r)) s = (res, s')" by fastforce
  with Infer_backend show ?thesis using infer_policy infer_policy_fails by (cases res) blast+
next
  case (Infer_record r a b)
  obtain res s' where "infer_record d r b s = (res, s')" by fastforce
  with Infer_record show ?thesis using infer_recorded infer_record_fails by (cases res) blast+
next
  case (Infer_failed e)
  obtain res :: "unit res" and s' where "infer_failed e s = (res, s')" by fastforce
  with Infer_failed show ?thesis using infer_fail by blast
next
  case (Infer_commit r a oc)
  obtain res s' where "infer_commit r a oc s = (res, s')" by fastforce
  with Infer_commit show ?thesis using infer_commit by blast
next
  case (Prepare_drain skill deadline)
  obtain res s' where run: "prepare_drain deadline (Fin 0) s = (res, s')" by fastforce
  moreover have "res \<noteq> Inr False"
    using prepare_drain_waits [of deadline "Fin 0" s] run assms(2) [OF Prepare_drain] by auto
  then have "res = Inr True \<or> (\<exists>e. res = Inl e)" by (cases res) auto
  ultimately show ?thesis
    using drain_done [of deadline "Fin 0" s s'] drain_timeout [of deadline "Fin 0" s _ s'] Prepare_drain by blast
next
  case (Prepare_wait skill)
  then show ?thesis using prepare_timeout prepare_acquire [of s]
    by (cases "rt_exec_lock s") (auto simp: acquire_exec_apply, blast+)
next
  case (Prepare_gives_up skill)
  obtain res :: "unit res" and s' where "prepare_busy s = (res, s')" by fastforce
  with Prepare_gives_up show ?thesis using prepare_gives_up by blast
next
  case (Prepare_backend skill)
  obtain res s' where "prepare_backend d skill s = (res, s')" by fastforce
  with Prepare_backend show ?thesis using prepare_policy prepare_policy_fails by (cases res) blast+
next
  case (Prepare_failed e)
  obtain res :: "unit res" and s' where "prepare_failed e s = (res, s')" by fastforce
  with Prepare_failed show ?thesis using prepare_fail by blast
next
  case (Prepare_commit skill i)
  obtain res s' where "prepare_commit skill i s = (res, s')" by fastforce
  with Prepare_commit show ?thesis using prepare_commit by blast
next
  case (Begin_wait t n)
  then show ?thesis using begin_busy begin_acquire [of s]
    by (cases "rt_exec_lock s") (auto simp: acquire_exec_apply, blast+)
next
  case (Begin_locked t n)
  obtain res s' where "begin_trial_section d t n s = (res, s')" by fastforce
  with Begin_locked show ?thesis using begin_done begin_section_fails by (cases res) blast+
next
  case (Begin_failed e)
  obtain res :: "unit res" and s' where "begin_trial_failed e s = (res, s')" by fastforce
  with Begin_failed show ?thesis using begin_fail by blast
next
  case (Abort_wait reason)
  then show ?thesis using abort_timeout abort_acquire [of s]
    by (cases "rt_exec_lock s") (auto simp: acquire_exec_apply, blast+)
next
  case (Abort_gives_up reason)
  obtain res :: "unit res" and s' where "fail_and_raise INFERENCE_TIMEOUT Interrupt s = (res, s')" by fastforce
  with Abort_gives_up show ?thesis using abort_gives_up by blast
next
  case (Abort_locked reason)
  obtain res s' where "abort_section reason s = (res, s')" by fastforce
  with Abort_locked show ?thesis using abort_done by blast
next
  case Close_backend
  obtain res s' where "on_backend (be_close (rd_backend d)) s = (res, s')" by fastforce
  with Close_backend show ?thesis using close_policy by blast
qed (use assms(1) infer_leave release prepare_release in \<open>blast | simp\<close>)+

lemma finishing_bound:
  "finishing d k w c c' \<Longrightarrow> k \<le> w + sum_list (map work (snd c))"
proof (induction rule: finishing.induct)
  case (go_on i ps s p' s' k w c)
  have "sum_list (map work (ps[i := p'])) < sum_list (map work ps)"
    using step_works [OF go_on(3,2,4)] go_on(1) elem_le_sum_list [of i "map work ps"]
    by (simp add: map_update sum_list_update)
  with go_on(6) show ?case by simp
qed simp_all

lemma finishing_inv: "finishing d k w c c' \<Longrightarrow> system_inv c \<Longrightarrow> system_inv c' \<and> length (snd c') = length (snd c)"
proof (induction rule: finishing.induct)
  case (go_on i ps s p' s' k w c)
  from system_step_inv [OF system_step.step [OF go_on(1,3)] go_on(7)] go_on(6) show ?case by simp
next
  case (wait_on i ps s s' k w c)
  from system_step_inv [OF system_step.step [OF wait_on(1,3)] wait_on(6)] wait_on(5) show ?case by simp
qed simp

lemma all_idle: "(\<And>i. i < length ps \<Longrightarrow> ps ! i = Idle) \<Longrightarrow> ps = replicate (length ps) Idle"
  by (rule nth_equalityI) auto

text \<open>From every state of the invariant the callers can all finish: first those that do not drain.\<close>

lemma can_finish:
  "system_inv (s, ps) \<Longrightarrow> \<exists>k s'. finishing d k 0 (s, ps) (s', replicate (length ps) Idle)"
proof (induction "sum_list (map work ps)" arbitrary: s ps rule: less_induct)
  case less
  show ?case
  proof (cases "\<exists>i < length ps. ps ! i \<noteq> Idle
      \<and> (\<forall>skill deadline. ps ! i = Prepare_drain skill deadline \<longrightarrow> rt_in_flight s = 0)")
    case True
    then obtain i where i: "i < length ps" "ps ! i \<noteq> Idle"
      and drain: "\<And>skill deadline. ps ! i = Prepare_drain skill deadline \<Longrightarrow> rt_in_flight s = 0" by blast
    obtain p' s' where step: "thread_step d (ps ! i) s p' s'" "p' \<noteq> ps ! i"
      using can_go_on [OF i(2), of s] drain by blast
    have "sum_list (map work (ps[i := p'])) < sum_list (map work ps)"
      using step_works [OF step(1) i(2) step(2)] i(1) elem_le_sum_list [of i "map work ps"]
      by (simp add: map_update sum_list_update)
    moreover have "system_inv (s', ps[i := p'])"
      by (rule system_step_inv [OF system_step.step [OF i(1) step(1)] less.prems])
    ultimately obtain k s'' where "finishing d k 0 (s', ps[i := p']) (s'', replicate (length ps) Idle)"
      using less.hyps [of "ps[i := p']" s'] by auto
    then show ?thesis using finishing.go_on [OF i step] by blast
  next
    case False
    have "holders entered ps = 0"
    proof (rule ccontr)
      assume "holders entered ps \<noteq> 0"
      then obtain p where "p \<in> set ps" "entered p" by (auto simp: holders_def filter_empty_conv)
      then obtain i where "i < length ps" "entered (ps ! i)" by (auto simp: in_set_conv_nth)
      with False show False by (cases "ps ! i") fastforce+
    qed
    with less.prems have "rt_in_flight s = 0" by (simp add: system_inv_def)
    with False have "ps = replicate (length ps) Idle" by (intro all_idle) blast
    then show ?thesis using finishing.stay [of d "(s, ps)"] by metis
  qed
qed

text \<open>
  C9. Every call ends.  Once no new call starts, a run of any callers whatsoever takes at
  most seven sections per caller, rounds of a drain loop aside, and wherever it got to it can
  be completed without another such round, so no caller is blocked for good; when the last
  caller is out the execution lock is free and nothing is in flight.  A drain loop waits on
  exactly before its deadline while a request is in flight.
\<close>

theorem callers_finish:
  assumes "reachable d (s0, replicate n Idle) (s, ps)" and "runtime_inv s0"
    and "\<not> rt_exec_lock s0" and "rt_in_flight s0 = 0" and "finishing d k w (s, ps) (s1, ps1)"
  shows "k \<le> w + 7 * n
    \<and> (\<exists>k' s2. finishing d k' 0 (s1, ps1) (s2, replicate n Idle))
    \<and> (ps1 = replicate n Idle \<longrightarrow> \<not> rt_exec_lock s1 \<and> rt_in_flight s1 = 0 \<and> runtime_inv s1)
    \<and> (\<forall>deadline now. fst (prepare_drain deadline now s1) = Inr False \<longleftrightarrow>
         rt_in_flight s1 \<noteq> 0 \<and> \<not> f_le (f_sub deadline now) f_zero)"
proof -
  have inv: "system_inv (s, ps)" by (rule reachable_from_idle [OF assms(1-4)])
  have len: "length ps = n" using reachable_length [OF assms(1)] by simp
  have "sum_list (map work qs) \<le> 7 * length qs" for qs
    by (induction qs) (use work_le in \<open>auto intro: add_mono\<close>)
  with finishing_bound [OF assms(5)] len have "k \<le> w + 7 * n" by (metis le_trans nat_add_left_cancel_le snd_conv)
  moreover have inv1: "system_inv (s1, ps1)" "length ps1 = n" using finishing_inv [OF assms(5) inv] len by auto
  moreover have "holders P (replicate n Idle) = 0" if "\<not> P Idle" for P using that by (simp add: holders_def)
  then have "ps1 = replicate n Idle \<longrightarrow> \<not> rt_exec_lock s1 \<and> rt_in_flight s1 = 0 \<and> runtime_inv s1"
    using inv1(1) by (auto simp: system_inv_def)
  ultimately show ?thesis using can_finish [OF inv1(1), of d] prepare_drain_waits by fastforce
qed

theorem callers_finish_witness:
  "\<exists>s k s2. reachable demo_deps (demo_runtime, replicate 2 Idle) (s, [Infer_backend demo_request 0, Close_backend])
     \<and> finishing demo_deps k 0 (s, [Infer_backend demo_request 0, Close_backend]) (s2, replicate 2 Idle)"
proof -
  obtain s where s: "reachable demo_deps (demo_runtime, replicate 2 Idle)
      (s, [Infer_backend demo_request 0, Close_backend])" using demo_two_callers by blast
  have "\<not> rt_exec_lock demo_runtime" "rt_in_flight demo_runtime = 0" by (simp_all add: demo_runtime_def)
  from callers_finish [OF s demo_inv this finishing.stay] s show ?thesis by blast
qed

end
