(* ===== verification/Oven_Control.thy ===== *)
theory Oven_Control
  imports Oven_RuntimeSpec
begin

text \<open>
  The control plane: \<open>server/control_protocol.py\<close>, which parses control requests and
  dispatches them to the runtime, and \<open>edge/control_client.py\<close>, which builds the
  requests and checks the responses.  The SSH process between them is not code of this
  repository; what it returns is an argument.
\<close>

subsection \<open>Control requests\<close>

definition CONTROL_COMMANDS :: "string list" where
  "CONTROL_COMMANDS =
     [''status'', ''prepare-skill'', ''begin-trial'', ''open-session'', ''close-session'',
      ''end-trial'', ''abort'']"

record control_request =
  cr_command :: string
  cr_arguments :: pydict

definition parse_control_fields :: "pydict \<Rightarrow> control_request res" where
  "parse_control_fields payload =
     bind_sum (item payload ''protocol_version'') (\<lambda>version.
     bind_sum (expect (err INVALID_FIELD_TYPE ''protocol_version must be an integer'' []) (exact_int version)) (\<lambda>n.
     reject_if (n \<noteq> PROTOCOL_VERSION) (err PROTOCOL_VERSION_UNSUPPORTED ''unsupported protocol version'' []) (
     bind_sum (item payload ''command'') (\<lambda>command.
     bind_sum (item payload ''arguments'') (\<lambda>arguments.
     bind_sum (expect (err INVALID_FIELD_TYPE ''command must be a string'' []) (is_str command)) (\<lambda>c.
     reject_if (c \<notin> set CONTROL_COMMANDS) (err INVALID_FIELD_VALUE ''control command is not supported'' []) (
     bind_sum (expect (err INVALID_FIELD_TYPE ''arguments must be a dictionary'' []) (is_dict arguments)) (\<lambda>args.
       Inr \<lparr>cr_command = c, cr_arguments = args\<rparr>))))))))"

definition parse_control_request :: "pyval \<Rightarrow> control_request res" where
  "parse_control_request payload =
     (let required = [''protocol_version'', ''command'', ''arguments''] in
      bind_sum (expect (err INVALID_FIELD_TYPE ''control request must be a mapping'' []) (is_dict payload)) (\<lambda>d.
      reject_if (missing_fields required d \<noteq> [])
        (err MISSING_REQUIRED_FIELD ''control request is missing required fields''
          [(''fields'', PStrs (missing_fields required d))]) (
      reject_if (unexpected_fields required d \<noteq> [])
        (err UNEXPECTED_FIELD ''control request contains unexpected fields''
          [(''fields'', PStrs (unexpected_fields required d))])
        (parse_control_fields d))))"

definition expect_arguments :: "pydict \<Rightarrow> string list \<Rightarrow> unit res" where
  "expect_arguments arguments required =
     reject_if (missing_fields required arguments \<noteq> [])
       (err MISSING_REQUIRED_FIELD ''control arguments are missing required fields''
         [(''fields'', PStrs (missing_fields required arguments))]) (
     reject_if (unexpected_fields required arguments \<noteq> [])
       (err UNEXPECTED_FIELD ''control arguments contain unexpected fields''
         [(''fields'', PStrs (unexpected_fields required arguments))])
       (Inr ()))"

definition string_argument :: "pydict \<Rightarrow> string \<Rightarrow> string res" where
  "string_argument arguments name =
     bind_sum (item arguments name) (\<lambda>v.
     bind_sum (expect (err INVALID_FIELD_TYPE ''control argument must be a string'' [(''field'', PStr name)]) (is_str v)) (\<lambda>s.
     reject_if (s = []) (err INVALID_FIELD_VALUE ''control argument must not be empty'' [(''field'', PStr name)])
       (Inr s)))"

definition integer_argument :: "pydict \<Rightarrow> string \<Rightarrow> int res" where
  "integer_argument arguments name =
     bind_sum (item arguments name) (\<lambda>v.
       expect (err INVALID_FIELD_TYPE ''control argument must be an integer'' [(''field'', PStr name)]) (exact_int v))"

subsection \<open>The dispatcher\<close>

text \<open>What the runtime draws from the operating system for one command.\<close>

record control_env =
  ce_session_id :: string
  ce_token :: string
  ce_now :: flt

text \<open>The default \<open>drain_timeout_sec\<close> of \<open>prepare_skill\<close> is 30 seconds.\<close>

definition control_dispatch :: "'b runtime_deps \<Rightarrow> control_env \<Rightarrow> control_request \<Rightarrow> ('b runtime, pydict) meth" where
  "control_dispatch d env r =
     (let command = cr_command r; arguments = cr_arguments r in
      if command \<in> {''status'', ''open-session'', ''end-trial''}
      then seq_op (lift_sum (expect_arguments arguments []))
             (if command = ''status'' then status
              else if command = ''open-session'' then open_session d (ce_session_id env) (ce_token env) (ce_now env)
              else end_trial)
      else if command = ''prepare-skill''
      then seq_op (lift_sum (expect_arguments arguments [''skill'']))
             (bind_op (lift_sum (string_argument arguments ''skill'')) (\<lambda>skill. prepare_skill d skill (Fin 30)))
      else if command = ''begin-trial''
      then seq_op (lift_sum (expect_arguments arguments [''trial_id'', ''root_seed'']))
             (bind_op (lift_sum (string_argument arguments ''trial_id'')) (\<lambda>trial_id.
              bind_op (lift_sum (integer_argument arguments ''root_seed'')) (\<lambda>seed.
                begin_trial d (PStr trial_id) (PInt seed))))
      else if command = ''close-session''
      then seq_op (lift_sum (expect_arguments arguments [''session_id'']))
             (bind_op (lift_sum (string_argument arguments ''session_id'')) close_session)
      else if command = ''abort''
      then seq_op (lift_sum (expect_arguments arguments [''reason'']))
             (bind_op (lift_sum (string_argument arguments ''reason'')) abort)
      else raise (err INVALID_FIELD_VALUE ''control command is not implemented'' []))"

definition control_ok :: "string \<Rightarrow> string \<Rightarrow> pydict \<Rightarrow> pydict" where
  "control_ok instance_id command result =
     [(''protocol_version'', PInt PROTOCOL_VERSION), (''ok'', PBool True), (''command'', PStr command),
      (''server_instance_id'', PStr instance_id), (''result'', PDict result)]"

definition control_error :: "string \<Rightarrow> string \<Rightarrow> runtime_fault \<Rightarrow> pydict" where
  "control_error instance_id command f =
     fold (\<lambda>(k, v) d. dset d k v) (fault_to_dict f)
       [(''protocol_version'', PInt PROTOCOL_VERSION), (''ok'', PBool False), (''command'', PStr command),
        (''server_instance_id'', PStr instance_id)]"

text \<open>\<open>execute\<close> answers everything except the operator's interrupt.\<close>

definition control_failure :: "string \<Rightarrow> string \<Rightarrow> exn \<Rightarrow> pydict res" where
  "control_failure instance_id command e =
     (case e of
        Fault f \<Rightarrow> Inr (control_error instance_id command f)
      | PyExc c \<Rightarrow> Inr (control_error instance_id command
                       (fault SERVER_FAILED ''control command failed inside the server'' []))
      | Interrupt \<Rightarrow> Inl Interrupt)"

definition control_execute ::
  "'b runtime_deps \<Rightarrow> string \<Rightarrow> control_env \<Rightarrow> pyval \<Rightarrow> ('b runtime, pydict) meth" where
  "control_execute d instance_id env payload =
     (case parse_control_request payload of
        Inl e \<Rightarrow> lift_sum (control_failure instance_id ''unknown'' e)
      | Inr r \<Rightarrow>
          catch_op (map_op (control_ok instance_id (cr_command r)) (control_dispatch d env r))
            (\<lambda>e. lift_sum (control_failure instance_id (cr_command r) e)))"

subsection \<open>The client's side\<close>

definition command_names :: "string \<Rightarrow> string list option" where
  "command_names command =
     map_of [(''status'', []), (''prepare-skill'', [''skill'']), (''begin-trial'', [''trial_id'', ''root_seed'']),
             (''open-session'', []), (''close-session'', [''session_id'']), (''end-trial'', []),
             (''abort'', [''reason''])] command"

definition command_arguments :: "string \<Rightarrow> pyval list \<Rightarrow> pydict res" where
  "command_arguments command values =
     bind_sum (expect (PyExc ValueError) (command_names command)) (\<lambda>names.
     reject_if (length names \<noteq> length values) (PyExc ValueError)
       (let result = zip names values in
        reject_if (\<exists>name \<in> {''root_seed'', ''seed''}. case dget result name of
                      None \<Rightarrow> False | Some v \<Rightarrow> exact_int v = None)
          (PyExc ValueError) (Inr result)))"

text \<open>
  \<open>UUID(value)\<close> for a value of any JSON type: no argument at all for \<open>None\<close>, the parse for a
  string, and \<open>AttributeError\<close> for the rest, which has no \<open>replace\<close>.
\<close>

definition uuid_call :: "pyval \<Rightarrow> unit res" where
  "uuid_call v =
     (case v of
        PStr s \<Rightarrow> if uuid_ok s then Inr () else Inl (PyExc ValueError)
      | PNone \<Rightarrow> Inl (PyExc TypeError)
      | PBytes b \<Rightarrow> Inl (PyExc TypeError)
      | _ \<Rightarrow> Inl (PyExc AttributeError))"

definition require_uuid :: "exn \<Rightarrow> pyval \<Rightarrow> unit res" where
  "require_uuid e v =
     (case uuid_call v of
        Inr u \<Rightarrow> Inr u
      | Inl x \<Rightarrow> Inl (if x \<in> {PyExc TypeError, PyExc ValueError} then e else x))"

fun first_missing :: "string list \<Rightarrow> pydict \<Rightarrow> string option" where
  "first_missing [] d = None"
| "first_missing (f # fs) d = (if f \<in> set (dkeys d) then first_missing fs d else Some f)"

definition remote_fault :: "pydict \<Rightarrow> runtime_fault" where
  \<comment> \<open>\<open>RuntimeFault(code, message)\<close> with the fallbacks\<close>
  "remote_fault payload =
     \<lparr>rf_code = (case dget payload ''error_code'' of
                   None \<Rightarrow> SERVER_FAILED
                 | Some v \<Rightarrow> (case code_of v of None \<Rightarrow> SERVER_FAILED | Some c \<Rightarrow> c)),
      rf_message = (case dget payload ''message'' of
                      Some (PStr m) \<Rightarrow> m
                    | _ \<Rightarrow> ''remote control command failed''),
      rf_details = None\<rparr>"

definition validate_control_response :: "string \<Rightarrow> pyval \<Rightarrow> pydict res" where
  "validate_control_response command value =
     bind_sum (expect (err FRAME_DECODE_FAILED ''control response must be a dictionary'' []) (is_dict value)) (\<lambda>payload.
     case first_missing [''protocol_version'', ''ok'', ''command'', ''server_instance_id''] payload of
       Some field \<Rightarrow> Inl (err MISSING_REQUIRED_FIELD ''control response is missing required fields''
                        [(''field'', PStr field)])
     | None \<Rightarrow>
     bind_sum (item payload ''protocol_version'') (\<lambda>version.
     bind_sum (item payload ''command'') (\<lambda>c.
     reject_if (\<not> eq_int version PROTOCOL_VERSION \<or> \<not> eq_str c command)
       (err RESPONSE_MISMATCH ''control response identity does not match its request'' []) (
     bind_sum (item payload ''ok'') (\<lambda>okv.
     bind_sum (expect (err INVALID_FIELD_TYPE ''control response ok field must be boolean'' []) (is_bool okv)) (\<lambda>ok.
     bind_sum (item payload ''server_instance_id'') (\<lambda>i.
     bind_sum (require_uuid (err INVALID_FIELD_VALUE ''control response server_instance_id must be a UUID'' []) i) (\<lambda>_.
     let ok_fields = [''protocol_version'', ''ok'', ''command'', ''server_instance_id'', ''result''];
         error_fields = [''protocol_version'', ''ok'', ''command'', ''server_instance_id'',
                         ''error_code'', ''message'', ''details''] in
     if ok then
       reject_if (unexpected_fields ok_fields payload \<noteq> [])
         (err UNEXPECTED_FIELD ''control response contains unexpected fields''
           [(''fields'', PStrs (unexpected_fields ok_fields payload))]) (
       reject_if (case dget payload ''result'' of None \<Rightarrow> True | Some v \<Rightarrow> is_dict v = None)
         (err MISSING_REQUIRED_FIELD ''successful control response has no result'' [])
         (Inr payload))
     else
       reject_if (unexpected_fields error_fields payload \<noteq> [])
         (err UNEXPECTED_FIELD ''control error response contains unexpected fields''
           [(''fields'', PStrs (unexpected_fields error_fields payload))])
         (Inl (Fault (remote_fault payload)))))))))))"

text \<open>
  What the SSH process gives: an exception of the runner, or its return code and the
  value of its standard output when that is JSON.
\<close>

datatype ssh_reply = Ssh_raises exn | Ssh_completed int "pyval option"

record control_client =
  cc_host_alias :: string
  cc_remote_program :: string
  cc_remote_runtime_root :: "string option"
  cc_timeout_sec :: flt
  cc_instance_id :: "string option"

text \<open>
  The constructor's checks: \<open>re.fullmatch\<close> of the two patterns, and the path rules of
  \<open>PurePosixPath\<close>, whose parts are the pieces between slashes.
\<close>

fun split_char :: "char \<Rightarrow> string \<Rightarrow> string list" where
  "split_char sep [] = [[]]"
| "split_char sep (c # cs) =
     (if c = sep then [] # split_char sep cs
      else (case split_char sep cs of [] \<Rightarrow> [[c]] | w # ws \<Rightarrow> (c # w) # ws))"

fun host_alias_matches :: "string \<Rightarrow> bool" where
  "host_alias_matches [] = False"
| "host_alias_matches (c # cs) = (is_alnum c \<and> list_all is_id_char cs)"

definition remote_program_matches :: "string \<Rightarrow> bool" where
  "remote_program_matches s \<longleftrightarrow> s \<noteq> [] \<and> list_all (\<lambda>c. is_id_char c \<or> c = CHR ''/'') s"

definition control_client_init ::
  "string \<Rightarrow> string \<Rightarrow> string option \<Rightarrow> flt \<Rightarrow> control_client res" where
  "control_client_init host_alias remote_program remote_runtime_root timeout_sec =
     reject_if (\<not> host_alias_matches host_alias) (PyExc ValueError) (
     reject_if (\<not> remote_program_matches remote_program
         \<or> ''..'' \<in> set (split_char (CHR ''/'') remote_program)) (PyExc ValueError) (
     reject_if (f_le timeout_sec f_zero) (PyExc ValueError) (
     reject_if (case remote_runtime_root of
                  None \<Rightarrow> False
                | Some base \<Rightarrow> \<not> prefix ''/'' base \<or> ''..'' \<in> set (split_char (CHR ''/'') base))
       (PyExc ValueError)
       (Inr \<lparr>cc_host_alias = host_alias, cc_remote_program = remote_program,
             cc_remote_runtime_root = remote_runtime_root, cc_timeout_sec = timeout_sec,
             cc_instance_id = None\<rparr>))))"

definition py_float_str :: "flt \<Rightarrow> string" where
  \<comment> \<open>\<open>str(x)\<close>\<close>
  "py_float_str x =
     (case x of Fin a \<Rightarrow> float_repr a | PInf \<Rightarrow> ''inf'' | NInf \<Rightarrow> ''-inf'' | NaN \<Rightarrow> ''nan'')"

definition control_argv :: "control_client \<Rightarrow> string list" where
  "control_argv c =
     [''ssh'', ''-o'', ''BatchMode=yes'', cc_host_alias c, cc_remote_program c]
     @ (case cc_remote_runtime_root c of
          None \<Rightarrow> []
        | Some base \<Rightarrow> [''--socket'', base @ ''/control/oven-server.sock''])
     @ [''--timeout-sec'', py_float_str (cc_timeout_sec c), ''--stdin-json'']"

definition control_payload :: "string \<Rightarrow> pydict \<Rightarrow> pyval" where
  "control_payload command arguments =
     PDict [(''protocol_version'', PInt PROTOCOL_VERSION), (''command'', PStr command),
            (''arguments'', PDict arguments)]"

definition ssh_response :: "ssh_reply \<Rightarrow> pyval res" where
  "ssh_response reply =
     (case reply of
        Ssh_raises e \<Rightarrow>
          if is_os_error e \<or> e = PyExc TimeoutExpired
          then Inl (err CONTROL_SERVER_UNAVAILABLE ''SSH control command did not complete'' [])
          else Inl e
      | Ssh_completed code out \<Rightarrow>
          reject_if (code \<notin> {0, 1}) (err CONTROL_SERVER_UNAVAILABLE ''SSH control process failed'' [])
            (expect (err FRAME_DECODE_FAILED ''SSH control response is not valid JSON'' []) out))"

text \<open>The instance check: the first answer fixes the server instance for the client's life.\<close>

definition check_instance :: "pydict \<Rightarrow> (control_client, pydict) meth" where
  "check_instance validated =
     bind_op (gets_op cc_instance_id) (\<lambda>known.
       case dget validated ''server_instance_id'' of
         Some (PStr i) \<Rightarrow>
           (case known of
              None \<Rightarrow> seq_op (modify_op (\<lambda>c. c\<lparr>cc_instance_id := Some i\<rparr>)) (ret validated)
            | Some j \<Rightarrow>
                if j \<noteq> i
                then raise (err RESPONSE_MISMATCH ''control server instance changed during this client run'' [])
                else ret validated)
       | _ \<Rightarrow> raise (PyExc KeyError))"

definition control_call :: "(string list \<Rightarrow> pyval \<Rightarrow> ssh_reply) \<Rightarrow> string \<Rightarrow> pyval list \<Rightarrow> (control_client, pydict) meth" where
  "control_call ssh command arguments =
     bind_op (lift_sum (command_arguments command arguments)) (\<lambda>args.
     bind_op (gets_op control_argv) (\<lambda>argv.
     bind_op (lift_sum (ssh_response (ssh argv (control_payload command args)))) (\<lambda>response.
     bind_op (lift_sum (validate_control_response command response)) check_instance)))"

subsection \<open>The server's side\<close>

lemma control_error_fields:
  "control_error i c f =
     [(''protocol_version'', PInt PROTOCOL_VERSION), (''ok'', PBool False), (''command'', PStr c),
      (''server_instance_id'', PStr i), (''error_code'', PStr (code_value (rf_code f))),
      (''message'', PStr (rf_message f))]
     @ (case rf_details f of None \<Rightarrow> [] | Some d \<Rightarrow> if d = [] then [] else [(''details'', PDict d)])"
  by (simp add: control_error_def fault_to_dict_def split: option.split)

lemma parse_control_payload:
  assumes "c \<in> set CONTROL_COMMANDS"
  shows "parse_control_request (control_payload c args) = Inr \<lparr>cr_command = c, cr_arguments = args\<rparr>"
  using assms
  by (simp add: parse_control_request_def control_payload_def parse_control_fields_def item_def Let_def)

lemma command_arguments_commands: "command_arguments c vals = Inr args \<Longrightarrow> c \<in> set CONTROL_COMMANDS"
  by (auto simp: command_arguments_def command_names_def CONTROL_COMMANDS_def result_iffs split: if_splits)

lemma control_dispatch_inv [inv_intros]: "keeps runtime_inv (control_dispatch d env r)"
  unfolding control_dispatch_def Let_def by (intro inv_intros)

lemma control_execute_inv: "keeps runtime_inv (control_execute d i env payload)"
  unfolding control_execute_def
  by (cases "parse_control_request payload") (auto intro!: inv_intros)

interpretation control_machine:
  invariant_machine "\<lambda>(env, payload). control_execute d i env payload" runtime_inv for d i
  by unfold_locales (auto dest: keepsD [OF control_execute_inv])

text \<open>Every answer of the dispatcher, as a function of what the runtime's method did.\<close>

lemma control_execute_dispatch:
  assumes "parse_control_request payload = Inr r"
  shows "control_execute d i env payload s =
    (case control_dispatch d env r s of
       (Inr result, s') \<Rightarrow> (Inr (control_ok i (cr_command r) result), s')
     | (Inl e, s') \<Rightarrow> (control_failure i (cr_command r) e, s'))"
  using assms
  by (cases "control_dispatch d env r s")
    (auto simp: control_execute_def op_simps control_failure_def split: sum.split exn.split)

subsection \<open>The client's side of an answer\<close>

lemma first_missing_None: "first_missing fs d = None \<longleftrightarrow> set fs \<subseteq> set (dkeys d)"
  by (induction fs) auto

lemma require_uuid_Inr: "require_uuid e v = Inr u \<longleftrightarrow> (\<exists>s. v = PStr s \<and> uuid_ok s)"
  by (cases v) (auto simp: require_uuid_def uuid_call_def)

lemma validate_control_ok:
  "uuid_ok i \<Longrightarrow> validate_control_response c (PDict (control_ok i c result)) = Inr (control_ok i c result)"
  by (simp add: validate_control_response_def control_ok_def item_def require_uuid_def uuid_call_def Let_def
      unexpected_fields_def)

lemma validate_control_error:
  assumes "uuid_ok i"
  shows "validate_control_response c (PDict (control_error i c f))
    = Inl (Fault \<lparr>rf_code = rf_code f, rf_message = rf_message f, rf_details = None\<rparr>)"
proof -
  have "remote_fault (control_error i c f) = \<lparr>rf_code = rf_code f, rf_message = rf_message f, rf_details = None\<rparr>"
    by (simp add: remote_fault_def control_error_fields)
  moreover have "fst ` set (control_error i c f) \<subseteq>
      {''protocol_version'', ''ok'', ''command'', ''server_instance_id'', ''error_code'', ''message'', ''details''}"
    by (auto simp: control_error_fields split: option.splits if_splits)
  ultimately show ?thesis
    using assms
    by (simp add: validate_control_response_def item_def require_uuid_def uuid_call_def Let_def)
      (simp add: control_error_fields)
qed

lemma validate_response_accepts:
  assumes "validate_control_response c v = Inr d"
  shows "v = PDict d \<and> dget d ''command'' = Some (PStr c) \<and> (\<exists>i. dget d ''server_instance_id'' = Some (PStr i) \<and> uuid_ok i)
    \<and> dget d ''ok'' = Some (PBool True) \<and> (\<exists>result. dget d ''result'' = Some (PDict result))
    \<and> (\<exists>ver. dget d ''protocol_version'' = Some ver \<and> eq_int ver PROTOCOL_VERSION)"
  using assms
  by (auto simp: validate_control_response_def result_iffs require_uuid_Inr eq_str_def Let_def
      split: option.splits if_splits)

subsection \<open>The two sides together\<close>

text \<open>
  A control command from the client to the runtime and back: when the server's answer
  arrives, the caller gets exactly what the runtime's method returned, or a fault with the
  code and the message of the one it raised; an unexpected exception arrives as
  \<open>SERVER_FAILED\<close>. The details of a fault are not passed on.
\<close>

theorem control_call_end_to_end:
  assumes "command_arguments command vals = Inr args" and "uuid_ok i" and "cc_instance_id c \<in> {None, Some i}"
    and "control_execute d i env (control_payload command args) s = (Inr response, s')"
    and "rc \<in> {0, 1}"
  shows "fst (control_call (\<lambda>_ _. Ssh_completed rc (Some (PDict response))) command vals c) =
    (case fst (control_dispatch d env \<lparr>cr_command = command, cr_arguments = args\<rparr> s) of
       Inr result \<Rightarrow> Inr (control_ok i command result)
     | Inl (Fault f) \<Rightarrow> Inl (Fault \<lparr>rf_code = rf_code f, rf_message = rf_message f, rf_details = None\<rparr>)
     | Inl e \<Rightarrow> Inl (err SERVER_FAILED ''control command failed inside the server'' []))"
proof -
  let ?r = "\<lparr>cr_command = command, cr_arguments = args\<rparr>"
  have parse: "parse_control_request (control_payload command args) = Inr ?r"
    by (rule parse_control_payload [OF command_arguments_commands [OF assms(1)]])
  have inst: "dget (control_ok i command result) ''server_instance_id'' = Some (PStr i)" for result
    by (simp add: control_ok_def)
  have call: "fst (control_call (\<lambda>_ _. Ssh_completed rc (Some (PDict response))) command vals c)
      = (case validate_control_response command (PDict response) of
           Inl e \<Rightarrow> Inl e | Inr v \<Rightarrow> fst (check_instance v c))"
    using assms(1,5) by (simp add: control_call_def op_simps ssh_response_def reject_if_def split: sum.split)
  have detail: "\<lparr>rf_code = SERVER_FAILED, rf_message = ''control command failed inside the server'', rf_details = None\<rparr>
      = fault SERVER_FAILED ''control command failed inside the server'' []"
    by (simp add: fault_def)
  show ?thesis
  proof (cases "fst (control_dispatch d env ?r s)")
    case (Inr result)
    with assms(4) control_execute_dispatch [OF parse, of d i env s]
    have "response = control_ok i command result" by (cases "control_dispatch d env ?r s") simp
    with Inr call assms(2,3) inst show ?thesis
      by (auto simp: validate_control_ok check_instance_def op_simps)
  next
    case (Inl e)
    with assms(4) control_execute_dispatch [OF parse, of d i env s]
    have "control_failure i command e = Inr response" by (cases "control_dispatch d env ?r s") simp
    with Inl call assms(2) detail show ?thesis
      by (cases e) (auto simp: control_failure_def validate_control_error)
  qed
qed

lemma demo_control_status:
  "control_execute demo_deps demo_uuid \<lparr>ce_session_id = [], ce_token = [], ce_now = Fin 0\<rparr>
     (control_payload ''status'' []) demo_runtime
   = (Inr (control_ok demo_uuid ''status'' (status_dict demo_runtime)), demo_runtime)"
proof -
  have "parse_control_request (control_payload ''status'' []) = Inr \<lparr>cr_command = ''status'', cr_arguments = []\<rparr>"
    by (rule parse_control_payload) (simp add: CONTROL_COMMANDS_def)
  from control_execute_dispatch [OF this, of demo_deps demo_uuid "\<lparr>ce_session_id = [], ce_token = [], ce_now = Fin 0\<rparr>" demo_runtime]
  show ?thesis
    by (simp add: control_dispatch_def expect_arguments_def missing_fields_def unexpected_fields_def
        op_simps status_def Let_def)
qed

theorem control_call_end_to_end_witness:
  "fst (control_call (\<lambda>_ _. Ssh_completed 0 (Some (PDict (control_ok demo_uuid ''status'' (status_dict demo_runtime)))))
      ''status'' [] \<lparr>cc_host_alias = ''h'', cc_remote_program = ''p'', cc_remote_runtime_root = None,
        cc_timeout_sec = Fin 180, cc_instance_id = None\<rparr>)
   = Inr (control_ok demo_uuid ''status'' (status_dict demo_runtime))"
proof -
  let ?env = "\<lparr>ce_session_id = [], ce_token = [], ce_now = Fin 0\<rparr>"
  have args: "command_arguments ''status'' [] = Inr []" by (simp add: command_arguments_def command_names_def)
  have "fst (control_dispatch demo_deps ?env \<lparr>cr_command = ''status'', cr_arguments = []\<rparr> demo_runtime)
      = Inr (status_dict demo_runtime)"
    by (simp add: control_dispatch_def expect_arguments_def missing_fields_def unexpected_fields_def
        op_simps status_def Let_def)
  with control_call_end_to_end [OF args demo_uuid_ok _ demo_control_status, where rc = 0] show ?thesis by simp
qed

text \<open>
  The dispatcher answers every payload: whatever it is and whatever the runtime does, the
  result is a response dictionary with the server's identity, and only the operator's interrupt
  escapes. An answer that says \<open>ok\<close> carries the result of a dispatched runtime method.
\<close>

theorem control_execute_total:
  "case control_execute d i env payload s of
     (Inl e, s') \<Rightarrow> e = Interrupt
   | (Inr response, s') \<Rightarrow>
       dget response ''server_instance_id'' = Some (PStr i)
       \<and> dget response ''protocol_version'' = Some (PInt PROTOCOL_VERSION)
       \<and> (dget response ''ok'' = Some (PBool True) \<longleftrightarrow>
            (\<exists>r result. parse_control_request payload = Inr r \<and> control_dispatch d env r s = (Inr result, s')
               \<and> response = control_ok i (cr_command r) result))"
proof (cases "parse_control_request payload")
  case (Inl e)
  then show ?thesis
    by (cases e) (simp_all add: control_execute_def op_simps control_failure_def control_error_fields)
next
  case (Inr r)
  obtain res s' where run: "control_dispatch d env r s = (res, s')" by fastforce
  show ?thesis
  proof (cases res)
    case (Inl e)
    with Inr run control_execute_dispatch [OF Inr, of d i env s] show ?thesis
      by (cases e) (auto simp: control_failure_def control_error_fields)
  next
    case (Inr result)
    with \<open>parse_control_request payload = Inr r\<close> run control_execute_dispatch [of payload r d i env s]
    show ?thesis by (auto simp: control_ok_def)
  qed
qed

text \<open>The answers a client accepts over a sequence of calls.\<close>

fun control_calls :: "((string list \<Rightarrow> pyval \<Rightarrow> ssh_reply) \<times> string \<times> pyval list) list \<Rightarrow> control_client \<Rightarrow> pydict list" where
  "control_calls [] c = []"
| "control_calls ((ssh, command, vals) # calls) c =
     (case control_call ssh command vals c of
        (Inr d, c') \<Rightarrow> d # control_calls calls c'
      | (Inl e, c') \<Rightarrow> control_calls calls c')"

lemma control_call_cases:
  assumes "control_call ssh command vals c = (r, c')"
  shows "case r of
      Inl e \<Rightarrow> c' = c
    | Inr d \<Rightarrow> \<exists>i. dget d ''server_instance_id'' = Some (PStr i) \<and> uuid_ok i
        \<and> cc_instance_id c \<in> {None, Some i} \<and> cc_instance_id c' = Some i"
proof -
  have check: "case r of
      Inl e \<Rightarrow> c' = c
    | Inr d \<Rightarrow> \<exists>i. dget d ''server_instance_id'' = Some (PStr i) \<and> uuid_ok i
        \<and> cc_instance_id c \<in> {None, Some i} \<and> cc_instance_id c' = Some i"
    if "check_instance v c = (r, c')" "\<exists>i. dget v ''server_instance_id'' = Some (PStr i) \<and> uuid_ok i" for v
    using that by (auto simp: check_instance_def op_simps split: option.splits if_splits)
  from assms show ?thesis
  proof (cases "command_arguments command vals")
    case (Inl e)
    with assms have "r = Inl e \<and> c' = c" by (simp add: control_call_def op_simps)
    then show ?thesis by simp
  next
    case (Inr args)
    show ?thesis
    proof (cases "bind_sum (ssh_response (ssh (control_argv c) (control_payload command args))) (validate_control_response command)")
      case (Inl e)
      with Inr assms have "r = Inl e \<and> c' = c" by (auto simp: control_call_def op_simps bind_sum_eq_Inl)
      then show ?thesis by simp
    next
      case (Inr v)
      then obtain response where v: "ssh_response (ssh (control_argv c) (control_payload command args)) = Inr response"
        "validate_control_response command response = Inr v" by (auto simp: bind_sum_eq_Inr)
      with \<open>command_arguments command vals = Inr args\<close> assms have "check_instance v c = (r, c')"
        by (simp add: control_call_def op_simps)
      with check validate_response_accepts [OF v(2)] show ?thesis by blast
    qed
  qed
qed

lemma control_calls_known:
  "cc_instance_id c = Some i \<Longrightarrow> d \<in> set (control_calls calls c) \<Longrightarrow>
     dget d ''server_instance_id'' = Some (PStr i) \<and> uuid_ok i"
proof (induction calls arbitrary: c)
  case Nil
  then show ?case by simp
next
  case (Cons call calls)
  obtain ssh command vals where call: "call = (ssh, command, vals)" by (cases call)
  obtain r c' where run: "control_call ssh command vals c = (r, c')" by fastforce
  from control_call_cases [OF run] Cons run call show ?case by (cases r) auto
qed

text \<open>
  C10. After its first answer the client accepts answers of that server instance only: over any
  sequence of calls, all accepted answers carry one instance identifier, which is a UUID.
\<close>

theorem control_client_one_instance:
  "\<exists>i. \<forall>d \<in> set (control_calls calls c). dget d ''server_instance_id'' = Some (PStr i) \<and> uuid_ok i"
proof (induction calls arbitrary: c)
  case Nil
  then show ?case by simp
next
  case (Cons call calls)
  obtain ssh command vals where call: "call = (ssh, command, vals)" by (cases call)
  obtain r c' where run: "control_call ssh command vals c = (r, c')" by fastforce
  show ?case
  proof (cases r)
    case (Inl e)
    with Cons run call show ?thesis by simp
  next
    case (Inr d)
    with control_call_cases [OF run] obtain i where
      "dget d ''server_instance_id'' = Some (PStr i)" "uuid_ok i" "cc_instance_id c' = Some i" by auto
    with control_calls_known [of c' i] Inr run call show ?thesis by auto
  qed
qed

definition demo_control_calls :: "((string list \<Rightarrow> pyval \<Rightarrow> ssh_reply) \<times> string \<times> pyval list) list" where
  "demo_control_calls = replicate 2
     ((\<lambda>_ _. Ssh_completed 0 (Some (PDict (control_ok demo_uuid ''status'' [])))), ''status'', [])"

definition demo_control_client :: control_client where
  "demo_control_client =
     \<lparr>cc_host_alias = ''h'', cc_remote_program = ''p'', cc_remote_runtime_root = None,
      cc_timeout_sec = Fin 180, cc_instance_id = None\<rparr>"

lemma demo_control_call:
  assumes "cc_instance_id c = None \<or> cc_instance_id c = Some demo_uuid"
  shows "control_call (\<lambda>_ _. Ssh_completed 0 (Some (PDict (control_ok demo_uuid ''status'' [])))) ''status'' [] c
    = (Inr (control_ok demo_uuid ''status'' []), c\<lparr>cc_instance_id := Some demo_uuid\<rparr>)"
proof -
  have "dget (control_ok demo_uuid ''status'' []) ''server_instance_id'' = Some (PStr demo_uuid)"
    by (simp add: control_ok_def)
  with assms show ?thesis
    by (auto simp: control_call_def op_simps command_arguments_def command_names_def ssh_response_def
        validate_control_ok [OF demo_uuid_ok] check_instance_def)
qed

theorem control_client_one_instance_witness:
  "length (control_calls demo_control_calls demo_control_client) = 2
   \<and> (\<exists>i. \<forall>d \<in> set (control_calls demo_control_calls demo_control_client).
        dget d ''server_instance_id'' = Some (PStr i) \<and> uuid_ok i)"
proof
  show "length (control_calls demo_control_calls demo_control_client) = 2"
    by (simp add: demo_control_calls_def demo_control_client_def eval_nat_numeral demo_control_call)
  show "\<exists>i. \<forall>d \<in> set (control_calls demo_control_calls demo_control_client).
      dget d ''server_instance_id'' = Some (PStr i) \<and> uuid_ok i"
    by (rule control_client_one_instance)
qed

text \<open>
  A request the server cannot parse is answered under the command \<open>unknown\<close>, which the client
  takes for an answer to something else: the server's own code does not reach the caller.
\<close>

theorem parse_failure_is_reported_as_mismatch:
  assumes "command \<noteq> ''unknown''"
  shows "validate_control_response command (PDict (control_error i ''unknown'' f))
    = Inl (err RESPONSE_MISMATCH ''control response identity does not match its request'' [])"
  using assms
  by (simp add: validate_control_response_def control_error_fields item_def eq_int_def eq_str_def)

end
