(* ===== verification/Oven_Wire.thy ===== *)
theory Oven_Wire
  imports Oven_Protocol
begin

text \<open>
  \<open>common/wire.py\<close>: the framing of inference messages.  MessagePack and NumPy's dtype parser
  are not code of this repository; they are the parameters \<open>msgpack\<close> and \<open>numpy_wire\<close>.
  What the code adds, the checks on every decoded array and the size limits of a frame, is
  modelled in full.
\<close>

definition NDARRAY_EXT_CODE :: int where
  "NDARRAY_EXT_CODE = 42"

definition MAX_FRAME_BYTES :: nat where
  "MAX_FRAME_BYTES = 64 * 1024 * 1024"

definition MAX_ARRAY_DIMENSIONS :: nat where
  "MAX_ARRAY_DIMENSIONS = 16"

text \<open>
  What \<open>msgpack.unpackb\<close> can raise, as the handlers tell it apart: a \<open>RuntimeError\<close> with or
  without a cause, one of \<open>ValueError\<close>, \<open>TypeError\<close> and \<open>UnpackException\<close>, or anything else.
\<close>

datatype unpack_error = Unpack_runtime bool | Unpack_invalid | Unpack_other exn

record msgpack =
  mp_packb :: "pyval \<Rightarrow> byte_list res"
  mp_pack_message :: "(ndarray \<Rightarrow> (int \<times> byte_list) res) \<Rightarrow> pyval \<Rightarrow> byte_list res"
  mp_unpackb :: "byte_list \<Rightarrow> unpack_error + pyval"
  mp_unpack_message :: "(int \<Rightarrow> byte_list \<Rightarrow> pyval res) \<Rightarrow> byte_list \<Rightarrow> unpack_error + pyval"

record numpy_wire =
  nw_plain :: "dtype \<Rightarrow> bool"      \<comment> \<open>no objects, no fields, no sub-array\<close>
  nw_str :: "dtype \<Rightarrow> string"      \<comment> \<open>\<open>dtype.str\<close>\<close>
  nw_dtype :: "string \<Rightarrow> dtype res"
  nw_frombuffer :: "dtype \<Rightarrow> nat list \<Rightarrow> byte_list \<Rightarrow> flt list res"   \<comment> \<open>with the reshape\<close>

subsection \<open>Arrays\<close>

definition array_envelope :: "numpy_wire \<Rightarrow> ndarray \<Rightarrow> pyval" where
  "array_envelope nw a =
     PDict [(''dtype'', PStr (nw_str nw (nd_dtype a))),
            (''shape'', PList (map (\<lambda>n. PInt (int n)) (nd_shape a))),
            (''data'', PBytes (nd_bytes a))]"

definition encode_extension :: "msgpack \<Rightarrow> numpy_wire \<Rightarrow> ndarray \<Rightarrow> (int \<times> byte_list) res" where
  "encode_extension mp nw a =
     reject_if (\<not> nw_plain nw (nd_dtype a)) (PyExc TypeError)
       (bind_sum (mp_packb mp (array_envelope nw a)) (\<lambda>body. Inr (NDARRAY_EXT_CODE, body)))"

text \<open>One dimension of the declared shape: a non-negative integer that is not a boolean.\<close>

fun shape_of :: "pyval list \<Rightarrow> nat list option" where
  "shape_of [] = Some []"
| "shape_of (v # vs) =
     (case exact_int v of
        None \<Rightarrow> None
      | Some n \<Rightarrow> if n < 0 then None else map_option (Cons (nat n)) (shape_of vs))"

text \<open>The element count, with the size limit checked after every factor.\<close>

fun element_count :: "nat \<Rightarrow> nat \<Rightarrow> nat list \<Rightarrow> nat option" where
  "element_count itemsize acc [] = Some acc"
| "element_count itemsize acc (n # ns) =
     (if acc * n * itemsize > MAX_FRAME_BYTES then None else element_count itemsize (acc * n) ns)"

definition wire_kinds :: string where
  "wire_kinds = ''?biufcmM''"

fun envelope_fields :: "pyval option \<Rightarrow> pyval option \<Rightarrow> pyval option \<Rightarrow> (string \<times> pyval list \<times> byte_list) option" where
  "envelope_fields (Some (PStr dtype_text)) (Some (PList shape)) (Some (PBytes data)) = Some (dtype_text, shape, data)"
| "envelope_fields _ _ _ = None"

definition decode_envelope :: "numpy_wire \<Rightarrow> pyval \<Rightarrow> ndarray res" where
  "decode_envelope nw value =
     bind_sum (expect (PyExc ValueError) (is_dict value)) (\<lambda>d.
     reject_if (fst ` set d \<noteq> {''dtype'', ''shape'', ''data''}) (PyExc ValueError) (
     bind_sum (expect (PyExc ValueError)
         (envelope_fields (dget d ''dtype'') (dget d ''shape'') (dget d ''data''))) (\<lambda>(dtype_text, shape, data).
     reject_if (MAX_ARRAY_DIMENSIONS < length shape) (PyExc ValueError) (
     bind_sum (expect (PyExc ValueError) (shape_of shape)) (\<lambda>dims.
     bind_sum (nw_dtype nw dtype_text) (\<lambda>dt.
     reject_if (\<not> nw_plain nw dt \<or> dt_kind dt \<notin> set wire_kinds) (PyExc ValueError) (
     bind_sum (expect (PyExc ValueError) (element_count (dt_itemsize dt) 1 dims)) (\<lambda>count.
     reject_if (count * dt_itemsize dt \<noteq> length data) (PyExc ValueError) (
     bind_sum (nw_frombuffer nw dt dims data) (\<lambda>numbers.
       Inr (NDArray dt dims numbers data)))))))))))"

definition decode_extension :: "msgpack \<Rightarrow> numpy_wire \<Rightarrow> int \<Rightarrow> byte_list \<Rightarrow> pyval res" where
  "decode_extension mp nw code body =
     reject_if (code \<noteq> NDARRAY_EXT_CODE)
       (err FRAME_DECODE_FAILED ''binary frame contains an unsupported extension'' [])
       (let failed = Inl (err FRAME_DECODE_FAILED ''invalid NumPy array in binary frame'' []) in
        case mp_unpackb mp body of
          Inl (Unpack_other e) \<Rightarrow> Inl e
        | Inl (Unpack_runtime b) \<Rightarrow> Inl (PyExc RuntimeError)
        | Inl Unpack_invalid \<Rightarrow> failed
        | Inr value \<Rightarrow>
            (case decode_envelope nw value of
               Inr a \<Rightarrow> Inr (PArr a)
             | Inl e \<Rightarrow> if e \<in> {PyExc TypeError, PyExc ValueError} then failed else Inl e))"

subsection \<open>Frames\<close>

definition pack_message :: "msgpack \<Rightarrow> numpy_wire \<Rightarrow> nat \<Rightarrow> pyval \<Rightarrow> byte_list res" where
  "pack_message mp nw max_bytes value =
     reject_if (\<not> (0 < max_bytes \<and> max_bytes \<le> MAX_FRAME_BYTES)) (PyExc ValueError)
       (case mp_pack_message mp (encode_extension mp nw) value of
          Inl e \<Rightarrow>
            Inl (if e \<in> {PyExc TypeError, PyExc ValueError, PyExc OverflowError}
                 then err FRAME_DECODE_FAILED ''message cannot be encoded as safe MessagePack'' [] else e)
        | Inr packed \<Rightarrow>
            reject_if (max_bytes < length packed)
              (err FRAME_TOO_LARGE ''binary frame exceeds the configured size limit'' []) (Inr packed))"

text \<open>A frame the transport delivered: bytes, or text.\<close>

datatype frame = Binary byte_list | Text string

definition unpack_message :: "msgpack \<Rightarrow> numpy_wire \<Rightarrow> nat \<Rightarrow> frame \<Rightarrow> pyval res" where
  "unpack_message mp nw max_bytes fr =
     reject_if (\<not> (0 < max_bytes \<and> max_bytes \<le> MAX_FRAME_BYTES)) (PyExc ValueError)
       (case fr of
          Text t \<Rightarrow> Inl (err FRAME_TYPE_REJECTED ''inference transport accepts binary frames only'' [])
        | Binary bytes \<Rightarrow>
            reject_if (max_bytes < length bytes)
              (err FRAME_TOO_LARGE ''binary frame exceeds the configured size limit'' [])
              (case mp_unpack_message mp (decode_extension mp nw) bytes of
                 Inr v \<Rightarrow> Inr v
               | Inl (Unpack_runtime True) \<Rightarrow>
                   Inl (err FRAME_DECODE_FAILED ''binary frame contains an invalid extension'' [])
               | Inl (Unpack_runtime False) \<Rightarrow> Inl (PyExc RuntimeError)
               | Inl Unpack_invalid \<Rightarrow>
                   Inl (err FRAME_DECODE_FAILED ''binary frame is not valid MessagePack'' [])
               | Inl (Unpack_other e) \<Rightarrow> Inl e))"

subsection \<open>What a decoded array satisfies\<close>

lemma shape_of_ints [simp]: "shape_of (map (\<lambda>n. PInt (int n)) ns) = Some ns"
  by (induction ns) auto

lemma length_shape_of: "shape_of vs = Some ns \<Longrightarrow> length ns = length vs"
  by (induction vs arbitrary: ns) (auto split: option.splits if_splits)

lemma element_count_Some: "element_count k acc ns = Some c \<Longrightarrow> c = acc * prod_list ns"
  by (induction ns arbitrary: acc) (fastforce simp: mult.assoc split: if_splits)+

text \<open>The checks are exact: the count is returned when every partial product is within the limit.\<close>

lemma element_count_iff:
  "element_count k acc ns = Some c \<longleftrightarrow>
     c = acc * prod_list ns \<and> (\<forall>m < length ns. acc * prod_list (take (Suc m) ns) * k \<le> MAX_FRAME_BYTES)"
proof (induction ns arbitrary: acc)
  case Nil
  then show ?case by auto
next
  case (Cons n ns)
  have "(\<forall>m < Suc (length ns). acc * prod_list (take (Suc m) (n # ns)) * k \<le> MAX_FRAME_BYTES)
      \<longleftrightarrow> acc * n * k \<le> MAX_FRAME_BYTES
        \<and> (\<forall>m < length ns. acc * n * prod_list (take (Suc m) ns) * k \<le> MAX_FRAME_BYTES)"
    by (auto simp: less_Suc_eq_0_disj mult.assoc)
  with Cons.IH [of "acc * n"] show ?case by (auto simp: mult.assoc not_le)
qed

lemma decode_envelope_Inr:
  assumes "decode_envelope nw v = Inr a"
  shows "length (nd_shape a) \<le> MAX_ARRAY_DIMENSIONS"
    and "nw_plain nw (nd_dtype a)" and "dt_kind (nd_dtype a) \<in> set wire_kinds"
    and "length (nd_bytes a) = prod_list (nd_shape a) * dt_itemsize (nd_dtype a)"
    and "nw_frombuffer nw (nd_dtype a) (nd_shape a) (nd_bytes a) = Inr (nd_data a)"
    and "nd_shape a \<noteq> [] \<Longrightarrow> length (nd_bytes a) \<le> MAX_FRAME_BYTES"
proof -
  obtain d dtype_text shape data dims dt count numbers where
    parts: "shape_of shape = Some dims" "length shape \<le> MAX_ARRAY_DIMENSIONS"
      "nw_plain nw dt" "dt_kind dt \<in> set wire_kinds"
      "element_count (dt_itemsize dt) 1 dims = Some count" "count * dt_itemsize dt = length data"
      "nw_frombuffer nw dt dims data = Inr numbers" "a = NDArray dt dims numbers data"
    using assms
    by (auto simp: decode_envelope_def result_iffs not_less split: prod.splits)
  then have count: "count = prod_list dims" using element_count_Some [of _ 1 dims count] by simp
  with parts length_shape_of [of shape dims] show "length (nd_shape a) \<le> MAX_ARRAY_DIMENSIONS"
    "nw_plain nw (nd_dtype a)" "dt_kind (nd_dtype a) \<in> set wire_kinds"
    "length (nd_bytes a) = prod_list (nd_shape a) * dt_itemsize (nd_dtype a)"
    "nw_frombuffer nw (nd_dtype a) (nd_shape a) (nd_bytes a) = Inr (nd_data a)"
    by simp_all
  assume "nd_shape a \<noteq> []"
  with parts have "dims \<noteq> []" by simp
  then have "length dims - 1 < length dims" by simp
  moreover have "\<forall>m < length dims. 1 * prod_list (take (Suc m) dims) * dt_itemsize dt \<le> MAX_FRAME_BYTES"
    using element_count_iff [THEN iffD1, OF parts(5)] by blast
  ultimately have "1 * prod_list (take (Suc (length dims - 1)) dims) * dt_itemsize dt \<le> MAX_FRAME_BYTES"
    by blast
  with \<open>dims \<noteq> []\<close> parts count show "length (nd_bytes a) \<le> MAX_FRAME_BYTES" by simp
qed

lemma decode_envelope_Inl:
  "decode_envelope nw v = Inl e \<Longrightarrow>
     e = PyExc ValueError \<or> (\<exists>text. nw_dtype nw text = Inl e) \<or> (\<exists>dt dims b. nw_frombuffer nw dt dims b = Inl e)"
  by (auto simp: decode_envelope_def result_iffs split: prod.splits if_splits)

text \<open>
  Every array a peer can make this side decode is of a plain numeric type, has at most 16
  dimensions, exactly as many bytes as its shape and type say, and, unless it is a scalar, no
  more than 64 MiB, whatever MessagePack returns for the body.  The rest is \<open>FRAME_DECODE_FAILED\<close>,
  or an exception MessagePack or NumPy raised itself.
\<close>

theorem decoded_arrays_are_bounded:
  "case decode_extension mp nw code body of
     Inr (PArr a) \<Rightarrow>
       code = NDARRAY_EXT_CODE \<and> length (nd_shape a) \<le> 16 \<and> nw_plain nw (nd_dtype a)
       \<and> dt_kind (nd_dtype a) \<in> set wire_kinds
       \<and> length (nd_bytes a) = prod_list (nd_shape a) * dt_itemsize (nd_dtype a)
       \<and> (nd_shape a = [] \<or> length (nd_bytes a) \<le> 67108864)
   | Inr v \<Rightarrow> False
   | Inl e \<Rightarrow>
       fails_with FRAME_DECODE_FAILED (Inl e)
       \<or> mp_unpackb mp body = Inl (Unpack_other e) \<or> (\<exists>b. mp_unpackb mp body = Inl (Unpack_runtime b))
       \<or> (\<exists>text. nw_dtype nw text = Inl e) \<or> (\<exists>dt dims b. nw_frombuffer nw dt dims b = Inl e)"
proof (cases "code = NDARRAY_EXT_CODE \<and> (\<exists>v a. mp_unpackb mp body = Inr v \<and> decode_envelope nw v = Inr a)")
  case True
  then obtain v a where run: "mp_unpackb mp body = Inr v" "decode_envelope nw v = Inr a" by blast
  from decode_envelope_Inr [OF run(2)] run True show ?thesis
    by (auto simp: decode_extension_def MAX_ARRAY_DIMENSIONS_def MAX_FRAME_BYTES_def)
next
  case False
  then show ?thesis
    by (auto simp: decode_extension_def reject_if_def Let_def dest: decode_envelope_Inl
        split: sum.split unpack_error.split)
qed

lemma encode_decode:
  assumes "mp_packb mp (array_envelope nw a) = Inr body"
    and "mp_unpackb mp body = Inr (array_envelope nw a)"
    and "nw_dtype nw (nw_str nw (nd_dtype a)) = Inr (nd_dtype a)"
    and "nw_frombuffer nw (nd_dtype a) (nd_shape a) (nd_bytes a) = Inr (nd_data a)"
    and "nw_plain nw (nd_dtype a)" and "dt_kind (nd_dtype a) \<in> set wire_kinds"
    and "length (nd_shape a) \<le> MAX_ARRAY_DIMENSIONS"
    and "\<forall>m < length (nd_shape a). prod_list (take (Suc m) (nd_shape a)) * dt_itemsize (nd_dtype a) \<le> MAX_FRAME_BYTES"
    and "length (nd_bytes a) = prod_list (nd_shape a) * dt_itemsize (nd_dtype a)"
  shows "encode_extension mp nw a = Inr (NDARRAY_EXT_CODE, body)
    \<and> decode_extension mp nw NDARRAY_EXT_CODE body = Inr (PArr a)"
proof -
  have "element_count (dt_itemsize (nd_dtype a)) 1 (nd_shape a) = Some (prod_list (nd_shape a))"
    using assms(8) by (simp add: element_count_iff)
  with assms have "decode_envelope nw (array_envelope nw a) = Inr a"
    by (cases a) (auto simp: decode_envelope_def array_envelope_def reject_if_def insert_commute)
  with assms show ?thesis
    by (simp add: encode_extension_def decode_extension_def reject_if_def)
qed

text \<open>
  C14. An array this side sends is the array the other side decodes, in bytes, shape and type:
  whenever MessagePack returns the envelope it was given and NumPy the type and the numbers
  it wrote, for every plain array within the limits of the frame.
\<close>

theorem array_round_trip:
  assumes "mp_packb mp (array_envelope nw a) = Inr body"
    and "mp_unpackb mp body = Inr (array_envelope nw a)"
    and "nw_dtype nw (nw_str nw (nd_dtype a)) = Inr (nd_dtype a)"
    and "nw_frombuffer nw (nd_dtype a) (nd_shape a) (nd_bytes a) = Inr (nd_data a)"
    and "nw_plain nw (nd_dtype a)" and "dt_kind (nd_dtype a) \<in> set wire_kinds"
    and "length (nd_shape a) \<le> MAX_ARRAY_DIMENSIONS"
    and "\<forall>m < length (nd_shape a). prod_list (take (Suc m) (nd_shape a)) * dt_itemsize (nd_dtype a) \<le> MAX_FRAME_BYTES"
    and "length (nd_bytes a) = prod_list (nd_shape a) * dt_itemsize (nd_dtype a)"
  shows "encode_extension mp nw a = Inr (NDARRAY_EXT_CODE, body)
    \<and> decode_extension mp nw NDARRAY_EXT_CODE body = Inr (PArr a)"
  using assms by (rule encode_decode)

text \<open>A codec that knows one envelope, for the array of seven zeros.\<close>

definition demo_wire_array :: ndarray where
  "demo_wire_array = NDArray \<lparr>dt_name = ''float32'', dt_kind = CHR ''f'', dt_itemsize = 4\<rparr> [1, 7]
     (replicate 7 (Fin 0)) (replicate 28 0)"

definition demo_numpy_wire :: numpy_wire where
  "demo_numpy_wire =
     \<lparr>nw_plain = (\<lambda>dt. dt_kind dt \<noteq> CHR ''O''), nw_str = dt_name,
      nw_dtype = (\<lambda>t. if t = ''float32'' then Inr (nd_dtype demo_wire_array) else Inl (PyExc TypeError)),
      nw_frombuffer = (\<lambda>dt shape b. Inr (replicate (length b div 4) (Fin 0)))\<rparr>"

definition demo_msgpack :: msgpack where
  "demo_msgpack =
     \<lparr>mp_packb = (\<lambda>v. if v = array_envelope demo_numpy_wire demo_wire_array then Inr [1] else Inl (PyExc ValueError)),
      mp_pack_message = (\<lambda>_ _. Inl (PyExc ValueError)),
      mp_unpackb = (\<lambda>b. if b = [1] then Inr (array_envelope demo_numpy_wire demo_wire_array) else Inl Unpack_invalid),
      mp_unpack_message = (\<lambda>_ _. Inl Unpack_invalid)\<rparr>"

theorem array_round_trip_witness:
  "decode_extension demo_msgpack demo_numpy_wire NDARRAY_EXT_CODE [1] = Inr (PArr demo_wire_array)"
proof -
  have "nd_shape demo_wire_array = [1, 7]" by (simp add: demo_wire_array_def)
  then show ?thesis
    using array_round_trip [of demo_msgpack demo_numpy_wire demo_wire_array "[1]"]
    by (simp add: demo_msgpack_def demo_numpy_wire_def demo_wire_array_def wire_kinds_def
        MAX_ARRAY_DIMENSIONS_def MAX_FRAME_BYTES_def less_Suc_eq_0_disj)
qed

end
