(* ===== verification/Oven_Inference.thy ===== *)
theory Oven_Inference
  imports Oven_RuntimeSpec Oven_Wire
begin

text \<open>
  The inference plane: \<open>server/inference_server.py\<close>, which turns frames into calls of the
  runtime and closes the runtime when a response cannot be returned, and
  \<open>edge/inference_client.py\<close>, which sends one request and checks the response.  The WebSocket
  library is not code of this repository: what it delivers and whether a send succeeds are
  arguments.
\<close>

subsection \<open>The client\<close>

definition REQUIRED_RESPONSE_FIELDS :: "string list" where
  "REQUIRED_RESPONSE_FIELDS =
     [''protocol_version'', ''message_type'', ''session_id'', ''trial_id'', ''skill'', ''generation'',
      ''sequence'', ''publishable'', ''request_hash'', ''observation_hash'', ''noise_hash'',
      ''action_hash'', ''actions'']"

record inference_client =
  ic_uri :: string
  ic_timeout_sec :: flt

definition inference_client_init :: "string \<Rightarrow> flt \<Rightarrow> inference_client res" where
  "inference_client_init uri timeout_sec =
     reject_if (\<not> prefix ''ws://127.0.0.1:'' uri \<and> \<not> prefix ''ws://[::1]:'' uri) (PyExc ValueError) (
     reject_if (f_le timeout_sec f_zero) (PyExc ValueError)
       (Inr \<lparr>ic_uri = uri, ic_timeout_sec = timeout_sec\<rparr>))"

definition inference_fault :: "pydict \<Rightarrow> runtime_fault" where
  "inference_fault payload =
     \<lparr>rf_code = (case dget payload ''error_code'' of
                   None \<Rightarrow> SERVER_FAILED
                 | Some v \<Rightarrow> (case code_of v of None \<Rightarrow> SERVER_FAILED | Some c \<Rightarrow> c)),
      rf_message = (case dget payload ''message'' of
                      Some (PStr m) \<Rightarrow> m
                    | _ \<Rightarrow> ''remote inference failed''),
      rf_details = None\<rparr>"

definition field_ok :: "pydict \<Rightarrow> string \<times> (pyval \<Rightarrow> bool) \<Rightarrow> bool" where
  "field_ok payload check =
     (case dget payload (fst check) of None \<Rightarrow> False | Some v \<Rightarrow> snd check v)"

definition mismatched :: "pydict \<Rightarrow> (string \<times> (pyval \<Rightarrow> bool)) list \<Rightarrow> string list" where
  "mismatched payload checks = sort (map fst (filter (\<lambda>c. \<not> field_ok payload c) checks))"

definition expected_values :: "inference_request \<Rightarrow> (string \<times> (pyval \<Rightarrow> bool)) list" where
  "expected_values r =
     [(''protocol_version'', \<lambda>v. eq_int v PROTOCOL_VERSION),
      (''message_type'', \<lambda>v. eq_str v ''inference_response''),
      (''session_id'', \<lambda>v. eq_str v (rq_session_id r)),
      (''trial_id'', \<lambda>v. eq_str v (rq_trial_id r)),
      (''skill'', \<lambda>v. eq_str v (rq_expected_skill r)),
      (''generation'', \<lambda>v. eq_int v (rq_expected_generation r)),
      (''sequence'', \<lambda>v. eq_int v (rq_sequence r)),
      (''publishable'', \<lambda>v. eq_bool v (rq_request_kind r = INFER))]"

text \<open>The client's own hash of what it asked for.\<close>

definition expected_request :: "inference_request \<Rightarrow> string \<Rightarrow> pyval" where
  "expected_request r observation_hash =
     PDict [(''protocol_version'', PInt (rq_protocol_version r)), (''session_id'', PStr (rq_session_id r)),
            (''trial_id'', PStr (rq_trial_id r)), (''request_kind'', PStr (kind_value (rq_request_kind r))),
            (''expected_skill'', PStr (rq_expected_skill r)),
            (''expected_generation'', PInt (rq_expected_generation r)),
            (''sequence'', PInt (rq_sequence r)), (''observation_hash'', PStr observation_hash)]"

definition is_hash :: "pyval \<Rightarrow> bool" where
  "is_hash v = (case is_str v of None \<Rightarrow> False | Some s \<Rightarrow> length s = 64)"

fun first_bad_hash :: "pydict \<Rightarrow> string list \<Rightarrow> string option" where
  "first_bad_hash payload [] = None"
| "first_bad_hash payload (name # names) =
     (if field_ok payload (name, is_hash)
      then first_bad_hash payload names else Some name)"

definition verify_hashes :: "inference_request \<Rightarrow> pydict \<Rightarrow> pydict res" where
  "verify_hashes r payload =
     bind_sum (stable_tree_hash (PDict (rq_observation r))) (\<lambda>observation_hash.
     bind_sum (stable_tree_hash (expected_request r observation_hash)) (\<lambda>request_hash.
     bind_sum (item payload ''actions'') (\<lambda>actions.
     bind_sum (stable_tree_hash actions) (\<lambda>action_hash.
     let hashes = [(''observation_hash'', \<lambda>v. eq_str v observation_hash),
                   (''request_hash'', \<lambda>v. eq_str v request_hash),
                   (''action_hash'', \<lambda>v. eq_str v action_hash)] in
     reject_if (mismatched payload hashes \<noteq> [])
       (err RESPONSE_MISMATCH ''inference response hash verification failed''
         [(''fields'', PStrs (mismatched payload hashes))])
       (case first_bad_hash payload [''noise_hash'', ''request_hash'', ''observation_hash'', ''action_hash''] of
          Some name \<Rightarrow> Inl (err INVALID_FIELD_VALUE ''inference response hash is invalid'' [(''field'', PStr name)])
        | None \<Rightarrow> Inr payload)))))"

definition validate_inference_response :: "inference_request \<Rightarrow> pyval \<Rightarrow> pydict res" where
  "validate_inference_response r value =
     bind_sum (expect (err FRAME_DECODE_FAILED ''inference response must be a mapping'' []) (is_dict value)) (\<lambda>payload.
     reject_if (field_ok payload (''message_type'', \<lambda>v. eq_str v ''inference_error''))
       (Fault (inference_fault payload)) (
     reject_if (missing_fields REQUIRED_RESPONSE_FIELDS payload \<noteq> [])
       (err MISSING_REQUIRED_FIELD ''inference response is missing required fields''
         [(''fields'', PStrs (missing_fields REQUIRED_RESPONSE_FIELDS payload))]) (
     reject_if (unexpected_fields REQUIRED_RESPONSE_FIELDS payload \<noteq> [])
       (err UNEXPECTED_FIELD ''inference response contains unexpected fields''
         [(''fields'', PStrs (unexpected_fields REQUIRED_RESPONSE_FIELDS payload))]) (
     reject_if (mismatched payload (expected_values r) \<noteq> [])
       (err RESPONSE_MISMATCH ''inference response identity does not match its request''
         [(''fields'', PStrs (mismatched payload (expected_values r)))])
       (verify_hashes r payload)))))"

text \<open>One connection: the frame sent and what came back; no retry.\<close>

definition client_infer ::
  "msgpack \<Rightarrow> numpy_wire \<Rightarrow> (byte_list \<Rightarrow> frame res) \<Rightarrow> pyval \<Rightarrow> pydict res" where
  "client_infer mp nw connect payload =
     bind_sum (parse_request payload) (\<lambda>r.
     bind_sum (pack_message mp nw MAX_FRAME_BYTES payload) (\<lambda>frame.
     bind_sum (case connect frame of
                 Inl e \<Rightarrow>
                   Inl (if is_exception e
                        then err INFERENCE_TIMEOUT ''inference transport failed; request outcome is ambiguous and must not be retried automatically'' []
                        else e)
               | Inr received \<Rightarrow> Inr received) (\<lambda>received.
     bind_sum (unpack_message mp nw MAX_FRAME_BYTES received) (validate_inference_response r))))"

subsection \<open>The server\<close>

definition inference_error :: "runtime_fault \<Rightarrow> pydict" where
  "inference_error f =
     [(''protocol_version'', PInt PROTOCOL_VERSION), (''message_type'', PStr ''inference_error'')] @ fault_to_dict f"

definition process_frame ::
  "'b runtime_deps \<Rightarrow> msgpack \<Rightarrow> numpy_wire \<Rightarrow> nat \<Rightarrow> flt \<Rightarrow> frame \<Rightarrow> ('b runtime, pydict) meth" where
  "process_frame d mp nw max_bytes now fr =
     catch_op (bind_op (lift_sum (unpack_message mp nw max_bytes fr)) (infer d now))
       (\<lambda>e. case e of
          Fault f \<Rightarrow> ret (inference_error f)
        | PyExc c \<Rightarrow> ret (inference_error (fault SERVER_FAILED ''inference server failed to process request'' []))
        | Interrupt \<Rightarrow> raise e)"

text \<open>One frame of a connection: when it is handled, and what sending the reply does.\<close>

record connection_event =
  ev_now :: flt
  ev_frame :: frame
  ev_send :: "byte_list \<Rightarrow> unit res"

definition send_failed :: "pydict \<Rightarrow> ('b runtime, unit) meth" where
  \<comment> \<open>the handler's \<open>except Exception\<close>\<close>
  "send_failed response =
     (if field_ok response (''message_type'', \<lambda>v. eq_str v ''inference_response'')
      then (case (dget response ''session_id'', dget response ''sequence'') of
              (Some (PStr session_id), Some (PInt sequence)) \<Rightarrow>
                seq_op (mark_transport_ambiguous session_id sequence) (ret ())
            | _ \<Rightarrow> raise (PyExc KeyError))
      else ret ())"

definition send_reply :: "msgpack \<Rightarrow> numpy_wire \<Rightarrow> nat \<Rightarrow> connection_event \<Rightarrow> pydict \<Rightarrow> byte_list res" where
  "send_reply mp nw max_bytes ev response =
     bind_sum (pack_message mp nw max_bytes (PDict response)) (\<lambda>encoded.
     bind_sum (ev_send ev encoded) (\<lambda>_. Inr encoded))"

text \<open>The replies of a connection, until the peer closes it or a reply cannot be sent.\<close>

fun handle_connection ::
  "'b runtime_deps \<Rightarrow> msgpack \<Rightarrow> numpy_wire \<Rightarrow> nat \<Rightarrow> connection_event list \<Rightarrow> ('b runtime, byte_list list) meth" where
  "handle_connection d mp nw max_bytes [] = ret []"
| "handle_connection d mp nw max_bytes (ev # evs) =
     bind_op (process_frame d mp nw max_bytes (ev_now ev) (ev_frame ev)) (\<lambda>response.
       case send_reply mp nw max_bytes ev response of
         Inr encoded \<Rightarrow> map_op (Cons encoded) (handle_connection d mp nw max_bytes evs)
       | Inl e \<Rightarrow>
           if is_exception e then seq_op (send_failed response) (ret []) else raise e)"

subsection \<open>The runtime's invariant over a connection\<close>

lemma process_frame_inv [inv_intros]: "keeps runtime_inv (process_frame d mp nw n now fr)"
  unfolding process_frame_def by (intro inv_intros) (auto intro!: inv_intros split: exn.split)

lemma send_failed_inv [inv_intros]: "keeps runtime_inv (send_failed response)"
  unfolding send_failed_def by (auto intro!: inv_intros split: option.split pyval.split)

lemma handle_connection_inv [inv_intros]: "keeps runtime_inv (handle_connection d mp nw n evs)"
proof (induction evs)
  case Nil
  then show ?case by (simp add: keeps_ret)
next
  case (Cons ev evs)
  then show ?case by (auto intro!: inv_intros split: sum.split)
qed

interpretation inference_machine:
  invariant_machine "\<lambda>evs. handle_connection d mp nw n evs" runtime_inv for d mp nw n
  by unfold_locales (auto dest: keepsD [OF handle_connection_inv])

subsection \<open>What the client accepts\<close>

lemma expected_request_identity: "expected_request r oh = request_identity r oh"
  by (simp add: expected_request_def request_identity_def)

lemma mismatched_empty [simp]: "mismatched payload checks = [] \<longleftrightarrow> (\<forall>c \<in> set checks. field_ok payload c)"
  by (auto simp: mismatched_def filter_empty_conv simp flip: set_empty)

lemma field_ok_hash [simp]:
  "field_ok payload (name, is_hash) \<longleftrightarrow> (\<exists>h. dget payload name = Some (PStr h) \<and> length h = 64)"
  by (auto simp: field_ok_def is_hash_def split: option.splits)

lemma first_bad_hash_None:
  "first_bad_hash payload names = None \<longleftrightarrow>
     (\<forall>name \<in> set names. \<exists>h. dget payload name = Some (PStr h) \<and> length h = 64)"
  by (induction names) auto

lemma field_ok_str [simp]:
  "field_ok payload (name, \<lambda>v. eq_str v s) \<longleftrightarrow> dget payload name = Some (PStr s)"
  by (auto simp: field_ok_def eq_str_def split: option.split)

lemma case_bad_Inr:
  "(case m of None \<Rightarrow> Inr x | Some n \<Rightarrow> Inl (f n)) = Inr y \<longleftrightarrow> m = None \<and> y = x"
  by (cases m) auto

lemma verify_hashes_Inr:
  "verify_hashes r payload = Inr p \<longleftrightarrow>
     p = payload \<and>
     (\<exists>oh rh ah actions nh.
        stable_tree_hash (PDict (rq_observation r)) = Inr oh \<and> stable_tree_hash (request_identity r oh) = Inr rh
        \<and> dget payload ''actions'' = Some actions \<and> stable_tree_hash actions = Inr ah
        \<and> dget payload ''observation_hash'' = Some (PStr oh) \<and> dget payload ''request_hash'' = Some (PStr rh)
        \<and> dget payload ''action_hash'' = Some (PStr ah)
        \<and> dget payload ''noise_hash'' = Some (PStr nh) \<and> length nh = 64)"
proof -
  have "verify_hashes r payload = Inr p \<longleftrightarrow>
     (\<exists>oh rh actions ah.
        stable_tree_hash (PDict (rq_observation r)) = Inr oh \<and> stable_tree_hash (request_identity r oh) = Inr rh
        \<and> dget payload ''actions'' = Some actions \<and> stable_tree_hash actions = Inr ah
        \<and> (dget payload ''observation_hash'' = Some (PStr oh) \<and> dget payload ''request_hash'' = Some (PStr rh)
            \<and> dget payload ''action_hash'' = Some (PStr ah))
        \<and> first_bad_hash payload [''noise_hash'', ''request_hash'', ''observation_hash'', ''action_hash''] = None
        \<and> p = payload)"
    by (simp add: verify_hashes_def result_iffs Let_def expected_request_identity case_bad_Inr del: first_bad_hash.simps)
      blast
  moreover have "first_bad_hash payload [''noise_hash'', ''request_hash'', ''observation_hash'', ''action_hash''] = None
      \<longleftrightarrow> (\<exists>nh. dget payload ''noise_hash'' = Some (PStr nh) \<and> length nh = 64)"
    if "stable_tree_hash x = Inr oh" "stable_tree_hash y = Inr rh" "stable_tree_hash z = Inr ah"
      "dget payload ''observation_hash'' = Some (PStr oh)" "dget payload ''request_hash'' = Some (PStr rh)"
      "dget payload ''action_hash'' = Some (PStr ah)" for x y z oh rh ah
    using that length_stable_tree_hash by (simp add: first_bad_hash_None)
  ultimately show ?thesis by blast
qed

lemma validate_response_Inr:
  "validate_inference_response r v = Inr p \<longleftrightarrow>
     v = PDict p \<and> fst ` set p = set REQUIRED_RESPONSE_FIELDS
     \<and> dget p ''message_type'' \<noteq> Some (PStr ''inference_error'')
     \<and> (\<forall>c \<in> set (expected_values r). field_ok p c) \<and> verify_hashes r p = Inr p"
proof -
  have "verify_hashes r d = Inr p \<Longrightarrow> p = d" for d by (simp add: verify_hashes_Inr)
  then show ?thesis
    by (simp add: validate_inference_response_def result_iffs set_eq_subset field_ok_str del: ball_simps) blast
qed

lemma response_keys: "dkeys (response_to_dict rs) = REQUIRED_RESPONSE_FIELDS"
  by (simp add: response_to_dict_def REQUIRED_RESPONSE_FIELDS_def)

lemma response_accepted:
  assumes "stable_tree_hash (PDict (rq_observation r)) = Inr (io_observation_hash oc)"
    and "stable_tree_hash (request_identity r (io_observation_hash oc)) = Inr (io_request_hash oc)"
    and "stable_tree_hash (PArr (br_actions (io_result oc))) = Inr (io_action_hash oc)"
    and "length (br_noise_hash (io_result oc)) = 64"
  shows "validate_inference_response r (PDict (response_to_dict (response_of r oc)))
    = Inr (response_to_dict (response_of r oc))"
proof -
  have "\<forall>c \<in> set (expected_values r). field_ok (response_to_dict (response_of r oc)) c"
    by (simp add: expected_values_def field_ok_def response_to_dict_def response_of_def)
  moreover have "fst ` set (response_to_dict (response_of r oc)) = set REQUIRED_RESPONSE_FIELDS"
    using response_keys by (metis list.set_map)
  moreover have "verify_hashes r (response_to_dict (response_of r oc)) = Inr (response_to_dict (response_of r oc))"
    using assms by (simp add: verify_hashes_Inr response_to_dict_def response_of_def)
  ultimately show ?thesis by (simp add: validate_response_Inr) (simp add: response_to_dict_def)
qed

lemma error_reaches_client:
  "validate_inference_response r (PDict (inference_error f))
     = Inl (Fault \<lparr>rf_code = rf_code f, rf_message = rf_message f, rf_details = None\<rparr>)"
  by (simp add: validate_inference_response_def inference_error_def inference_fault_def)

text \<open>The backend's promise the client relies on: the noise digest is a digest.\<close>

locale hashing_backend =
  fixes be :: "'b policy_backend"
  assumes noise_digest: "be_infer be obs k b = (Inr result, b') \<Longrightarrow> length (br_noise_hash result) = 64"
begin

lemma response_verified:
  assumes "infer d now payload s = (Inr response, s')" and "rd_backend d = be"
    and "parse_request payload = Inr r"
  shows "validate_inference_response r (PDict response) = Inr response"
  using assms(1)
proof (rule infer_Inr)
  fix r' a oc s2
  assume "parse_request payload = Inr r'" and "response = response_to_dict (response_of r' oc)"
    and comp: "infer_compute d r' (s\<lparr>rt_exec_lock := True, rt_in_flight := rt_in_flight s + 1\<rparr>) = (Inr oc, s2)"
  moreover note infer_compute_Inr [OF comp]
  moreover have "length (br_noise_hash (io_result oc)) = 64"
    using noise_digest infer_compute_Inr(1) [OF comp] assms(2) by blast
  ultimately show ?thesis using assms(3) response_accepted by simp
qed

end

interpretation fake_digests: hashing_backend "fake_backend nr sh" for nr sh
  by unfold_locales
    (auto simp: fake_backend_def fake_infer_def op_simps Let_def dest: length_stable_tree_hash
      split: option.splits prod.splits sum.splits)

subsection \<open>The two sides together\<close>

lemma process_frame_apply:
  assumes "unpack_message mp nw n fr = Inr payload"
  shows "process_frame d mp nw n now fr s =
    (case infer d now payload s of
       (Inr response, s') \<Rightarrow> (Inr response, s')
     | (Inl (Fault f), s') \<Rightarrow> (Inr (inference_error f), s')
     | (Inl (PyExc c), s') \<Rightarrow>
         (Inr (inference_error (fault SERVER_FAILED ''inference server failed to process request'' [])), s')
     | (Inl Interrupt, s') \<Rightarrow> (Inl Interrupt, s'))"
  using assms
  by (auto simp: process_frame_def op_simps split: prod.split sum.split exn.split)

text \<open>
  C11. A request from the edge to the policy runtime and back: when the codec returns the two
  messages as they were sent, the client gets exactly the response of the runtime, which passes
  every check the client makes, or a fault with the code and message of the one the runtime
  raised; any other exception of the server arrives as \<open>SERVER_FAILED\<close>.
\<close>

theorem inference_end_to_end:
  assumes "parse_request payload = Inr r" and "hashing_backend (rd_backend d)"
    and "pack_message mp nw MAX_FRAME_BYTES payload = Inr fr"
    and "unpack_message mp nw n (Binary fr) = Inr payload"
    and "process_frame d mp nw n now (Binary fr) s = (Inr response, s')"
    and "pack_message mp nw n (PDict response) = Inr enc"
    and "unpack_message mp nw MAX_FRAME_BYTES (Binary enc) = Inr (PDict response)"
    and "connect fr = Inr (Binary enc)"
  shows "client_infer mp nw connect payload =
    (case fst (infer d now payload s) of
       Inr resp \<Rightarrow> Inr resp
     | Inl (Fault f) \<Rightarrow> Inl (Fault \<lparr>rf_code = rf_code f, rf_message = rf_message f, rf_details = None\<rparr>)
     | Inl e \<Rightarrow> Inl (err SERVER_FAILED ''inference server failed to process request'' []))"
proof -
  have client: "client_infer mp nw connect payload = validate_inference_response r (PDict response)"
    using assms(1,3,7,8) by (simp add: client_infer_def)
  obtain res s1 where run: "infer d now payload s = (res, s1)" by fastforce
  note frame = assms(5) [unfolded process_frame_apply [OF assms(4)] run]
  show ?thesis
  proof (cases res)
    case (Inr resp)
    with frame run client hashing_backend.response_verified [OF assms(2) _ refl assms(1)] show ?thesis by simp
  next
    case (Inl e)
    with frame run client show ?thesis
      by (cases e) (auto simp: error_reaches_client fault_def)
  qed
qed

text \<open>A codec that knows two messages.\<close>

definition demo_codec :: "pyval \<Rightarrow> pyval \<Rightarrow> msgpack" where
  "demo_codec request response =
     demo_msgpack\<lparr>mp_pack_message := (\<lambda>_ v. if v = request then Inr [7] else Inr [8]),
       mp_unpack_message := (\<lambda>_ b. if b = [7] then Inr request else Inr response)\<rparr>"

lemma demo_codec_packs [simp]:
  "pack_message (demo_codec x y) nw MAX_FRAME_BYTES x = Inr [7]"
  "v \<noteq> x \<Longrightarrow> pack_message (demo_codec x y) nw MAX_FRAME_BYTES v = Inr [8]"
  "unpack_message (demo_codec x y) nw MAX_FRAME_BYTES (Binary [7]) = Inr x"
  "unpack_message (demo_codec x y) nw MAX_FRAME_BYTES (Binary [8]) = Inr y"
  by (simp_all add: pack_message_def unpack_message_def demo_codec_def MAX_FRAME_BYTES_def)

lemma demo_response_not_request: "PDict (response_to_dict rs) \<noteq> demo_payload"
  by (simp add: demo_payload_def response_to_dict_def request_dict_def)

theorem inference_end_to_end_witness:
  "\<exists>resp. fst (infer demo_deps (Fin 1) demo_payload demo_runtime) = Inr resp
     \<and> client_infer (demo_codec demo_payload (PDict resp)) demo_numpy_wire (\<lambda>_. Inr (Binary [8])) demo_payload = Inr resp"
proof -
  obtain resp s' where run: "infer demo_deps (Fin 1) demo_payload demo_runtime = (Inr resp, s')"
    using demo_infer by blast
  then obtain rs where "resp = response_to_dict rs" using infer_Inr by blast
  then have other: "PDict resp \<noteq> demo_payload" by (simp add: demo_response_not_request)
  let ?mp = "demo_codec demo_payload (PDict resp)"
  have "hashing_backend (rd_backend demo_deps)"
    unfolding demo_deps_def by (simp add: fake_digests.hashing_backend_axioms)
  moreover have "process_frame demo_deps ?mp demo_numpy_wire MAX_FRAME_BYTES (Fin 1) (Binary [7]) demo_runtime = (Inr resp, s')"
    using run process_frame_apply [of ?mp demo_numpy_wire MAX_FRAME_BYTES "Binary [7]" demo_payload demo_deps "Fin 1" demo_runtime]
    by simp
  ultimately have "client_infer ?mp demo_numpy_wire (\<lambda>_. Inr (Binary [8])) demo_payload = Inr resp"
    using inference_end_to_end [OF demo_parse, of demo_deps ?mp demo_numpy_wire "[7]" MAX_FRAME_BYTES "Fin 1"
        demo_runtime resp s' "[8]" "\<lambda>_. Inr (Binary [8])"] other run
    by simp
  with run show ?thesis by auto
qed

text \<open>
  C12. The client accepts only an answer to its own request with the actions it was hashed for:
  an accepted response has exactly the fields of the protocol, repeats the request's session,
  trial and skill, a generation and a sequence number equal to the request's, and its request,
  observation and action digests are those of the request sent and of the actions received.
\<close>

theorem accepted_response_is_verified:
  assumes "client_infer mp nw connect payload = Inr resp"
  shows "\<exists>r oh rh actions ah generation sequence.
      parse_request payload = Inr r \<and> fst ` set resp = set REQUIRED_RESPONSE_FIELDS
      \<and> dget resp ''session_id'' = Some (PStr (rq_session_id r))
      \<and> dget resp ''trial_id'' = Some (PStr (rq_trial_id r))
      \<and> dget resp ''skill'' = Some (PStr (rq_expected_skill r))
      \<and> dget resp ''generation'' = Some generation \<and> eq_int generation (rq_expected_generation r)
      \<and> dget resp ''sequence'' = Some sequence \<and> eq_int sequence (rq_sequence r)
      \<and> stable_tree_hash (PDict (rq_observation r)) = Inr oh \<and> dget resp ''observation_hash'' = Some (PStr oh)
      \<and> stable_tree_hash (request_identity r oh) = Inr rh \<and> dget resp ''request_hash'' = Some (PStr rh)
      \<and> dget resp ''actions'' = Some actions \<and> stable_tree_hash actions = Inr ah
      \<and> dget resp ''action_hash'' = Some (PStr ah)"
proof -
  obtain r v where r: "parse_request payload = Inr r" and "validate_inference_response r v = Inr resp"
    using assms by (auto simp: client_infer_def result_iffs)
  then have keys: "fst ` set resp = set REQUIRED_RESPONSE_FIELDS"
    and ids: "\<forall>c \<in> set (expected_values r). field_ok resp c" and "verify_hashes r resp = Inr resp"
    by (auto simp: validate_response_Inr simp del: ball_simps)
  moreover have "dget resp ''session_id'' = Some (PStr (rq_session_id r))"
    "dget resp ''trial_id'' = Some (PStr (rq_trial_id r))" "dget resp ''skill'' = Some (PStr (rq_expected_skill r))"
    "\<exists>g. dget resp ''generation'' = Some g \<and> eq_int g (rq_expected_generation r)"
    "\<exists>n. dget resp ''sequence'' = Some n \<and> eq_int n (rq_sequence r)"
    using ids by (auto simp: expected_values_def field_ok_def eq_str_def split: option.splits)
  ultimately show ?thesis using r by (simp only: verify_hashes_Inr) blast
qed

theorem accepted_response_is_verified_witness:
  "\<exists>resp ah actions. client_infer (demo_codec demo_payload (PDict resp)) demo_numpy_wire (\<lambda>_. Inr (Binary [8])) demo_payload = Inr resp
     \<and> dget resp ''actions'' = Some actions \<and> stable_tree_hash actions = Inr ah
     \<and> dget resp ''action_hash'' = Some (PStr ah)"
proof -
  obtain resp s' where run: "infer demo_deps (Fin 1) demo_payload demo_runtime = (Inr resp, s')"
    using demo_infer by blast
  then obtain rs where "resp = response_to_dict rs" using infer_Inr by blast
  then have other: "PDict resp \<noteq> demo_payload" by (simp add: demo_response_not_request)
  have client: "client_infer (demo_codec demo_payload (PDict resp)) demo_numpy_wire (\<lambda>_. Inr (Binary [8])) demo_payload
      = Inr resp"
    using fake_digests.response_verified [OF run _ demo_parse] demo_parse
    by (simp add: client_infer_def demo_deps_def)
  from accepted_response_is_verified [OF client] client show ?thesis by blast
qed

text \<open>
  C13. A response that was computed but could not be encoded or sent closes the runtime before
  the connection handler ends: the runtime is \<open>FAILED\<close>, its session is gone, no further frame of
  the connection is handled, and the trial is released as ambiguous or its commit failed.
\<close>

theorem failed_send_closes_runtime:
  assumes "runtime_inv s" and "unpack_message mp nw n (ev_frame ev) = Inr payload"
    and "infer d (ev_now ev) payload s = (Inr response, s1)"
    and "send_reply mp nw n ev response = Inl e" and "is_exception e"
    and "handle_connection d mp nw n (ev # evs) s = (res, s')"
  shows "rt_state s' = RS_FAILED \<and> rt_session s' = None
    \<and> (case res of
         Inr sent \<Rightarrow> sent = [] \<and> rt_trial_id s' = None \<and> rt_last_error s' = Some SERVER_FAILED
       | Inl x \<Rightarrow> fails_with AUDIT_COMMIT_FAILED (Inl x) \<and> rt_trial_id s' = rt_trial_id s1)"
  using assms(3)
proof (rule infer_Inr)
  fix r :: inference_request and a oc s2
  let ?i = "rq_session_id r" and ?q = "rq_sequence r"
  assume adm: "admitted r (ev_now ev) s a"
    and comp: "infer_compute d r (s\<lparr>rt_exec_lock := True, rt_in_flight := rt_in_flight s + 1\<rparr>) = (Inr oc, s2)"
    and resp: "response = response_to_dict (response_of r oc)"
    and s1: "s1 = infer_leave (update_lease a (\<lambda>l. l\<lparr>sl_next_sequence := sl_next_sequence l + 1\<rparr>) s2)"
  have inv: "runtime_inv s1" using keepsD [OF infer_inv assms(1)] assms(3) by (metis snd_conv)
  from adm assms(1) have "a < length (rt_leases s)" by (auto simp: admitted_def runtime_inv_def leases_ok_def)
  with adm infer_compute_frame [OF comp] s1
  have session: "rt_session s1 = Some a" "sl_session_id (rt_leases s1 ! a) = ?i"
    by (auto simp: infer_leave_def release_exec_def update_lease_def admitted_def Let_def)
  obtain mr ms where mark: "mark_transport_ambiguous ?i ?q s1 = (mr, ms)" by fastforce
  have failed: "send_failed response s1 = (case mr of Inl x \<Rightarrow> (Inl x, ms) | Inr y \<Rightarrow> (Inr (), ms))"
    using mark
    by (cases mr) (simp_all add: send_failed_def resp response_to_dict_def response_of_def op_simps)
  have "process_frame d mp nw n (ev_now ev) (ev_frame ev) s = (Inr response, s1)"
    using assms(2,3) by (simp add: process_frame_apply)
  with assms(4-6) failed have "(res, s') = (case mr of Inl x \<Rightarrow> (Inl x, ms) | Inr y \<Rightarrow> (Inr [], ms))"
    by (cases mr) (simp_all add: op_simps)
  with mark_ambiguous_outcome [OF inv mark] session show ?thesis
    by (cases mr) (auto simp: fails_with_iff)
qed

theorem failed_send_closes_runtime_witness:
  "\<exists>res s' response s1.
     infer demo_deps (Fin 1) demo_payload demo_runtime = (Inr response, s1)
     \<and> handle_connection demo_deps (demo_codec demo_payload PNone) demo_numpy_wire MAX_FRAME_BYTES
         [\<lparr>ev_now = Fin 1, ev_frame = Binary [7], ev_send = (\<lambda>_. Inl (PyExc OSError))\<rparr>] demo_runtime = (res, s')
     \<and> rt_state s' = RS_FAILED \<and> rt_session s' = None"
proof -
  let ?mp = "demo_codec demo_payload PNone"
  let ?ev = "\<lparr>ev_now = Fin 1, ev_frame = Binary [7], ev_send = (\<lambda>_. Inl (PyExc OSError))\<rparr>"
  obtain response s1 where run: "infer demo_deps (Fin 1) demo_payload demo_runtime = (Inr response, s1)"
    using demo_infer by blast
  then obtain rs where "response = response_to_dict rs" using infer_Inr by blast
  then have "send_reply ?mp demo_numpy_wire MAX_FRAME_BYTES ?ev response = Inl (PyExc OSError)"
    using demo_response_not_request by (simp add: send_reply_def)
  moreover obtain res s' where "handle_connection demo_deps ?mp demo_numpy_wire MAX_FRAME_BYTES [?ev] demo_runtime = (res, s')"
    by fastforce
  ultimately show ?thesis
    using failed_send_closes_runtime [OF demo_inv, of ?mp demo_numpy_wire MAX_FRAME_BYTES ?ev demo_payload demo_deps
        response s1 "PyExc OSError" "[]" res s'] run
    by (auto simp del: handle_connection.simps)
qed

end
