(* ===== verification/Oven_EdgeAudit.thy ===== *)
theory Oven_EdgeAudit
  imports Oven_ServerAudit Oven_Protocol
begin

text \<open>
  \<open>edge/audit.py\<close> with the result records of \<open>edge/contracts.py\<close>: the evidence the robot's side
  keeps of one run.  A path is the list of its components below the store's root.  As for the
  server's store, every write or directory creation takes one entry of the schedule of disk
  outcomes.  The values written are the ones JSON can hold; the temporary files are not part of
  the model.
\<close>

record gate_result =
  gr_passed :: bool
  gr_samples :: nat
  gr_max_error :: flt
  gr_max_spread :: flt
  gr_reason :: string

record checker_result =
  kr_passed :: bool
  kr_score :: flt
  kr_threshold :: flt
  kr_asset_id :: string
  kr_reason :: string

record publish_result =
  pr_stop_requested :: bool
  pr_reason :: "string option"
  pr_published_rows :: int
  pr_gate_result :: "gate_result option"

record observation =
  ob_payload :: pyval
  ob_captured_at :: int

record edge_run =
  er_run_id :: string
  er_planned_skills :: "string list"
  er_completed_stages :: nat
  er_stage_directory :: "string list option"

record edge_store =
  es_dirs :: "string list list"
  es_files :: "string list \<Rightarrow> file_content option"
  es_active :: "edge_run option"
  es_io :: "io_outcome list"

text \<open>The root may hold the directories and files of earlier runs; \<open>new_edge_store\<close> is an empty one.\<close>

definition open_edge_store ::
  "string list list \<Rightarrow> (string list \<Rightarrow> file_content option) \<Rightarrow> io_outcome list \<Rightarrow> edge_store" where
  "open_edge_store dirs files io = \<lparr>es_dirs = dirs, es_files = files, es_active = None, es_io = io\<rparr>"

declare open_edge_store_def [simp]

definition new_edge_store :: "io_outcome list \<Rightarrow> edge_store" where
  "new_edge_store io = open_edge_store [] (\<lambda>_. None) io"

subsection \<open>Writes\<close>

definition edge_put :: "string list \<Rightarrow> file_content \<Rightarrow> edge_store \<Rightarrow> edge_store" where
  "edge_put path c st = st\<lparr>es_files := (es_files st)(path \<mapsto> c)\<rparr>"

definition edge_write :: "string list \<Rightarrow> file_content \<Rightarrow> (edge_store, unit) meth" where
  "edge_write path c =
     (\<lambda>st. case es_io st of
        [] \<Rightarrow> (Inr (), edge_put path c st)
      | outcome # rest \<Rightarrow>
          (let st1 = st\<lparr>es_io := rest\<rparr> in
           case outcome of
             Io_ok \<Rightarrow> (Inr (), edge_put path c st1)
           | Io_before \<Rightarrow> (Inl (PyExc OSError), st1)
           | Io_after \<Rightarrow> (Inl (PyExc OSError), edge_put path c st1)))"

definition edge_json :: "string list \<Rightarrow> pydict \<Rightarrow> (edge_store, unit) meth" where
  "edge_json path value = edge_write path (JsonFile value)"

definition edge_rows :: "edge_store \<Rightarrow> string list \<Rightarrow> pydict list" where
  "edge_rows st path = (case es_files st path of Some (JsonLines rows) \<Rightarrow> rows | _ \<Rightarrow> [])"

definition edge_append :: "string list \<Rightarrow> pydict \<Rightarrow> (edge_store, unit) meth" where
  "edge_append path row = (\<lambda>st. edge_write path (JsonLines (edge_rows st path @ [row])) st)"

definition edge_mkdir :: "string list \<Rightarrow> (edge_store, unit) meth" where
  "edge_mkdir path =
     (\<lambda>st. if path \<in> set (es_dirs st) then (Inl (PyExc FileExistsError), st)
       else case es_io st of
          [] \<Rightarrow> (Inr (), st\<lparr>es_dirs := path # es_dirs st\<rparr>)
        | outcome # rest \<Rightarrow>
            (let st1 = st\<lparr>es_io := rest\<rparr> in
             if outcome = Io_ok then (Inr (), st1\<lparr>es_dirs := path # es_dirs st1\<rparr>)
             else (Inl (PyExc OSError), st1)))"

subsection \<open>The operations\<close>

definition set_edge_run :: "edge_run option \<Rightarrow> (edge_store, unit) meth" where
  "set_edge_run r = modify_op (\<lambda>st. st\<lparr>es_active := r\<rparr>)"

definition edge_require_active :: "(edge_store, edge_run) meth" where
  "edge_require_active =
     bind_op (gets_op es_active) (\<lambda>active.
       lift_sum (expect (err STATE_REJECTED ''no active edge run'' []) active))"

definition edge_require_stage :: "(edge_store, string list) meth" where
  "edge_require_stage =
     bind_op edge_require_active (\<lambda>active.
       lift_sum (expect (err STATE_REJECTED ''no active edge stage'' []) (er_stage_directory active)))"

definition run_manifest :: "edge_run \<Rightarrow> string \<Rightarrow> string \<Rightarrow> pydict \<Rightarrow> pydict" where
  "run_manifest active status state extra =
     [(''schema_version'', PInt 1), (''run_id'', PStr (er_run_id active)), (''status'', PStr status),
      (''pipeline_state'', PStr state), (''planned_skills'', PStrs (er_planned_skills active)),
      (''completed_stages'', PInt (int (er_completed_stages active)))] @ extra"

definition edge_write_manifest :: "string \<Rightarrow> string \<Rightarrow> pydict \<Rightarrow> (edge_store, pydict) meth" where
  "edge_write_manifest status state extra =
     bind_op edge_require_active (\<lambda>active.
       let manifest = run_manifest active status state extra in
       seq_op (edge_json [er_run_id active, ''run_manifest.json''] manifest) (ret manifest))"

definition edge_begin :: "string \<Rightarrow> string list \<Rightarrow> (edge_store, string list) meth" where
  "edge_begin run_id planned_skills =
     (if \<not> trial_id_matches run_id then raise (err INVALID_FIELD_VALUE ''run_id format is invalid'' [])
      else bind_op (gets_op es_active) (\<lambda>active.
        if active \<noteq> None then raise (err STATE_REJECTED ''an edge run is already active'' [])
        else
          seq_op
            (catch_op (edge_mkdir [run_id])
              (\<lambda>e. if e = PyExc FileExistsError
                   then raise (err AUDIT_COMMIT_FAILED ''edge run directory already exists'' [])
                   else raise e))
            (seq_op (set_edge_run (Some \<lparr>er_run_id = run_id, er_planned_skills = planned_skills,
                       er_completed_stages = 0, er_stage_directory = None\<rparr>))
              (seq_op (edge_write_manifest ''ACTIVE'' ''CREATED'' []) (ret [run_id])))))"

definition edge_set_pipeline_state :: "string \<Rightarrow> (edge_store, unit) meth" where
  "edge_set_pipeline_state state =
     seq_op edge_require_active (seq_op (edge_write_manifest ''ACTIVE'' state []) (ret ()))"

definition two_digits :: "nat \<Rightarrow> string" where
  \<comment> \<open>\<open>f"{index:02d}"\<close>\<close>
  "two_digits n = (let s = show_nat n in if length s < 2 then ''0'' @ s else s)"

definition stage_directory :: "string \<Rightarrow> nat \<Rightarrow> string \<Rightarrow> string list" where
  "stage_directory run_id index skill = [run_id, ''stages'', two_digits index @ ''_'' @ skill]"

definition stage_active_json :: "nat \<Rightarrow> string \<Rightarrow> string \<Rightarrow> pydict" where
  "stage_active_json index skill trial_id =
     [(''schema_version'', PInt 1), (''status'', PStr ''ACTIVE''), (''stage_index'', PInt (int index)),
      (''skill'', PStr skill), (''trial_id'', PStr trial_id)]"

definition edge_start_stage :: "nat \<Rightarrow> string \<Rightarrow> string \<Rightarrow> (edge_store, string list) meth" where
  "edge_start_stage index skill trial_id =
     bind_op edge_require_active (\<lambda>active.
     if er_stage_directory active \<noteq> None
     then raise (err STATE_REJECTED ''an edge stage is already active'' [])
     else if index \<noteq> er_completed_stages active
     then raise (err STATE_REJECTED ''stage index is not the next planned stage'' [])
     else if length (er_planned_skills active) \<le> index \<or> er_planned_skills active ! index \<noteq> skill
     then raise (err STATE_REJECTED ''stage skill does not match the fixed run plan'' [])
     else
       let directory = stage_directory (er_run_id active) index skill in
       seq_op (edge_mkdir directory)
         (seq_op (set_edge_run (Some (active\<lparr>er_stage_directory := Some directory\<rparr>)))
           (seq_op (edge_json (directory @ [''stage_evidence.json'']) (stage_active_json index skill trial_id))
             (ret directory))))"

definition edge_record_rollout :: "pydict \<Rightarrow> (edge_store, unit) meth" where
  "edge_record_rollout row =
     bind_op edge_require_stage (\<lambda>directory.
       catch_op (edge_append (directory @ [''rollout.jsonl'']) row)
         (\<lambda>e. if is_os_error e
              then raise (err AUDIT_COMMIT_FAILED ''cannot append edge rollout evidence'' [])
              else raise e))"

definition opt_int :: "int option \<Rightarrow> pyval" where
  "opt_int x = (case x of None \<Rightarrow> PNone | Some n \<Rightarrow> PInt n)"

definition gate_dict :: "gate_result \<Rightarrow> pydict" where
  "gate_dict g =
     [(''passed'', PBool (gr_passed g)), (''samples'', PInt (int (gr_samples g))),
      (''max_error'', PFloat (gr_max_error g)), (''max_spread'', PFloat (gr_max_spread g)),
      (''reason'', PStr (gr_reason g))]"

definition checker_dict :: "checker_result \<Rightarrow> pydict" where
  "checker_dict c =
     [(''passed'', PBool (kr_passed c)), (''score'', PFloat (kr_score c)),
      (''threshold'', PFloat (kr_threshold c)), (''asset_id'', PStr (kr_asset_id c)),
      (''reason'', PStr (kr_reason c))]"

definition evidence_dict :: "stage_evidence \<Rightarrow> pydict" where
  "evidence_dict e =
     [(''rollout_exit_code'', opt_int (rollout_exit_code e)),
      (''rollout_end_reason'', opt_str (rollout_end_reason e)),
      (''rollout_end_reason_approved'', PBool (rollout_end_reason_approved e)),
      (''joint_gate'', PStr (evidence_value (ev_joint_gate e))), (''checker'', PStr (evidence_value (ev_checker e))),
      (''server_audit'', PStr (evidence_value (ev_server_audit e))),
      (''edge_audit'', PStr (evidence_value (ev_edge_audit e)))]"

definition stage_completed_json ::
  "stage_evidence \<Rightarrow> gate_result \<Rightarrow> checker_result \<Rightarrow> pydict \<Rightarrow> pydict" where
  "stage_completed_json evidence gate checker server_summary =
     [(''schema_version'', PInt 1), (''status'', PStr ''COMPLETED''), (''evidence'', PDict (evidence_dict evidence)),
      (''joint_gate_result'', PDict (gate_dict gate)), (''checker_result'', PDict (checker_dict checker)),
      (''server_summary'', PDict server_summary)]"

definition edge_complete_stage ::
  "stage_evidence \<Rightarrow> gate_result \<Rightarrow> checker_result \<Rightarrow> pydict \<Rightarrow> (edge_store, pydict) meth" where
  "edge_complete_stage evidence gate checker server_summary =
     (if \<not> evidence_completed evidence
      then raise (err AUDIT_COMMIT_FAILED ''cannot commit an incomplete stage as completed'' [])
      else
        bind_op edge_require_active (\<lambda>active.
        bind_op edge_require_stage (\<lambda>directory.
        let value = stage_completed_json evidence gate checker server_summary in
        seq_op (edge_json (directory @ [''stage_evidence.json'']) value)
          (seq_op (set_edge_run (Some (active\<lparr>er_completed_stages := er_completed_stages active + 1,
                                              er_stage_directory := None\<rparr>)))
            (seq_op (edge_write_manifest ''ACTIVE'' ''HANDOFF'' []) (ret value))))))"

definition stage_failure_json :: "string \<Rightarrow> string \<Rightarrow> pydict" where
  "stage_failure_json error_code message =
     [(''schema_version'', PInt 1), (''status'', PStr ''FAILED''), (''error_code'', PStr error_code),
      (''message'', PStr message)]"

definition edge_fail :: "string \<Rightarrow> string \<Rightarrow> string \<Rightarrow> (edge_store, pydict) meth" where
  "edge_fail state error_code message =
     bind_op edge_require_active (\<lambda>active.
     seq_op
       (case er_stage_directory active of
          None \<Rightarrow> ret ()
        | Some directory \<Rightarrow>
            seq_op (edge_json (directory @ [''stage_failure.json'']) (stage_failure_json error_code message))
              (set_edge_run (Some (active\<lparr>er_stage_directory := None\<rparr>))))
       (bind_op (edge_write_manifest ''FAILED'' state
                   [(''error_code'', PStr error_code), (''message'', PStr message)]) (\<lambda>result.
        seq_op (set_edge_run None) (ret result))))"

definition edge_complete :: "(edge_store, pydict) meth" where
  "edge_complete =
     bind_op edge_require_active (\<lambda>active.
     if er_stage_directory active \<noteq> None \<or> er_completed_stages active \<noteq> length (er_planned_skills active)
     then raise (err AUDIT_COMMIT_FAILED ''run cannot complete before every stage is committed'' [])
     else bind_op (edge_write_manifest ''COMPLETED'' ''COMPLETED'' []) (\<lambda>result.
       seq_op (set_edge_run None) (ret result)))"

subsection \<open>What a write can change\<close>

lemma edge_write_spec:
  assumes "edge_write p c st = (r, st')"
  shows "es_active st' = es_active st" and "es_dirs st' = es_dirs st"
    and "q \<noteq> p \<Longrightarrow> es_files st' q = es_files st q"
    and "r = Inr u \<Longrightarrow> es_files st' p = Some c"
    and "r = Inl e \<Longrightarrow> e = PyExc OSError"
    and "es_files st' p = es_files st p \<or> es_files st' p = Some c"
  using assms
  by (auto simp: edge_write_def edge_put_def Let_def split: list.splits io_outcome.splits)

lemma edge_mkdir_spec:
  assumes "edge_mkdir p st = (r, st')"
  shows "es_active st' = es_active st" and "es_files st' = es_files st"
    and "r = Inr u \<Longrightarrow> p \<notin> set (es_dirs st) \<and> es_dirs st' = p # es_dirs st"
    and "r = Inl e \<Longrightarrow> is_os_error e \<and> es_dirs st' = es_dirs st"
  using assms by (auto simp: edge_mkdir_def Let_def split: list.splits if_splits)

lemma edge_require_active_apply:
  "edge_require_active st =
     (case es_active st of None \<Rightarrow> (Inl (err STATE_REJECTED ''no active edge run'' []), st) | Some run \<Rightarrow> (Inr run, st))"
  by (simp add: edge_require_active_def op_simps split: option.split)

lemma edge_require_stage_apply:
  "edge_require_stage st =
     (case es_active st of
        None \<Rightarrow> (Inl (err STATE_REJECTED ''no active edge run'' []), st)
      | Some run \<Rightarrow>
          (case er_stage_directory run of
             None \<Rightarrow> (Inl (err STATE_REJECTED ''no active edge stage'' []), st) | Some d \<Rightarrow> (Inr d, st)))"
  by (simp add: edge_require_stage_def edge_require_active_apply op_simps split: option.split)

lemma set_edge_run_apply [op_simps]: "set_edge_run run st = (Inr (), st\<lparr>es_active := run\<rparr>)"
  by (simp add: set_edge_run_def op_simps)

subsection \<open>The invariant of the evidence\<close>

text \<open>
  Every stage the active run counts as completed has its directory and, in it, evidence that is
  complete; the stage in progress is the next planned one, in a directory of its own.
\<close>

definition planned_directory :: "edge_run \<Rightarrow> nat \<Rightarrow> string list" where
  "planned_directory run i = stage_directory (er_run_id run) i (er_planned_skills run ! i)"

definition evidence_path :: "edge_run \<Rightarrow> nat \<Rightarrow> string list" where
  "evidence_path run i = planned_directory run i @ [''stage_evidence.json'']"

definition stage_done :: "edge_store \<Rightarrow> edge_run \<Rightarrow> nat \<Rightarrow> bool" where
  "stage_done st run i \<longleftrightarrow>
     (\<exists>evidence gate checker summary.
        evidence_completed evidence
        \<and> es_files st (evidence_path run i)
            = Some (JsonFile (stage_completed_json evidence gate checker summary)))"

definition edge_run_ok :: "edge_store \<Rightarrow> edge_run \<Rightarrow> bool" where
  "edge_run_ok st run \<longleftrightarrow>
     er_completed_stages run \<le> length (er_planned_skills run) \<and> [er_run_id run] \<in> set (es_dirs st)
     \<and> (\<forall>i < er_completed_stages run. planned_directory run i \<in> set (es_dirs st) \<and> stage_done st run i)
     \<and> (\<forall>d. er_stage_directory run = Some d \<longrightarrow>
          er_completed_stages run < length (er_planned_skills run)
          \<and> d = planned_directory run (er_completed_stages run) \<and> d \<in> set (es_dirs st)
          \<and> (\<forall>i < er_completed_stages run. planned_directory run i \<noteq> d))"

definition edge_inv :: "edge_store \<Rightarrow> bool" where
  "edge_inv st \<longleftrightarrow> (\<forall>run. es_active st = Some run \<longrightarrow> edge_run_ok st run)"

definition holds_run :: "edge_run \<Rightarrow> edge_store \<Rightarrow> bool" where
  "holds_run run st \<longleftrightarrow> es_active st = Some run \<and> edge_run_ok st run"

lemma holds_run_inv: "holds_run run st \<Longrightarrow> edge_inv st"
  by (simp add: holds_run_def edge_inv_def)

lemma edge_invD: "edge_inv st \<Longrightarrow> es_active st = Some run \<Longrightarrow> holds_run run st"
  by (simp add: holds_run_def edge_inv_def)

lemma planned_directory_update [simp]:
  "planned_directory (run\<lparr>er_completed_stages := n\<rparr>) i = planned_directory run i"
  "planned_directory (run\<lparr>er_stage_directory := d\<rparr>) i = planned_directory run i"
  "evidence_path (run\<lparr>er_completed_stages := n\<rparr>) i = evidence_path run i"
  "evidence_path (run\<lparr>er_stage_directory := d\<rparr>) i = evidence_path run i"
  by (simp_all add: planned_directory_def evidence_path_def)

lemma stage_done_update [simp]:
  "stage_done st (run\<lparr>er_completed_stages := n\<rparr>) i = stage_done st run i"
  "stage_done st (run\<lparr>er_stage_directory := d\<rparr>) i = stage_done st run i"
  "stage_done (st\<lparr>es_active := a\<rparr>) run i = stage_done st run i"
  by (simp_all add: stage_done_def)

lemma manifest_not_evidence [simp]: "evidence_path run i \<noteq> [x, y]"
  by (simp add: evidence_path_def planned_directory_def stage_directory_def)

text \<open>A write to anything but the evidence of a completed stage keeps the run's invariant.\<close>

lemma edge_write_holds:
  assumes "edge_write p c st = (r, st')" and "holds_run run st"
    and "\<And>i. i < er_completed_stages run \<Longrightarrow> evidence_path run i \<noteq> p"
  shows "holds_run run st'"
proof -
  have "stage_done st' run i = stage_done st run i" if "i < er_completed_stages run" for i
    using edge_write_spec(3) [OF assms(1)] assms(3) [OF that] by (simp add: stage_done_def)
  with assms(2) edge_write_spec(1,2) [OF assms(1)] show ?thesis
    by (simp add: holds_run_def edge_run_ok_def)
qed

lemma edge_write_stage_holds:
  assumes "edge_write (d @ [f]) c st = (r, st')" and "holds_run run st" and "er_stage_directory run = Some d"
  shows "holds_run run st'"
proof (rule edge_write_holds [OF assms(1,2)])
  fix i assume "i < er_completed_stages run"
  with assms(2,3) show "evidence_path run i \<noteq> d @ [f]"
    by (auto simp: holds_run_def edge_run_ok_def evidence_path_def)
qed

lemma edge_manifest_spec:
  assumes "edge_write_manifest status state extra st = (r, st')" and "es_active st = Some run"
  shows "es_active st' = Some run" and "es_dirs st' = es_dirs st"
    and "q \<noteq> [er_run_id run, ''run_manifest.json''] \<Longrightarrow> es_files st' q = es_files st q"
    and "r = Inr m \<Longrightarrow> m = run_manifest run status state extra
           \<and> es_files st' [er_run_id run, ''run_manifest.json''] = Some (JsonFile m)"
    and "r = Inl e \<Longrightarrow> e = PyExc OSError"
    and "holds_run run st \<Longrightarrow> holds_run run st'"
proof -
  let ?m = "run_manifest run status state extra"
  obtain w st1 where w: "edge_write [er_run_id run, ''run_manifest.json''] (JsonFile ?m) st = (w, st1)" by fastforce
  have rs: "r = (case w of Inl e \<Rightarrow> Inl e | Inr u \<Rightarrow> Inr ?m)" "st' = st1"
    using assms w
    by (auto simp: edge_write_manifest_def edge_json_def edge_require_active_apply op_simps Let_def split: sum.splits)
  note spec = edge_write_spec [OF w]
  show "es_active st' = Some run" "es_dirs st' = es_dirs st" using spec(1,2) rs assms(2) by simp_all
  show "es_files st' q = es_files st q" if "q \<noteq> [er_run_id run, ''run_manifest.json'']"
    using spec(3) that rs by simp
  show "m = ?m \<and> es_files st' [er_run_id run, ''run_manifest.json''] = Some (JsonFile m)" if "r = Inr m"
    using spec(4) rs that by (cases w) auto
  show "e = PyExc OSError" if "r = Inl e" using spec(5) rs that by (cases w) auto
  show "holds_run run st'" if "holds_run run st" using edge_write_holds [OF w that] rs by simp
qed

lemma inv_case_sum:
  "(\<And>x. r = Inr x \<Longrightarrow> P (f x)) \<Longrightarrow> (\<And>e. r = Inl e \<Longrightarrow> P (g e)) \<Longrightarrow> P (case r of Inl e \<Rightarrow> g e | Inr x \<Rightarrow> f x)"
  by (cases r) auto

subsection \<open>Every operation keeps it\<close>

lemma edge_begin_inv: "keeps edge_inv (edge_begin run_id planned)"
proof
  fix st assume inv: "edge_inv st"
  let ?run = "\<lparr>er_run_id = run_id, er_planned_skills = planned, er_completed_stages = 0, er_stage_directory = None\<rparr>"
  obtain r st1 where mk: "edge_mkdir [run_id] st = (r, st1)" by fastforce
  obtain rm st2 where man: "edge_write_manifest ''ACTIVE'' ''CREATED'' [] (st1\<lparr>es_active := Some ?run\<rparr>) = (rm, st2)"
    by fastforce
  note dir = edge_mkdir_spec [OF mk] and spec = edge_manifest_spec [OF man, of ?run]
  show "edge_inv (snd (edge_begin run_id planned st))"
  proof (cases r)
    case (Inl e)
    with dir inv mk show ?thesis
      by (auto simp: edge_begin_def op_simps edge_inv_def)
  next
    case (Inr u)
    with dir have "holds_run ?run (st1\<lparr>es_active := Some ?run\<rparr>)"
      by (simp add: holds_run_def edge_run_ok_def)
    with spec have "edge_inv st2" by (auto dest: holds_run_inv)
    with Inr mk man inv show ?thesis
      by (auto simp: edge_begin_def op_simps split: sum.split)
  qed
qed

lemma edge_set_pipeline_state_inv: "keeps edge_inv (edge_set_pipeline_state state)"
proof
  fix st assume inv: "edge_inv st"
  obtain r st' where man: "edge_write_manifest ''ACTIVE'' state [] st = (r, st')" by fastforce
  show "edge_inv (snd (edge_set_pipeline_state state st))"
    using edge_manifest_spec(6) [OF man] inv man
    by (auto simp: edge_set_pipeline_state_def edge_require_active_apply op_simps
        dest: edge_invD intro: holds_run_inv split: option.split sum.split)
qed

lemma edge_start_stage_inv: "keeps edge_inv (edge_start_stage index skill trial_id)"
proof
  fix st assume inv: "edge_inv st"
  show "edge_inv (snd (edge_start_stage index skill trial_id st))"
  proof (cases "\<exists>run. es_active st = Some run \<and> er_stage_directory run = None \<and> index = er_completed_stages run
      \<and> index < length (er_planned_skills run) \<and> er_planned_skills run ! index = skill")
    case False
    then show ?thesis using inv
      by (auto simp: edge_start_stage_def edge_require_active_apply op_simps split: option.split)
  next
    case True
    then obtain run where run: "es_active st = Some run" "er_stage_directory run = None"
      "index = er_completed_stages run" "index < length (er_planned_skills run)" "er_planned_skills run ! index = skill"
      by blast
    let ?d = "stage_directory (er_run_id run) index skill"
    let ?run' = "run\<lparr>er_stage_directory := Some ?d\<rparr>"
    have d: "?d = planned_directory run index" using run by (simp add: planned_directory_def)
    obtain r st1 where mk: "edge_mkdir ?d st = (r, st1)" by fastforce
    obtain w st2 where ev: "edge_json (?d @ [''stage_evidence.json'']) (stage_active_json index skill trial_id)
        (st1\<lparr>es_active := Some ?run'\<rparr>) = (w, st2)" by fastforce
    note dir = edge_mkdir_spec [OF mk]
    have ok: "edge_run_ok st run" using edge_invD [OF inv run(1)] by (simp add: holds_run_def)
    have same: "stage_done st1 run i = stage_done st run i" for i using dir(2) by (simp add: stage_done_def)
    show ?thesis
    proof (cases r)
      case (Inl e)
      with dir same ok run have "edge_inv st1" by (simp add: edge_inv_def edge_run_ok_def)
      with Inl mk run show ?thesis by (simp add: edge_start_stage_def edge_require_active_apply op_simps Let_def)
    next
      case (Inr u)
      with dir(3) have fresh: "?d \<notin> set (es_dirs st)" "es_dirs st1 = ?d # es_dirs st" by simp_all
      have "planned_directory run i \<noteq> ?d" if "i < er_completed_stages run" for i
        using ok that fresh by (auto simp: edge_run_ok_def)
      with ok same fresh run d have "holds_run ?run' (st1\<lparr>es_active := Some ?run'\<rparr>)"
        by (auto simp: holds_run_def edge_run_ok_def)
      from edge_write_stage_holds [OF ev [unfolded edge_json_def] this] have "edge_inv st2"
        by (auto dest: holds_run_inv)
      with Inr mk ev run show ?thesis
        by (auto simp: edge_start_stage_def edge_require_active_apply op_simps Let_def split: sum.split)
    qed
  qed
qed

lemma edge_record_rollout_inv: "keeps edge_inv (edge_record_rollout row)"
proof
  fix st assume inv: "edge_inv st"
  show "edge_inv (snd (edge_record_rollout row st))"
  proof (cases "\<exists>run d. es_active st = Some run \<and> er_stage_directory run = Some d")
    case False
    then show ?thesis using inv
      by (auto simp: edge_record_rollout_def edge_require_stage_apply op_simps split: option.split)
  next
    case True
    then obtain run d where run: "es_active st = Some run" "er_stage_directory run = Some d" by blast
    obtain w st' where w: "edge_append (d @ [''rollout.jsonl'']) row st = (w, st')" by fastforce
    with edge_write_stage_holds [OF w [unfolded edge_append_def] edge_invD [OF inv run(1)] run(2)]
    have "edge_inv st'" by (rule_tac holds_run_inv)
    with run w show ?thesis
      by (auto simp: edge_record_rollout_def edge_require_stage_apply op_simps split: sum.split)
  qed
qed

lemma edge_complete_stage_inv: "keeps edge_inv (edge_complete_stage evidence gate checker summary)"
proof
  fix st assume inv: "edge_inv st"
  let ?op = "edge_complete_stage evidence gate checker summary"
  show "edge_inv (snd (?op st))"
  proof (cases "evidence_completed evidence \<and> (\<exists>run d. es_active st = Some run \<and> er_stage_directory run = Some d)")
    case False
    then show ?thesis using inv
      by (auto simp: edge_complete_stage_def edge_require_stage_apply edge_require_active_apply op_simps split: option.split)
  next
    case True
    then obtain run d where full: "evidence_completed evidence"
      and run: "es_active st = Some run" "er_stage_directory run = Some d" by blast
    let ?v = "stage_completed_json evidence gate checker summary"
    let ?run' = "run\<lparr>er_completed_stages := er_completed_stages run + 1, er_stage_directory := None\<rparr>"
    obtain w st1 where w: "edge_write (d @ [''stage_evidence.json'']) (JsonFile ?v) st = (w, st1)" by fastforce
    obtain m st2 where m: "edge_write_manifest ''ACTIVE'' ''HANDOFF'' [] (st1\<lparr>es_active := Some ?run'\<rparr>) = (m, st2)"
      by fastforce
    from edge_invD [OF inv run(1)] have ok: "holds_run run st1"
      using edge_write_stage_holds [OF w _ run(2)] by blast
    show ?thesis
    proof (cases w)
      case (Inl e)
      with w run full ok show ?thesis
        by (simp add: edge_complete_stage_def edge_require_stage_apply edge_require_active_apply edge_json_def op_simps
            Let_def holds_run_inv)
    next
      case (Inr u)
      with edge_write_spec(4) [OF w] ok run full
      have "stage_done st1 run (er_completed_stages run)"
        by (auto simp: stage_done_def holds_run_def edge_run_ok_def evidence_path_def)
      with ok run have "holds_run ?run' (st1\<lparr>es_active := Some ?run'\<rparr>)"
        by (auto simp: holds_run_def edge_run_ok_def less_Suc_eq)
      with edge_manifest_spec(6) [OF m] have "edge_inv st2" by (auto dest: holds_run_inv)
      with Inr w m run full show ?thesis
        by (auto simp: edge_complete_stage_def edge_require_stage_apply edge_require_active_apply edge_json_def op_simps Let_def
            split: sum.split)
    qed
  qed
qed

lemma edge_inv_inactive [simp]: "edge_inv (st\<lparr>es_active := None\<rparr>)"
  by (simp add: edge_inv_def)

text \<open>The last manifest of a run, and its end when that was written.\<close>

lemma edge_finish_inv:
  "keeps edge_inv (bind_op (edge_write_manifest status state extra) (\<lambda>result. seq_op (set_edge_run None) (ret result)))"
proof
  fix st assume inv: "edge_inv st"
  obtain m st' where m: "edge_write_manifest status state extra st = (m, st')" by fastforce
  show "edge_inv (snd (bind_op (edge_write_manifest status state extra) (\<lambda>result. seq_op (set_edge_run None) (ret result)) st))"
  proof (cases "es_active st")
    case None
    with inv show ?thesis by (simp add: edge_write_manifest_def edge_require_active_apply op_simps)
  next
    case (Some run)
    with edge_manifest_spec(6) [OF m Some] edge_invD [OF inv Some] m show ?thesis
      by (cases m) (auto simp: op_simps dest: holds_run_inv)
  qed
qed

lemma edge_fail_inv: "keeps edge_inv (edge_fail state code message)"
proof
  fix st assume inv: "edge_inv st"
  let ?rest = "bind_op (edge_write_manifest ''FAILED'' state
      [(''error_code'', PStr code), (''message'', PStr message)]) (\<lambda>result. seq_op (set_edge_run None) (ret result))"
  show "edge_inv (snd (edge_fail state code message st))"
  proof (cases "es_active st")
    case None
    with inv show ?thesis by (simp add: edge_fail_def edge_require_active_apply op_simps)
  next
    case (Some run)
    show ?thesis
    proof (cases "er_stage_directory run")
      case None
      with Some keepsD [OF edge_finish_inv inv] show ?thesis
        by (simp add: edge_fail_def edge_require_active_apply bind_op_apply [of edge_require_active] seq_op_apply ret_apply)
    next
      case (Some d)
      obtain w st1 where w: "edge_json (d @ [''stage_failure.json'']) (stage_failure_json code message) st = (w, st1)"
        by fastforce
      have ok: "holds_run run st1"
        using edge_write_stage_holds [OF w [unfolded edge_json_def] edge_invD [OF inv \<open>es_active st = Some run\<close>] Some] .
      then have "edge_inv (st1\<lparr>es_active := Some (run\<lparr>er_stage_directory := None\<rparr>)\<rparr>)"
        by (simp add: edge_inv_def holds_run_def edge_run_ok_def)
      from keepsD [OF edge_finish_inv this] have "edge_inv (snd (?rest (st1\<lparr>es_active := Some (run\<lparr>er_stage_directory := None\<rparr>)\<rparr>)))" .
      with ok \<open>es_active st = Some run\<close> Some w show ?thesis
        by (cases w)
          (simp_all add: edge_fail_def edge_require_active_apply bind_op_apply [of edge_require_active] seq_op_apply
            set_edge_run_apply holds_run_inv)
    qed
  qed
qed

lemma edge_complete_inv: "keeps edge_inv edge_complete"
proof
  fix st assume inv: "edge_inv st"
  with keepsD [OF edge_finish_inv inv] show "edge_inv (snd (edge_complete st))"
    by (auto simp: edge_complete_def edge_require_active_apply bind_op_apply [of edge_require_active] raise_apply
        split: option.split)
qed

lemmas edge_inv_intros = edge_begin_inv edge_set_pipeline_state_inv edge_start_stage_inv edge_record_rollout_inv
  edge_complete_stage_inv edge_fail_inv edge_complete_inv

text \<open>The store as a machine.\<close>

datatype edge_call =
    Edge_begin string "string list"
  | Edge_set_pipeline_state string
  | Edge_start_stage nat string string
  | Edge_record_rollout pydict
  | Edge_complete_stage stage_evidence gate_result checker_result pydict
  | Edge_fail string string string
  | Edge_complete

fun edge_step :: "edge_call \<Rightarrow> (edge_store, unit) meth" where
  "edge_step (Edge_begin run_id planned) = map_op (\<lambda>_. ()) (edge_begin run_id planned)"
| "edge_step (Edge_set_pipeline_state state) = edge_set_pipeline_state state"
| "edge_step (Edge_start_stage i skill t) = map_op (\<lambda>_. ()) (edge_start_stage i skill t)"
| "edge_step (Edge_record_rollout row) = edge_record_rollout row"
| "edge_step (Edge_complete_stage e g c s) = map_op (\<lambda>_. ()) (edge_complete_stage e g c s)"
| "edge_step (Edge_fail state code message) = map_op (\<lambda>_. ()) (edge_fail state code message)"
| "edge_step Edge_complete = map_op (\<lambda>_. ()) edge_complete"

lemma edge_step_inv: "keeps edge_inv (edge_step c)"
  by (cases c) (simp_all add: keeps_map edge_inv_intros)

interpretation edge_machine: invariant_machine edge_step edge_inv
  by unfold_locales (rule keepsD [OF edge_step_inv])

subsection \<open>The evidence of another run is never touched\<close>

definition own_run :: "string \<Rightarrow> edge_run \<Rightarrow> bool" where
  "own_run r run \<longleftrightarrow>
     er_run_id run \<noteq> r \<and> (\<forall>d. er_stage_directory run = Some d \<longrightarrow> d \<noteq> [] \<and> hd d = er_run_id run)"

text \<open>The directory of run \<open>r\<close> exists, holds \<open>F\<close> and belongs to no active run.\<close>

definition sealed :: "string \<Rightarrow> (string list \<Rightarrow> file_content option) \<Rightarrow> edge_store \<Rightarrow> bool" where
  "sealed r F st \<longleftrightarrow>
     [r] \<in> set (es_dirs st) \<and> (\<forall>p. p \<noteq> [] \<and> hd p = r \<longrightarrow> es_files st p = F p)
     \<and> (\<forall>run. es_active st = Some run \<longrightarrow> own_run r run)"

lemma sealed_write: "p \<noteq> [] \<Longrightarrow> hd p \<noteq> r \<Longrightarrow> keeps (sealed r F) (edge_write p c)"
proof
  fix st assume p: "p \<noteq> []" "hd p \<noteq> r" and s: "sealed r F st"
  obtain w st' where w: "edge_write p c st = (w, st')" by fastforce
  have "es_files st' q = es_files st q" if "hd q = r" for q
    by (rule edge_write_spec(3) [OF w]) (use p that in auto)
  with s edge_write_spec(1,2) [OF w] w show "sealed r F (snd (edge_write p c st))"
    by (simp add: sealed_def)
qed

lemma sealed_mkdir: "keeps (sealed r F) (edge_mkdir p)"
proof
  fix st assume s: "sealed r F st"
  obtain w st' where w: "edge_mkdir p st = (w, st')" by fastforce
  note spec = edge_mkdir_spec [OF w]
  have "set (es_dirs st) \<subseteq> set (es_dirs st')" using spec(3,4) by (cases w) auto
  with s spec(1,2) w show "sealed r F (snd (edge_mkdir p st))" by (auto simp: sealed_def)
qed

lemma sealed_set_run: "(\<And>x. run = Some x \<Longrightarrow> own_run r x) \<Longrightarrow> keeps (sealed r F) (set_edge_run run)"
  by (rule keepsI) (auto simp: set_edge_run_apply sealed_def)

lemma sealed_active:
  assumes "\<And>run. own_run r run \<Longrightarrow> keeps (sealed r F) (f run)"
  shows "keeps (sealed r F) (bind_op edge_require_active f)"
proof
  fix st assume s: "sealed r F st"
  show "sealed r F (snd (bind_op edge_require_active f st))"
  proof (cases "es_active st")
    case None
    with s show ?thesis by (simp add: op_simps edge_require_active_apply)
  next
    case (Some run)
    with s have "own_run r run" by (simp add: sealed_def)
    with Some s keepsD [OF assms] show ?thesis by (simp add: bind_op_apply edge_require_active_apply)
  qed
qed

lemma sealed_stage:
  assumes "\<And>d. d \<noteq> [] \<Longrightarrow> hd d \<noteq> r \<Longrightarrow> keeps (sealed r F) (f d)"
  shows "keeps (sealed r F) (bind_op edge_require_stage f)"
proof
  fix st assume s: "sealed r F st"
  show "sealed r F (snd (bind_op edge_require_stage f st))"
  proof (cases "\<exists>run d. es_active st = Some run \<and> er_stage_directory run = Some d")
    case False
    with s show ?thesis by (auto simp: op_simps edge_require_stage_apply split: option.split)
  next
    case True
    then obtain run d where run: "es_active st = Some run" "er_stage_directory run = Some d" by blast
    with s have "d \<noteq> []" "hd d \<noteq> r" by (auto simp: sealed_def own_run_def)
    with run s keepsD [OF assms] show ?thesis by (simp add: bind_op_apply edge_require_stage_apply)
  qed
qed

lemma sealed_manifest: "keeps (sealed r F) (edge_write_manifest status state extra)"
  unfolding edge_write_manifest_def edge_json_def Let_def
  by (rule sealed_active) (auto intro!: keeps_seq sealed_write keeps_ret simp: own_run_def)

lemmas sealed_intros = sealed_write sealed_mkdir sealed_set_run sealed_active sealed_stage sealed_manifest
  keeps_seq keeps_ret keeps_raise keeps_bind keeps_map keeps_catch keeps_gets keeps_lift_sum

lemma sealed_begin: "keeps (sealed r F) (edge_begin run_id planned)"
proof (cases "run_id = r")
  case False
  then show ?thesis
    unfolding edge_begin_def
    by (auto intro!: keeps_seq keeps_ret keeps_raise keeps_bind keeps_catch keeps_gets sealed_mkdir sealed_set_run
        sealed_manifest simp: own_run_def)
next
  case True
  show ?thesis
  proof
    fix st assume s: "sealed r F st"
    with True have "edge_mkdir [run_id] st = (Inl (PyExc FileExistsError), st)"
      by (simp add: edge_mkdir_def sealed_def)
    with s show "sealed r F (snd (edge_begin run_id planned st))"
      by (simp add: edge_begin_def op_simps)
  qed
qed

lemma sealed_step: "keeps (sealed r F) (edge_step c)"
proof (cases c)
  case (Edge_start_stage i skill t)
  then show ?thesis
    by (auto simp: edge_start_stage_def edge_json_def Let_def own_run_def stage_directory_def
        intro!: keeps_map sealed_active keeps_seq sealed_mkdir sealed_set_run sealed_write keeps_ret keeps_raise)
next
  case (Edge_record_rollout row)
  have "keeps (sealed r F) (edge_append p row)" if "p \<noteq> []" "hd p \<noteq> r" for p
    using keepsD [OF sealed_write [OF that]] by (auto simp: keeps_def edge_append_def)
  with Edge_record_rollout show ?thesis
    by (auto simp: edge_record_rollout_def intro!: sealed_stage keeps_catch keeps_raise)
next
  case (Edge_complete_stage e g ch s)
  then show ?thesis
    by (auto simp: edge_complete_stage_def edge_json_def Let_def own_run_def
        intro!: keeps_map sealed_active sealed_stage keeps_seq sealed_set_run sealed_write sealed_manifest keeps_ret keeps_raise)
next
  case (Edge_fail state code message)
  then show ?thesis
    by (auto simp: edge_fail_def edge_json_def own_run_def split: option.split
        intro!: keeps_map sealed_active keeps_seq keeps_bind sealed_set_run sealed_write sealed_manifest keeps_ret)
next
  case (Edge_set_pipeline_state state)
  have "seq_op edge_require_active k = bind_op edge_require_active (\<lambda>_. k)" for k :: "(edge_store, unit) meth"
    by (simp add: seq_op_def)
  with Edge_set_pipeline_state show ?thesis
    by (auto simp: edge_set_pipeline_state_def intro!: sealed_active keeps_seq sealed_manifest keeps_ret)
qed (auto simp: edge_complete_def intro!: keeps_map sealed_begin sealed_active keeps_bind keeps_seq keeps_raise
       sealed_manifest sealed_set_run keeps_ret)

interpretation sealed_machine: invariant_machine edge_step "sealed r F" for r F
  by unfold_locales (rule keepsD [OF sealed_step])

subsection \<open>What is fixed about the active run\<close>

text \<open>A fact about the active run that its progress does not change.\<close>

definition active_sat :: "(edge_run \<Rightarrow> bool) \<Rightarrow> edge_store \<Rightarrow> bool" where
  "active_sat R st \<longleftrightarrow> (\<forall>run. es_active st = Some run \<longrightarrow> R run)"

definition progress_closed :: "(edge_run \<Rightarrow> bool) \<Rightarrow> bool" where
  "progress_closed R \<longleftrightarrow>
     (\<forall>run n d. R run \<longrightarrow> R (run\<lparr>er_completed_stages := n\<rparr>) \<and> R (run\<lparr>er_stage_directory := d\<rparr>))"

lemma active_write: "keeps (active_sat R) (edge_write p c)"
proof
  fix st assume s: "active_sat R st"
  obtain w st' where w: "edge_write p c st = (w, st')" by fastforce
  with s edge_write_spec(1) [OF w] show "active_sat R (snd (edge_write p c st))" by (simp add: active_sat_def)
qed

lemma active_mkdir: "keeps (active_sat R) (edge_mkdir p)"
proof
  fix st assume s: "active_sat R st"
  obtain w st' where w: "edge_mkdir p st = (w, st')" by fastforce
  with s edge_mkdir_spec(1) [OF w] show "active_sat R (snd (edge_mkdir p st))" by (simp add: active_sat_def)
qed

lemma active_set_run: "(\<And>x. run = Some x \<Longrightarrow> R x) \<Longrightarrow> keeps (active_sat R) (set_edge_run run)"
  by (rule keepsI) (auto simp: set_edge_run_apply active_sat_def)

lemma active_require:
  assumes "\<And>run. R run \<Longrightarrow> keeps (active_sat R) (f run)"
  shows "keeps (active_sat R) (bind_op edge_require_active f)"
proof
  fix st assume s: "active_sat R st"
  show "active_sat R (snd (bind_op edge_require_active f st))"
  proof (cases "es_active st")
    case None
    with s show ?thesis by (simp add: op_simps edge_require_active_apply)
  next
    case (Some run)
    with s have "R run" by (simp add: active_sat_def)
    with Some s keepsD [OF assms] show ?thesis by (simp add: bind_op_apply edge_require_active_apply)
  qed
qed

lemma active_stage: "keeps (active_sat R) edge_require_stage"
  by (rule keepsI) (auto simp: edge_require_stage_apply split: option.split)

lemma active_manifest: "keeps (active_sat R) (edge_write_manifest status state extra)"
  unfolding edge_write_manifest_def edge_json_def Let_def
  by (rule active_require) (intro keeps_seq active_write keeps_ret)

lemma active_step:
  assumes "progress_closed R" and "\<And>r p. c \<noteq> Edge_begin r p"
  shows "keeps (active_sat R) (edge_step c)"
proof (cases c)
  case (Edge_begin r p)
  with assms(2) show ?thesis by blast
next
  case (Edge_set_pipeline_state state)
  have "seq_op edge_require_active k = bind_op edge_require_active (\<lambda>_. k)" for k :: "(edge_store, unit) meth"
    by (simp add: seq_op_def)
  with Edge_set_pipeline_state show ?thesis
    by (auto simp: edge_set_pipeline_state_def intro!: active_require keeps_seq active_manifest keeps_ret)
next
  case (Edge_record_rollout row)
  have "keeps (active_sat R) (edge_append p row)" for p
    using keepsD [OF active_write] by (auto simp: keeps_def edge_append_def)
  with Edge_record_rollout show ?thesis
    by (auto simp: edge_record_rollout_def intro!: keeps_bind active_stage keeps_catch keeps_raise)
next
  case (Edge_start_stage i skill t)
  with assms(1) show ?thesis
    by (auto simp: edge_start_stage_def edge_json_def Let_def progress_closed_def
        intro!: keeps_map active_require keeps_seq active_mkdir active_set_run active_write keeps_ret keeps_raise)
next
  case (Edge_complete_stage e g ch s)
  have "R (run\<lparr>er_completed_stages := n, er_stage_directory := None\<rparr>)" if "R run" for run n
    using assms(1) that by (simp add: progress_closed_def)
  with Edge_complete_stage show ?thesis
    by (auto simp: edge_complete_stage_def edge_json_def Let_def
        intro!: keeps_map active_require keeps_bind active_stage keeps_seq active_set_run active_write active_manifest
          keeps_ret keeps_raise)
next
  case (Edge_fail state code message)
  with assms(1) show ?thesis
    by (auto simp: edge_fail_def edge_json_def progress_closed_def split: option.split
        intro!: keeps_map active_require keeps_seq keeps_bind active_set_run active_write active_manifest keeps_ret)
qed (auto simp: edge_complete_def intro!: keeps_map active_require keeps_bind keeps_seq keeps_raise
       active_manifest active_set_run keeps_ret)

subsection \<open>The properties\<close>

lemma edge_complete_evidence:
  assumes "edge_complete st = (Inr m, st')" and "edge_inv st"
  shows "\<exists>run. es_active st = Some run \<and> m = run_manifest run ''COMPLETED'' ''COMPLETED'' []
    \<and> er_completed_stages run = length (er_planned_skills run)
    \<and> es_active st' = None \<and> es_files st' [er_run_id run, ''run_manifest.json''] = Some (JsonFile m)
    \<and> (\<forall>i < length (er_planned_skills run). stage_done st' run i)"
proof -
  obtain run where run: "es_active st = Some run"
      "er_completed_stages run = length (er_planned_skills run)"
    using assms(1) by (auto simp: edge_complete_def edge_require_active_apply op_simps split: option.splits if_splits)
  with assms(2) have ok: "holds_run run st" by (rule_tac edge_invD)
  obtain r st1 where man: "edge_write_manifest ''COMPLETED'' ''COMPLETED'' [] st = (r, st1)" by fastforce
  with assms(1) run have "r = Inr m \<and> st' = st1\<lparr>es_active := None\<rparr>"
    by (auto simp: edge_complete_def edge_require_active_apply op_simps split: if_splits sum.splits)
  moreover note edge_manifest_spec(4) [OF man run(1)] edge_manifest_spec(6) [OF man run(1) ok]
  ultimately show ?thesis using run by (auto simp: holds_run_def edge_run_ok_def)
qed

text \<open>
  C15. A run that the edge store completes has all its evidence: whatever was below its root when
  it was opened, and whatever operations were called
  before, with whatever disk failures, when \<open>complete\<close> returns, the manifest on disk is the one
  returned, it counts every planned stage, and every planned stage has, in its directory, a
  \<open>stage_evidence.json\<close> whose evidence is complete.
\<close>

theorem completed_run_has_evidence:
  assumes "edge_complete (run_ops edge_step calls (open_edge_store dirs files io)) = (Inr m, st')"
  shows "\<exists>run. m = run_manifest run ''COMPLETED'' ''COMPLETED'' []
    \<and> er_completed_stages run = length (er_planned_skills run)
    \<and> es_active st' = None \<and> es_files st' [er_run_id run, ''run_manifest.json''] = Some (JsonFile m)
    \<and> (\<forall>i < length (er_planned_skills run). stage_done st' run i)"
proof -
  have "edge_inv (run_ops edge_step calls (open_edge_store dirs files io))"
    by (rule edge_machine.run_inv) (simp add: edge_inv_def)
  from edge_complete_evidence [OF assms this] show ?thesis by blast
qed

definition demo_evidence :: stage_evidence where
  "demo_evidence =
     \<lparr>rollout_exit_code = Some 0, rollout_end_reason = Some ''joint_rest_detected'',
      rollout_end_reason_approved = True, ev_joint_gate = EV_PASSED, ev_checker = EV_NOT_REQUIRED,
      ev_server_audit = EV_PASSED, ev_edge_audit = EV_PASSED\<rparr>"

definition demo_gate_result :: gate_result where
  "demo_gate_result = \<lparr>gr_passed = True, gr_samples = 5, gr_max_error = Fin 0, gr_max_spread = Fin 0,
     gr_reason = ''stable_target_window''\<rparr>"

definition demo_checker_result :: checker_result where
  "demo_checker_result = \<lparr>kr_passed = True, kr_score = Fin 1, kr_threshold = Fin 0,
     kr_asset_id = ''not_required'', kr_reason = ''checker_not_required''\<rparr>"

definition demo_edge_calls :: "edge_call list" where
  "demo_edge_calls =
     [Edge_begin ''run1'' [''open_door''], Edge_start_stage 0 ''open_door'' ''run1_0_open_door'',
      Edge_complete_stage demo_evidence demo_gate_result demo_checker_result []]"

lemma demo_edge_run:
  "\<exists>m st'. edge_complete (run_ops edge_step demo_edge_calls (new_edge_store [])) = (Inr m, st')"
proof -
  have "trial_id_matches ''run1''"
    by (simp add: is_alnum_def is_id_char_def less_eq_char_def)
  then show ?thesis
    by (simp add: demo_edge_calls_def new_edge_store_def edge_begin_def edge_start_stage_def edge_complete_stage_def
        edge_complete_def op_simps edge_require_active_apply edge_require_stage_apply edge_mkdir_def
        edge_write_manifest_def edge_json_def edge_write_def edge_put_def Let_def stage_directory_def
        demo_evidence_def evidence_completed_def)
qed

theorem completed_run_has_evidence_witness:
  "\<exists>m st' run. edge_complete (run_ops edge_step demo_edge_calls (new_edge_store [])) = (Inr m, st')
     \<and> m = run_manifest run ''COMPLETED'' ''COMPLETED'' []
     \<and> (\<forall>i < length (er_planned_skills run). stage_done st' run i)"
proof -
  obtain m st' where run: "edge_complete (run_ops edge_step demo_edge_calls (new_edge_store [])) = (Inr m, st')"
    using demo_edge_run by blast
  from completed_run_has_evidence [OF run [unfolded new_edge_store_def]] run show ?thesis by blast
qed

text \<open>
  C16. The evidence of a run that is over is immutable: once a run's directory exists and the run
  is not active, no sequence of operations on the store changes a file below that directory,
  and the run cannot be begun again.
\<close>

theorem finished_run_immutable:
  assumes "edge_inv st" and "[r] \<in> set (es_dirs st)" and "\<forall>run. es_active st = Some run \<longrightarrow> er_run_id run \<noteq> r"
    and "p \<noteq> []" and "hd p = r"
  shows "es_files (run_ops edge_step calls st) p = es_files st p
    \<and> (\<exists>e. fst (edge_begin r planned (run_ops edge_step calls st)) = Inl e)"
proof -
  have "own_run r run" if "es_active st = Some run" for run
    using edge_invD [OF assms(1) that] assms(3) that
    by (auto simp: own_run_def holds_run_def edge_run_ok_def planned_directory_def stage_directory_def)
  with assms have "sealed r (es_files st) st" by (simp add: sealed_def)
  then have s: "sealed r (es_files st) (run_ops edge_step calls st)" by (rule sealed_machine.run_inv)
  then have "edge_mkdir [r] (run_ops edge_step calls st) = (Inl (PyExc FileExistsError), run_ops edge_step calls st)"
    by (simp add: edge_mkdir_def sealed_def)
  then have "\<exists>e. fst (edge_begin r planned (run_ops edge_step calls st)) = Inl e"
    by (simp add: edge_begin_def op_simps)
  with s assms(4,5) show ?thesis by (simp add: sealed_def)
qed

definition demo_finished_store :: edge_store where
  "demo_finished_store =
     \<lparr>es_dirs = [[''run1'']], es_files = [[''run1'', ''run_manifest.json''] \<mapsto> JsonFile []],
      es_active = None, es_io = []\<rparr>"

theorem finished_run_immutable_witness:
  "es_files (run_ops edge_step (Edge_begin ''run2'' [''open_door''] # demo_edge_calls) demo_finished_store)
     [''run1'', ''run_manifest.json''] = Some (JsonFile [])"
proof -
  have "edge_inv demo_finished_store" by (simp add: edge_inv_def demo_finished_store_def)
  with finished_run_immutable [of demo_finished_store "''run1''" "[''run1'', ''run_manifest.json'']"]
  show ?thesis by (simp add: demo_finished_store_def del: run_ops.simps)
qed

end
