(* ===== verification/Oven_JointGate.thy ===== *)
theory Oven_JointGate
  imports Oven_EdgeAudit
begin

text \<open>
  \<open>edge/joint_gate.py\<close>: the profile of a skill's rest pose, the online gate that watches for a
  departure from the pose and a stable return, and the windowed gate that samples until a
  window is stable.  Every section under the online gate's lock is one step.  The arms' samples
  arrive on the thread that spins ROS, so \<open>update\<close> may run between any two of the sections of
  \<open>reached_result\<close> and \<open>evaluate\<close>, which a parameter of these two does.
\<close>

subsection \<open>Profiles\<close>

record joint_gate_profile =
  jp_arm :: string
  jp_targets :: matrix
  jp_check_indices :: "int list"
  jp_tolerance :: "flt list"
  jp_departure_threshold :: flt
  jp_min_publish_step :: int
  jp_window_samples :: int
  jp_max_spread :: flt
  jp_arming_indices :: "int list"
  jp_arming_min_abs_position :: "flt list"

definition positive :: "flt \<Rightarrow> bool" where
  "positive x \<longleftrightarrow> is_finite x \<and> \<not> f_le x f_zero"

definition joint_indices_ok :: "int list \<Rightarrow> bool" where
  "joint_indices_ok is \<longleftrightarrow> list_all (\<lambda>i. 0 \<le> i \<and> i < 7) is \<and> distinct is"

text \<open>
  \<open>arrays\<close>: every check raises \<open>ValueError\<close>, a ragged \<open>targets\<close> too.  The result is the targets, the
  indices and the tolerances.
\<close>

definition profile_arrays :: "joint_gate_profile \<Rightarrow> (matrix \<times> nat list \<times> flt list) res" where
  "profile_arrays p =
     reject_if (jp_targets p = [] \<or> \<not> list_all (\<lambda>t. length t = 7) (jp_targets p)) (PyExc ValueError) (
     reject_if (length (jp_tolerance p) \<noteq> length (jp_check_indices p) \<or> jp_check_indices p = []) (PyExc ValueError) (
     reject_if (jp_arm p \<notin> {''left'', ''right''}) (PyExc ValueError) (
     reject_if (length (jp_arming_indices p) \<noteq> length (jp_arming_min_abs_position p)) (PyExc ValueError) (
     reject_if (jp_arming_indices p \<noteq> []
         \<and> (\<not> joint_indices_ok (jp_arming_indices p) \<or> \<not> list_all positive (jp_arming_min_abs_position p)))
       (PyExc ValueError) (
     reject_if (\<not> list_all (list_all is_finite) (jp_targets p) \<or> \<not> list_all positive (jp_tolerance p)
         \<or> \<not> joint_indices_ok (jp_check_indices p)) (PyExc ValueError) (
     reject_if (\<not> positive (jp_departure_threshold p) \<or> \<not> positive (jp_max_spread p)
         \<or> jp_min_publish_step p < 0 \<or> jp_window_samples p \<le> 0) (PyExc ValueError)
       (Inr (jp_targets p, map nat (jp_check_indices p), jp_tolerance p))))))))"

subsection \<open>The online gate\<close>

record online_gate =
  og_profiles :: "(string \<times> joint_gate_profile) list"
  og_maxlen :: nat
  og_samples :: matrix
  og_skill :: "string option"
  og_departed :: bool
  og_armed :: bool

fun all_arrays :: "(string \<times> joint_gate_profile) list \<Rightarrow> unit res" where
  "all_arrays [] = Inr ()"
| "all_arrays ((skill, p) # ps) = bind_sum (profile_arrays p) (\<lambda>_. all_arrays ps)"

definition online_gate_init :: "(string \<times> joint_gate_profile) list \<Rightarrow> online_gate res" where
  "online_gate_init profiles =
     reject_if (profiles = []) (PyExc ValueError) (
     bind_sum (all_arrays profiles) (\<lambda>_.
       Inr \<lparr>og_profiles = profiles,
            og_maxlen = nat (Max (set (map (\<lambda>(skill, p). jp_window_samples p) profiles))),
            og_samples = [], og_skill = None, og_departed = False, og_armed = False\<rparr>))"

definition gate_begin :: "string \<Rightarrow> (online_gate, unit) meth" where
  "gate_begin skill =
     (\<lambda>s. if map_of (og_profiles s) skill = None then (Inl (PyExc ValueError), s)
          else (Inr (), s\<lparr>og_skill := Some skill, og_departed := False, og_armed := False, og_samples := []\<rparr>))"

definition keep_last :: "nat \<Rightarrow> 'a list \<Rightarrow> 'a list" where
  \<comment> \<open>\<open>xs[-n:]\<close> for a positive \<open>n\<close>, and what a bounded deque keeps\<close>
  "keep_last n xs = drop (length xs - n) xs"

definition arms :: "joint_gate_profile \<Rightarrow> flt list \<Rightarrow> bool" where
  "arms p sample \<longleftrightarrow>
     list_all2 (\<lambda>i t. f_le t (f_abs (sample ! nat i))) (jp_arming_indices p) (jp_arming_min_abs_position p)"

definition sample_ok :: "nat list \<Rightarrow> flt list \<Rightarrow> bool" where
  "sample_ok shape sample \<longleftrightarrow> shape = [7] \<and> list_all is_finite sample"

definition gate_accept :: "string \<Rightarrow> flt list \<Rightarrow> online_gate \<Rightarrow> online_gate" where
  \<comment> \<open>the section under the lock\<close>
  "gate_accept arm sample s =
     (case og_skill s of
        None \<Rightarrow> s
      | Some skill \<Rightarrow>
          (case map_of (og_profiles s) skill of
             None \<Rightarrow> s
           | Some p \<Rightarrow>
               if jp_arm p \<noteq> arm then s
               else s\<lparr>og_samples := keep_last (og_maxlen s) (og_samples s @ [sample]),
                      og_armed := og_armed s \<or> jp_arming_indices p = [] \<or> arms p sample\<rparr>))"

definition gate_update :: "np_conv \<Rightarrow> string \<Rightarrow> pyval \<Rightarrow> (online_gate, unit) meth" where
  "gate_update np arm position =
     bind_op (lift_sum (np position)) (\<lambda>(shape, sample).
       if \<not> sample_ok shape sample then ret () else modify_op (gate_accept arm sample))"

text \<open>What \<open>_snapshot\<close> returns: the profile's data and the last \<open>window_samples\<close> samples of the skill.\<close>

record gate_snapshot =
  gs_profile :: joint_gate_profile
  gs_targets :: matrix
  gs_indices :: "nat list"
  gs_tolerance :: "flt list"
  gs_samples :: matrix

definition snapshot :: "string \<Rightarrow> online_gate \<Rightarrow> gate_snapshot res" where
  "snapshot skill s =
     bind_sum (expect (PyExc KeyError) (map_of (og_profiles s) skill)) (\<lambda>p.
     bind_sum (profile_arrays p) (\<lambda>(targets, indices, tolerance).
       Inr \<lparr>gs_profile = p, gs_targets = targets, gs_indices = indices, gs_tolerance = tolerance,
            gs_samples = (if og_skill s \<noteq> Some skill \<or> og_samples s = [] then []
                          else keep_last (nat (jp_window_samples p)) (og_samples s))\<rparr>))"

definition pick :: "nat list \<Rightarrow> 'a list \<Rightarrow> 'a list" where
  "pick is xs = map (\<lambda>i. xs ! i) is"

definition near_target :: "gate_snapshot \<Rightarrow> flt list \<Rightarrow> flt list \<Rightarrow> bool" where
  \<comment> \<open>all checked joints within the departure tolerance of the target\<close>
  "near_target g sample target \<longleftrightarrow>
     (let errors = map f_abs (map2 f_sub (pick (gs_indices g) sample) (pick (gs_indices g) target));
          limits = map (\<lambda>t. f_max t (jp_departure_threshold (gs_profile g))) (gs_tolerance g)
      in list_all2 f_lt errors limits)"

definition away :: "gate_snapshot \<Rightarrow> flt list \<Rightarrow> bool" where
  "away g sample \<longleftrightarrow> \<not> list_ex (near_target g sample) (gs_targets g)"

definition window_result :: "gate_snapshot \<Rightarrow> gate_result" where
  "window_result g =
     (let checked = map (pick (gs_indices g)) (gs_samples g);
          columns = np_columns (length (gs_indices g)) checked;
          median = map np_median columns;
          maximum_spread = np_max (map np_ptp columns);
          errors = map (\<lambda>t. map f_abs (map2 f_sub median (pick (gs_indices g) t))) (gs_targets g);
          result = (\<lambda>passed e reason. \<lparr>gr_passed = passed, gr_samples = length (gs_samples g),
                      gr_max_error = e, gr_max_spread = maximum_spread, gr_reason = reason\<rparr>)
      in case find (\<lambda>es. list_all2 f_le es (gs_tolerance g)) errors of
           Some es \<Rightarrow>
             if f_le maximum_spread (jp_max_spread (gs_profile g))
             then result True (np_max es) ''stable_target_window''
             else result False (np_min (map np_max errors)) ''joint_window_not_stable''
         | None \<Rightarrow> result False (np_min (map np_max errors)) ''joint_window_not_stable'')"

text \<open>The section of \<open>reached_result\<close> that looks at the departure flag, and what follows it.\<close>

definition reached_section :: "gate_snapshot \<Rightarrow> int \<Rightarrow> (online_gate, gate_result option) meth" where
  "reached_section g publish_step =
     (\<lambda>s. if \<not> og_departed s
          then if \<not> away g (last (gs_samples g)) then (Inr None, s)
               else if og_samples s = [] then (Inl (PyExc IndexError), s\<lparr>og_departed := True\<rparr>)
               else (Inr None, s\<lparr>og_departed := True, og_samples := [last (og_samples s)]\<rparr>)
          else if publish_step < jp_min_publish_step (gs_profile g)
              \<or> int (length (gs_samples g)) < jp_window_samples (gs_profile g)
          then (Inr None, s)
          else (let result = window_result g in (Inr (if gr_passed result then Some result else None), s)))"

text \<open>
  \<open>gate\<close> and \<open>on_gate\<close> find the gate in the state of the caller; \<open>between\<close> is what the other thread
  does between two sections.
\<close>

definition reached_result ::
  "('s \<Rightarrow> online_gate) \<Rightarrow> ((online_gate, gate_result option) meth \<Rightarrow> ('s, gate_result option) meth) \<Rightarrow>
   ('s, unit) meth \<Rightarrow> string \<Rightarrow> int \<Rightarrow> ('s, gate_result option) meth" where
  "reached_result gate on_gate between skill publish_step =
     bind_op (\<lambda>s. (snapshot skill (gate s), s)) (\<lambda>g.
     if gs_samples g = [] then ret None
     else
       seq_op between
       (bind_op (gets_op (\<lambda>s. og_armed (gate s))) (\<lambda>armed.
        if \<not> armed then ret None
        else seq_op between (on_gate (reached_section g publish_step)))))"

definition reached ::
  "('s \<Rightarrow> online_gate) \<Rightarrow> ((online_gate, gate_result option) meth \<Rightarrow> ('s, gate_result option) meth) \<Rightarrow>
   ('s, unit) meth \<Rightarrow> string \<Rightarrow> int \<Rightarrow> ('s, bool) meth" where
  "reached gate on_gate between skill publish_step =
     map_op (\<lambda>r. r \<noteq> None) (reached_result gate on_gate between skill publish_step)"

definition gate_not_ready :: "gate_snapshot \<Rightarrow> string \<Rightarrow> gate_result" where
  "gate_not_ready g reason =
     \<lparr>gr_passed = False, gr_samples = length (gs_samples g), gr_max_error = PInf, gr_max_spread = PInf,
      gr_reason = reason\<rparr>"

definition gate_evaluate :: "('s \<Rightarrow> online_gate) \<Rightarrow> ('s, unit) meth \<Rightarrow> string \<Rightarrow> ('s, gate_result) meth" where
  "gate_evaluate gate between skill =
     bind_op (\<lambda>s. (snapshot skill (gate s), s)) (\<lambda>g.
     seq_op between
     (bind_op (gets_op (\<lambda>s. (og_skill (gate s) = Some skill \<and> og_departed (gate s),
                            og_skill (gate s) = Some skill \<and> og_armed (gate s)))) (\<lambda>(departed, armed).
      ret (if \<not> armed then gate_not_ready g ''arming_not_observed''
           else if \<not> departed then gate_not_ready g ''departure_not_observed''
           else if int (length (gs_samples g)) < jp_window_samples (gs_profile g)
           then gate_not_ready g ''insufficient_joint_samples''
           else window_result g))))"

subsection \<open>The windowed gate\<close>

text \<open>
  \<open>np.max\<close> of an empty array raises \<open>ValueError\<close>, which only an empty target can cause.
  The loop over \<open>max_samples\<close> samples; \<open>sample n\<close> is the shape and numbers \<open>sample_joints\<close> returns
  the \<open>n\<close>-th time, counted from 1.  The recursion is on the samples that are left.
\<close>

record windowed_gate =
  wg_target :: "flt list"
  wg_tolerance :: "flt list"
  wg_max_spread :: flt
  wg_required_samples :: int
  wg_max_samples :: int

definition abs_errors :: "windowed_gate \<Rightarrow> matrix \<Rightarrow> matrix" where
  "abs_errors w window = map (\<lambda>r. map f_abs (map2 f_sub r (wg_target w))) window"

definition window_spread :: "windowed_gate \<Rightarrow> matrix \<Rightarrow> flt" where
  "window_spread w window = np_max (map np_ptp (np_columns (length (wg_target w)) window))"

definition window_within :: "windowed_gate \<Rightarrow> matrix \<Rightarrow> bool" where
  "window_within w window \<longleftrightarrow>
     list_all (\<lambda>es. list_all2 f_le es (wg_tolerance w)) (abs_errors w window)
     \<and> f_le (window_spread w window) (wg_max_spread w)"

fun sample_loop ::
  "windowed_gate \<Rightarrow> (nat \<Rightarrow> (nat list \<times> flt list) res) \<Rightarrow> nat \<Rightarrow> nat \<Rightarrow> matrix \<Rightarrow> flt \<Rightarrow> flt \<Rightarrow> gate_result res" where
  "sample_loop w sample 0 n window e sp =
     Inr \<lparr>gr_passed = False, gr_samples = nat (wg_max_samples w), gr_max_error = e, gr_max_spread = sp,
          gr_reason = ''joint_window_not_stable''\<rparr>"
| "sample_loop w sample (Suc fuel) n window e sp =
     bind_sum (sample n) (\<lambda>(shape, xs).
     if shape \<noteq> [length (wg_target w)] \<or> \<not> list_all is_finite xs
     then sample_loop w sample fuel (Suc n) [] e sp
     else
       let window' = keep_last (nat (wg_required_samples w)) (window @ [xs]) in
       if int (length window') < wg_required_samples w
       then sample_loop w sample fuel (Suc n) window' e sp
       else if wg_target w = [] then Inl (PyExc ValueError)
       else
         let e' = np_max (concat (abs_errors w window')); sp' = window_spread w window' in
         if window_within w window'
         then Inr \<lparr>gr_passed = True, gr_samples = n, gr_max_error = e', gr_max_spread = sp',
                   gr_reason = ''stable_target_window''\<rparr>
         else sample_loop w sample fuel (Suc n) window' e' sp')"

definition windowed_evaluate :: "windowed_gate \<Rightarrow> (nat \<Rightarrow> (nat list \<times> flt list) res) \<Rightarrow> gate_result res" where
  "windowed_evaluate w sample =
     reject_if (length (wg_tolerance w) \<noteq> length (wg_target w)) (PyExc ValueError) (
     reject_if (f_le (wg_max_spread w) f_zero \<or> wg_required_samples w \<le> 0
         \<or> wg_max_samples w < wg_required_samples w) (PyExc ValueError)
       (sample_loop w sample (nat (wg_max_samples w)) 1 [] PInf PInf))"

subsection \<open>A passed gate\<close>

lemma length_keep_last [simp]: "length (keep_last n xs) = min n (length xs)"
  by (simp add: keep_last_def)

lemma keep_last_empty [simp]: "keep_last n [] = []"
  by (simp add: keep_last_def)

lemma profile_arrays_Inr:
  "profile_arrays p = Inr (targets, indices, tolerance) \<Longrightarrow>
     targets = jp_targets p \<and> indices = map nat (jp_check_indices p) \<and> tolerance = jp_tolerance p
     \<and> length (jp_tolerance p) = length (jp_check_indices p) \<and> jp_check_indices p \<noteq> []
     \<and> list_all (\<lambda>t. length t = 7) (jp_targets p) \<and> 0 < jp_window_samples p"
  by (auto simp: profile_arrays_def result_iffs)

lemma snapshot_Inr:
  assumes "snapshot skill s = Inr g"
  shows "map_of (og_profiles s) skill = Some (gs_profile g)"
    and "gs_targets g = jp_targets (gs_profile g)" and "gs_indices g = map nat (jp_check_indices (gs_profile g))"
    and "gs_tolerance g = jp_tolerance (gs_profile g)"
    and "length (gs_tolerance g) = length (gs_indices g)" and "gs_indices g \<noteq> []"
    and "list_all (\<lambda>t. length t = 7) (gs_targets g)" and "0 < jp_window_samples (gs_profile g)"
    and "gs_samples g = (if og_skill s \<noteq> Some skill \<or> og_samples s = [] then []
           else keep_last (nat (jp_window_samples (gs_profile g))) (og_samples s))"
  using assms by (auto simp: snapshot_def result_iffs dest: profile_arrays_Inr split: prod.splits)

text \<open>The window: for every checked joint, the median is near the target and the samples are close together.\<close>

definition column :: "nat \<Rightarrow> matrix \<Rightarrow> flt list" where
  "column i rows = map (\<lambda>r. r ! i) rows"

definition stable_at_target :: "joint_gate_profile \<Rightarrow> matrix \<Rightarrow> flt list \<Rightarrow> bool" where
  "stable_at_target p window target \<longleftrightarrow>
     (\<forall>k < length (jp_check_indices p).
        let i = nat (jp_check_indices p ! k) in
        f_le (f_abs (f_sub (np_median (column i window)) (target ! i))) (jp_tolerance p ! k)
        \<and> f_le (np_ptp (column i window)) (jp_max_spread p))"

lemma length_pick [simp]: "length (pick is xs) = length is"
  by (simp add: pick_def)

lemma columns_pick:
  "np_columns (length is) (map (pick is) rows) = map (\<lambda>i. column i rows) is"
  by (rule nth_equalityI) (auto simp: np_columns_def pick_def column_def)

lemma window_result_passed:
  assumes "gr_passed (window_result g)" and "snapshot skill s = Inr g"
  shows "\<exists>target \<in> set (gs_targets g). stable_at_target (gs_profile g) (gs_samples g) target"
proof -
  let ?is = "gs_indices g" and ?p = "gs_profile g"
  let ?columns = "map (\<lambda>i. column i (gs_samples g)) ?is"
  let ?errors = "\<lambda>t. map f_abs (map2 f_sub (map np_median ?columns) (pick ?is t))"
  note snap = snapshot_Inr [OF assms(2)]
  from assms(1) obtain es where found: "find (\<lambda>es. list_all2 f_le es (gs_tolerance g)) (map ?errors (gs_targets g)) = Some es"
    and spread: "f_le (np_max (map np_ptp ?columns)) (jp_max_spread ?p)"
    by (auto simp: window_result_def columns_pick Let_def split: option.splits if_splits)
  then obtain t where t: "t \<in> set (gs_targets g)" "list_all2 f_le (?errors t) (gs_tolerance g)"
    by (auto simp: find_Some_iff) (metis nth_mem)
  have "f_le (f_abs (f_sub (np_median (column i (gs_samples g))) (t ! i))) (jp_tolerance ?p ! k)
      \<and> f_le (np_ptp (column i (gs_samples g))) (jp_max_spread ?p)"
    if k: "k < length (jp_check_indices ?p)" and i: "i = nat (jp_check_indices ?p ! k)" for i k
  proof
    have ik: "?is ! k = i" "k < length ?is" using snap(3) k i by simp_all
    then have "f_le (?errors t ! k) (gs_tolerance g ! k)"
      using t(2) by (auto simp: list_all2_conv_all_nth)
    with ik snap(4) show "f_le (f_abs (f_sub (np_median (column i (gs_samples g))) (t ! i))) (jp_tolerance ?p ! k)"
      by (simp add: pick_def)
    have "np_ptp (column i (gs_samples g)) \<in> set (map np_ptp ?columns)" using ik nth_mem by fastforce
    moreover have "map np_ptp ?columns \<noteq> []" using snap(6) by simp
    ultimately show "f_le (np_ptp (column i (gs_samples g))) (jp_max_spread ?p)"
      using spread np_max_le by blast
  qed
  then have "stable_at_target ?p (gs_samples g) t" by (simp add: stable_at_target_def)
  with t(1) show ?thesis by blast
qed

lemma stable_window_passes:
  assumes "snapshot skill s = Inr g" and "target \<in> set (gs_targets g)"
    and "stable_at_target (gs_profile g) (gs_samples g) target"
  shows "gr_passed (window_result g)"
proof -
  let ?is = "gs_indices g" and ?p = "gs_profile g"
  let ?columns = "map (\<lambda>i. column i (gs_samples g)) ?is"
  let ?errors = "\<lambda>t. map f_abs (map2 f_sub (map np_median ?columns) (pick ?is t))"
  note snap = snapshot_Inr [OF assms(1)]
  have each: "f_le (f_abs (f_sub (np_median (column (?is ! k) (gs_samples g))) (target ! (?is ! k)))) (jp_tolerance ?p ! k)
      \<and> f_le (np_ptp (column (?is ! k) (gs_samples g))) (jp_max_spread ?p)" if "k < length ?is" for k
    using assms(3) that snap(3) by (simp add: stable_at_target_def Let_def)
  have "list_all2 f_le (?errors target) (gs_tolerance g)"
    using each snap(4,5) by (auto simp: list_all2_conv_all_nth pick_def)
  then have "find (\<lambda>es. list_all2 f_le es (gs_tolerance g)) (map ?errors (gs_targets g)) \<noteq> None"
    using assms(2) by (auto simp: find_None_iff)
  moreover have "f_le (np_max (map np_ptp ?columns)) (jp_max_spread ?p)"
    using each snap(6) by (auto simp: np_max_le in_set_conv_nth)
  ultimately show ?thesis
    by (auto simp: window_result_def columns_pick Let_def split: option.splits)
qed

lemma reached_section_Some:
  "reached_section g n s = (Inr (Some r), s') \<longleftrightarrow>
     s' = s \<and> og_departed s \<and> jp_min_publish_step (gs_profile g) \<le> n
     \<and> jp_window_samples (gs_profile g) \<le> int (length (gs_samples g)) \<and> r = window_result g \<and> gr_passed r"
  by (auto simp: reached_section_def Let_def)

lemma reached_section_state:
  "og_skill (snd (reached_section g n s)) = og_skill s" "og_profiles (snd (reached_section g n s)) = og_profiles s"
  "og_departed (snd (reached_section g n s)) \<longleftrightarrow> og_departed s \<or> away g (last (gs_samples g))"
  "length (og_samples (snd (reached_section g n s))) \<le> length (og_samples s)"
  "\<not> og_departed s \<Longrightarrow> away g (last (gs_samples g)) \<Longrightarrow> length (og_samples (snd (reached_section g n s))) \<le> 1"
  by (cases "og_samples s"; auto simp: reached_section_def Let_def)+

subsection \<open>Runs of the gate\<close>

text \<open>
  A call of the gate comes with the samples that arrive while it runs: those between its first two
  sections and those before the third.
\<close>

type_synonym arrival = "string \<times> pyval"

lemma gate_accept_fields [simp]:
  "og_skill (gate_accept arm xs s) = og_skill s" "og_profiles (gate_accept arm xs s) = og_profiles s"
  "og_departed (gate_accept arm xs s) = og_departed s"
  by (simp_all add: gate_accept_def split: option.split)

lemma gate_update_apply:
  "gate_update np arm position s =
     (case np position of
        Inl e \<Rightarrow> (Inl e, s)
      | Inr (shape, xs) \<Rightarrow> (Inr (), if sample_ok shape xs then gate_accept arm xs s else s))"
  by (auto simp: gate_update_def op_simps split: sum.split)

lemma gate_update_fields [simp]:
  "og_skill (snd (gate_update np arm v s)) = og_skill s" "og_profiles (snd (gate_update np arm v s)) = og_profiles s"
  "og_departed (snd (gate_update np arm v s)) = og_departed s"
  by (simp_all add: gate_update_apply split: sum.split prod.split)

definition arrive :: "np_conv \<Rightarrow> arrival list \<Rightarrow> online_gate \<Rightarrow> online_gate" where
  "arrive np = fold (\<lambda>(arm, position) s. snd (gate_update np arm position s))"

definition spin :: "np_conv \<Rightarrow> (online_gate \<times> arrival list list, unit) meth" where
  "spin np = (\<lambda>(s, q). (Inr (), case q of [] \<Rightarrow> (s, []) | batch # q' \<Rightarrow> (arrive np batch s, q')))"

definition on_first :: "('a, 'r) meth \<Rightarrow> ('a \<times> 'b, 'r) meth" where
  "on_first m = (\<lambda>(s, q). case m s of (r, s') \<Rightarrow> (r, (s', q)))"

definition gate_query ::
  "np_conv \<Rightarrow> arrival list \<Rightarrow> arrival list \<Rightarrow> string \<Rightarrow> int \<Rightarrow> (online_gate, gate_result option) meth" where
  \<comment> \<open>what has not come in when the query ends comes in after it\<close>
  "gate_query np b1 b2 skill n =
     (\<lambda>s. case reached_result fst on_first (spin np) skill n (s, [b1, b2]) of
        (r, (s', q)) \<Rightarrow> (r, arrive np (concat q) s'))"

datatype gate_call =
    Gate_begin string
  | Gate_update string pyval
  | Gate_reached string int "arrival list" "arrival list"

fun gate_step :: "np_conv \<Rightarrow> gate_call \<Rightarrow> (online_gate, gate_result option) meth" where
  "gate_step np (Gate_begin skill) = map_op (\<lambda>_. None) (gate_begin skill)"
| "gate_step np (Gate_update arm position) = map_op (\<lambda>_. None) (gate_update np arm position)"
| "gate_step np (Gate_reached skill n b1 b2) = gate_query np b1 b2 skill n"

lemma arrive_simps [simp]:
  "arrive np [] s = s" "arrive np (b1 @ b2) s = arrive np b2 (arrive np b1 s)"
  by (simp_all add: arrive_def)

lemma arrive_Cons: "arrive np ((arm, v) # b) s = arrive np b (snd (gate_update np arm v s))"
  by (simp add: arrive_def)

lemma arrive_fields [simp]:
  "og_skill (arrive np b s) = og_skill s" "og_profiles (arrive np b s) = og_profiles s"
  "og_departed (arrive np b s) = og_departed s"
  by (induction b arbitrary: s) (auto simp: arrive_Cons)

lemma gate_query_apply:
  "gate_query np b1 b2 skill n s =
     (case snapshot skill s of
        Inl e \<Rightarrow> (Inl e, arrive np (b1 @ b2) s)
      | Inr g \<Rightarrow> if gs_samples g = [] \<or> \<not> og_armed (arrive np b1 s) then (Inr None, arrive np (b1 @ b2) s)
          else reached_section g n (arrive np (b1 @ b2) s))"
  by (auto simp: gate_query_def reached_result_def spin_def on_first_def op_simps split: sum.split prod.split)

text \<open>The samples the gate keeps, and the call that sees the arm away from every target.\<close>

definition kept :: "np_conv \<Rightarrow> string \<Rightarrow> arrival \<Rightarrow> bool" where
  "kept np arm a \<longleftrightarrow>
     fst a = arm \<and> (case np (snd a) of Inl e \<Rightarrow> False | Inr (shape, xs) \<Rightarrow> sample_ok shape xs)"

fun received_by :: "np_conv \<Rightarrow> string \<Rightarrow> gate_call \<Rightarrow> nat" where
  "received_by np arm (Gate_begin skill) = 0"
| "received_by np arm (Gate_update a position) = length (filter (kept np arm) [(a, position)])"
| "received_by np arm (Gate_reached skill n b1 b2) = length (filter (kept np arm) (b1 @ b2))"

definition departs :: "np_conv \<Rightarrow> string \<Rightarrow> gate_call \<Rightarrow> online_gate \<Rightarrow> bool" where
  "departs np skill c s \<longleftrightarrow>
     (\<exists>n b1 b2 g. c = Gate_reached skill n b1 b2 \<and> snapshot skill s = Inr g \<and> gs_samples g \<noteq> []
        \<and> og_armed (arrive np b1 s) \<and> away g (last (gs_samples g)))"

definition no_begin :: "gate_call \<Rightarrow> bool" where
  "no_begin c \<longleftrightarrow> (\<forall>skill. c \<noteq> Gate_begin skill)"

text \<open>What a run since \<open>begin\<close> knows: the departure, and how many samples were kept after it.\<close>

definition departed_since :: "np_conv \<Rightarrow> string \<Rightarrow> string \<Rightarrow> gate_call list \<Rightarrow> online_gate \<Rightarrow> bool" where
  "departed_since np skill arm calls s0 \<longleftrightarrow>
     (\<exists>before c after. calls = before @ c # after \<and> departs np skill c (run_ops (gate_step np) before s0)
        \<and> length (og_samples (run_ops (gate_step np) calls s0))
            \<le> 1 + sum_list (map (received_by np arm) after))"

definition gate_watching :: "string \<Rightarrow> joint_gate_profile \<Rightarrow> online_gate \<Rightarrow> bool" where
  "gate_watching skill p s \<longleftrightarrow> og_skill s = Some skill \<and> map_of (og_profiles s) skill = Some p"

lemma gate_query_fields:
  "og_skill (snd (gate_query np b1 b2 skill n s)) = og_skill s"
  "og_profiles (snd (gate_query np b1 b2 skill n s)) = og_profiles s"
  by (simp_all add: gate_query_apply reached_section_state split: sum.split)

lemma gate_step_watching:
  assumes "gate_watching skill p s" and "no_begin c"
  shows "gate_watching skill p (snd (gate_step np c s))"
  using assms
  by (cases c)
    (auto simp: gate_watching_def no_begin_def map_op_apply gate_update_apply gate_query_fields
      split: sum.split prod.split)

lemma update_length:
  assumes "gate_watching skill p s"
  shows "length (og_samples (snd (gate_update np a v s)))
    \<le> length (og_samples s) + length (filter (kept np (jp_arm p)) [(a, v)])"
  using assms
  by (auto simp: gate_update_apply gate_watching_def gate_accept_def kept_def split: sum.splits prod.splits)

lemma arrive_length:
  assumes "gate_watching skill p s"
  shows "length (og_samples (arrive np b s)) \<le> length (og_samples s) + length (filter (kept np (jp_arm p)) b)"
  using assms
proof (induction b arbitrary: s)
  case (Cons x b)
  obtain a v where x: "x = (a, v)" by fastforce
  let ?s = "snd (gate_update np a v s)"
  have "gate_watching skill p ?s"
    using Cons.prems by (simp add: gate_watching_def)
  from Cons.IH [OF this] update_length [OF Cons.prems, of np a v] x show ?case
    by (simp add: arrive_Cons split: if_splits)
qed simp

text \<open>One step: the departure flag rises only in a departing call, and only a kept sample adds to the window.\<close>

lemma gate_step_departed:
  assumes "gate_watching skill p s" and "no_begin c" and "\<not> og_departed s" and "og_departed (snd (gate_step np c s))"
  shows "departs np skill c s \<and> length (og_samples (snd (gate_step np c s))) \<le> 1"
proof (cases c)
  case (Gate_begin x)
  with assms(2) show ?thesis by (simp add: no_begin_def)
next
  case (Gate_update arm position)
  with assms(3,4) show ?thesis
    by (auto simp: map_op_apply gate_update_apply split: sum.splits prod.splits if_splits)
next
  case (Gate_reached sk n b1 b2)
  with assms(3,4) obtain g where g: "snapshot sk s = Inr g" "gs_samples g \<noteq> []" "og_armed (arrive np b1 s)"
    "away g (last (gs_samples g))"
    by (auto simp: gate_query_apply reached_section_state split: sum.splits if_splits)
  then have "length (og_samples (snd (gate_step np c s))) \<le> 1"
    using assms(3) Gate_reached reached_section_state(5) [of "arrive np (b1 @ b2) s" g n]
    by (simp add: gate_query_apply)
  moreover from g(2) snapshot_Inr(9) [OF g(1)] have "og_skill s = Some sk" by (auto split: if_splits)
  with assms(1) have "sk = skill" by (simp add: gate_watching_def)
  ultimately show ?thesis using g Gate_reached by (auto simp: departs_def)
qed

lemma gate_step_samples:
  assumes "gate_watching skill p s" and "no_begin c"
  shows "length (og_samples (snd (gate_step np c s))) \<le> length (og_samples s) + received_by np (jp_arm p) c"
proof (cases c)
  case (Gate_begin x)
  with assms(2) show ?thesis by (simp add: no_begin_def)
next
  case (Gate_update arm position)
  with update_length [OF assms(1), of np arm position] show ?thesis
    by simp
next
  case (Gate_reached sk n b1 b2)
  have "length (og_samples (snd (gate_step np c s))) \<le> length (og_samples (arrive np (b1 @ b2) s))"
    using Gate_reached by (auto simp: gate_query_apply split: sum.split intro: reached_section_state(4))
  also have "\<dots> \<le> length (og_samples s) + received_by np (jp_arm p) c"
    using arrive_length [OF assms(1), of np "b1 @ b2"] Gate_reached by simp
  finally show ?thesis .
qed

lemma departed_since_run:
  assumes "gate_watching skill p s0" and "\<not> og_departed s0" and "list_all no_begin calls"
  shows "gate_watching skill p (run_ops (gate_step np) calls s0)
    \<and> (og_departed (run_ops (gate_step np) calls s0) \<longrightarrow> departed_since np skill (jp_arm p) calls s0)"
  using assms(3)
proof (induction calls rule: rev_induct)
  case Nil
  with assms show ?case by simp
next
  case (snoc c calls)
  let ?s = "run_ops (gate_step np) calls s0" and ?s' = "run_ops (gate_step np) (calls @ [c]) s0"
  from snoc have IH: "gate_watching skill p ?s" "og_departed ?s \<longrightarrow> departed_since np skill (jp_arm p) calls s0"
    and c: "no_begin c" by simp_all
  have s': "?s' = snd (gate_step np c ?s)" by (simp add: run_ops_append)
  have "departed_since np skill (jp_arm p) (calls @ [c]) s0" if d: "og_departed ?s'"
  proof (cases "og_departed ?s")
    case False
    with gate_step_departed [OF IH(1) c, of np] d s' show ?thesis
      unfolding departed_since_def by (intro exI [of _ calls] exI [of _ c] exI [of _ "[]"]) simp
  next
    case True
    with IH(2) obtain before c0 after where split: "calls = before @ c0 # after"
      "departs np skill c0 (run_ops (gate_step np) before s0)"
      "length (og_samples ?s) \<le> 1 + sum_list (map (received_by np (jp_arm p)) after)"
      by (auto simp: departed_since_def)
    moreover have "length (og_samples ?s') \<le> length (og_samples ?s) + received_by np (jp_arm p) c"
      using gate_step_samples [OF IH(1) c, of np] s' by simp
    ultimately show ?thesis
      unfolding departed_since_def
      by (intro exI [of _ before] exI [of _ c0] exI [of _ "after @ [c]"]) auto
  qed
  with gate_step_watching [OF IH(1) c] s' show ?case by simp
qed

text \<open>
  C18. The online gate passes exactly on a stable return.  Whatever samples arrive while it is
  queried, the query passes if and only if, when it looks, the skill is the one that was begun, the
  departure has been recorded, enough rows were published, the window is full, and for some target
  every checked joint has its median within tolerance and its samples within the spread; and the
  gate is armed at the second look.  A pass reports just that window, as \<open>evaluate\<close> does, and
  changes nothing.
\<close>

theorem gate_passes_on_stable_return:
  assumes "map_of (og_profiles s) skill = Some p" and "profile_arrays p = Inr arrays"
  shows "((\<exists>r s'. gate_query np b1 b2 skill publish_step s = (Inr (Some r), s')) \<longleftrightarrow>
      og_skill s = Some skill \<and> og_departed s \<and> og_armed (arrive np b1 s)
      \<and> jp_min_publish_step p \<le> publish_step \<and> jp_window_samples p \<le> int (length (og_samples s))
      \<and> (\<exists>target \<in> set (jp_targets p).
           stable_at_target p (keep_last (nat (jp_window_samples p)) (og_samples s)) target))
    \<and> (\<forall>r s'. gate_query np b1 b2 skill publish_step s = (Inr (Some r), s') \<longrightarrow>
         gr_passed r \<and> s' = arrive np (b1 @ b2) s
         \<and> gate_evaluate fst (spin np) skill (s, [b1]) = (Inr r, (arrive np b1 s, [])))"
proof -
  obtain targets indices tolerance where arrays: "arrays = (targets, indices, tolerance)" by (metis prod_cases3)
  with assms obtain g where g: "snapshot skill s = Inr g" by (simp add: snapshot_def expect_def)
  note snap = snapshot_Inr [OF g]
  have p: "gs_profile g = p" using snap(1) assms(1) by simp
  have pos: "0 < jp_window_samples p" and targets: "gs_targets g = jp_targets p" using snap(2,8) p by simp_all
  have full: "gs_samples g \<noteq> [] \<and> jp_window_samples p \<le> int (length (gs_samples g)) \<longleftrightarrow>
      og_skill s = Some skill \<and> jp_window_samples p \<le> int (length (og_samples s))"
    using snap(9) p pos by (auto simp: keep_last_def)
  have passes: "gate_query np b1 b2 skill publish_step s = (Inr (Some r), s') \<longleftrightarrow>
      (og_skill s = Some skill \<and> jp_window_samples p \<le> int (length (og_samples s))) \<and> og_departed s
      \<and> og_armed (arrive np b1 s) \<and> jp_min_publish_step p \<le> publish_step
      \<and> s' = arrive np (b1 @ b2) s \<and> r = window_result g \<and> gr_passed r" for r s'
    unfolding full [symmetric] gate_query_apply g
    by (cases "gs_samples g = [] \<or> \<not> og_armed (arrive np b1 s)") (auto simp: reached_section_Some p)
  have window: "gr_passed (window_result g) \<longleftrightarrow> (\<exists>target \<in> set (jp_targets p).
      stable_at_target p (keep_last (nat (jp_window_samples p)) (og_samples s)) target)"
    if "og_skill s = Some skill" "jp_window_samples p \<le> int (length (og_samples s))"
  proof -
    have "gs_samples g = keep_last (nat (jp_window_samples p)) (og_samples s)"
      using snap(9) p that pos by auto
    then show ?thesis
      using window_result_passed [OF _ g] stable_window_passes [OF g] targets p by fastforce
  qed
  have "gate_evaluate fst (spin np) skill (s, [b1]) = (Inr (window_result g), (arrive np b1 s, []))"
    if "og_skill s = Some skill" "og_departed s" "og_armed (arrive np b1 s)"
      "jp_window_samples p \<le> int (length (og_samples s))"
    using that g full p by (simp add: gate_evaluate_def spin_def op_simps)
  with passes have evaluated: "\<forall>r s'. gate_query np b1 b2 skill publish_step s = (Inr (Some r), s') \<longrightarrow>
         gr_passed r \<and> s' = arrive np (b1 @ b2) s
         \<and> gate_evaluate fst (spin np) skill (s, [b1]) = (Inr r, (arrive np b1 s, []))" by simp
  have "(\<exists>r s'. gate_query np b1 b2 skill publish_step s = (Inr (Some r), s')) \<longleftrightarrow>
      (og_skill s = Some skill \<and> jp_window_samples p \<le> int (length (og_samples s))) \<and> og_departed s
      \<and> og_armed (arrive np b1 s) \<and> jp_min_publish_step p \<le> publish_step \<and> gr_passed (window_result g)"
    unfolding passes by blast
  also have "\<dots> \<longleftrightarrow> og_skill s = Some skill \<and> og_departed s \<and> og_armed (arrive np b1 s)
      \<and> jp_min_publish_step p \<le> publish_step \<and> jp_window_samples p \<le> int (length (og_samples s))
      \<and> (\<exists>target \<in> set (jp_targets p).
           stable_at_target p (keep_last (nat (jp_window_samples p)) (og_samples s)) target)"
    using window by blast
  finally show ?thesis using evaluated by simp
qed

definition demo_gate_profile :: joint_gate_profile where
  "demo_gate_profile =
     \<lparr>jp_arm = ''left'', jp_targets = [replicate 7 (Fin 0)], jp_check_indices = [1], jp_tolerance = [Fin 1],
      jp_departure_threshold = Fin 2, jp_min_publish_step = 3, jp_window_samples = 1, jp_max_spread = Fin 1,
      jp_arming_indices = [], jp_arming_min_abs_position = []\<rparr>"

definition demo_gate :: online_gate where
  "demo_gate =
     \<lparr>og_profiles = [(''open_door'', demo_gate_profile)], og_maxlen = 1, og_samples = [replicate 7 (Fin 0)],
      og_skill = Some ''open_door'', og_departed = True, og_armed = True\<rparr>"

lemma demo_gate_profile_arrays: "profile_arrays demo_gate_profile = Inr ([replicate 7 (Fin 0)], [1], [Fin 1])"
  by (simp add: profile_arrays_def demo_gate_profile_def positive_def joint_indices_ok_def list_all_iff)

lemma demo_gate_stable:
  "map_of (og_profiles demo_gate) ''open_door'' = Some demo_gate_profile"
  "stable_at_target demo_gate_profile (keep_last (nat (jp_window_samples demo_gate_profile)) (og_samples demo_gate))
     (replicate 7 (Fin 0))"
proof -
  have "f_sub (Fin 0) (Fin 0) = Fin 0" by (simp add: f_sub_def rnd64_def)
  then show "stable_at_target demo_gate_profile (keep_last (nat (jp_window_samples demo_gate_profile)) (og_samples demo_gate))
     (replicate 7 (Fin 0))"
    by (simp add: stable_at_target_def demo_gate_profile_def demo_gate_def keep_last_def column_def np_median_def
        f_sort_def np_ptp_def)
qed (simp add: demo_gate_def)

lemma demo_gate_reached:
  "\<exists>r. gate_query np [] [] ''open_door'' 3 demo_gate = (Inr (Some r), demo_gate)"
proof -
  have "gr_passed (window_result g)" if "snapshot ''open_door'' demo_gate = Inr g" for g
  proof (rule stable_window_passes [OF that])
    have profile: "gs_profile g = demo_gate_profile" using snapshot_Inr(1) [OF that] demo_gate_stable(1) by simp
    then have "gs_samples g = keep_last (nat (jp_window_samples demo_gate_profile)) (og_samples demo_gate)"
      using snapshot_Inr(9) [OF that] by (simp add: demo_gate_def)
    with profile demo_gate_stable(2)
    show "stable_at_target (gs_profile g) (gs_samples g) (replicate 7 (Fin 0))" by simp
    show "replicate 7 (Fin 0) \<in> set (gs_targets g)"
      using snapshot_Inr(2) [OF that] profile by (simp add: demo_gate_profile_def)
  qed
  then show ?thesis
    using demo_gate_profile_arrays
    by (auto simp: gate_query_apply reached_section_Some snapshot_def demo_gate_def demo_gate_profile_def expect_def
        keep_last_def intro!: exI)
qed

theorem gate_passes_on_stable_return_witness:
  "\<exists>r s'. gate_query (\<lambda>v. Inl (PyExc ValueError)) [] [] ''open_door'' 3 demo_gate = (Inr (Some r), s') \<and> gr_passed r"
proof -
  have "\<exists>target \<in> set (jp_targets demo_gate_profile). stable_at_target demo_gate_profile
      (keep_last (nat (jp_window_samples demo_gate_profile)) (og_samples demo_gate)) target"
    using demo_gate_stable(2) by (auto simp: demo_gate_profile_def)
  with gate_passes_on_stable_return [OF demo_gate_stable(1) demo_gate_profile_arrays,
      of "\<lambda>v. Inl (PyExc ValueError)" "[]" "[]" 3]
  show ?thesis by (fastforce simp: demo_gate_def demo_gate_profile_def)
qed

text \<open>
  C19. The gate never passes before the arm has left: however the samples interleave with the
  queries, in any run since the gate was begun for a skill a passed query is preceded by a query
  that looked at a sample of the arm away from every target and recorded the departure, the gate
  being armed by then; and since that query at least all but one of the window's samples were
  received, so the window holds at most one sample from before the departure was recorded.
  (Between the look and the record a sample may come in, so it need not be the sample that was
  away that arms the gate.)
\<close>

theorem gate_needs_departure:
  assumes "gate_begin skill s = (Inr (), s0)" and "list_all no_begin calls"
    and "gate_query np b1 b2 skill n (run_ops (gate_step np) calls s0) = (Inr (Some r), s')"
  shows "\<exists>before c after p. calls = before @ c # after \<and> map_of (og_profiles s) skill = Some p
    \<and> departs np skill c (run_ops (gate_step np) before s0)
    \<and> jp_window_samples p \<le> 1 + int (sum_list (map (received_by np (jp_arm p)) after))"
proof -
  let ?s = "run_ops (gate_step np) calls s0"
  obtain p where p: "map_of (og_profiles s) skill = Some p" "gate_watching skill p s0" "\<not> og_departed s0"
    using assms(1) by (auto simp: gate_begin_def gate_watching_def split: if_splits)
  from departed_since_run [OF p(2,3) assms(2), of np]
  have run: "gate_watching skill p ?s" "og_departed ?s \<longrightarrow> departed_since np skill (jp_arm p) calls s0" by blast+
  from assms(3) obtain g where g: "snapshot skill ?s = Inr g" "og_departed ?s"
    "jp_window_samples (gs_profile g) \<le> int (length (gs_samples g))"
    by (auto simp: gate_query_apply reached_section_Some split: sum.splits if_splits)
  moreover have "gs_profile g = p" using snapshot_Inr(1) [OF g(1)] run(1) by (simp add: gate_watching_def)
  moreover have "length (gs_samples g) \<le> length (og_samples ?s)" using snapshot_Inr(9) [OF g(1)] by simp
  ultimately have "jp_window_samples p \<le> int (length (og_samples ?s))" by simp
  with run(2) g(2) p(1) show ?thesis by (fastforce simp: departed_since_def)
qed

definition demo_np :: np_conv where
  "demo_np v =
     (case v of PArr a \<Rightarrow> Inr (nd_shape a, nd_data a) | _ \<Rightarrow> Inl (PyExc ValueError))"

definition demo_sample :: "rat \<Rightarrow> pyval" where
  "demo_sample x =
     PArr (NDArray \<lparr>dt_name = ''float64'', dt_kind = CHR ''f'', dt_itemsize = 8\<rparr> [7] (replicate 7 (Fin x)) [])"

text \<open>The arming sample arrives while the departing query runs.\<close>

definition demo_gate_calls :: "gate_call list" where
  "demo_gate_calls =
     [Gate_update ''left'' (demo_sample 5), Gate_reached ''open_door'' 1 [] [(''left'', demo_sample 0)],
      Gate_update ''left'' (demo_sample 0)]"

definition demo_gate_start :: online_gate where
  "demo_gate_start = demo_gate\<lparr>og_departed := False, og_armed := False, og_samples := []\<rparr>"

lemma demo_gate_run: "run_ops (gate_step demo_np) demo_gate_calls demo_gate_start = demo_gate"
proof -
  have sub: "f_sub (Fin 5) (Fin 0) = Fin 5"
    using rnd64_of_int [of 5] by (simp add: f_sub_def)
  with demo_gate_profile_arrays show ?thesis
    by (simp add: demo_gate_calls_def demo_gate_start_def demo_gate_def map_op_apply gate_update_apply demo_np_def
        demo_sample_def sample_ok_def list_all_iff gate_accept_def demo_gate_profile_def keep_last_def arrive_Cons
        gate_query_apply reached_section_def snapshot_def away_def near_target_def pick_def f_max_def Let_def)
qed

theorem gate_needs_departure_witness:
  "\<exists>before c after. demo_gate_calls = before @ c # after
     \<and> departs demo_np ''open_door'' c (run_ops (gate_step demo_np) before demo_gate_start)"
proof -
  have "gate_begin ''open_door'' demo_gate = (Inr (), demo_gate_start)"
    by (simp add: gate_begin_def demo_gate_start_def demo_gate_def)
  moreover have "list_all no_begin demo_gate_calls" by (simp add: demo_gate_calls_def no_begin_def)
  moreover obtain r where "gate_query demo_np [] [] ''open_door'' 3
      (run_ops (gate_step demo_np) demo_gate_calls demo_gate_start) = (Inr (Some r), demo_gate)"
    using demo_gate_reached demo_gate_run by auto
  ultimately show ?thesis using gate_needs_departure by blast
qed

subsection \<open>The windowed gate against its specification\<close>

text \<open>
  The specification says nothing of a sliding window: sample \<open>n\<close> completes a stable window when
  it and the ones before it, as many as required, all are usable and together are within the
  limits.
\<close>

definition usable :: "windowed_gate \<Rightarrow> (nat list \<times> flt list) \<Rightarrow> bool" where
  "usable w x \<longleftrightarrow> fst x = [length (wg_target w)] \<and> list_all is_finite (snd x)"

definition stable_at :: "windowed_gate \<Rightarrow> (nat \<Rightarrow> nat list \<times> flt list) \<Rightarrow> nat \<Rightarrow> bool" where
  "stable_at w samples n \<longleftrightarrow>
     (let r = nat (wg_required_samples w); ks = [Suc n - r..<Suc n] in
      r \<le> n \<and> list_all (\<lambda>k. usable w (samples k)) ks \<and> window_within w (map (\<lambda>k. snd (samples k)) ks))"

text \<open>The usable samples since the last unusable one.\<close>

fun usable_run :: "windowed_gate \<Rightarrow> (nat \<Rightarrow> nat list \<times> flt list) \<Rightarrow> nat \<Rightarrow> matrix" where
  "usable_run w samples 0 = []"
| "usable_run w samples (Suc n) =
     (if usable w (samples (Suc n)) then usable_run w samples n @ [snd (samples (Suc n))] else [])"

lemma length_usable_run: "length (usable_run w samples n) \<le> n"
  by (induction n) auto

lemma usable_run_map:
  "usable_run w samples n = map (\<lambda>k. snd (samples k)) [Suc n - length (usable_run w samples n)..<Suc n]"
proof (induction n)
  case 0
  then show ?case by simp
next
  case (Suc n)
  show ?case
  proof (cases "usable w (samples (Suc n))")
    case False
    then show ?thesis by simp
  next
    case True
    let ?l = "length (usable_run w samples n)" and ?f = "\<lambda>k. snd (samples k)"
    have "usable_run w samples (Suc n) = map ?f [Suc n - ?l..<Suc n] @ [?f (Suc n)]"
      by (simp only: usable_run.simps True if_True) (subst Suc.IH, rule refl)
    also have "\<dots> = map ?f [Suc n - ?l..<Suc (Suc n)]"
      using length_usable_run [of w samples n] by (subst (2) upt_Suc) simp
    also have "Suc n - ?l = Suc (Suc n) - length (usable_run w samples (Suc n))" using True by simp
    finally show ?thesis .
  qed
qed

lemma usable_run_long:
  "r \<le> length (usable_run w samples n) \<longleftrightarrow> r \<le> n \<and> (\<forall>k. n < k + r \<and> k \<le> n \<longrightarrow> usable w (samples k))"
proof (induction n arbitrary: r)
  case 0
  then show ?case by auto
next
  case (Suc n)
  show ?case
  proof (cases r)
    case 0
    then show ?thesis by auto
  next
    case (Suc m)
    have "(\<forall>k. Suc n < k + r \<and> k \<le> Suc n \<longrightarrow> usable w (samples k)) \<longleftrightarrow>
        usable w (samples (Suc n)) \<and> (\<forall>k. n < k + m \<and> k \<le> n \<longrightarrow> usable w (samples k))"
      using Suc by (auto simp: le_Suc_eq)
    with Suc Suc.IH [of m] show ?thesis by simp
  qed
qed

lemma keep_last_map_upt: "r \<le> l \<Longrightarrow> l \<le> n \<Longrightarrow>
    keep_last r (map f [Suc n - l..<Suc n]) = map f [Suc n - r..<Suc n]"
  by (simp add: keep_last_def drop_map drop_upt del: upt_Suc)

lemma stable_at_run:
  assumes "0 < wg_required_samples w"
  shows "stable_at w samples n \<longleftrightarrow>
    nat (wg_required_samples w) \<le> length (usable_run w samples n)
    \<and> window_within w (keep_last (nat (wg_required_samples w)) (usable_run w samples n))"
proof -
  let ?r = "nat (wg_required_samples w)" and ?u = "usable_run w samples n"
  have "keep_last ?r ?u = map (\<lambda>k. snd (samples k)) [Suc n - ?r..<Suc n]" if "?r \<le> length ?u"
    using keep_last_map_upt [OF that length_usable_run] usable_run_map [of w samples n] by metis
  moreover have "list_all (\<lambda>k. usable w (samples k)) [Suc n - ?r..<Suc n]
      \<longleftrightarrow> (\<forall>k. n < k + ?r \<and> k \<le> n \<longrightarrow> usable w (samples k))"
    by (auto simp: list_all_iff less_Suc_eq_le simp del: upt_Suc)
  ultimately show ?thesis
    using usable_run_long [of ?r w samples n] by (auto simp: stable_at_def Let_def simp del: upt_Suc)
qed

lemma keep_last_append:
  "0 < r \<Longrightarrow> keep_last r (keep_last r xs @ [x]) = keep_last r (xs @ [x])"
  by (cases "r \<le> length xs") (auto simp: keep_last_def Suc_diff_le)

text \<open>The loop: the window is the end of the usable run, and no earlier sample completed a window.\<close>

lemma sample_loop_spec:
  assumes "0 < wg_required_samples w" and "wg_target w \<noteq> []"
    and "sample_loop w (\<lambda>k. Inr (samples k)) fuel (Suc n) (keep_last (nat (wg_required_samples w)) (usable_run w samples n)) e sp = Inr g"
    and "nat (wg_max_samples w) = n + fuel"
  shows "(gr_passed g \<longrightarrow> n < gr_samples g \<and> gr_samples g \<le> n + fuel \<and> stable_at w samples (gr_samples g)
            \<and> (\<forall>k. n < k \<and> k < gr_samples g \<longrightarrow> \<not> stable_at w samples k))
       \<and> (\<not> gr_passed g \<longrightarrow> (\<forall>k. n < k \<and> k \<le> n + fuel \<longrightarrow> \<not> stable_at w samples k))"
  using assms(3,4)
proof (induction fuel arbitrary: n e sp)
  case 0
  then show ?case by auto
next
  case (Suc fuel)
  let ?r = "nat (wg_required_samples w)" and ?u = "usable_run w samples n" and ?u' = "usable_run w samples (Suc n)"
  have pos: "0 < ?r" using assms(1) by simp
  note stable = stable_at_run [OF assms(1), of samples "Suc n"]
  have later: ?case
    if "\<not> stable_at w samples (Suc n)"
      and run: "sample_loop w (\<lambda>k. Inr (samples k)) fuel (Suc (Suc n)) (keep_last ?r ?u') e' sp' = Inr g" for e' sp'
    using Suc.IH [OF run] Suc.prems(2) that(1)
    by (auto simp: less_Suc_eq_le dest!: le_neq_implies_less [of "Suc n", OF Suc_leI])
  obtain shape xs where x: "samples (Suc n) = (shape, xs)" by fastforce
  show ?case
  proof (cases "usable w (samples (Suc n))")
    case False
    with stable pos have "\<not> stable_at w samples (Suc n)" by simp
    moreover from False Suc.prems(1) x have
      "sample_loop w (\<lambda>k. Inr (samples k)) fuel (Suc (Suc n)) (keep_last ?r ?u') e sp = Inr g"
      by (auto simp: usable_def)
    ultimately show ?thesis by (rule later)
  next
    case True
    then have w': "keep_last ?r (keep_last ?r ?u @ [xs]) = keep_last ?r ?u'"
      using x keep_last_append [OF pos, of ?u xs] by simp
    have use: "shape = [length (wg_target w)]" "list_all is_finite xs" using True x by (auto simp: usable_def)
    show ?thesis
    proof (cases "int (length (keep_last ?r ?u')) < wg_required_samples w")
      case True
      then have "\<not> ?r \<le> length ?u'" by auto
      with stable have "\<not> stable_at w samples (Suc n)" by blast
      moreover have "sample_loop w (\<lambda>k. Inr (samples k)) fuel (Suc (Suc n)) (keep_last ?r ?u') e sp = Inr g"
        using Suc.prems(1) x use True by (simp add: w' Let_def del: length_keep_last usable_run.simps)
      ultimately show ?thesis by (rule later)
    next
      case False
      then have long: "?r \<le> length ?u'" by auto
      show ?thesis
      proof (cases "window_within w (keep_last ?r ?u')")
        case True
        with Suc.prems(1) x use False have "gr_passed g" "gr_samples g = Suc n"
          using assms(2) by (auto simp: w' Let_def simp del: length_keep_last usable_run.simps)
        with stable long True show ?thesis by auto
      next
        case no: False
        with stable have "\<not> stable_at w samples (Suc n)" by blast
        moreover have "sample_loop w (\<lambda>k. Inr (samples k)) fuel (Suc (Suc n)) (keep_last ?r ?u')
            (np_max (concat (abs_errors w (keep_last ?r ?u')))) (window_spread w (keep_last ?r ?u')) = Inr g"
          using Suc.prems(1) x use False no assms(2)
          by (simp add: w' Let_def del: length_keep_last usable_run.simps)
        ultimately show ?thesis by (rule later)
      qed
    qed
  qed
qed

lemma sample_loop_total:
  "wg_target w \<noteq> [] \<Longrightarrow> \<exists>g. sample_loop w (\<lambda>k. Inr (samples k)) fuel n window e sp = Inr g"
  by (induction fuel arbitrary: n window e sp) (auto simp: Let_def split: prod.split)

text \<open>
  C20. The windowed gate is its specification: with valid limits and samples that can be read it
  always returns; it passes exactly when some sample within the budget completes a stable window,
  and it stops at the first one that does.
\<close>

theorem windowed_gate_is_first_stable:
  assumes "length (wg_tolerance w) = length (wg_target w)" and "wg_target w \<noteq> []"
    and "\<not> f_le (wg_max_spread w) f_zero" and "0 < wg_required_samples w"
    and "wg_required_samples w \<le> wg_max_samples w"
  shows "\<exists>g. windowed_evaluate w (\<lambda>k. Inr (samples k)) = Inr g
    \<and> (gr_passed g \<longleftrightarrow> (\<exists>n. 0 < n \<and> int n \<le> wg_max_samples w \<and> stable_at w samples n))
    \<and> (gr_passed g \<longrightarrow> stable_at w samples (gr_samples g)
         \<and> (\<forall>k. 0 < k \<and> k < gr_samples g \<longrightarrow> \<not> stable_at w samples k))"
proof -
  obtain g where loop: "sample_loop w (\<lambda>k. Inr (samples k)) (nat (wg_max_samples w)) 1 [] PInf PInf = Inr g"
    using sample_loop_total [OF assms(2)] by blast
  have "windowed_evaluate w (\<lambda>k. Inr (samples k)) = Inr g"
    using assms loop by (simp add: windowed_evaluate_def)
  moreover from sample_loop_spec [OF assms(4,2), of samples "nat (wg_max_samples w)" 0 PInf PInf g] loop
  have "(gr_passed g \<longrightarrow> 0 < gr_samples g \<and> gr_samples g \<le> nat (wg_max_samples w) \<and> stable_at w samples (gr_samples g)
          \<and> (\<forall>k. 0 < k \<and> k < gr_samples g \<longrightarrow> \<not> stable_at w samples k))
      \<and> (\<not> gr_passed g \<longrightarrow> (\<forall>k. 0 < k \<and> k \<le> nat (wg_max_samples w) \<longrightarrow> \<not> stable_at w samples k))"
    by simp
  moreover have "k \<le> nat (wg_max_samples w) \<longleftrightarrow> int k \<le> wg_max_samples w" for k
    using assms(4,5) by auto
  ultimately show ?thesis by (cases "gr_passed g") auto
qed

definition demo_windowed_gate :: windowed_gate where
  "demo_windowed_gate =
     \<lparr>wg_target = [Fin 0], wg_tolerance = [Fin 1], wg_max_spread = Fin 1, wg_required_samples = 1, wg_max_samples = 3\<rparr>"

theorem windowed_gate_is_first_stable_witness:
  "\<exists>g. windowed_evaluate demo_windowed_gate (\<lambda>k. Inr (if k = 1 then ([2], []) else ([1], [Fin 0]))) = Inr g \<and> gr_passed g"
proof -
  let ?samples = "\<lambda>k. if k = 1 then ([2], []) else ([1], [Fin 0 :: flt])"
  have "f_sub (Fin 0) (Fin 0) = Fin 0" by (simp add: f_sub_def rnd64_def)
  then have "stable_at demo_windowed_gate ?samples 2"
    by (simp add: stable_at_def demo_windowed_gate_def usable_def window_within_def window_spread_def abs_errors_def
        np_columns_def np_ptp_def Let_def)
  moreover have "int 2 \<le> wg_max_samples demo_windowed_gate" by (simp add: demo_windowed_gate_def)
  ultimately have stable: "\<exists>n. 0 < n \<and> int n \<le> wg_max_samples demo_windowed_gate \<and> stable_at demo_windowed_gate ?samples n"
    by (intro exI [of _ "2 :: nat"]) simp
  have limits: "length (wg_tolerance demo_windowed_gate) = length (wg_target demo_windowed_gate)"
    "wg_target demo_windowed_gate \<noteq> []" "\<not> f_le (wg_max_spread demo_windowed_gate) f_zero"
    "0 < wg_required_samples demo_windowed_gate"
    "wg_required_samples demo_windowed_gate \<le> wg_max_samples demo_windowed_gate"
    by (simp_all add: demo_windowed_gate_def)
  obtain g where "windowed_evaluate demo_windowed_gate (\<lambda>k. Inr (?samples k)) = Inr g"
    "gr_passed g \<longleftrightarrow> (\<exists>n. 0 < n \<and> int n \<le> wg_max_samples demo_windowed_gate \<and> stable_at demo_windowed_gate ?samples n)"
    using windowed_gate_is_first_stable [OF limits, of ?samples] by blast
  with stable show ?thesis by blast
qed

end
