(* ===== verification/Oven_Validation.thy ===== *)
theory Oven_Validation
  imports Oven_EdgeAudit
begin

text \<open>
  \<open>edge/validation.py\<close>: what the robot's side checks of an observation before it is sent and of
  an action chunk before it is published.
\<close>

subsection \<open>Observations\<close>

record observation_validator =
  ov_max_age_ms :: flt

text \<open>\<open>int(x)\<close> of a float.\<close>

definition py_int_of :: "flt \<Rightarrow> int res" where
  "py_int_of x =
     (case x of Fin a \<Rightarrow> Inr (trunc_rat a) | NaN \<Rightarrow> Inl (PyExc ValueError) | _ \<Rightarrow> Inl (PyExc OverflowError))"

definition validate_observation :: "observation_validator \<Rightarrow> int \<Rightarrow> observation \<Rightarrow> pydict res" where
  \<comment> \<open>\<open>now\<close> is the reading of the monotonic clock\<close>
  "validate_observation v now ob =
     reject_if (\<not> is_finite (ov_max_age_ms v) \<or> f_le (ov_max_age_ms v) f_zero) (PyExc ValueError) (
     bind_sum (expect (err INVALID_FIELD_VALUE ''observation payload must be a non-empty dictionary'' [])
                (is_dict (ob_payload ob))) (\<lambda>payload.
     reject_if (payload = [])
       (err INVALID_FIELD_VALUE ''observation payload must be a non-empty dictionary'' []) (
     let age_ns = now - ob_captured_at ob;
         stale = err OBSERVATION_STALE ''observation is outside the permitted freshness window'' [] in
     reject_if (age_ns < 0) stale (
     bind_sum (py_int_of (f_mul (ov_max_age_ms v) (Fin 1000000))) (\<lambda>limit.
     reject_if (limit < age_ns) stale (Inr payload))))))"

subsection \<open>Action chunks\<close>

text \<open>
  \<open>np.asarray\<close> leaves an array as it is; what it makes of another object is the parameter
  \<open>as_array\<close>.  \<open>np.abs\<close> keeps the element type, so the smallest signed integer of a width is its
  own absolute value.
\<close>

record action_validator =
  av_action_dimension :: int
  av_chunk_rows :: int
  av_max_absolute_value :: flt

type_synonym np_array = "pyval \<Rightarrow> ndarray res"

definition np_asarray :: "np_array \<Rightarrow> np_array" where
  "np_asarray as_array v = (case v of PArr a \<Rightarrow> Inr a | _ \<Rightarrow> as_array v)"

definition signed_minimum :: "dtype \<Rightarrow> rat" where
  "signed_minimum dt = - (2 ^ (8 * dt_itemsize dt - 1))"

definition np_abs :: "dtype \<Rightarrow> flt \<Rightarrow> flt" where
  "np_abs dt x = (if dt_kind dt = CHR ''i'' \<and> x = Fin (signed_minimum dt) then x else f_abs x)"

text \<open>\<open>float(x)\<close> of an array element: exact for the floating types up to binary64.\<close>

definition np_float :: "dtype \<Rightarrow> flt \<Rightarrow> flt" where
  "np_float dt x = (if dt_kind dt = CHR ''f'' \<and> dt_itemsize dt \<le> 8 then x else f_round x)"

definition action_shape_ok :: "action_validator \<Rightarrow> ndarray \<Rightarrow> bool" where
  "action_shape_ok v a =
     (case nd_shape a of
        [rows, columns] \<Rightarrow>
          int rows = av_chunk_rows v \<and> int columns \<in> {av_action_dimension v, av_action_dimension v * 2}
      | _ \<Rightarrow> False)"

definition projected_rows :: "action_validator \<Rightarrow> ndarray \<Rightarrow> matrix" where
  "projected_rows v a =
     map (take (nat (av_action_dimension v))) (np_rows (nd_shape a ! 0) (nd_shape a ! 1) (nd_data a))"

definition validate_actions :: "np_array \<Rightarrow> action_validator \<Rightarrow> pyval \<Rightarrow> matrix res" where
  "validate_actions as_array v actions =
     reject_if (av_action_dimension v \<le> 0 \<or> av_chunk_rows v \<le> 0 \<or> \<not> is_finite (av_max_absolute_value v)
         \<or> f_le (av_max_absolute_value v) f_zero)
       (PyExc ValueError) (
     bind_sum (np_asarray as_array actions) (\<lambda>a.
     reject_if (\<not> action_shape_ok v a)
       (err ACTION_INVALID ''action chunk shape is invalid''
         [(''expected_rows'', PInt (av_chunk_rows v)),
          (''accepted_dimensions'', PList [PInt (av_action_dimension v), PInt (av_action_dimension v * 2)]),
          (''received_shape'', shape_list (nd_shape a))]) (
     reject_if (dt_kind (nd_dtype a) \<notin> set ''fiu'' \<or> \<not> list_all is_finite (nd_data a))
       (err ACTION_INVALID ''action chunk must contain finite numeric values'' []) (
     let projected = projected_rows v a; dt = nd_dtype a in
     reject_if (f_lt (av_max_absolute_value v) (np_float dt (np_max (map (np_abs dt) (concat projected)))))
       (err ACTION_INVALID ''action chunk exceeds the configured absolute limit'' [])
       (Inr (map (map f_round32) projected))))))"

subsection \<open>What passes\<close>

lemma validate_observation_Inr:
  "validate_observation v now ob = Inr payload \<longleftrightarrow>
     (\<exists>ms. ov_max_age_ms v = Fin ms \<and> 0 < ms
       \<and> ob_payload ob = PDict payload \<and> payload \<noteq> []
       \<and> 0 \<le> now - ob_captured_at ob
       \<and> (\<exists>limit. py_int_of (f_mul (Fin ms) (Fin 1000000)) = Inr limit \<and> now - ob_captured_at ob \<le> limit))"
  by (cases "ov_max_age_ms v") (auto simp: validate_observation_def result_iffs Let_def)

lemma action_shape_okD:
  "action_shape_ok v a \<Longrightarrow> \<exists>rows columns. nd_shape a = [rows, columns] \<and> int rows = av_chunk_rows v
     \<and> (int columns = av_action_dimension v \<or> int columns = av_action_dimension v * 2)"
  by (auto simp: action_shape_ok_def split: list.splits)

lemma projected_shape:
  assumes "action_shape_ok v a" and "0 < av_action_dimension v"
    and "length (nd_data a) = prod_list (nd_shape a)"
  shows "length (projected_rows v a) = nat (av_chunk_rows v)"
    and "r \<in> set (projected_rows v a) \<Longrightarrow> length r = nat (av_action_dimension v)"
proof -
  obtain rows columns where shape: "nd_shape a = [rows, columns]" "int rows = av_chunk_rows v"
    "int columns = av_action_dimension v \<or> int columns = av_action_dimension v * 2"
    using action_shape_okD [OF assms(1)] by blast
  then show "length (projected_rows v a) = nat (av_chunk_rows v)" by (simp add: projected_rows_def)
  assume "r \<in> set (projected_rows v a)"
  then obtain r0 where r0: "r = take (nat (av_action_dimension v)) r0" "r0 \<in> set (np_rows rows columns (nd_data a))"
    by (auto simp: projected_rows_def shape)
  moreover have "length r0 = columns"
    using np_rows_width [OF _ r0(2)] assms(3) shape by simp
  ultimately show "length r = nat (av_action_dimension v)" using shape assms(2) by auto
qed

text \<open>
  C17. An action chunk that passes has exactly the configured number of rows and columns; it is
  the float32 cast of the first columns of what the policy sent, all of whose numbers are
  finite; and for an array of one of the floating types up to binary64 none of those numbers
  exceeds the configured limit in absolute value.
\<close>

theorem validated_actions_within_limits:
  assumes "validate_actions as_array v actions = Inr rows"
    and "np_asarray as_array actions = Inr a" and "length (nd_data a) = prod_list (nd_shape a)"
  shows "int (length rows) = av_chunk_rows v
    \<and> (\<forall>r \<in> set rows. int (length r) = av_action_dimension v)
    \<and> rows = map (map f_round32) (projected_rows v a)
    \<and> list_all is_finite (nd_data a)
    \<and> (dt_kind (nd_dtype a) = CHR ''f'' \<and> dt_itemsize (nd_dtype a) \<le> 8 \<longrightarrow>
         (\<forall>r \<in> set (projected_rows v a). \<forall>x \<in> set r. f_le (f_abs x) (av_max_absolute_value v)))"
proof -
  let ?dt = "nd_dtype a" and ?p = "projected_rows v a"
  have dims: "0 < av_action_dimension v" "0 < av_chunk_rows v" and fin: "is_finite (av_max_absolute_value v)"
    and shape: "action_shape_ok v a" and numbers: "list_all is_finite (nd_data a)"
    and limit: "\<not> f_lt (av_max_absolute_value v) (np_float ?dt (np_max (map (np_abs ?dt) (concat ?p))))"
    and rows: "rows = map (map f_round32) ?p"
    using assms(1,2) by (auto simp: validate_actions_def result_iffs Let_def)
  note sh = projected_shape [OF shape dims(1) assms(3)]
  have bound: "f_le (f_abs x) (av_max_absolute_value v)"
    if float: "dt_kind ?dt = CHR ''f''" "dt_itemsize ?dt \<le> 8" and x: "r \<in> set ?p" "x \<in> set r" for r x
  proof -
    let ?m = "np_max (map f_abs (concat ?p))"
    have abs: "np_abs ?dt = f_abs" using float by (simp add: np_abs_def fun_eq_iff)
    have elements: "set (concat ?p) \<subseteq> set (nd_data a)"
    proof -
      obtain n w where "nd_shape a = [n, w]" using action_shape_okD [OF shape] by blast
      moreover have "set (concat (np_rows n w (nd_data a))) \<subseteq> set (nd_data a)" if "length (nd_data a) = n * w"
        using np_rows_elements [OF that] by simp
      ultimately show ?thesis using assms(3) by (auto simp: projected_rows_def dest: in_set_takeD)
    qed
    have "x \<in> set (concat ?p)" using x by auto
    then have ne: "map f_abs (concat ?p) \<noteq> []" by (cases "concat ?p") simp_all
    obtain y where y: "?m = f_abs y" "y \<in> set (concat ?p)" using np_max_in [OF ne] by auto
    with elements numbers have "is_finite y" by (auto simp: list_all_iff)
    with y(1) have "?m \<noteq> NaN" by (auto simp: is_finite_iff)
    moreover have "av_max_absolute_value v \<noteq> NaN" using fin by auto
    ultimately have "f_le ?m (av_max_absolute_value v)"
      using limit float abs f_not_le by (auto simp: np_float_def)
    with np_max_le [OF ne] x show ?thesis by auto
  qed
  with dims sh rows numbers show ?thesis by auto
qed

definition demo_action_validator :: action_validator where
  "demo_action_validator =
     \<lparr>av_action_dimension = 2, av_chunk_rows = 1, av_max_absolute_value = Fin 3\<rparr>"

definition demo_action_array :: ndarray where
  "demo_action_array = NDArray \<lparr>dt_name = ''float32'', dt_kind = CHR ''f'', dt_itemsize = 4\<rparr> [1, 4]
     [Fin 0, Fin (-3), Fin 7, Fin 9] (replicate 16 0)"

theorem validated_actions_within_limits_witness:
  "\<exists>rows. validate_actions (\<lambda>_. Inl (PyExc ValueError)) demo_action_validator (PArr demo_action_array) = Inr rows
     \<and> (\<forall>r \<in> set rows. int (length r) = 2)
     \<and> (\<forall>r \<in> set (projected_rows demo_action_validator demo_action_array). \<forall>x \<in> set r. f_le (f_abs x) (Fin 3))"
proof -
  obtain rows where "validate_actions (\<lambda>_. Inl (PyExc ValueError)) demo_action_validator (PArr demo_action_array) = Inr rows"
    by (simp add: validate_actions_def demo_action_validator_def demo_action_array_def np_asarray_def
        action_shape_ok_def projected_rows_def np_float_def np_abs_def f_max_def)
  with validated_actions_within_limits [OF this, of demo_action_array] show ?thesis
    by (simp add: np_asarray_def demo_action_array_def demo_action_validator_def)
qed

text \<open>
  The limit does not hold for signed integer arrays: NumPy's absolute value of the smallest
  integer of a width is negative, so a chunk of \<open>int8\<close> with -128 in it passes a limit of 3.
\<close>

theorem signed_minimum_passes_the_limit:
  "validate_actions as_array demo_action_validator
     (PArr (NDArray \<lparr>dt_name = ''int8'', dt_kind = CHR ''i'', dt_itemsize = 1\<rparr> [1, 2] [Fin (-128), Fin 0] [128, 0]))
   = Inr [[f_round32 (Fin (-128)), f_round32 (Fin 0)]]"
proof -
  have "f_round (Fin 0) = Fin 0" by (simp add: f_round_def rnd64_def)
  then show ?thesis
    by (simp add: validate_actions_def demo_action_validator_def np_asarray_def action_shape_ok_def
        projected_rows_def np_float_def np_abs_def signed_minimum_def f_max_def)
qed

text \<open>
  An observation is sent exactly when it is a non-empty dictionary whose age, on the robot's
  monotonic clock, is neither negative nor more than the configured number of milliseconds
  counted in whole nanoseconds.
\<close>

theorem observation_accepted_iff_fresh:
  assumes "ov_max_age_ms v = Fin ms" and "0 < ms" and "py_int_of (f_mul (Fin ms) (Fin 1000000)) = Inr limit"
  shows "validate_observation v now ob = Inr payload \<longleftrightarrow>
    ob_payload ob = PDict payload \<and> payload \<noteq> []
    \<and> ob_captured_at ob \<le> now \<and> now \<le> ob_captured_at ob + limit"
  using assms by (auto simp: validate_observation_Inr)

theorem observation_accepted_iff_fresh_witness:
  "validate_observation \<lparr>ov_max_age_ms = Fin 500\<rparr> 500000001
     \<lparr>ob_payload = PDict [(''prompt'', PStr ''x'')], ob_captured_at = 1\<rparr> = Inr [(''prompt'', PStr ''x'')]
   \<and> validate_observation \<lparr>ov_max_age_ms = Fin 500\<rparr> 500000002
       \<lparr>ob_payload = PDict [(''prompt'', PStr ''x'')], ob_captured_at = 1\<rparr> \<noteq> Inr [(''prompt'', PStr ''x'')]"
proof -
  have "py_int_of (f_mul (Fin 500) (Fin 1000000)) = Inr 500000000"
    using rnd64_of_int [of 500000000] by (simp add: py_int_of_def trunc_rat_def)
  note iff = observation_accepted_iff_fresh [of "\<lparr>ov_max_age_ms = Fin 500\<rparr>" 500 500000000, OF _ _ this]
  show ?thesis by (simp add: iff)
qed

end
