(* ===== verification/Oven_Orchestrator.thy ===== *)
theory Oven_Orchestrator
  imports Oven_Validation Oven_Hashing
begin

text \<open>
  \<open>edge/orchestrator.py\<close> and \<open>edge/approval.py\<close>: the plan of a run, the operator's approval, and
  the orchestrator that drives reset, policy preparation, rollout, gate and checker of every
  stage and stops the robot on any failure.  The devices and the two server clients are the
  record \<open>devices\<close> of operations over a state \<open>'w\<close> of the world outside; the edge audit store is
  part of the orchestrator's state.  JSON encoding of the evidence rows is not modelled.
\<close>

subsection \<open>Plans\<close>

definition FIXED_SKILL_ORDER :: "string list" where
  "FIXED_SKILL_ORDER = [''open_door'', ''transport_food'', ''close_door'', ''rotate_button'']"

record stage_plan =
  sp_skill :: string
  sp_root_seed :: int
  sp_max_chunks :: int
  sp_action_steps :: int
  sp_settle_sec :: flt
  sp_reset_before :: bool
  sp_checker_required :: bool

record pipeline_plan =
  pp_run_id :: string
  pp_stages :: "stage_plan list"

definition stage_validate :: "stage_plan \<Rightarrow> unit res" where
  "stage_validate st =
     reject_if (sp_skill st = []) (PyExc ValueError) (
     reject_if (sp_root_seed st < 0 \<or> sp_max_chunks st \<le> 0 \<or> sp_action_steps st \<le> 0
         \<or> f_lt (sp_settle_sec st) f_zero) (PyExc ValueError)
       (Inr ()))"

definition trial_name :: "string \<Rightarrow> nat \<Rightarrow> string \<Rightarrow> string" where
  \<comment> \<open>\<open>f"{run_id}_{index}_{skill}"\<close>\<close>
  "trial_name run_id index skill = run_id @ ''_'' @ show_nat index @ ''_'' @ skill"

fun stages_validate :: "string \<Rightarrow> nat \<Rightarrow> stage_plan list \<Rightarrow> unit res" where
  "stages_validate run_id index [] = Inr ()"
| "stages_validate run_id index (st # sts) =
     bind_sum (stage_validate st) (\<lambda>_.
     reject_if (\<not> trial_id_matches (trial_name run_id index (sp_skill st))) (PyExc ValueError)
       (stages_validate run_id (Suc index) sts))"

definition plan_skills :: "pipeline_plan \<Rightarrow> string list" where
  "plan_skills plan = map sp_skill (pp_stages plan)"

definition plan_validate :: "pipeline_plan \<Rightarrow> unit res" where
  "plan_validate plan =
     (let skills = plan_skills plan in
      reject_if (skills \<noteq> FIXED_SKILL_ORDER \<and> \<not> (length skills = 1 \<and> hd skills \<in> set FIXED_SKILL_ORDER))
        (PyExc ValueError) (
      reject_if (\<not> trial_id_matches (pp_run_id plan)) (PyExc ValueError)
        (stages_validate (pp_run_id plan) 0 (pp_stages plan))))"

subsection \<open>Approval\<close>

definition approval_text :: "string \<Rightarrow> string" where
  "approval_text run_id = ''YES RUN '' @ run_id"

definition approval_prompt :: "string \<Rightarrow> string list \<Rightarrow> string" where
  "approval_prompt run_id skills =
     ''Plan: '' @ join '' -> '' skills @ [CHR 0x0A] @ ''Type '' @ [CHR 0x27] @ approval_text run_id @ [CHR 0x27]
     @ '' to authorize every declared reset and rollout: ''"

definition console_approve :: "bool \<Rightarrow> (string \<Rightarrow> ('w, string) meth) \<Rightarrow> string \<Rightarrow> string list \<Rightarrow> ('w, bool) meth" where
  "console_approve execute_enabled read run_id skills =
     (if \<not> execute_enabled then ret False
      else map_op (\<lambda>answer. strip_chars py_whitespace answer = approval_text run_id)
             (read (approval_prompt run_id skills)))"

subsection \<open>The state of a run\<close>

record 'w devices =
  dv_approve :: "string \<Rightarrow> string list \<Rightarrow> ('w, bool) meth"
  dv_observation_preflight :: "('w, unit) meth"
  dv_reset_preflight :: "('w, unit) meth"
  dv_executor_preflight :: "('w, unit) meth"
  dv_sample :: "string \<Rightarrow> ('w, observation) meth"
  dv_observation_clock :: "('w, int) meth"
  dv_clock :: "('w, int) meth"
  dv_sleep :: "flt \<Rightarrow> ('w, unit) meth"
  dv_reset :: "string \<Rightarrow> ('w, unit) meth"
  dv_begin_stage :: "string \<Rightarrow> ('w, unit) meth"
  dv_publish :: "matrix \<Rightarrow> ('w, publish_result) meth"
  dv_stop :: "string \<Rightarrow> ('w, unit) meth"
  dv_check :: "string \<Rightarrow> ('w, checker_result) meth"
  dv_control :: "string \<Rightarrow> pyval list \<Rightarrow> ('w, pydict) meth"
  dv_infer :: "pydict \<Rightarrow> ('w, pydict) meth"

record orchestrator_config =
  oc_plan :: pipeline_plan
  oc_observation_validator :: observation_validator
  oc_action_validator :: action_validator
  oc_as_array :: np_array

record 'w orchestrator =
  or_state :: pipeline_state
  or_session :: pyval      \<comment> \<open>\<open>PNone\<close> while no session is open\<close>
  or_trial_started :: bool
  or_audit :: edge_store
  or_world :: 'w

definition orchestrator_init :: "orchestrator_config \<Rightarrow> edge_store \<Rightarrow> 'w \<Rightarrow> 'w orchestrator res" where
  "orchestrator_init cfg audit w =
     bind_sum (plan_validate (oc_plan cfg)) (\<lambda>_.
       Inr \<lparr>or_state = PS_CREATED, or_session = PNone, or_trial_started = False, or_audit = audit, or_world = w\<rparr>)"

definition on_world :: "('w, 'a) meth \<Rightarrow> ('w orchestrator, 'a) meth" where
  "on_world m = (\<lambda>s. case m (or_world s) of (r, w) \<Rightarrow> (r, s\<lparr>or_world := w\<rparr>))"

definition on_edge :: "(edge_store, 'a) meth \<Rightarrow> ('w orchestrator, 'a) meth" where
  "on_edge m = (\<lambda>s. case m (or_audit s) of (r, a) \<Rightarrow> (r, s\<lparr>or_audit := a\<rparr>))"

definition pipeline_transition :: "pipeline_state \<Rightarrow> ('w orchestrator, unit) meth" where
  "pipeline_transition target =
     bind_op (gets_op or_state) (\<lambda>current.
     seq_op (lift_sum (ensure_pipeline_transition current target))
       (seq_op (modify_op (\<lambda>s. s\<lparr>or_state := target\<rparr>))
         (on_edge (edge_set_pipeline_state (pipeline_value target)))))"

definition pipeline_control :: "'w devices \<Rightarrow> string \<Rightarrow> pyval list \<Rightarrow> ('w orchestrator, pydict) meth" where
  "pipeline_control dv command arguments =
     bind_op (on_world (dv_control dv command arguments)) (\<lambda>response.
       case (dget response ''ok'', dget response ''result'') of
         (Some (PBool True), Some (PDict result)) \<Rightarrow> ret result
       | _ \<Rightarrow> raise (err SERVER_FAILED ''control client returned an invalid success response'' []))"

subsection \<open>The rollout\<close>

definition build_request :: "pydict \<Rightarrow> int \<Rightarrow> pydict \<Rightarrow> (int \<Rightarrow> pydict) res" where
  \<comment> \<open>the clock is read between the fields of the session and the observation\<close>
  "build_request session sequence observation =
     bind_sum (item session ''session_id'') (\<lambda>session_id.
     bind_sum (item session ''session_token'') (\<lambda>token.
     bind_sum (item session ''trial_id'') (\<lambda>trial_id.
     bind_sum (item session ''skill'') (\<lambda>skill.
     bind_sum (item session ''generation'') (\<lambda>generation.
       Inr (\<lambda>sent_at.
           [(''protocol_version'', PInt PROTOCOL_VERSION), (''message_type'', PStr ''inference_request''),
            (''session_id'', session_id), (''session_token'', token), (''trial_id'', trial_id),
            (''request_kind'', PStr ''infer''), (''expected_skill'', skill), (''expected_generation'', generation),
            (''sequence'', PInt sequence), (''sent_at_monotonic_ns'', PInt sent_at),
            (''observation'', PDict observation)]))))))"

text \<open>The observation source takes the skill as a string; any other value of the session is a \<open>TypeError\<close>.\<close>

definition pipeline_request ::
  "orchestrator_config \<Rightarrow> 'w devices \<Rightarrow> pydict \<Rightarrow> int \<Rightarrow> ('w orchestrator, pydict) meth" where
  "pipeline_request cfg dv session sequence =
     bind_op (lift_sum (bind_sum (item session ''skill'') (\<lambda>v. expect (PyExc TypeError) (is_str v)))) (\<lambda>skill.
     bind_op (on_world (dv_sample dv skill)) (\<lambda>ob.
     bind_op (on_world (dv_observation_clock dv)) (\<lambda>now.
     bind_op (lift_sum (validate_observation (oc_observation_validator cfg) now ob)) (\<lambda>observation.
     bind_op (lift_sum (build_request session sequence observation)) (\<lambda>request.
       map_op request (on_world (dv_clock dv)))))))"

definition rollout_row :: "stage_plan \<Rightarrow> pydict \<Rightarrow> pydict \<Rightarrow> int \<Rightarrow> int \<Rightarrow> int \<Rightarrow> pydict res" where
  "rollout_row stage session response sequence published steps_total =
     bind_sum (item session ''session_id'') (\<lambda>session_id.
     bind_sum (item session ''generation'') (\<lambda>generation.
     bind_sum (item response ''request_hash'') (\<lambda>request_hash.
     bind_sum (item response ''action_hash'') (\<lambda>action_hash.
       Inr [(''schema_version'', PInt 1), (''skill'', PStr (sp_skill stage)), (''session_id'', session_id),
            (''generation'', generation), (''sequence'', PInt sequence), (''published_rows'', PInt published),
            (''published_steps_total'', PInt steps_total), (''request_hash'', request_hash),
            (''action_hash'', action_hash)]))))"

definition gate_passed :: "publish_result \<Rightarrow> bool" where
  "gate_passed p = (case pr_gate_result p of None \<Rightarrow> False | Some g \<Rightarrow> gr_passed g)"

text \<open>One round of the loop: the request and its chunk, then the publication and its evidence.\<close>

definition rollout_actions ::
  "orchestrator_config \<Rightarrow> 'w devices \<Rightarrow> stage_plan \<Rightarrow> pydict \<Rightarrow> int \<Rightarrow> int \<Rightarrow> ('w orchestrator, pydict \<times> matrix) meth" where
  "rollout_actions cfg dv stage session sequence steps =
     bind_op (pipeline_request cfg dv session sequence) (\<lambda>request.
     bind_op (on_world (dv_infer dv request)) (\<lambda>response.
     if dget response ''publishable'' \<noteq> Some (PBool True)
     then raise (err ACTION_INVALID ''formal inference response is not publishable'' [])
     else
     bind_op (lift_sum (bind_sum (item response ''actions'')
                 (validate_actions (oc_as_array cfg) (oc_action_validator cfg)))) (\<lambda>actions.
     if steps + int (length actions) > sp_action_steps stage
     then raise (err ACTION_INVALID ''action chunk exceeds the stage action-step budget'' [])
     else ret (response, actions))))"

definition rollout_publish ::
  "'w devices \<Rightarrow> stage_plan \<Rightarrow> pydict \<Rightarrow> int \<Rightarrow> int \<Rightarrow> pydict \<Rightarrow> matrix \<Rightarrow> ('w orchestrator, publish_result) meth" where
  "rollout_publish dv stage session sequence steps response actions =
     bind_op (on_world (dv_publish dv actions)) (\<lambda>published.
     if \<not> (0 < pr_published_rows published \<and> pr_published_rows published \<le> int (length actions))
     then raise (err ACTION_INVALID ''action executor reported an invalid published-row count'' [])
     else
     bind_op (lift_sum (rollout_row stage session response sequence (pr_published_rows published)
                 (steps + pr_published_rows published))) (\<lambda>row.
     seq_op (on_edge (edge_record_rollout row)) (ret published)))"

definition rollout_chunk ::
  "orchestrator_config \<Rightarrow> 'w devices \<Rightarrow> stage_plan \<Rightarrow> pydict \<Rightarrow> int \<Rightarrow> int \<Rightarrow> ('w orchestrator, publish_result) meth" where
  "rollout_chunk cfg dv stage session sequence steps =
     bind_op (rollout_actions cfg dv stage session sequence steps) (\<lambda>(response, actions).
       rollout_publish dv stage session sequence steps response actions)"

fun rollout_loop ::
  "orchestrator_config \<Rightarrow> 'w devices \<Rightarrow> stage_plan \<Rightarrow> pydict \<Rightarrow> nat \<Rightarrow> int \<Rightarrow> int \<Rightarrow> ('w orchestrator, publish_result) meth" where
  "rollout_loop cfg dv stage session 0 sequence steps =
     raise (err JOINT_GATE_FAILED ''stage exhausted its action-step budget without joint-rest detection''
             [(''published_steps'', PInt steps)])"
| "rollout_loop cfg dv stage session (Suc left) sequence steps =
     bind_op (rollout_chunk cfg dv stage session sequence steps) (\<lambda>published.
     if pr_stop_requested published
     then if gate_passed published then ret published
          else raise (err JOINT_GATE_FAILED ''executor stopped without passed joint-rest evidence'' [])
     else rollout_loop cfg dv stage session left (sequence + 1) (steps + pr_published_rows published))"

definition rollout :: "orchestrator_config \<Rightarrow> 'w devices \<Rightarrow> stage_plan \<Rightarrow> pydict \<Rightarrow> ('w orchestrator, publish_result) meth" where
  "rollout cfg dv stage session = rollout_loop cfg dv stage session (nat (sp_max_chunks stage)) 0 0"

subsection \<open>A stage\<close>

definition checker_not_required :: checker_result where
  "checker_not_required =
     \<lparr>kr_passed = True, kr_score = Fin 1, kr_threshold = Fin 0, kr_asset_id = ''not_required'',
      kr_reason = ''checker_not_required''\<rparr>"

definition stage_check :: "'w devices \<Rightarrow> stage_plan \<Rightarrow> ('w orchestrator, checker_result \<times> evidence_status) meth" where
  "stage_check dv stage =
     (if sp_checker_required stage
      then bind_op (on_world (dv_check dv (sp_skill stage))) (\<lambda>result.
             if \<not> kr_passed result
             then raise (err CHECKER_FAILED ''visual checker rejected the stage'' [(''reason'', PStr (kr_reason result))])
             else ret (result, EV_PASSED))
      else ret (checker_not_required, EV_NOT_REQUIRED))"

definition passed_evidence :: "publish_result \<Rightarrow> evidence_status \<Rightarrow> stage_evidence" where
  "passed_evidence published checker =
     \<lparr>rollout_exit_code = Some 0,
      rollout_end_reason =
        Some (case pr_reason published of Some (c # cs) \<Rightarrow> c # cs | _ \<Rightarrow> ''joint_rest_detected''),
      rollout_end_reason_approved = True, ev_joint_gate = EV_PASSED, ev_checker = checker,
      ev_server_audit = EV_PASSED, ev_edge_audit = EV_PASSED\<rparr>"

text \<open>Up to the open session, the rollout with the end of the trial, and the verdicts.\<close>

definition stage_prepare ::
  "orchestrator_config \<Rightarrow> 'w devices \<Rightarrow> nat \<Rightarrow> stage_plan \<Rightarrow> ('w orchestrator, pydict) meth" where
  "stage_prepare cfg dv index stage =
     (let trial_id = trial_name (pp_run_id (oc_plan cfg)) index (sp_skill stage) in
      seq_op (on_edge (edge_start_stage index (sp_skill stage) trial_id))
      (seq_op (pipeline_transition PS_RESETTING)
      (seq_op (when_op (sp_reset_before stage)
                 (seq_op (on_world (dv_reset dv (sp_skill stage))) (on_world (dv_sleep dv (sp_settle_sec stage)))))
      (seq_op (pipeline_transition PS_PREPARING_POLICY)
      (seq_op (pipeline_control dv ''prepare-skill'' [PStr (sp_skill stage)])
      (seq_op (modify_op (\<lambda>s. s\<lparr>or_trial_started := True\<rparr>))
      (seq_op (pipeline_control dv ''begin-trial'' [PStr trial_id, PInt (sp_root_seed stage)])
      (bind_op (pipeline_control dv ''open-session'' []) (\<lambda>session.
       bind_op (lift_sum (item session ''session_id'')) (\<lambda>session_id.
       seq_op (modify_op (\<lambda>s. s\<lparr>or_session := session_id\<rparr>)) (ret session)))))))))))"

definition stage_rollout ::
  "orchestrator_config \<Rightarrow> 'w devices \<Rightarrow> stage_plan \<Rightarrow> pydict \<Rightarrow> ('w orchestrator, publish_result \<times> pydict) meth" where
  "stage_rollout cfg dv stage session =
     seq_op (pipeline_transition PS_READY_TO_ROLLOUT)
     (seq_op (on_world (dv_begin_stage dv (sp_skill stage)))
     (seq_op (pipeline_transition PS_ROLLOUT)
     (bind_op (rollout cfg dv stage session) (\<lambda>published.
      seq_op (on_world (dv_stop dv ''rollout_complete''))
      (bind_op (gets_op or_session) (\<lambda>session_id.
       seq_op (pipeline_control dv ''close-session'' [session_id])
       (seq_op (modify_op (\<lambda>s. s\<lparr>or_session := PNone\<rparr>))
       (bind_op (pipeline_control dv ''end-trial'' []) (\<lambda>server_summary.
        if dget server_summary ''status'' \<noteq> Some (PStr ''COMMITTED'')
        then raise (err AUDIT_COMMIT_FAILED ''server did not commit its trial evidence'' [])
        else seq_op (modify_op (\<lambda>s. s\<lparr>or_trial_started := False\<rparr>)) (ret (published, server_summary)))))))))))"

definition stage_verdict ::
  "'w devices \<Rightarrow> stage_plan \<Rightarrow> publish_result \<Rightarrow> pydict \<Rightarrow> ('w orchestrator, unit) meth" where
  "stage_verdict dv stage published server_summary =
     seq_op (pipeline_transition PS_JOINT_GATE)
     (case pr_gate_result published of
        None \<Rightarrow> raise (err JOINT_GATE_FAILED ''rollout ended without joint-rest evidence'' [])
      | Some gate \<Rightarrow>
          if \<not> gr_passed gate
          then raise (err JOINT_GATE_FAILED ''rollout ended without joint-rest evidence'' [])
          else
            seq_op (pipeline_transition PS_CHECKING)
            (bind_op (stage_check dv stage) (\<lambda>(checker, checker_evidence).
             seq_op (on_edge (edge_complete_stage (passed_evidence published checker_evidence) gate checker server_summary))
               (pipeline_transition PS_HANDOFF))))"

definition run_stage :: "orchestrator_config \<Rightarrow> 'w devices \<Rightarrow> nat \<Rightarrow> stage_plan \<Rightarrow> ('w orchestrator, unit) meth" where
  "run_stage cfg dv index stage =
     bind_op (stage_prepare cfg dv index stage) (\<lambda>session.
     bind_op (stage_rollout cfg dv stage session) (\<lambda>(published, server_summary).
       stage_verdict dv stage published server_summary))"

subsection \<open>A run\<close>

fun run_stages ::
  "orchestrator_config \<Rightarrow> 'w devices \<Rightarrow> nat \<Rightarrow> stage_plan list \<Rightarrow> ('w orchestrator, unit) meth" where
  "run_stages cfg dv index [] = ret ()"
| "run_stages cfg dv index (stage # stages) =
     seq_op (run_stage cfg dv index stage) (run_stages cfg dv (Suc index) stages)"

definition run_body :: "orchestrator_config \<Rightarrow> 'w devices \<Rightarrow> ('w orchestrator, pydict) meth" where
  "run_body cfg dv =
     seq_op (pipeline_transition PS_PREFLIGHT)
     (seq_op (on_world (dv_observation_preflight dv))
     (seq_op (on_world (dv_reset_preflight dv))
     (seq_op (on_world (dv_executor_preflight dv))
     (seq_op (run_stages cfg dv 0 (pp_stages (oc_plan cfg)))
     (seq_op (pipeline_transition PS_COMPLETED) (on_edge edge_complete))))))"

text \<open>\<open>try: m except Exception as exc: failures.append(...)\<close>\<close>

definition attempt :: "string \<Rightarrow> ('s, 'a) meth \<Rightarrow> ('s, string list) meth" where
  "attempt label m =
     catch_op (map_op (\<lambda>_. []) m)
       (\<lambda>e. if is_exception e then ret [label @ '':'' @ exn_name e] else raise e)"

definition force_transition :: "pipeline_state \<Rightarrow> ('w orchestrator, unit) meth" where
  \<comment> \<open>a transition without its manifest\<close>
  "force_transition target =
     bind_op (gets_op or_state) (\<lambda>current.
     seq_op (lift_sum (ensure_pipeline_transition current target)) (modify_op (\<lambda>s. s\<lparr>or_state := target\<rparr>)))"

definition enter_safe_stop :: "('w orchestrator, unit) meth" where
  "enter_safe_stop =
     bind_op (gets_op or_state) (\<lambda>state.
       when_op (state \<notin> {PS_SAFE_STOP, PS_FAILED, PS_COMPLETED}) (force_transition PS_SAFE_STOP))"

definition leave_safe_stop :: "('w orchestrator, unit) meth" where
  "leave_safe_stop =
     bind_op (gets_op or_state) (\<lambda>state. when_op (state = PS_SAFE_STOP) (force_transition PS_FAILED))"

definition close_open_session :: "'w devices \<Rightarrow> ('w orchestrator, string list) meth" where
  "close_open_session dv =
     bind_op (gets_op or_session) (\<lambda>session.
       if session = PNone then ret []
       else bind_op (attempt ''close_session'' (pipeline_control dv ''close-session'' [session])) (\<lambda>failures.
         seq_op (modify_op (\<lambda>s. s\<lparr>or_session := PNone\<rparr>)) (ret failures)))"

definition abort_open_trial :: "'w devices \<Rightarrow> error_code \<Rightarrow> ('w orchestrator, string list) meth" where
  "abort_open_trial dv code =
     bind_op (gets_op or_trial_started) (\<lambda>started.
       if \<not> started then ret []
       else bind_op (attempt ''abort_trial''
                       (pipeline_control dv ''abort'' [PStr (''edge safe stop: '' @ code_value code)])) (\<lambda>failures.
         seq_op (modify_op (\<lambda>s. s\<lparr>or_trial_started := False\<rparr>)) (ret failures)))"

definition safe_stop_message :: "string \<Rightarrow> string list \<Rightarrow> string" where
  "safe_stop_message message failures =
     (if failures = [] then message else message @ ''; cleanup_failures='' @ join '','' failures)"

definition safe_stop :: "'w devices \<Rightarrow> error_code \<Rightarrow> string \<Rightarrow> ('w orchestrator, unit) meth" where
  "safe_stop dv code message =
     seq_op enter_safe_stop
     (bind_op (attempt ''action_stop'' (on_world (dv_stop dv (''safe_stop:'' @ code_value code)))) (\<lambda>stop_failed.
      bind_op (close_open_session dv) (\<lambda>close_failed.
      bind_op (abort_open_trial dv code) (\<lambda>abort_failed.
      seq_op leave_safe_stop
      (bind_op (gets_op or_state) (\<lambda>state.
       catch_op
         (map_op (\<lambda>_. ()) (on_edge (edge_fail (pipeline_value state) (code_value code)
            (safe_stop_message message (stop_failed @ close_failed @ abort_failed)))))
         (\<lambda>e. if is_exception e then ret () else raise e)))))))"

definition run_failed :: "'w devices \<Rightarrow> exn \<Rightarrow> ('w orchestrator, 'a) meth" where
  "run_failed dv e =
     (case e of
        Interrupt \<Rightarrow> seq_op (safe_stop dv PIPELINE_FAILED ''operator interrupted pipeline'') (raise e)
      | Fault f \<Rightarrow> seq_op (safe_stop dv (rf_code f) (rf_message f)) (raise e)
      | PyExc c \<Rightarrow>
          seq_op (safe_stop dv PIPELINE_FAILED ''pipeline component failed'')
            (raise (err PIPELINE_FAILED ''pipeline component failed'' [])))"

definition run_pipeline :: "orchestrator_config \<Rightarrow> 'w devices \<Rightarrow> ('w orchestrator, pydict) meth" where
  "run_pipeline cfg dv =
     (let skills = plan_skills (oc_plan cfg); run_id = pp_run_id (oc_plan cfg) in
      bind_op (on_world (dv_approve dv run_id skills)) (\<lambda>approved.
      if \<not> approved then raise (err APPROVAL_REQUIRED ''run-level operator approval was not granted'' [])
      else seq_op (on_edge (edge_begin run_id skills))
             (catch_op (run_body cfg dv) (run_failed dv))))"

end
