(* ===== verification/Oven_OrchestratorSpec.thy ===== *)
theory Oven_OrchestratorSpec
  imports Oven_Orchestrator
begin

text \<open>
  What the orchestrator guarantees: what a completed run has behind it, how a run that fails is
  stopped, and what a rollout can publish.  The devices are arbitrary throughout; a property that
  needs something of them states it.
\<close>

subsection \<open>Operations on one part of the state\<close>

lemma on_world_apply [op_simps]:
  "on_world m s = (case m (or_world s) of (r, w) \<Rightarrow> (r, s\<lparr>or_world := w\<rparr>))"
  by (simp add: on_world_def)

lemma on_edge_apply [op_simps]:
  "on_edge m s = (case m (or_audit s) of (r, a) \<Rightarrow> (r, s\<lparr>or_audit := a\<rparr>))"
  by (simp add: on_edge_def)

lemma keeps_on_world:
  "(\<And>w s. P s \<Longrightarrow> P (s\<lparr>or_world := w\<rparr>)) \<Longrightarrow> keeps P (on_world m)"
  by (rule keepsI) (auto simp: on_world_def split: prod.split)

lemma keeps_on_edge:
  "(\<And>a s. P s \<Longrightarrow> P (s\<lparr>or_audit := a\<rparr>)) \<Longrightarrow> keeps P (on_edge m)"
  by (rule keepsI) (auto simp: on_edge_def split: prod.split)

lemma keeps_map_iff [simp]: "keeps P (map_op f m) \<longleftrightarrow> keeps P m"
proof -
  have "snd (map_op f m s) = snd (m s)" for s by (auto simp: map_op_apply split: prod.split sum.split)
  then show ?thesis by (simp add: keeps_def)
qed

subsection \<open>Facts about the evidence\<close>

text \<open>
  A fact about the edge store that a rollout does not change, and one that no operation of a run
  but its beginning changes.
\<close>

locale rollout_client =
  fixes P :: "edge_store \<Rightarrow> bool"
  assumes set_state: "keeps P (edge_set_pipeline_state state)"
    and record_row: "keeps P (edge_record_rollout row)"
begin

lemma edge: "keeps P m \<Longrightarrow> keeps (\<lambda>s. P (or_audit s)) (on_edge m)"
  by (force simp: keeps_def on_edge_def split: prod.split)

lemma world: "keeps (\<lambda>s. P (or_audit s)) (on_world m)"
  by (rule keeps_on_world) simp

lemma transition: "keeps (\<lambda>s. P (or_audit s)) (pipeline_transition target)"
  unfolding pipeline_transition_def
  by (intro keeps_bind keeps_seq keeps_gets keeps_lift_sum keeps_modify edge set_state) simp

lemma control: "keeps (\<lambda>s. P (or_audit s)) (pipeline_control dv command arguments)"
  unfolding pipeline_control_def
  by (intro keeps_bind world) (auto intro: keeps_ret keeps_raise split: option.split pyval.split bool.split)

lemma request: "keeps (\<lambda>s. P (or_audit s)) (pipeline_request cfg dv session sequence)"
  unfolding pipeline_request_def by (intro keeps_bind keeps_lift_sum keeps_map world)

lemma chunk: "keeps (\<lambda>s. P (or_audit s)) (rollout_chunk cfg dv stage session sequence steps)"
  unfolding rollout_chunk_def rollout_actions_def rollout_publish_def
  by (auto intro!: keeps_bind keeps_seq keeps_if keeps_raise keeps_ret keeps_lift_sum request world edge record_row)

lemma loop: "keeps (\<lambda>s. P (or_audit s)) (rollout_loop cfg dv stage session left sequence steps)"
  by (induction left arbitrary: sequence steps)
    (auto intro!: keeps_bind keeps_raise keeps_ret chunk)

lemma stage_rollout: "keeps (\<lambda>s. P (or_audit s)) (stage_rollout cfg dv stage session)"
  unfolding stage_rollout_def rollout_def
  by (intro keeps_bind keeps_seq keeps_if keeps_raise keeps_ret keeps_gets keeps_modify transition world loop control)
    simp_all

end

locale audit_client = rollout_client +
  assumes start: "keeps P (edge_start_stage index skill trial_id)"
    and complete_stage: "keeps P (edge_complete_stage evidence gate checker summary)"
begin

lemma prepare: "keeps (\<lambda>s. P (or_audit s)) (stage_prepare cfg dv index stage)"
  unfolding stage_prepare_def Let_def
  by (intro keeps_bind keeps_seq keeps_when keeps_ret keeps_lift_sum keeps_modify transition world control edge start)
    simp_all

lemma check: "keeps (\<lambda>s. P (or_audit s)) (stage_check dv stage)"
  unfolding stage_check_def by (intro keeps_if keeps_bind keeps_raise keeps_ret world)

lemma verdict: "keeps (\<lambda>s. P (or_audit s)) (stage_verdict dv stage published summary)"
  unfolding stage_verdict_def
  by (auto intro!: keeps_seq keeps_bind keeps_raise transition check edge complete_stage split: option.split)

lemma stage: "keeps (\<lambda>s. P (or_audit s)) (run_stage cfg dv index stage)"
  unfolding run_stage_def by (auto intro!: keeps_bind prepare stage_rollout verdict)

lemma stages: "keeps (\<lambda>s. P (or_audit s)) (run_stages cfg dv index stages)"
  by (induction stages arbitrary: index) (auto intro: keeps_ret keeps_seq stage)

end

interpretation evidence_client: audit_client edge_inv
  by unfold_locales (rule edge_inv_intros)+

definition is_run :: "string \<Rightarrow> string list \<Rightarrow> edge_run \<Rightarrow> bool" where
  "is_run run_id skills run \<longleftrightarrow> er_run_id run = run_id \<and> er_planned_skills run = skills"

lemma active_is_run: "(\<And>r p. c \<noteq> Edge_begin r p) \<Longrightarrow> keeps (active_sat (is_run run_id skills)) (edge_step c)"
  by (rule active_step) (auto simp: progress_closed_def is_run_def)

interpretation run_client: audit_client "active_sat (is_run run_id skills)" for run_id skills
  using active_is_run [of "Edge_set_pipeline_state _"] active_is_run [of "Edge_record_rollout _"]
    active_is_run [of "Edge_start_stage _ _ _"] active_is_run [of "Edge_complete_stage _ _ _ _"]
  by unfold_locales simp_all

subsection \<open>Runs that return\<close>

lemma on_edge_Inr: "on_edge m s = (Inr y, s') \<longleftrightarrow> (\<exists>a. m (or_audit s) = (Inr y, a) \<and> s' = s\<lparr>or_audit := a\<rparr>)"
  by (auto simp: on_edge_def split: prod.splits)

lemma on_world_Inr: "on_world m s = (Inr y, s') \<longleftrightarrow> (\<exists>w. m (or_world s) = (Inr y, w) \<and> s' = s\<lparr>or_world := w\<rparr>)"
  by (auto simp: on_world_def split: prod.splits)

lemmas op_Inr = op_returns on_edge_Inr on_world_Inr

text \<open>No session is open and no trial is started.\<close>

definition quiet :: "'w orchestrator \<Rightarrow> bool" where
  "quiet s \<longleftrightarrow> or_session s = PNone \<and> \<not> or_trial_started s"

definition no_session :: "'w orchestrator \<Rightarrow> bool" where
  "no_session s \<longleftrightarrow> or_session s = PNone"

lemma quiet_updates [simp]:
  "quiet (s\<lparr>or_world := w\<rparr>) = quiet s" "quiet (s\<lparr>or_audit := a\<rparr>) = quiet s" "quiet (s\<lparr>or_state := x\<rparr>) = quiet s"
  "no_session (s\<lparr>or_world := w\<rparr>) = no_session s" "no_session (s\<lparr>or_session := PNone\<rparr>)"
  by (simp_all add: quiet_def no_session_def)

lemma pipeline_transition_quiet: "keeps quiet (pipeline_transition target)"
  unfolding pipeline_transition_def
  by (intro keeps_bind keeps_seq keeps_gets keeps_lift_sum keeps_modify keeps_on_edge) simp_all

lemma transition_Inr: "pipeline_transition target s = (Inr u, s') \<Longrightarrow> or_state s' = target"
  by (auto simp: pipeline_transition_def op_Inr gets_op_apply lift_sum_apply modify_op_apply)

lemma control_no_session: "keeps no_session (pipeline_control dv command arguments)"
  unfolding pipeline_control_def
  by (intro keeps_bind keeps_on_world)
    (auto intro: keeps_ret keeps_raise split: option.split pyval.split bool.split)

lemma stage_rollout_quiet:
  assumes "stage_rollout cfg dv stage session s = (Inr x, s')"
  shows "quiet s'" and "dget (snd x) ''status'' = Some (PStr ''COMMITTED'')"
proof -
  from assms obtain t summary u where
    "pipeline_control dv ''end-trial'' [] (t\<lparr>or_session := PNone\<rparr>) = (Inr summary, u)"
    "dget summary ''status'' = Some (PStr ''COMMITTED'')" "s' = u\<lparr>or_trial_started := False\<rparr>" "snd x = summary"
    by (auto simp: stage_rollout_def op_Inr gets_op_apply modify_op_apply ret_apply)
  with keepsD [OF control_no_session, of "t\<lparr>or_session := PNone\<rparr>" dv "''end-trial''" "[]"]
  show "quiet s'" "dget (snd x) ''status'' = Some (PStr ''COMMITTED'')"
    by (simp_all add: quiet_def no_session_def)
qed

lemma stage_verdict_quiet: "keeps quiet (stage_verdict dv stage published summary)"
  unfolding stage_verdict_def stage_check_def
  by (auto intro!: keeps_seq keeps_bind keeps_raise keeps_ret keeps_if pipeline_transition_quiet keeps_on_edge keeps_on_world
      split: option.split)

lemma run_stage_quiet:
  assumes "run_stage cfg dv index stage s = (Inr u, s')"
  shows "quiet s'"
proof -
  from assms obtain session s1 published summary s2 where
    r: "stage_rollout cfg dv stage session s1 = (Inr (published, summary), s2)"
      "stage_verdict dv stage published summary s2 = (Inr u, s')"
    by (auto simp: run_stage_def op_Inr)
  from keepsD [OF stage_verdict_quiet stage_rollout_quiet(1) [OF r(1)], of dv stage published summary] r(2)
  show ?thesis by simp
qed

lemma run_stages_quiet:
  "run_stages cfg dv index stages s = (Inr u, s') \<Longrightarrow> quiet s \<Longrightarrow> quiet s'"
  by (induction stages arbitrary: index s) (auto simp: ret_apply op_Inr dest: run_stage_quiet)

lemma run_body_Inr:
  assumes "run_body cfg dv s = (Inr m, s')"
  shows "\<exists>s1 w s2 s3 a. pipeline_transition PS_PREFLIGHT s = (Inr (), s1)
    \<and> run_stages cfg dv 0 (pp_stages (oc_plan cfg)) (s1\<lparr>or_world := w\<rparr>) = (Inr (), s2)
    \<and> pipeline_transition PS_COMPLETED s2 = (Inr (), s3)
    \<and> edge_complete (or_audit s3) = (Inr m, a) \<and> s' = s3\<lparr>or_audit := a\<rparr>"
  using assms unfolding run_body_def op_Inr by fastforce

lemma run_failed_not_Inr: "run_failed dv e s \<noteq> (Inr x, s')"
  by (auto simp: run_failed_def seq_op_apply raise_apply split: exn.split prod.split sum.split)

lemma edge_begin_Inr:
  assumes "edge_begin run_id skills st = (Inr d, st')"
  shows "\<exists>run. es_active st' = Some run \<and> is_run run_id skills run"
proof -
  let ?run = "\<lparr>er_run_id = run_id, er_planned_skills = skills, er_completed_stages = 0, er_stage_directory = None\<rparr>"
  from assms obtain st1 m where
    "edge_write_manifest ''ACTIVE'' ''CREATED'' [] (st1\<lparr>es_active := Some ?run\<rparr>) = (Inr m, st')"
    by (auto simp: edge_begin_def op_Inr gets_op_apply set_edge_run_apply raise_apply ret_apply split: if_splits)
  from edge_manifest_spec(1) [OF this] show ?thesis by (simp add: is_run_def)
qed

lemma run_pipeline_Inr:
  assumes "run_pipeline cfg dv s = (Inr m, s')"
  shows "\<exists>w d a. edge_begin (pp_run_id (oc_plan cfg)) (plan_skills (oc_plan cfg)) (or_audit s) = (Inr d, a)
    \<and> run_body cfg dv (s\<lparr>or_world := w, or_audit := a\<rparr>) = (Inr m, s')"
proof -
  from assms obtain w d a where
    "edge_begin (pp_run_id (oc_plan cfg)) (plan_skills (oc_plan cfg)) (or_audit s) = (Inr d, a)"
    and c: "catch_op (run_body cfg dv) (run_failed dv) (s\<lparr>or_world := w, or_audit := a\<rparr>) = (Inr m, s')"
    by (auto simp: run_pipeline_def Let_def op_Inr)
  moreover obtain r s1 where b: "run_body cfg dv (s\<lparr>or_world := w, or_audit := a\<rparr>) = (r, s1)" by fastforce
  have "r = Inr m \<and> s1 = s'"
  proof (cases r)
    case (Inl e)
    with b c show ?thesis by (simp add: catch_op_apply run_failed_not_Inr)
  qed (use b c in \<open>simp add: catch_op_apply\<close>)
  with b calculation show ?thesis by blast
qed

text \<open>
  C21. A run of the pipeline that returns has everything behind it.  Whatever the devices and the
  servers did on the way, when \<open>run\<close> returns, every skill of the plan has its directory with
  complete evidence, the manifest on disk says COMPLETED and is the value returned, the state is
  COMPLETED, no session is open, no trial is left started and no run is active in the edge store.
\<close>

theorem pipeline_completion_sound:
  assumes "orchestrator_init cfg audit w = Inr s" and "edge_inv audit"
    and "run_pipeline cfg dv s = (Inr m, s')"
  shows "or_state s' = PS_COMPLETED \<and> or_session s' = PNone \<and> \<not> or_trial_started s' \<and> es_active (or_audit s') = None
    \<and> (\<exists>run. er_run_id run = pp_run_id (oc_plan cfg) \<and> er_planned_skills run = plan_skills (oc_plan cfg)
         \<and> m = run_manifest run ''COMPLETED'' ''COMPLETED'' []
         \<and> es_files (or_audit s') [er_run_id run, ''run_manifest.json''] = Some (JsonFile m)
         \<and> (\<forall>i < length (er_planned_skills run). stage_done (or_audit s') run i))"
proof -
  let ?R = "is_run (pp_run_id (oc_plan cfg)) (plan_skills (oc_plan cfg))"
  from run_pipeline_Inr [OF assms(3)] obtain w' d a0 s0 where
    begun: "edge_begin (pp_run_id (oc_plan cfg)) (plan_skills (oc_plan cfg)) (or_audit s) = (Inr d, a0)"
    and s0: "s0 = s\<lparr>or_world := w', or_audit := a0\<rparr>" and body: "run_body cfg dv s0 = (Inr m, s')"
    by blast
  from run_body_Inr [OF body] obtain s1 w1 s2 s3 a3 where
    t1: "pipeline_transition PS_PREFLIGHT s0 = (Inr (), s1)"
    and st: "run_stages cfg dv 0 (pp_stages (oc_plan cfg)) (s1\<lparr>or_world := w1\<rparr>) = (Inr (), s2)"
    and t2: "pipeline_transition PS_COMPLETED s2 = (Inr (), s3)"
    and fin: "edge_complete (or_audit s3) = (Inr m, a3)" and s': "s' = s3\<lparr>or_audit := a3\<rparr>" by blast
  from assms(1) have s: "or_audit s = audit" "quiet s"
    by (auto simp: orchestrator_init_def quiet_def bind_sum_eq_Inr)
  have carried: "Q (or_audit s3)" if "audit_client Q" "Q a0" for Q
  proof -
    have "Q (or_audit s1)"
      using keepsD [OF rollout_client.transition [OF audit_client.axioms(1) [OF that(1)]], of s0 PS_PREFLIGHT] t1 s0 that(2)
      by simp
    then have "Q (or_audit s2)"
      using keepsD [OF audit_client.stages [OF that(1)], of "s1\<lparr>or_world := w1\<rparr>" cfg dv 0 "pp_stages (oc_plan cfg)"] st
      by simp
    then show ?thesis
      using keepsD [OF rollout_client.transition [OF audit_client.axioms(1) [OF that(1)]], of s2 PS_COMPLETED] t2 by simp
  qed
  have "edge_inv a0" using keepsD [OF edge_begin_inv, of audit] assms(2) begun s by (metis snd_conv)
  then have inv: "edge_inv (or_audit s3)" by (rule carried [OF evidence_client.audit_client_axioms])
  have "active_sat ?R a0" using edge_begin_Inr [OF begun] by (auto simp: active_sat_def)
  then have act: "active_sat ?R (or_audit s3)" by (rule carried [OF run_client.audit_client_axioms])
  have "quiet s1" using keepsD [OF pipeline_transition_quiet, of s0 PS_PREFLIGHT] t1 s s0 by simp
  then have "quiet s2" using run_stages_quiet [OF st] by simp
  then have "quiet s3" using keepsD [OF pipeline_transition_quiet, of s2 PS_COMPLETED] t2 by simp
  moreover have "or_state s3 = PS_COMPLETED" using t2 by (rule transition_Inr)
  moreover obtain run where "es_active (or_audit s3) = Some run" "m = run_manifest run ''COMPLETED'' ''COMPLETED'' []"
    "es_active a3 = None" "es_files a3 [er_run_id run, ''run_manifest.json''] = Some (JsonFile m)"
    "\<forall>i < length (er_planned_skills run). stage_done a3 run i"
    using edge_complete_evidence [OF fin inv] by blast
  moreover from act this(1) have "?R run" by (simp add: active_sat_def)
  ultimately show ?thesis using s' by (auto simp: quiet_def is_run_def)
qed

text \<open>A robot for the examples: it moves when rows are published and rests when it is stopped.\<close>

record demo_robot =
  dr_moving :: bool
  dr_rows :: int

definition demo_stage :: stage_plan where
  "demo_stage = \<lparr>sp_skill = ''open_door'', sp_root_seed = 7, sp_max_chunks = 2, sp_action_steps = 4,
     sp_settle_sec = Fin 0, sp_reset_before = True, sp_checker_required = False\<rparr>"

definition demo_plan :: pipeline_plan where
  "demo_plan = \<lparr>pp_run_id = ''run1'', pp_stages = [demo_stage]\<rparr>"

definition demo_pipeline :: orchestrator_config where
  "demo_pipeline = \<lparr>oc_plan = demo_plan, oc_observation_validator = \<lparr>ov_max_age_ms = Fin 500\<rparr>,
     oc_action_validator = demo_action_validator, oc_as_array = (\<lambda>_. Inl (PyExc ValueError))\<rparr>"

fun demo_pipeline_control :: "string \<Rightarrow> pydict" where
  "demo_pipeline_control command =
     [(''ok'', PBool True),
      (''result'', PDict
        (if command = ''open-session'' then
           [(''session_id'', PStr ''s''), (''session_token'', PStr ''t''), (''trial_id'', PStr ''run1_0_open_door''),
            (''skill'', PStr ''open_door''), (''generation'', PInt 1)]
         else if command = ''end-trial'' then [(''status'', PStr ''COMMITTED'')] else []))]"

definition demo_devices :: "bool \<Rightarrow> demo_robot devices" where
  "demo_devices rest =
     \<lparr>dv_approve = (\<lambda>run_id skills. ret True), dv_observation_preflight = ret (), dv_reset_preflight = ret (),
      dv_executor_preflight = ret (),
      dv_sample = (\<lambda>skill. ret \<lparr>ob_payload = PDict [(''prompt'', PStr skill)], ob_captured_at = 0\<rparr>),
      dv_observation_clock = ret 0, dv_clock = ret 0, dv_sleep = (\<lambda>_. ret ()), dv_reset = (\<lambda>_. ret ()),
      dv_begin_stage = (\<lambda>_. ret ()),
      dv_publish = (\<lambda>rows. seq_op (modify_op (\<lambda>w. w\<lparr>dr_moving := True, dr_rows := dr_rows w + int (length rows)\<rparr>))
        (ret \<lparr>pr_stop_requested = rest, pr_reason = None, pr_published_rows = int (length rows),
              pr_gate_result = (if rest then Some demo_gate_result else None)\<rparr>)),
      dv_stop = (\<lambda>_. modify_op (\<lambda>w. w\<lparr>dr_moving := False\<rparr>)),
      dv_check = (\<lambda>_. raise (PyExc ValueError)), dv_control = (\<lambda>c a. ret (demo_pipeline_control c)),
      dv_infer = (\<lambda>request. ret [(''publishable'', PBool True), (''actions'', PArr demo_action_array),
         (''request_hash'', PStr ''h''), (''action_hash'', PStr ''g'')])\<rparr>"

definition demo_orchestrator :: "demo_robot orchestrator" where
  "demo_orchestrator = \<lparr>or_state = PS_CREATED, or_session = PNone, or_trial_started = False,
     or_audit = new_edge_store [], or_world = \<lparr>dr_moving = False, dr_rows = 0\<rparr>\<rparr>"

definition demo_session :: pydict where
  "demo_session =
     [(''session_id'', PStr ''s''), (''session_token'', PStr ''t''), (''trial_id'', PStr ''run1_0_open_door''),
      (''skill'', PStr ''open_door''), (''generation'', PInt 1)]"

lemma demo_observation:
  "validate_observation \<lparr>ov_max_age_ms = Fin 500\<rparr> 0 \<lparr>ob_payload = PDict [(''prompt'', PStr x)], ob_captured_at = 0\<rparr>
     = Inr [(''prompt'', PStr x)]"
proof -
  have "py_int_of (f_mul (Fin 500) (Fin 1000000)) = Inr 500000000"
    using rnd64_of_int [of 500000000] by (simp add: py_int_of_def trunc_rat_def)
  then show ?thesis by (simp add: validate_observation_def Let_def)
qed

lemma demo_actions:
  "validate_actions as_array demo_action_validator (PArr demo_action_array)
     = Inr [[f_round32 (Fin 0), f_round32 (Fin (- 3))]]"
  by (simp add: validate_actions_def demo_action_validator_def demo_action_array_def np_asarray_def
        action_shape_ok_def projected_rows_def np_float_def np_abs_def f_max_def)


lemmas pipeline_eval = run_pipeline_def run_body_def run_stage_def stage_prepare_def stage_rollout_def stage_verdict_def
  stage_check_def rollout_def rollout_chunk_def rollout_actions_def rollout_publish_def pipeline_request_def build_request_def rollout_row_def item_def
  pipeline_transition_def pipeline_control_def passed_evidence_def checker_not_required_def gate_passed_def
  on_world_apply on_edge_apply ensure_pipeline_transition_def plan_skills_def trial_name_def
  edge_begin_def edge_start_stage_def edge_complete_stage_def edge_complete_def edge_record_rollout_def edge_append_def
  edge_set_pipeline_state_def edge_rows_def new_edge_store_def
  edge_require_active_apply edge_require_stage_apply edge_mkdir_def
  edge_write_manifest_def edge_json_def edge_write_def edge_put_def Let_def stage_directory_def op_simps

lemma demo_run_id: "trial_id_matches ''run1''"
  by (simp add: is_alnum_def is_id_char_def less_eq_char_def)

lemma demo_pipeline_returns:
  "\<exists>m s'. run_pipeline demo_pipeline (demo_devices True) demo_orchestrator = (Inr m, s')"
  using demo_run_id
  by (simp add: pipeline_eval demo_pipeline_def demo_plan_def demo_stage_def demo_devices_def demo_orchestrator_def
     demo_observation demo_actions demo_gate_result_def  evidence_completed_def numeral_2_eq_2 when_op_def)

lemma demo_orchestrator_init:
  "orchestrator_init demo_pipeline (new_edge_store []) \<lparr>dr_moving = False, dr_rows = 0\<rparr> = Inr demo_orchestrator"
proof -
  have "plan_validate demo_plan = Inr ()" by code_simp
  then show ?thesis by (simp add: orchestrator_init_def demo_pipeline_def demo_orchestrator_def)
qed

theorem pipeline_completion_sound_witness:
  "\<exists>m s'. run_pipeline demo_pipeline (demo_devices True) demo_orchestrator = (Inr m, s')
     \<and> or_state s' = PS_COMPLETED \<and> or_session s' = PNone \<and> es_active (or_audit s') = None"
proof -
  obtain m s' where run: "run_pipeline demo_pipeline (demo_devices True) demo_orchestrator = (Inr m, s')"
    using demo_pipeline_returns by blast
  have "edge_inv (new_edge_store [])" by (simp add: edge_inv_def new_edge_store_def)
  from pipeline_completion_sound [OF demo_orchestrator_init this run] run show ?thesis by blast
qed

subsection \<open>What a committed stage shows\<close>

text \<open>The directory of the stage in progress does not change during the rollout.\<close>

definition in_stage :: "string list \<Rightarrow> edge_store \<Rightarrow> bool" where
  "in_stage d st \<longleftrightarrow> (\<exists>run. es_active st = Some run \<and> er_stage_directory run = Some d)"

lemma edge_set_pipeline_state_spec:
  assumes "edge_set_pipeline_state state st = (r, st')"
  shows "es_active st' = es_active st"
    and "(\<And>run. es_active st = Some run \<Longrightarrow> q \<noteq> [er_run_id run, ''run_manifest.json'']) \<Longrightarrow> es_files st' q = es_files st q"
proof -
  obtain w st1 where w: "edge_write_manifest ''ACTIVE'' state [] st = (w, st1)" by fastforce
  from assms w have st': "es_active st = None \<and> st' = st \<or> (\<exists>run. es_active st = Some run) \<and> st' = st1"
    by (auto simp: edge_set_pipeline_state_def edge_require_active_apply op_simps split: option.splits sum.splits)
  show "es_active st' = es_active st" using st' edge_manifest_spec(1) [OF w] by auto
  show "es_files st' q = es_files st q" if "\<And>run. es_active st = Some run \<Longrightarrow> q \<noteq> [er_run_id run, ''run_manifest.json'']"
    using st' edge_manifest_spec(3) [OF w] that by fastforce
qed

lemma edge_record_rollout_active: "es_active (snd (edge_record_rollout row st)) = es_active st"
proof -
  have "es_active (snd (edge_append p row st)) = es_active st" for p
  proof -
    obtain w st' where "edge_append p row st = (w, st')" by fastforce
    with edge_write_spec(1) [OF this [unfolded edge_append_def]] show ?thesis by simp
  qed
  then show ?thesis
    by (auto simp: edge_record_rollout_def edge_require_stage_apply op_simps split: option.split prod.split sum.split)
      (metis snd_conv)+
qed

interpretation stage_client: rollout_client "in_stage d" for d
proof
  show "keeps (in_stage d) (edge_set_pipeline_state state)" for state
    using edge_set_pipeline_state_spec(1) by (metis in_stage_def keepsI prod.collapse)
  show "keeps (in_stage d) (edge_record_rollout row)" for row
    by (rule keepsI) (simp add: in_stage_def edge_record_rollout_active)
qed

lemma seq_after:
  assumes "seq_op m k s = (r, s')" and "r = Inr y" and "\<And>x t. m s = (Inr x, t) \<Longrightarrow> Q t" and "keeps Q k"
  shows "Q s'"
  using assms keepsD [OF assms(4)] by (fastforce simp: seq_op_apply split: prod.splits sum.splits)

lemma edge_start_stage_Inr:
  assumes "edge_start_stage index skill trial_id st = (Inr d, st')"
  shows "\<exists>run. es_active st = Some run \<and> d = stage_directory (er_run_id run) index skill \<and> in_stage d st'
    \<and> index = er_completed_stages run"
proof -
  from assms obtain run st1 u where run: "es_active st = Some run" "d = stage_directory (er_run_id run) index skill"
    "index = er_completed_stages run"
    and w: "edge_json (d @ [''stage_evidence.json'']) (stage_active_json index skill trial_id)
      (st1\<lparr>es_active := Some (run\<lparr>er_stage_directory := Some d\<rparr>)\<rparr>) = (Inr u, st')"
    by (auto simp: edge_start_stage_def op_Inr edge_require_active_apply Let_def set_edge_run_apply raise_apply ret_apply
        split: option.splits if_splits)
  from edge_write_spec(1) [OF w [unfolded edge_json_def]] run show ?thesis by (simp add: in_stage_def)
qed

lemma stage_prepare_Inr:
  assumes "stage_prepare cfg dv index stage s = (Inr session, s')"
  shows "\<exists>run. es_active (or_audit s) = Some run
    \<and> in_stage (stage_directory (er_run_id run) index (sp_skill stage)) (or_audit s')"
proof -
  let ?start = "edge_start_stage index (sp_skill stage) (trial_name (pp_run_id (oc_plan cfg)) index (sp_skill stage))"
  from assms obtain d a where start: "?start (or_audit s) = (Inr d, a)"
    by (auto simp: stage_prepare_def Let_def seq_op_Inr on_edge_Inr)
  from edge_start_stage_Inr [OF this] obtain run where run: "es_active (or_audit s) = Some run"
    "d = stage_directory (er_run_id run) index (sp_skill stage)" "in_stage d a" by blast
  have "in_stage d (or_audit s')"
  proof (rule seq_after [OF assms [unfolded stage_prepare_def Let_def] refl])
    show "in_stage d (or_audit t)" if "on_edge ?start s = (Inr x, t)" for x t
      using that start run(3) by (auto simp: on_edge_Inr)
  qed (intro keeps_bind keeps_seq keeps_when keeps_ret keeps_lift_sum keeps_modify stage_client.transition
      stage_client.world stage_client.control, simp_all)
  with run show ?thesis by blast
qed

lemma edge_complete_stage_Inr:
  assumes "edge_complete_stage evidence gate checker summary st = (Inr v, st')" and "in_stage d st" and "2 \<le> length d"
  shows "v = stage_completed_json evidence gate checker summary" and "evidence_completed evidence"
    and "es_files st' (d @ [''stage_evidence.json'']) = Some (JsonFile v)"
    and "\<exists>run. es_active st' = Some run"
proof -
  let ?v = "stage_completed_json evidence gate checker summary"
  from assms(2) obtain run where run: "es_active st = Some run" "er_stage_directory run = Some d"
    by (auto simp: in_stage_def)
  let ?run' = "run\<lparr>er_completed_stages := er_completed_stages run + 1, er_stage_directory := None\<rparr>"
  from assms(1) run obtain st1 m where v: "v = ?v" "evidence_completed evidence"
    and w: "edge_write (d @ [''stage_evidence.json'']) (JsonFile ?v) st = (Inr (), st1)"
    and m: "edge_write_manifest ''ACTIVE'' ''HANDOFF'' [] (st1\<lparr>es_active := Some ?run'\<rparr>) = (Inr m, st')"
    by (auto simp: edge_complete_stage_def op_Inr edge_require_active_apply edge_require_stage_apply Let_def edge_json_def
        set_edge_run_apply raise_apply ret_apply split: if_splits)
  from v show "v = ?v" "evidence_completed evidence" by simp_all
  have "d @ [''stage_evidence.json''] \<noteq> [x, ''run_manifest.json'']" for x
    using assms(3) by (cases d rule: list.exhaust) auto
  with edge_manifest_spec(3) [OF m, of ?run'] edge_write_spec(4) [OF w refl] v
  show "es_files st' (d @ [''stage_evidence.json'']) = Some (JsonFile v)" by simp
  from edge_manifest_spec(1) [OF m, of ?run'] show "\<exists>run. es_active st' = Some run" by simp
qed

lemma transition_files:
  assumes "pipeline_transition target s = (r, s')" and "3 \<le> length q"
  shows "es_files (or_audit s') q = es_files (or_audit s) q"
proof -
  have other: "q \<noteq> [x, y]" for x y using assms(2) by auto
  obtain r1 a where "edge_set_pipeline_state (pipeline_value target) (or_audit s) = (r1, a)" by fastforce
  with edge_set_pipeline_state_spec(2) [OF this other] assms(1) show ?thesis
    by (auto simp: pipeline_transition_def op_simps on_edge_apply split: sum.splits)
qed

lemma stage_check_Inr:
  assumes "stage_check dv stage s = (Inr (checker, evidence), s')"
  shows "or_audit s' = or_audit s"
    and "sp_checker_required stage \<Longrightarrow> kr_passed checker \<and> (\<exists>w w'. dv_check dv (sp_skill stage) w = (Inr checker, w'))"
  using assms by (auto simp: stage_check_def op_Inr raise_apply ret_apply split: if_splits)

text \<open>
  C22. A stage that \<open>_run_stage\<close> commits has passed: the evidence file in its directory is
  complete and holds the result of a joint gate that passed, the verdict the checker really gave
  when the plan requires one, and the summary of a trial the server committed; the state is
  HANDOFF, and neither a session nor a trial is left behind.
\<close>

theorem committed_stage_passed:
  assumes "run_stage cfg dv index stage s = (Inr (), s')"
  shows "\<exists>run evidence gate checker summary. es_active (or_audit s) = Some run
    \<and> es_files (or_audit s') (stage_directory (er_run_id run) index (sp_skill stage) @ [''stage_evidence.json''])
        = Some (JsonFile (stage_completed_json evidence gate checker summary))
    \<and> evidence_completed evidence \<and> gr_passed gate
    \<and> (sp_checker_required stage \<longrightarrow>
         kr_passed checker \<and> (\<exists>w w'. dv_check dv (sp_skill stage) w = (Inr checker, w')))
    \<and> dget summary ''status'' = Some (PStr ''COMMITTED'')
    \<and> or_state s' = PS_HANDOFF \<and> quiet s'"
proof -
  from assms obtain session s1 published summary s2 where
    prep: "stage_prepare cfg dv index stage s = (Inr session, s1)"
    and roll: "stage_rollout cfg dv stage session s1 = (Inr (published, summary), s2)"
    and verdict: "stage_verdict dv stage published summary s2 = (Inr (), s')"
    by (auto simp: run_stage_def op_Inr)
  from stage_prepare_Inr [OF prep] obtain run d where run: "es_active (or_audit s) = Some run"
    and d: "d = stage_directory (er_run_id run) index (sp_skill stage)" and in1: "in_stage d (or_audit s1)" by blast
  have in2: "in_stage d (or_audit s2)"
    using keepsD [OF stage_client.stage_rollout in1, of cfg dv stage session] roll by simp
  from verdict obtain u1 gate u2 checker ev u3 v a where
    t1: "pipeline_transition PS_JOINT_GATE s2 = (Inr (), u1)" and gate: "gr_passed gate"
    and t2: "pipeline_transition PS_CHECKING u1 = (Inr (), u2)"
    and check: "stage_check dv stage u2 = (Inr (checker, ev), u3)"
    and commit: "edge_complete_stage (passed_evidence published ev) gate checker summary (or_audit u3) = (Inr v, a)"
    and t3: "pipeline_transition PS_HANDOFF (u3\<lparr>or_audit := a\<rparr>) = (Inr (), s')"
    by (auto simp: stage_verdict_def op_Inr raise_apply split: option.splits if_splits)
  have "in_stage d (or_audit u2)"
    using keepsD [OF stage_client.transition in2, of PS_JOINT_GATE] keepsD [OF stage_client.transition, of d u1 PS_CHECKING] t1 t2
    by simp
  then have "in_stage d (or_audit u3)" using stage_check_Inr(1) [OF check] by simp
  from edge_complete_stage_Inr [OF commit this] d
  have "es_files a (d @ [''stage_evidence.json'']) = Some (JsonFile (stage_completed_json (passed_evidence published ev) gate checker summary))"
    "evidence_completed (passed_evidence published ev)"
    by (simp_all add: stage_directory_def)
  moreover have "es_files (or_audit s') (d @ [''stage_evidence.json'']) = es_files a (d @ [''stage_evidence.json''])"
    using transition_files [OF t3] d by (simp add: stage_directory_def)
  moreover have "or_state s' = PS_HANDOFF" using t3 by (rule transition_Inr)
  moreover have "dget summary ''status'' = Some (PStr ''COMMITTED'')" using stage_rollout_quiet(2) [OF roll] by simp
  ultimately have "es_active (or_audit s) = Some run
    \<and> es_files (or_audit s') (stage_directory (er_run_id run) index (sp_skill stage) @ [''stage_evidence.json''])
        = Some (JsonFile (stage_completed_json (passed_evidence published ev) gate checker summary))
    \<and> evidence_completed (passed_evidence published ev) \<and> gr_passed gate
    \<and> (sp_checker_required stage \<longrightarrow>
         kr_passed checker \<and> (\<exists>w w'. dv_check dv (sp_skill stage) w = (Inr checker, w')))
    \<and> dget summary ''status'' = Some (PStr ''COMMITTED'')
    \<and> or_state s' = PS_HANDOFF \<and> quiet s'"
    using run gate stage_check_Inr(2) [OF check] run_stage_quiet [OF assms] unfolding d by simp
  then show ?thesis by blast
qed

lemma demo_stage_returns:
  "\<exists>s'. run_stage demo_pipeline (demo_devices True) 0 demo_stage
      (demo_orchestrator\<lparr>or_state := PS_PREFLIGHT,
         or_audit := snd (edge_begin ''run1'' [''open_door''] (new_edge_store []))\<rparr>) = (Inr (), s')"
  using demo_run_id
  by (simp add: pipeline_eval demo_pipeline_def demo_plan_def demo_stage_def demo_devices_def demo_orchestrator_def
     demo_observation demo_actions demo_gate_result_def evidence_completed_def numeral_2_eq_2 when_op_def)

theorem committed_stage_passed_witness:
  "\<exists>s' d gate evidence checker summary. run_stage demo_pipeline (demo_devices True) 0 demo_stage
      (demo_orchestrator\<lparr>or_state := PS_PREFLIGHT,
         or_audit := snd (edge_begin ''run1'' [''open_door''] (new_edge_store []))\<rparr>) = (Inr (), s')
     \<and> es_files (or_audit s') d = Some (JsonFile (stage_completed_json evidence gate checker summary))
     \<and> gr_passed gate"
proof -
  obtain s' where "run_stage demo_pipeline (demo_devices True) 0 demo_stage
      (demo_orchestrator\<lparr>or_state := PS_PREFLIGHT,
         or_audit := snd (edge_begin ''run1'' [''open_door''] (new_edge_store []))\<rparr>) = (Inr (), s')"
    using demo_stage_returns by blast
  from committed_stage_passed [OF this] this show ?thesis by blast
qed

end
