(* ===== verification/Oven_SafeStop.thy ===== *)
theory Oven_SafeStop
  imports Oven_OrchestratorSpec
begin

text \<open>
  The failing side of \<open>PipelineOrchestrator.run\<close>: whatever goes wrong after the approval, the
  robot is stopped, the session and the trial are released, and the failure is on disk.
\<close>

subsection \<open>Effects that hold afterwards, whatever is returned\<close>

definition leaves :: "('s \<Rightarrow> bool) \<Rightarrow> ('s, 'e, 'a) op \<Rightarrow> bool" where
  "leaves Q m \<longleftrightarrow> (\<forall>s. Q (snd (m s)))"

lemma leaves_bind:
  assumes "leaves Q m" and "\<And>x. keeps Q (f x)"
  shows "leaves Q (bind_op m f)"
  unfolding leaves_def
proof
  fix s
  from assms(1) have "Q (snd (m s))" by (simp add: leaves_def)
  with assms(2) show "Q (snd (bind_op m f s))"
    by (cases "m s") (auto simp: bind_op_def keeps_def split: sum.splits)
qed

definition stop_holds :: "('w \<Rightarrow> bool) \<Rightarrow> 'w devices \<Rightarrow> bool" where
  \<comment> \<open>every attempt to stop the executor establishes \<open>P\<close>, and the control commands do not move the robot\<close>
  "stop_holds P dv \<longleftrightarrow> (\<forall>reason. leaves P (dv_stop dv reason)) \<and> (\<forall>c a. keeps P (dv_control dv c a))"

subsection \<open>The steps of a safe stop\<close>

lemma enter_safe_stop_apply:
  "enter_safe_stop s =
     (Inr (), if or_state s \<in> {PS_SAFE_STOP, PS_FAILED, PS_COMPLETED} then s else s\<lparr>or_state := PS_SAFE_STOP\<rparr>)"
  by (cases "or_state s")
    (simp_all add: enter_safe_stop_def force_transition_def ensure_pipeline_transition_def op_simps)

lemma leave_safe_stop_apply:
  "leave_safe_stop s = (Inr (), if or_state s = PS_SAFE_STOP then s\<lparr>or_state := PS_FAILED\<rparr> else s)"
  by (simp add: leave_safe_stop_def force_transition_def ensure_pipeline_transition_def op_simps)

lemma attempt_state: "snd (attempt label m s) = snd (m s)"
  by (auto simp: attempt_def op_simps split: prod.split sum.split)

lemma attempt_Inl: "attempt label m s = (Inl e, s') \<Longrightarrow> e = Interrupt"
  by (cases e) (auto simp: attempt_def op_simps split: prod.splits sum.splits if_splits)

lemma keeps_attempt: "keeps P m \<Longrightarrow> keeps P (attempt label m)"
  by (simp add: keeps_def attempt_state)

lemma world_keeps: "keeps P m \<Longrightarrow> keeps (\<lambda>s. P (or_world s)) (on_world m)"
  by (force simp: keeps_def on_world_def split: prod.split)

lemma control_world: "keeps P (dv_control dv c a) \<Longrightarrow> keeps (\<lambda>s. P (or_world s)) (pipeline_control dv c a)"
  unfolding pipeline_control_def
  by (intro keeps_bind world_keeps) (auto intro: keeps_ret keeps_raise split: option.split pyval.split bool.split)

lemma keeps_enter: "(\<And>s x. Q s \<Longrightarrow> Q (s\<lparr>or_state := x\<rparr>)) \<Longrightarrow> keeps Q enter_safe_stop"
  by (rule keepsI) (simp add: enter_safe_stop_apply)

lemma keeps_leave: "(\<And>s x. Q s \<Longrightarrow> Q (s\<lparr>or_state := x\<rparr>)) \<Longrightarrow> keeps Q leave_safe_stop"
  by (rule keepsI) (simp add: leave_safe_stop_apply)

text \<open>A fact about the world that the control commands keep holds to the end of a safe stop once the stop left it.\<close>

lemma safe_stop_world:
  assumes "stop_holds P dv"
  shows "P (or_world (snd (safe_stop dv code message s)))"
proof -
  have control: "keeps (\<lambda>s. P (or_world s)) (pipeline_control dv c a)" for c a
    using assms by (simp add: control_world stop_holds_def)
  have stop: "leaves (\<lambda>s. P (or_world s)) (attempt label (on_world (dv_stop dv reason)))" for label reason
    using assms by (simp add: leaves_def attempt_state on_world_def stop_holds_def split: prod.split) (metis snd_conv)
  have close: "keeps (\<lambda>s. P (or_world s)) (close_open_session dv)"
    unfolding close_open_session_def
    by (intro keeps_bind keeps_gets keeps_if keeps_ret keeps_attempt control keeps_seq keeps_modify) simp
  have abort: "keeps (\<lambda>s. P (or_world s)) (abort_open_trial dv code)"
    unfolding abort_open_trial_def
    by (intro keeps_bind keeps_gets keeps_if keeps_ret keeps_attempt control keeps_seq keeps_modify) simp
  have "leaves (\<lambda>s. P (or_world s))
     (bind_op (attempt ''action_stop'' (on_world (dv_stop dv (''safe_stop:'' @ code_value code)))) (\<lambda>stop_failed.
      bind_op (close_open_session dv) (\<lambda>close_failed.
      bind_op (abort_open_trial dv code) (\<lambda>abort_failed.
      seq_op leave_safe_stop
      (bind_op (gets_op or_state) (\<lambda>state.
       catch_op
         (map_op (\<lambda>_. ()) (on_edge (edge_fail (pipeline_value state) (code_value code)
            (safe_stop_message message (stop_failed @ close_failed @ abort_failed)))))
         (\<lambda>e. if is_exception e then ret () else raise e)))))))"
    by (intro leaves_bind stop keeps_bind keeps_seq keeps_gets keeps_catch keeps_map keeps_if keeps_ret keeps_raise
        keeps_leave keeps_on_edge close abort) simp_all
  then show ?thesis
    unfolding safe_stop_def leaves_def by (simp add: seq_op_apply enter_safe_stop_apply)
qed

text \<open>Nothing but an interrupt escapes from a safe stop.\<close>

definition only_interrupts :: "('s, 'a) meth \<Rightarrow> bool" where
  "only_interrupts m \<longleftrightarrow> (\<forall>s e. fst (m s) = Inl e \<longrightarrow> e = Interrupt)"

lemma only_interrupts_bind:
  assumes "only_interrupts m" and "\<And>x. only_interrupts (f x)"
  shows "only_interrupts (bind_op m f)"
  unfolding only_interrupts_def
proof (intro allI impI)
  fix s e assume b: "fst (bind_op m f s) = Inl e"
  obtain r t where m: "m s = (r, t)" by fastforce
  show "e = Interrupt"
  proof (cases r)
    case (Inl x)
    with b m have "fst (m s) = Inl e" by (simp add: bind_op_def)
    with assms(1) show ?thesis by (simp add: only_interrupts_def)
  next
    case (Inr x)
    with b m have "fst (f x t) = Inl e" by (simp add: bind_op_def)
    with assms(2) show ?thesis by (simp add: only_interrupts_def)
  qed
qed

lemma only_interrupts_total [simp]:
  "only_interrupts (ret x)" "only_interrupts (gets_op f)" "only_interrupts (modify_op g)"
  "only_interrupts enter_safe_stop" "only_interrupts leave_safe_stop"
  by (simp_all add: only_interrupts_def op_simps enter_safe_stop_apply leave_safe_stop_apply)

lemma only_interrupts_attempt [simp]: "only_interrupts (attempt label m)"
  unfolding only_interrupts_def using attempt_Inl by (metis prod.collapse)

lemma only_interrupts_suppress:
  "only_interrupts (catch_op m (\<lambda>e. if is_exception e then ret x else raise e))"
  unfolding only_interrupts_def
proof (intro allI impI)
  fix s e assume "fst (catch_op m (\<lambda>e. if is_exception e then ret x else raise e) s) = Inl e"
  then show "e = Interrupt" by (cases e) (auto simp: op_simps split: prod.splits sum.splits if_splits)
qed

lemma only_interrupts_seq: "only_interrupts m \<Longrightarrow> only_interrupts k \<Longrightarrow> only_interrupts (seq_op m k)"
  by (simp add: seq_op_def only_interrupts_bind)

lemma safe_stop_interrupts: "only_interrupts (safe_stop dv code message)"
  unfolding safe_stop_def close_open_session_def abort_open_trial_def
  by (intro only_interrupts_bind only_interrupts_seq only_interrupts_suppress only_interrupts_total
      only_interrupts_attempt) (auto intro!: only_interrupts_bind only_interrupts_seq)

text \<open>A safe stop that comes to its end.\<close>

lemma close_open_session_Inr:
  assumes "close_open_session dv s = (Inr x, s')"
  shows "no_session s'"
  using assms by (auto simp: close_open_session_def op_Inr gets_op_apply ret_apply modify_op_apply no_session_def split: if_splits)

lemma abort_open_trial_Inr:
  assumes "abort_open_trial dv code s = (Inr x, s')"
  shows "\<not> or_trial_started s'"
  using assms by (auto simp: abort_open_trial_def op_Inr gets_op_apply ret_apply modify_op_apply split: if_splits)

lemma abort_no_session: "keeps no_session (abort_open_trial dv code)"
  unfolding abort_open_trial_def
  by (intro keeps_bind keeps_gets keeps_if keeps_ret keeps_attempt control_no_session keeps_seq keeps_modify)
    (simp add: no_session_def)

lemma keeps_control: "(\<And>w s. Q s \<Longrightarrow> Q (s\<lparr>or_world := w\<rparr>)) \<Longrightarrow> keeps Q (pipeline_control dv c a)"
  unfolding pipeline_control_def
  by (intro keeps_bind keeps_on_world) (auto intro: keeps_ret keeps_raise split: option.split pyval.split bool.split)

text \<open>What the cleanup leaves alone: everything but the world, the session and the flag.\<close>

lemma keeps_cleanup:
  assumes "\<And>w s. Q s \<Longrightarrow> Q (s\<lparr>or_world := w\<rparr>)" and "\<And>s. Q s \<Longrightarrow> Q (s\<lparr>or_session := PNone\<rparr>)"
    and "\<And>s. Q s \<Longrightarrow> Q (s\<lparr>or_trial_started := False\<rparr>)"
  shows "keeps Q (attempt label (on_world (dv_stop dv reason)))" and "keeps Q (close_open_session dv)"
    and "keeps Q (abort_open_trial dv code)"
proof -
  show "keeps Q (attempt label (on_world (dv_stop dv reason)))"
    by (intro keeps_attempt keeps_on_world assms(1))
  have control: "keeps Q (attempt l (pipeline_control dv c a))" for l c a
    by (intro keeps_attempt keeps_control assms(1))
  have release: "keeps Q (modify_op (\<lambda>s. s\<lparr>or_session := PNone\<rparr>))" "keeps Q (modify_op (\<lambda>s. s\<lparr>or_trial_started := False\<rparr>))"
    by (rule keeps_modify, erule assms)+
  show "keeps Q (close_open_session dv)" "keeps Q (abort_open_trial dv code)"
    unfolding close_open_session_def abort_open_trial_def
    by (intro keeps_bind keeps_gets keeps_if keeps_ret control keeps_seq release)+
qed

lemma safe_stop_Inr:
  assumes "safe_stop dv code message s = (Inr x, s')"
  obtains t failures where "quiet t" and "or_audit t = or_audit s"
    and "or_state t = (if or_state s = PS_COMPLETED then PS_COMPLETED else PS_FAILED)"
    and "s' = t\<lparr>or_audit := snd (edge_fail (pipeline_value (or_state t)) (code_value code)
                  (safe_stop_message message failures) (or_audit s))\<rparr>"
proof -
  define s0 where
    "s0 = (if or_state s \<in> {PS_SAFE_STOP, PS_FAILED, PS_COMPLETED} then s else s\<lparr>or_state := PS_SAFE_STOP\<rparr>)"
  let ?Q = "\<lambda>t. or_state t = or_state s0 \<and> or_audit t = or_audit s"
  from assms obtain f1 s1 f2 s2 f3 s3 t where
    stop: "attempt ''action_stop'' (on_world (dv_stop dv (''safe_stop:'' @ code_value code))) s0 = (Inr f1, s1)"
    and close: "close_open_session dv s1 = (Inr f2, s2)" and abort: "abort_open_trial dv code s2 = (Inr f3, s3)"
    and t: "leave_safe_stop s3 = (Inr (), t)"
    and fail: "catch_op (map_op (\<lambda>_. ()) (on_edge (edge_fail (pipeline_value (or_state t)) (code_value code)
            (safe_stop_message message (f1 @ f2 @ f3))))) (\<lambda>e. if is_exception e then ret () else raise e) t = (Inr (), s')"
    unfolding safe_stop_def op_Inr enter_safe_stop_apply s0_def [symmetric] by (auto simp: gets_op_apply)
  have "?Q s0" by (simp add: s0_def)
  then have "?Q s1"
    using keepsD [OF keeps_cleanup(1), of ?Q s0 "''action_stop''" dv "''safe_stop:'' @ code_value code"] stop by simp
  then have "?Q s2" using keepsD [OF keeps_cleanup(2), of ?Q s1 dv] close by simp
  then have Q3: "?Q s3" using keepsD [OF keeps_cleanup(3), of ?Q s2 dv code] abort by simp
  have "no_session s2" using close by (rule close_open_session_Inr)
  then have "no_session s3" using keepsD [OF abort_no_session, of s2 dv code] abort by simp
  moreover have "\<not> or_trial_started s3" using abort by (rule abort_open_trial_Inr)
  ultimately have "quiet t" using t by (auto simp: leave_safe_stop_apply quiet_def no_session_def split: if_splits)
  moreover have "or_audit t = or_audit s" "or_state t = (if or_state s = PS_COMPLETED then PS_COMPLETED else PS_FAILED)"
    using t Q3 by (auto simp: leave_safe_stop_apply s0_def split: if_splits)
  moreover from fail this(1) have "s' = t\<lparr>or_audit := snd (edge_fail (pipeline_value (or_state t)) (code_value code)
                  (safe_stop_message message (f1 @ f2 @ f3)) (or_audit s))\<rparr>"
    by (auto simp: op_simps on_edge_apply split: prod.splits sum.splits if_splits)
  ultimately show ?thesis by (rule that)
qed

subsection \<open>A run that fails\<close>

lemma run_failed_safe_stop:
  assumes "run_failed dv e0 s = (Inl e, s')"
  obtains code message r where "safe_stop dv code message s = (r, s')"
    and "e \<noteq> Interrupt \<Longrightarrow> r = Inr () \<and> (\<exists>f. e = Fault f \<and> rf_code f = code \<and> rf_message f = message)"
proof -
  have "\<exists>code message r. safe_stop dv code message s = (r, s') \<and> (e \<noteq> Interrupt \<longrightarrow> r = Inr () \<and> (\<exists>f. e = Fault f \<and> rf_code f = code \<and> rf_message f = message))"
  proof -
    have inl: "e = Interrupt" if "safe_stop dv code message s = (Inl e, s')" for code message
      using safe_stop_interrupts [of dv code message] that by (auto simp: only_interrupts_def) (metis fst_conv)
    show ?thesis
    proof (cases e0)
      case (Fault f)
      with assms inl show ?thesis
        by (cases "safe_stop dv (rf_code f) (rf_message f) s")
          (fastforce simp: run_failed_def op_simps split: sum.splits)
    next
      case (PyExc c)
      with assms inl show ?thesis
        by (cases "safe_stop dv PIPELINE_FAILED ''pipeline component failed'' s")
          (fastforce simp: run_failed_def op_simps  split: sum.splits)
    next
      case Interrupt
      with assms inl show ?thesis
        by (cases "safe_stop dv PIPELINE_FAILED ''operator interrupted pipeline'' s")
          (fastforce simp: run_failed_def op_simps split: sum.splits)
    qed
  qed
  with that show ?thesis by blast
qed

lemma run_failed_Inl: "\<exists>e' s'. run_failed dv e s = (Inl e', s')"
proof -
  have raised: "\<exists>e' s'. seq_op (safe_stop dv code message) (raise e'') s = (Inl e', s')" for code message e''
    by (cases "safe_stop dv code message s"; cases "fst (safe_stop dv code message s)") (auto simp: op_simps)
  show ?thesis by (cases e) (simp_all add: run_failed_def raised)
qed

lemma run_pipeline_Inl:
  assumes "run_pipeline cfg dv s = (Inl e, s')"
    and "fst (dv_approve dv (pp_run_id (oc_plan cfg)) (plan_skills (oc_plan cfg)) (or_world s)) = Inr True"
    and "edge_begin (pp_run_id (oc_plan cfg)) (plan_skills (oc_plan cfg)) (or_audit s) = (Inr d, a)"
  obtains w e0 s1 where "dv_approve dv (pp_run_id (oc_plan cfg)) (plan_skills (oc_plan cfg)) (or_world s) = (Inr True, w)"
    and "run_body cfg dv (s\<lparr>or_world := w, or_audit := a\<rparr>) = (Inl e0, s1)"
    and "run_failed dv e0 s1 = (Inl e :: exn + pydict, s')"
proof -
  obtain w where w: "dv_approve dv (pp_run_id (oc_plan cfg)) (plan_skills (oc_plan cfg)) (or_world s) = (Inr True, w)"
    using assms(2) by (metis prod.collapse)
  with assms(1,3) have "catch_op (run_body cfg dv) (run_failed dv) (s\<lparr>or_world := w, or_audit := a\<rparr>) = (Inl e, s')"
    by (simp add: run_pipeline_def Let_def op_simps on_world_apply on_edge_apply)
  then have "\<exists>e0 s1. run_body cfg dv (s\<lparr>or_world := w, or_audit := a\<rparr>) = (Inl e0, s1)
      \<and> run_failed dv e0 s1 = (Inl e :: exn + pydict, s')"
    by (auto simp: catch_op_apply split: prod.splits sum.splits)
  with that w show ?thesis by blast
qed

lemma failed_run_ends_stopped:
  assumes "stop_holds P dv"
    and "fst (dv_approve dv (pp_run_id (oc_plan cfg)) (plan_skills (oc_plan cfg)) (or_world s)) = Inr True"
    and "edge_begin (pp_run_id (oc_plan cfg)) (plan_skills (oc_plan cfg)) (or_audit s) = (Inr d, a)"
    and "run_pipeline cfg dv s = (Inl e, s')"
  shows "P (or_world s')
    \<and> (e \<noteq> Interrupt \<longrightarrow> (\<exists>f. e = Fault f) \<and> or_state s' \<in> {PS_FAILED, PS_COMPLETED} \<and> quiet s')"
proof -
  obtain w e0 s1 where "run_failed dv e0 s1 = (Inl e :: exn + pydict, s')" by (rule run_pipeline_Inl [OF assms(4,2,3)])
  then obtain code message r where stop: "safe_stop dv code message s1 = (r, s')"
    and full: "e \<noteq> Interrupt \<Longrightarrow> r = Inr () \<and> (\<exists>f. e = Fault f \<and> rf_code f = code \<and> rf_message f = message)"
    using run_failed_safe_stop by metis
  have "P (or_world s')" using safe_stop_world [OF assms(1), of code message s1] stop by simp
  moreover have "(\<exists>f. e = Fault f) \<and> or_state s' \<in> {PS_FAILED, PS_COMPLETED} \<and> quiet s'" if "e \<noteq> Interrupt"
  proof -
    from full [OF that] stop have "safe_stop dv code message s1 = (Inr (), s')" by simp
    then obtain t failures where "quiet t" "or_state t = (if or_state s1 = PS_COMPLETED then PS_COMPLETED else PS_FAILED)"
      "s' = t\<lparr>or_audit := snd (edge_fail (pipeline_value (or_state t)) (code_value code)
         (safe_stop_message message failures) (or_audit s1))\<rparr>"
      by (rule safe_stop_Inr)
    with full [OF that] show ?thesis by auto
  qed
  ultimately show ?thesis by blast
qed

text \<open>
  The pipeline is COMPLETED only from the transition after the last stage on; what runs before it
  leaves it in another state.
\<close>

definition under_way :: "'w orchestrator \<Rightarrow> bool" where
  "under_way s \<longleftrightarrow> or_state s \<noteq> PS_COMPLETED"

lemma under_way_updates [simp]:
  "under_way (s\<lparr>or_world := w\<rparr>) = under_way s" "under_way (s\<lparr>or_audit := a\<rparr>) = under_way s"
  "under_way (s\<lparr>or_session := x\<rparr>) = under_way s" "under_way (s\<lparr>or_trial_started := b\<rparr>) = under_way s"
  "under_way (s\<lparr>or_state := p\<rparr>) \<longleftrightarrow> p \<noteq> PS_COMPLETED"
  by (simp_all add: under_way_def)

lemma under_way_world: "keeps under_way (on_world m)"
  by (rule keeps_on_world) simp

lemma under_way_edge: "keeps under_way (on_edge m)"
  by (rule keepsI) (simp add: on_edge_apply split: prod.split)

lemma under_way_transition: "target \<noteq> PS_COMPLETED \<Longrightarrow> keeps under_way (pipeline_transition target)"
  unfolding pipeline_transition_def
  by (intro keeps_bind keeps_seq keeps_gets keeps_lift_sum keeps_modify under_way_edge) simp

lemma under_way_control: "keeps under_way (pipeline_control dv command arguments)"
  by (rule keeps_control) simp

lemma under_way_chunk: "keeps under_way (rollout_chunk cfg dv stage session sequence steps)"
  unfolding rollout_chunk_def rollout_actions_def rollout_publish_def pipeline_request_def
  by (auto intro!: keeps_bind keeps_seq keeps_if keeps_raise keeps_ret keeps_lift_sum keeps_map under_way_world under_way_edge)

lemma under_way_loop: "keeps under_way (rollout_loop cfg dv stage session left sequence steps)"
  by (induction left arbitrary: sequence steps) (auto intro!: keeps_bind keeps_raise keeps_ret under_way_chunk)

lemma under_way_stages: "keeps under_way (run_stages cfg dv index stages)"
proof (induction stages arbitrary: index)
  case (Cons stage stages)
  have "keeps under_way (stage_prepare cfg dv index stage)"
    unfolding stage_prepare_def Let_def
    by (intro keeps_bind keeps_seq keeps_when keeps_ret keeps_lift_sum keeps_modify under_way_transition under_way_world
        under_way_control under_way_edge) simp_all
  moreover have "keeps under_way (stage_rollout cfg dv stage session)" for session
    unfolding stage_rollout_def rollout_def
    by (intro keeps_bind keeps_seq keeps_if keeps_raise keeps_ret keeps_gets keeps_modify under_way_transition
        under_way_world under_way_loop under_way_control) simp_all
  moreover have "keeps under_way (stage_verdict dv stage published summary)" for published summary
    unfolding stage_verdict_def stage_check_def
    by (auto intro!: keeps_seq keeps_bind keeps_if keeps_raise keeps_ret under_way_transition under_way_world under_way_edge
        split: option.split)
  ultimately have "keeps under_way (run_stage cfg dv index stage)"
    unfolding run_stage_def by (auto intro!: keeps_bind)
  with Cons show ?case by (auto intro: keeps_seq)
qed (simp add: keeps_ret)

text \<open>A run up to its last stage, and the two steps that end it.\<close>

definition run_to_last_stage :: "orchestrator_config \<Rightarrow> 'w devices \<Rightarrow> ('w orchestrator, unit) meth" where
  "run_to_last_stage cfg dv =
     seq_op (pipeline_transition PS_PREFLIGHT)
     (seq_op (on_world (dv_observation_preflight dv))
     (seq_op (on_world (dv_reset_preflight dv))
     (seq_op (on_world (dv_executor_preflight dv)) (run_stages cfg dv 0 (pp_stages (oc_plan cfg))))))"

definition finish_run :: "('w orchestrator, pydict) meth" where
  "finish_run = seq_op (pipeline_transition PS_COMPLETED) (on_edge edge_complete)"

lemma seq_op_assoc: "seq_op (seq_op m k) l = seq_op m (seq_op k l)"
  by (rule ext) (simp add: seq_op_apply split: prod.split sum.split)

lemma run_body_split: "run_body cfg dv = seq_op (run_to_last_stage cfg dv) finish_run"
  by (simp add: run_body_def run_to_last_stage_def finish_run_def seq_op_assoc)

lemma under_way_to_last_stage: "keeps under_way (run_to_last_stage cfg dv)"
  unfolding run_to_last_stage_def
  by (intro keeps_seq under_way_transition under_way_world under_way_stages) simp

lemma run_body_completed:
  assumes "run_body cfg dv s = (Inl e, s')" and "under_way s" and "or_state s' = PS_COMPLETED"
  shows "\<exists>u. run_to_last_stage cfg dv s = (Inr (), u) \<and> finish_run u = (Inl e, s')"
proof -
  obtain r u where run: "run_to_last_stage cfg dv s = (r, u)" by fastforce
  then have "under_way u" using keepsD [OF under_way_to_last_stage assms(2), of cfg dv] by simp
  with run assms(1,3) show ?thesis
    by (cases r) (auto simp: run_body_split seq_op_apply under_way_def)
qed

text \<open>
  C23. A run that fails ends in a safe stop.  Take any fact \<open>P\<close> about the world that every attempt
  to stop the executor establishes, one that raises included, and that the control commands keep,
  such as that the robot rests.  If an approved run whose evidence directory could be begun raises
  anything, \<open>P\<close> holds afterwards; and unless an interrupt escapes, what is raised is a fault with
  an error code, no session is open, no trial is left started, and the pipeline is FAILED.  The one
  exception is a failure after the last stage, in the transition to COMPLETED or in completing the
  evidence: every stage of this run has then returned, and the pipeline stays COMPLETED.
\<close>

theorem failed_run_is_stopped:
  assumes "stop_holds P dv"
    and "dv_approve dv (pp_run_id (oc_plan cfg)) (plan_skills (oc_plan cfg)) (or_world s) = (Inr True, w)"
    and "edge_begin (pp_run_id (oc_plan cfg)) (plan_skills (oc_plan cfg)) (or_audit s) = (Inr d, a)"
    and "or_state s = PS_CREATED" and "run_pipeline cfg dv s = (Inl e, s')"
  shows "P (or_world s')
    \<and> (e \<noteq> Interrupt \<longrightarrow> (\<exists>f. e = Fault f) \<and> quiet s'
        \<and> (or_state s' = PS_FAILED
           \<or> or_state s' = PS_COMPLETED
             \<and> (\<exists>u e0 u'. run_to_last_stage cfg dv (s\<lparr>or_world := w, or_audit := a\<rparr>) = (Inr (), u)
                 \<and> finish_run u = (Inl e0, u') \<and> or_state u' = PS_COMPLETED)))"
proof -
  have approved: "fst (dv_approve dv (pp_run_id (oc_plan cfg)) (plan_skills (oc_plan cfg)) (or_world s)) = Inr True"
    using assms(2) by simp
  obtain w0 e0 s1 where w0: "dv_approve dv (pp_run_id (oc_plan cfg)) (plan_skills (oc_plan cfg)) (or_world s) = (Inr True, w0)"
    and body: "run_body cfg dv (s\<lparr>or_world := w0, or_audit := a\<rparr>) = (Inl e0, s1)"
    and failed: "run_failed dv e0 s1 = (Inl e :: exn + pydict, s')"
    by (rule run_pipeline_Inl [OF assms(5) approved assms(3)])
  have w: "w0 = w" using w0 assms(2) by simp
  from failed obtain code message r where stop: "safe_stop dv code message s1 = (r, s')"
    and full: "e \<noteq> Interrupt \<Longrightarrow> r = Inr () \<and> (\<exists>f. e = Fault f \<and> rf_code f = code \<and> rf_message f = message)"
    using run_failed_safe_stop by metis
  have "P (or_world s')" using safe_stop_world [OF assms(1), of code message s1] stop by simp
  moreover have "(\<exists>f. e = Fault f) \<and> quiet s' \<and> (or_state s' = PS_FAILED \<or> or_state s' = PS_COMPLETED
      \<and> (\<exists>u e0 u'. run_to_last_stage cfg dv (s\<lparr>or_world := w, or_audit := a\<rparr>) = (Inr (), u)
           \<and> finish_run u = (Inl e0, u') \<and> or_state u' = PS_COMPLETED))" if "e \<noteq> Interrupt"
  proof -
    from full [OF that] stop have "safe_stop dv code message s1 = (Inr (), s')" by simp
    then obtain t failures where t: "quiet t" "or_state t = (if or_state s1 = PS_COMPLETED then PS_COMPLETED else PS_FAILED)"
      "s' = t\<lparr>or_audit := snd (edge_fail (pipeline_value (or_state t)) (code_value code)
         (safe_stop_message message failures) (or_audit s1))\<rparr>"
      by (rule safe_stop_Inr)
    have "under_way (s\<lparr>or_world := w0, or_audit := a\<rparr>)" using assms(4) by (simp add: under_way_def)
    with full [OF that] t run_body_completed [OF body] w show ?thesis
      by (cases "or_state s1 = PS_COMPLETED") auto
  qed
  ultimately show ?thesis by blast
qed

lemma demo_begin:
  "\<exists>d a. edge_begin (pp_run_id (oc_plan demo_pipeline)) (plan_skills (oc_plan demo_pipeline)) (or_audit demo_orchestrator)
     = (Inr d, a)"
  using demo_run_id
  by (simp add: pipeline_eval demo_pipeline_def demo_plan_def demo_stage_def demo_orchestrator_def)

lemma demo_pipeline_fails:
  "\<exists>f s'. run_pipeline demo_pipeline (demo_devices False) demo_orchestrator = (Inl (Fault f), s')
     \<and> dr_rows (or_world s') = 2"
  using demo_run_id
  by (simp add: pipeline_eval demo_pipeline_def demo_plan_def demo_stage_def demo_devices_def demo_orchestrator_def
     demo_observation demo_actions demo_gate_result_def numeral_2_eq_2 when_op_def run_failed_def safe_stop_def
     close_open_session_def abort_open_trial_def attempt_def enter_safe_stop_apply leave_safe_stop_apply edge_fail_def )

theorem failed_run_is_stopped_witness:
  "\<exists>f s'. run_pipeline demo_pipeline (demo_devices False) demo_orchestrator = (Inl (Fault f), s')
     \<and> \<not> dr_moving (or_world s') \<and> or_state s' \<in> {PS_FAILED, PS_COMPLETED} \<and> quiet s'"
proof -
  obtain f s' where run: "run_pipeline demo_pipeline (demo_devices False) demo_orchestrator = (Inl (Fault f), s')"
    using demo_pipeline_fails by blast
  have "stop_holds (\<lambda>w. \<not> dr_moving w) (demo_devices False)"
    by (simp add: stop_holds_def leaves_def demo_devices_def modify_op_apply keeps_ret)
  moreover have "dv_approve (demo_devices False) r k w = (Inr True, w)" for r k w
    by (simp add: demo_devices_def ret_apply)
  moreover obtain d a where "edge_begin (pp_run_id (oc_plan demo_pipeline)) (plan_skills (oc_plan demo_pipeline))
      (or_audit demo_orchestrator) = (Inr d, a)"
    using demo_begin by blast
  moreover have "or_state demo_orchestrator = PS_CREATED" by (simp add: demo_orchestrator_def)
  ultimately show ?thesis using failed_run_is_stopped [OF _ _ _ _ run, of "\<lambda>w. \<not> dr_moving w" _ d a] run by blast
qed

subsection \<open>The evidence of a run that fails\<close>

text \<open>A disk that works, and a run that is active.\<close>

definition recording :: "edge_store \<Rightarrow> bool" where
  "recording st \<longleftrightarrow> es_io st = [] \<and> es_active st \<noteq> None"

lemma edge_write_sure: "es_io st = [] \<Longrightarrow> edge_write p c st = (Inr (), edge_put p c st)"
  by (simp add: edge_write_def)

lemma edge_put_parts [simp]: "es_io (edge_put p c st) = es_io st" "es_active (edge_put p c st) = es_active st"
  by (simp_all add: edge_put_def)

lemmas recording_eval = recording_def op_simps edge_require_active_apply edge_require_stage_apply Let_def edge_json_def
  edge_write_manifest_def edge_write_sure edge_append_def

interpretation recording_client: audit_client recording
proof
  show "keeps recording (edge_set_pipeline_state state)" for state
    by (rule keepsI) (auto simp: edge_set_pipeline_state_def recording_eval)
  show "keeps recording (edge_record_rollout row)" for row
    by (rule keepsI) (auto simp: edge_record_rollout_def recording_eval split: option.split)
  show "keeps recording (edge_start_stage index skill trial_id)" for index skill trial_id
    by (rule keepsI) (auto simp: edge_start_stage_def edge_mkdir_def recording_eval)
  show "keeps recording (edge_complete_stage evidence gate checker summary)" for evidence gate checker summary
    by (rule keepsI) (auto simp: edge_complete_stage_def recording_eval split: option.split)
qed

lemma edge_begin_recording:
  assumes "edge_begin run_id skills st = (Inr d, st')" and "es_io st = []"
  shows "recording st'"
  using assms
  by (auto simp: edge_begin_def edge_mkdir_def recording_eval raise_apply split: if_splits)

definition keeps_on_error :: "('s \<Rightarrow> bool) \<Rightarrow> ('s, 'e, 'a) op \<Rightarrow> bool" where
  "keeps_on_error Q m \<longleftrightarrow> (\<forall>s e s'. Q s \<and> m s = (Inl e, s') \<longrightarrow> Q s')"

lemma keeps_on_error_seq:
  assumes "keeps Q m" and "keeps_on_error Q k"
  shows "keeps_on_error Q (seq_op m k)"
  unfolding keeps_on_error_def
proof (intro allI impI)
  fix s e s' assume "Q s \<and> seq_op m k s = (Inl e, s')"
  with assms show "Q s'"
    by (cases "m s") (fastforce simp: keeps_on_error_def keeps_def seq_op_apply split: sum.splits)
qed

lemma run_body_on_error:
  assumes "audit_client Q" and "\<And>st e st'. Q st \<Longrightarrow> edge_complete st = (Inl e, st') \<Longrightarrow> Q st'"
  shows "keeps_on_error (\<lambda>s. Q (or_audit s)) (run_body cfg dv)"
proof -
  note client = assms(1) audit_client.axioms(1) [OF assms(1)]
  have "keeps_on_error (\<lambda>s. Q (or_audit s)) (on_edge edge_complete)"
    using assms(2) by (force simp: keeps_on_error_def on_edge_def split: prod.splits)
  then show ?thesis
    unfolding run_body_def
    by (intro keeps_on_error_seq rollout_client.transition [OF client(2)] rollout_client.world [OF client(2)]
        audit_client.stages [OF client(1)])
qed

lemma edge_complete_error:
  assumes "edge_complete st = (Inl e, st')" and "es_io st = []"
  shows "st' = st"
  using assms
  by (auto simp: edge_complete_def recording_eval raise_apply split: option.splits if_splits)

lemma edge_fail_recording:
  assumes "recording st" and "es_active st = Some run"
  shows "es_active (snd (edge_fail state code message st)) = None"
    and "es_files (snd (edge_fail state code message st)) [er_run_id run, ''run_manifest.json'']
      = Some (JsonFile (run_manifest run ''FAILED'' state [(''error_code'', PStr code), (''message'', PStr message)]))"
  using assms
  by (auto simp: edge_fail_def recording_eval run_manifest_def edge_put_def split: option.split)

text \<open>
  C24. A run that fails says so on disk.  With a disk that works, when an approved run that has
  begun raises a fault, the run is no longer active and its manifest has the status FAILED, the
  pipeline's last state, and the code and the message of the very fault that is raised, followed
  by the cleanup steps that failed in their turn.
\<close>

theorem failed_run_is_recorded:
  assumes "es_io (or_audit s) = []"
    and "fst (dv_approve dv (pp_run_id (oc_plan cfg)) (plan_skills (oc_plan cfg)) (or_world s)) = Inr True"
    and "edge_begin (pp_run_id (oc_plan cfg)) (plan_skills (oc_plan cfg)) (or_audit s) = (Inr d, a)"
    and "run_pipeline cfg dv s = (Inl (Fault f), s')"
  shows "es_active (or_audit s') = None
    \<and> (\<exists>run failures. is_run (pp_run_id (oc_plan cfg)) (plan_skills (oc_plan cfg)) run
       \<and> es_files (or_audit s') [pp_run_id (oc_plan cfg), ''run_manifest.json'']
         = Some (JsonFile (run_manifest run ''FAILED'' (pipeline_value (or_state s'))
             [(''error_code'', PStr (code_value (rf_code f))),
              (''message'', PStr (safe_stop_message (rf_message f) failures))])))"
proof -
  let ?R = "is_run (pp_run_id (oc_plan cfg)) (plan_skills (oc_plan cfg))"
  obtain w e0 s1 where body: "run_body cfg dv (s\<lparr>or_world := w, or_audit := a\<rparr>) = (Inl e0, s1)"
    and failed: "run_failed dv e0 s1 = (Inl (Fault f) :: exn + pydict, s')"
    by (rule run_pipeline_Inl [OF assms(4,2,3)])
  have "recording a" using edge_begin_recording [OF assms(3,1)] .
  moreover have "keeps_on_error (\<lambda>s. recording (or_audit s)) (run_body cfg dv)"
    by (rule run_body_on_error [OF recording_client.audit_client_axioms])
      (use edge_complete_error in \<open>auto simp: recording_def\<close>)
  ultimately have rec: "recording (or_audit s1)" using body by (force simp: keeps_on_error_def)
  have "active_sat ?R a" using edge_begin_Inr [OF assms(3)] by (auto simp: active_sat_def)
  moreover have "keeps_on_error (\<lambda>s. active_sat ?R (or_audit s)) (run_body cfg dv)"
    by (rule run_body_on_error [OF run_client.audit_client_axioms])
      (use keepsD [OF active_is_run [of Edge_complete]] in \<open>force\<close>)
  ultimately have "active_sat ?R (or_audit s1)" using body by (force simp: keeps_on_error_def)
  with rec obtain run where run: "es_active (or_audit s1) = Some run" "?R run"
    by (auto simp: recording_def active_sat_def)
  from failed obtain code message where "safe_stop dv code message s1 = (Inr (), s')"
    and f: "rf_code f = code" "rf_message f = message"
    using run_failed_safe_stop by (metis exn.distinct(3) exn.inject(1))
  then obtain t failures where t: "or_audit t = or_audit s1"
    "s' = t\<lparr>or_audit := snd (edge_fail (pipeline_value (or_state t)) (code_value code)
                  (safe_stop_message message failures) (or_audit s1))\<rparr>"
    by (auto elim: safe_stop_Inr)
  show ?thesis
    using edge_fail_recording [OF rec run(1), of "pipeline_value (or_state t)" "code_value code"
        "safe_stop_message message failures"] run(2) t f
    by (auto simp: is_run_def)
qed

theorem failed_run_is_recorded_witness:
  "\<exists>f s' failures run. run_pipeline demo_pipeline (demo_devices False) demo_orchestrator = (Inl (Fault f), s')
     \<and> es_files (or_audit s') [''run1'', ''run_manifest.json'']
       = Some (JsonFile (run_manifest run ''FAILED'' (pipeline_value (or_state s'))
           [(''error_code'', PStr (code_value (rf_code f))),
            (''message'', PStr (safe_stop_message (rf_message f) failures))]))"
proof -
  obtain f s' where run: "run_pipeline demo_pipeline (demo_devices False) demo_orchestrator = (Inl (Fault f), s')"
    using demo_pipeline_fails by blast
  have "es_io (or_audit demo_orchestrator) = []" by (simp add: demo_orchestrator_def new_edge_store_def)
  moreover have "fst (dv_approve (demo_devices False) r k w) = Inr True" for r k w
    by (simp add: demo_devices_def ret_apply)
  moreover obtain d a where "edge_begin (pp_run_id (oc_plan demo_pipeline)) (plan_skills (oc_plan demo_pipeline))
      (or_audit demo_orchestrator) = (Inr d, a)"
    using demo_begin by blast
  moreover have "pp_run_id (oc_plan demo_pipeline) = ''run1''" by (simp add: demo_pipeline_def demo_plan_def)
  ultimately show ?thesis using failed_run_is_recorded [OF _ _ _ run, of d a] run by auto
qed

subsection \<open>The approval\<close>

text \<open>
  C25. Nothing moves without the operator's approval.  On a console, unless execution is enabled and
  the operator's answer, stripped of white space, is exactly \<open>YES RUN\<close> and the run's identifier,
  \<open>run\<close> raises APPROVAL_REQUIRED, and nothing but the question has been done: the pipeline's state,
  the evidence and the devices are as the question left them.
\<close>

theorem refused_run_touches_nothing:
  assumes "dv_approve dv = console_approve enabled read"
    and "\<not> enabled \<or> (\<forall>answer. fst (read (approval_prompt (pp_run_id (oc_plan cfg)) (plan_skills (oc_plan cfg))) (or_world s))
           = Inr answer \<longrightarrow> strip_chars py_whitespace answer \<noteq> ''YES RUN '' @ pp_run_id (oc_plan cfg))"
    and "run_pipeline cfg dv s = (r, s')"
  shows "\<exists>e. r = Inl e \<and> s' = s\<lparr>or_world := snd (dv_approve dv (pp_run_id (oc_plan cfg)) (plan_skills (oc_plan cfg)) (or_world s))\<rparr>
    \<and> (fails_with APPROVAL_REQUIRED r
       \<or> fst (read (approval_prompt (pp_run_id (oc_plan cfg)) (plan_skills (oc_plan cfg))) (or_world s)) = Inl e)"
proof -
  let ?run_id = "pp_run_id (oc_plan cfg)"
  let ?skills = "plan_skills (oc_plan cfg)"
  obtain x w where ask: "dv_approve dv ?run_id ?skills (or_world s) = (x, w)" by fastforce
  have "x \<noteq> Inr True \<and> (\<forall>e. x = Inl e \<longrightarrow> fst (read (approval_prompt ?run_id ?skills) (or_world s)) = Inl e)"
    using ask assms(1,2)
    by (auto simp: console_approve_def map_op_apply ret_apply approval_text_def split: if_splits prod.splits sum.splits)
  with ask assms(3) show ?thesis
    by (cases x) (auto simp: run_pipeline_def Let_def op_simps on_world_apply)
qed

theorem refused_run_touches_nothing_witness:
  "fails_with APPROVAL_REQUIRED (fst (run_pipeline demo_pipeline
     ((demo_devices True)\<lparr>dv_approve := console_approve True (\<lambda>_. ret ''YES RUN run2'')\<rparr>) demo_orchestrator))"
proof -
  let ?dv = "(demo_devices True)\<lparr>dv_approve := console_approve True (\<lambda>_. ret ''YES RUN run2'')\<rparr>"
  obtain r s' where run: "run_pipeline demo_pipeline ?dv demo_orchestrator = (r, s')" by fastforce
  have "strip_chars py_whitespace ''YES RUN run2'' = ''YES RUN run2''" by code_simp
  then have "strip_chars py_whitespace ''YES RUN run2'' \<noteq> ''YES RUN '' @ pp_run_id (oc_plan demo_pipeline)"
    by (simp add: demo_pipeline_def demo_plan_def)
  with refused_run_touches_nothing [OF _ _ run, of True "\<lambda>_. ret ''YES RUN run2''"] run
  show ?thesis by (auto simp: ret_apply)
qed

end
