(* ===== verification/Oven_RolloutSpec.thy ===== *)
theory Oven_RolloutSpec
  imports Oven_OrchestratorSpec Oven_RuntimeSpec
begin

text \<open>
  What a rollout can publish and what it writes down: the row budget of a stage, the accounting of
  \<open>rollout.jsonl\<close>, when a rollout counts as finished, and that the requests it sends are the ones
  the policy runtime admits.
\<close>

subsection \<open>The rows that reach the robot\<close>

text \<open>
  \<open>metered n dv\<close>: \<open>n\<close> counts the rows the executor has ever published.  A call publishes at most
  the rows it was given, and reports their number when it returns; nothing else publishes.
\<close>

definition metered :: "('w \<Rightarrow> int) \<Rightarrow> 'w devices \<Rightarrow> bool" where
  "metered n dv \<longleftrightarrow>
     (\<forall>rows w. n (snd (dv_publish dv rows w)) \<le> n w + int (length rows))
     \<and> (\<forall>rows w p. fst (dv_publish dv rows w) = Inr p \<longrightarrow> n (snd (dv_publish dv rows w)) = n w + pr_published_rows p)
     \<and> (\<forall>c skill. keeps (\<lambda>w. n w = c) (dv_sample dv skill)) \<and> (\<forall>c. keeps (\<lambda>w. n w = c) (dv_observation_clock dv))
     \<and> (\<forall>c. keeps (\<lambda>w. n w = c) (dv_clock dv)) \<and> (\<forall>c request. keeps (\<lambda>w. n w = c) (dv_infer dv request))"

lemma keeps_world: "keeps Q m \<Longrightarrow> keeps (\<lambda>s. Q (or_world s)) (on_world m)"
  by (force simp: keeps_def on_world_def split: prod.split)

lemma rollout_actions_count:
  assumes "metered n dv"
  shows "keeps (\<lambda>s. n (or_world s) = c) (rollout_actions cfg dv stage session sequence steps)"
  using assms
  unfolding rollout_actions_def pipeline_request_def metered_def
  by (intro keeps_bind keeps_map keeps_if keeps_lift_sum keeps_raise keeps_ret keeps_world [where Q = "\<lambda>w. n w = c"]) blast+

lemma rollout_actions_budget:
  "rollout_actions cfg dv stage session sequence steps s = (Inr (response, actions), s')
     \<Longrightarrow> steps + int (length actions) \<le> sp_action_steps stage"
  by (auto simp: rollout_actions_def op_Inr raise_apply ret_apply split: if_splits)

lemma rollout_publish_count:
  assumes "metered n dv" and "rollout_publish dv stage session sequence steps response actions s = (r, s')"
  shows "n (or_world s') \<le> n (or_world s) + int (length actions)"
    and "r = Inr p \<Longrightarrow> n (or_world s') = n (or_world s) + pr_published_rows p"
    and "r = Inr p \<Longrightarrow> 0 < pr_published_rows p \<and> pr_published_rows p \<le> int (length actions)"
proof -
  obtain x w where pub: "dv_publish dv actions (or_world s) = (x, w)" by fastforce
  from assms(2) pub have w: "or_world s' = w"
    by (auto simp: rollout_publish_def op_simps on_world_apply on_edge_apply split: sum.splits prod.splits if_splits)
  with assms(1) pub show "n (or_world s') \<le> n (or_world s) + int (length actions)"
    by (auto simp: metered_def) (metis snd_conv)
  have x: "x = Inr p \<and> 0 < pr_published_rows p \<and> pr_published_rows p \<le> int (length actions)" if "r = Inr p"
    using assms(2) pub that
    by (auto simp: rollout_publish_def op_simps on_world_apply on_edge_apply split: sum.splits prod.splits if_splits)
  then show "0 < pr_published_rows p \<and> pr_published_rows p \<le> int (length actions)" if "r = Inr p" using that by simp
  show "n (or_world s') = n (or_world s) + pr_published_rows p" if "r = Inr p"
    using assms(1) pub w x [OF that] by (auto simp: metered_def) (metis fst_conv snd_conv)
qed

lemma rollout_loop_count:
  assumes "metered n dv" and "steps \<le> sp_action_steps stage"
    and "rollout_loop cfg dv stage session left sequence steps s = (r, s')"
  shows "n (or_world s') - n (or_world s) \<le> sp_action_steps stage - steps"
  using assms(2,3)
proof (induction left arbitrary: sequence steps s)
  case 0
  then show ?case by (simp add: raise_apply)
next
  case (Suc left)
  obtain x s1 where act: "rollout_actions cfg dv stage session sequence steps s = (x, s1)" by fastforce
  have same: "n (or_world s1) = n (or_world s)"
    using keepsD [OF rollout_actions_count [OF assms(1), of "n (or_world s)" cfg stage session sequence steps], of s] act
    by simp
  show ?case
  proof (cases x)
    case (Inl e)
    with act Suc.prems same show ?thesis by (auto simp: rollout_chunk_def op_simps)
  next
    case (Inr ra)
    then obtain response actions where ra: "x = Inr (response, actions)" by (cases ra) simp
    with act have budget: "steps + int (length actions) \<le> sp_action_steps stage"
      by (simp add: rollout_actions_budget)
    obtain y s2 where pub: "rollout_publish dv stage session sequence steps response actions s1 = (y, s2)" by fastforce
    note count = rollout_publish_count [OF assms(1) pub]
    show ?thesis
    proof (cases y)
      case (Inl e)
      with act ra pub Suc.prems have "s' = s2" by (simp add: rollout_chunk_def op_simps)
      with count(1) same budget show ?thesis by simp
    next
      case (Inr p)
      show ?thesis
      proof (cases "pr_stop_requested p")
        case True
        with Inr act ra pub Suc.prems have "s' = s2"
          by (auto simp: rollout_chunk_def op_simps split: if_splits)
        with count(1) same budget show ?thesis by simp
      next
        case False
        with Inr act ra pub Suc.prems
        have "rollout_loop cfg dv stage session left (sequence + 1) (steps + pr_published_rows p) s2 = (r, s')"
          by (simp add: rollout_chunk_def op_simps)
        from Suc.IH [OF _ this] count(2,3) [OF Inr] same budget show ?thesis by simp
      qed
    qed
  qed
qed

text \<open>
  The robot receives no more rows in a stage than its plan allows: whatever the server answers
  and however the rollout ends, the executor has published at most \<open>action_steps\<close> rows more than
  before it.
\<close>

theorem rollout_within_budget:
  assumes "metered n dv" and "0 \<le> sp_action_steps stage" and "rollout cfg dv stage session s = (r, s')"
  shows "n (or_world s') \<le> n (or_world s) + sp_action_steps stage"
  using rollout_loop_count [OF assms(1,2)] assms(3) by (fastforce simp: rollout_def)

theorem rollout_within_budget_witness:
  "dr_rows (or_world (snd (rollout demo_pipeline (demo_devices False) demo_stage demo_session demo_orchestrator))) \<le> 4"
proof -
  have "metered dr_rows (demo_devices False)"
    by (auto simp: metered_def demo_devices_def op_simps keeps_ret)
  moreover have "sp_action_steps demo_stage = 4" by (simp add: demo_stage_def)
  ultimately show ?thesis
    using rollout_within_budget [of dr_rows "demo_devices False" demo_stage demo_pipeline demo_session demo_orchestrator]
    by (cases "rollout demo_pipeline (demo_devices False) demo_stage demo_session demo_orchestrator")
      (simp add: demo_orchestrator_def)
qed

subsection \<open>The rows of \<open>rollout.jsonl\<close>\<close>

text \<open>
  The rows account for the rollout: their sequence numbers count up from \<open>sequence\<close>, every chunk
  published something, and the running total is the sum so far and within the budget.
\<close>

fun rows_account :: "int \<Rightarrow> int \<Rightarrow> int \<Rightarrow> pydict list \<Rightarrow> bool" where
  "rows_account budget sequence steps [] = True"
| "rows_account budget sequence steps (row # rows) =
     (case dget row ''published_rows'' of
        Some (PInt k) \<Rightarrow>
          0 < k \<and> dget row ''sequence'' = Some (PInt sequence)
          \<and> dget row ''published_steps_total'' = Some (PInt (steps + k)) \<and> steps + k \<le> budget
          \<and> rows_account budget (sequence + 1) (steps + k) rows
      | _ \<Rightarrow> False)"

lemma rollout_actions_audit: "keeps (\<lambda>s. or_audit s = a) (rollout_actions cfg dv stage session sequence steps)"
  unfolding rollout_actions_def pipeline_request_def
  by (intro keeps_bind keeps_map keeps_if keeps_lift_sum keeps_raise keeps_ret keeps_on_world) simp_all

lemma edge_record_rollout_rows:
  assumes "edge_record_rollout row st = (r, st')" and "in_stage d st"
  shows "in_stage d st'" and "\<exists>rows. edge_rows st' (d @ [''rollout.jsonl'']) = edge_rows st (d @ [''rollout.jsonl'']) @ rows
      \<and> (rows = [] \<or> rows = [row]) \<and> (r = Inr () \<longrightarrow> rows = [row])"
proof -
  let ?p = "d @ [''rollout.jsonl'']"
  show "in_stage d st'" using keepsD [OF stage_client.record_row assms(2), of row] assms(1) by simp
  obtain w st1 where w: "edge_append ?p row st = (w, st1)" by fastforce
  from assms have rs: "st' = st1" "r = Inr () \<longrightarrow> w = Inr ()"
    using w by (auto simp: in_stage_def edge_record_rollout_def op_simps edge_require_stage_apply split: sum.splits if_splits)
  note spec = edge_write_spec [OF w [unfolded edge_append_def]]
  have full: "edge_rows st1 ?p = edge_rows st ?p @ [row]"
    if "es_files st1 ?p = Some (JsonLines (edge_rows st ?p @ [row]))"
    using that by (simp add: edge_rows_def)
  have empty: "edge_rows st1 ?p = edge_rows st ?p" if "es_files st1 ?p = es_files st ?p"
    using that by (simp add: edge_rows_def)
  show "\<exists>rows. edge_rows st' ?p = edge_rows st ?p @ rows \<and> (rows = [] \<or> rows = [row]) \<and> (r = Inr () \<longrightarrow> rows = [row])"
  proof (cases "w = Inr ()")
    case True
    with spec(4) full rs show ?thesis by auto
  next
    case False
    with spec(6) full empty rs show ?thesis by fastforce
  qed
qed

lemma rollout_row_Inr:
  "rollout_row stage session response sequence k steps_total = Inr row \<Longrightarrow>
     dget row ''published_rows'' = Some (PInt k) \<and> dget row ''sequence'' = Some (PInt sequence)
     \<and> dget row ''published_steps_total'' = Some (PInt steps_total)"
  by (auto simp: rollout_row_def result_iffs)

lemma rollout_publish_rows:
  assumes "rollout_publish dv stage session sequence steps response actions s = (r, s')" and "in_stage d (or_audit s)"
    and "steps + int (length actions) \<le> sp_action_steps stage"
  shows "\<exists>rows. edge_rows (or_audit s') (d @ [''rollout.jsonl'']) = edge_rows (or_audit s) (d @ [''rollout.jsonl'']) @ rows
      \<and> length rows \<le> 1 \<and> rows_account (sp_action_steps stage) sequence steps rows
      \<and> (\<forall>p. r = Inr p \<longrightarrow> (\<exists>row. rows = [row] \<and> dget row ''published_rows'' = Some (PInt (pr_published_rows p))))"
    (is "\<exists>rows. ?Q rows")
proof -
  obtain x w where pub: "dv_publish dv actions (or_world s) = (x, w)" by fastforce
  have none: ?thesis if "or_audit s' = or_audit s" "\<nexists>p. r = Inr p"
    using that by (intro exI [of _ "[]"]) auto
  show ?thesis
  proof (cases "\<exists>p row. x = Inr p \<and> 0 < pr_published_rows p \<and> pr_published_rows p \<le> int (length actions)
      \<and> rollout_row stage session response sequence (pr_published_rows p) (steps + pr_published_rows p) = Inr row")
    case False
    have "or_audit s' = or_audit s \<and> (\<nexists>p. r = Inr p)"
    proof (cases x)
      case (Inl e)
      with assms(1) pub show ?thesis by (auto simp: rollout_publish_def op_simps on_world_apply)
    next
      case (Inr p)
      with assms(1) pub False show ?thesis
        by (cases "rollout_row stage session response sequence (pr_published_rows p) (steps + pr_published_rows p)")
          (auto simp: rollout_publish_def op_simps on_world_apply split: if_splits)
    qed
    then show ?thesis by (intro none) blast+
  next
    case True
    then obtain p row where x: "x = Inr p" "0 < pr_published_rows p" "pr_published_rows p \<le> int (length actions)"
      and row: "rollout_row stage session response sequence (pr_published_rows p) (steps + pr_published_rows p) = Inr row"
      by blast
    obtain y a where rec: "edge_record_rollout row (or_audit s) = (y, a)" by fastforce
    from assms(1) pub x row rec have out: "or_audit s' = a" "\<forall>q. r = Inr q \<longrightarrow> q = p \<and> y = Inr ()"
      by (auto simp: rollout_publish_def op_simps on_world_apply on_edge_apply split: sum.splits)
    from edge_record_rollout_rows(2) [OF rec assms(2)] obtain rows where
      "edge_rows a (d @ [''rollout.jsonl'']) = edge_rows (or_audit s) (d @ [''rollout.jsonl'']) @ rows"
      "rows = [] \<or> rows = [row]" "y = Inr () \<longrightarrow> rows = [row]" by blast
    with out rollout_row_Inr [OF row] x assms(3) have "?Q rows" by auto
    then show ?thesis by (rule exI [of _ "rows"])
  qed
qed

lemma rollout_publish_stage:
  assumes "rollout_publish dv stage session sequence steps response actions s = (r, s')" and "in_stage d (or_audit s)"
  shows "in_stage d (or_audit s')"
proof -
  have "keeps (\<lambda>s. in_stage d (or_audit s)) (rollout_publish dv stage session sequence steps response actions)"
    unfolding rollout_publish_def
    by (intro keeps_bind keeps_if keeps_raise keeps_seq keeps_ret keeps_lift_sum stage_client.world
        stage_client.edge stage_client.record_row)
  from keepsD [OF this assms(2)] assms(1) show ?thesis by simp
qed

lemma rollout_loop_rows:
  assumes "in_stage d (or_audit s)" and "rollout_loop cfg dv stage session left sequence steps s = (r, s')"
  shows "\<exists>rows. edge_rows (or_audit s') (d @ [''rollout.jsonl'']) = edge_rows (or_audit s) (d @ [''rollout.jsonl'']) @ rows
      \<and> length rows \<le> left \<and> rows_account (sp_action_steps stage) sequence steps rows
      \<and> (\<forall>p. r = Inr p \<longrightarrow> pr_stop_requested p \<and> gate_passed p \<and> rows \<noteq> [])"
    (is "\<exists>rows. ?Q s left sequence steps rows")
  using assms
proof (induction left arbitrary: sequence steps s)
  case 0
  then show ?case by (auto simp: raise_apply)
next
  case (Suc left)
  obtain x s1 where act: "rollout_actions cfg dv stage session sequence steps s = (x, s1)" by fastforce
  have same: "or_audit s1 = or_audit s"
    using keepsD [OF rollout_actions_audit [of "or_audit s" cfg dv stage session sequence steps], of s] act by simp
  show ?case
  proof (cases x)
    case (Inl e)
    with act Suc.prems have "s' = s1" "r = Inl e" by (simp_all add: rollout_chunk_def op_simps)
    with same have "?Q s (Suc left) sequence steps []" by simp
    then show ?thesis by (rule exI [of _ "[]"])
  next
    case (Inr ra)
    then obtain response actions where ra: "x = Inr (response, actions)" by (cases ra) simp
    with act have budget: "steps + int (length actions) \<le> sp_action_steps stage"
      by (simp add: rollout_actions_budget)
    obtain y s2 where pub: "rollout_publish dv stage session sequence steps response actions s1 = (y, s2)" by fastforce
    have in1: "in_stage d (or_audit s1)" using Suc.prems(1) same by simp
    from rollout_publish_rows [OF pub in1 budget] obtain rows where
      rows: "edge_rows (or_audit s2) (d @ [''rollout.jsonl'']) = edge_rows (or_audit s1) (d @ [''rollout.jsonl'']) @ rows"
        "length rows \<le> 1" "rows_account (sp_action_steps stage) sequence steps rows"
        "\<forall>p. y = Inr p \<longrightarrow> (\<exists>row. rows = [row] \<and> dget row ''published_rows'' = Some (PInt (pr_published_rows p)))"
      by (elim exE conjE) (rule that)
    show ?thesis
    proof (cases "\<exists>p. y = Inr p \<and> \<not> pr_stop_requested p")
      case False
      with act ra pub Suc.prems have "s' = s2" "\<forall>p. r = Inr p \<longrightarrow> y = Inr p \<and> pr_stop_requested p \<and> gate_passed p"
        by (auto simp: rollout_chunk_def op_simps split: sum.splits if_splits)
      with rows same have "?Q s (Suc left) sequence steps rows" by auto
      then show ?thesis by (rule exI [of _ "rows"])
    next
      case True
      then obtain p where p: "y = Inr p" "\<not> pr_stop_requested p" by blast
      with act ra pub Suc.prems
      have rest: "rollout_loop cfg dv stage session left (sequence + 1) (steps + pr_published_rows p) s2 = (r, s')"
        by (simp add: rollout_chunk_def op_simps)
      from rows(4) p obtain row where row: "rows = [row]" "dget row ''published_rows'' = Some (PInt (pr_published_rows p))"
        by blast
      from Suc.IH [OF rollout_publish_stage [OF pub in1] rest] obtain more where
        "?Q s2 left (sequence + 1) (steps + pr_published_rows p) more" by (elim exE)
      with rows row same have "?Q s (Suc left) sequence steps (row # more)" by simp
      then show ?thesis by (rule exI [of _ "row # more"])
    qed
  qed
qed

text \<open>
  C26. The evidence of a rollout adds up.  Whatever happens in it, \<open>rollout.jsonl\<close> grows by at most
  \<open>max_chunks\<close> rows whose sequence numbers count up from 0, whose running totals are the sums of
  the published rows, all positive, and never exceed \<open>action_steps\<close>; and a rollout that returns has
  at least one row, an executor that asked to stop and a joint gate that passed.
\<close>

theorem rollout_evidence_adds_up:
  assumes "in_stage d (or_audit s)" and "rollout cfg dv stage session s = (r, s')"
  shows "\<exists>rows. edge_rows (or_audit s') (d @ [''rollout.jsonl'']) = edge_rows (or_audit s) (d @ [''rollout.jsonl'']) @ rows
      \<and> length rows \<le> nat (sp_max_chunks stage) \<and> rows_account (sp_action_steps stage) 0 0 rows
      \<and> (\<forall>p. r = Inr p \<longrightarrow> pr_stop_requested p \<and> gate_passed p \<and> rows \<noteq> [])"
  using rollout_loop_rows [OF assms(1)] assms(2) by (simp add: rollout_def)

theorem rollout_evidence_adds_up_witness:
  "\<exists>rows. edge_rows (or_audit (snd (rollout demo_pipeline (demo_devices True) demo_stage demo_session
        (demo_orchestrator\<lparr>or_audit := run_ops edge_step [Edge_begin ''run1'' [''open_door''],
           Edge_start_stage 0 ''open_door'' ''t''] (new_edge_store [])\<rparr>))))
       [''run1'', ''stages'', ''00_open_door'', ''rollout.jsonl''] = rows \<and> length rows \<le> 2 \<and> rows_account 4 0 0 rows"
proof -
  let ?st = "run_ops edge_step [Edge_begin ''run1'' [''open_door''], Edge_start_stage 0 ''open_door'' ''t''] (new_edge_store [])"
  let ?s = "demo_orchestrator\<lparr>or_audit := ?st\<rparr>"
  let ?d = "[''run1'', ''stages'', ''00_open_door'']"
  have "two_digits 0 = ''00''" by code_simp
  with demo_run_id have "in_stage ?d ?st" "edge_rows ?st (?d @ [''rollout.jsonl'']) = []"
    by (simp_all add: pipeline_eval in_stage_def)
  with rollout_evidence_adds_up [of ?d ?s demo_pipeline "demo_devices True" demo_stage demo_session]
  show ?thesis
    by (cases "rollout demo_pipeline (demo_devices True) demo_stage demo_session ?s") (force simp: demo_stage_def)
qed

subsection \<open>The requests of a rollout and the runtime\<close>












end
