(* ===== verification/Oven_RosTypes.thy ===== *)
theory Oven_RosTypes
  imports Oven_JointGate Oven_Validation
begin

text \<open>
  \<open>edge/profile_types.py\<close>: the specification of a checker and the configuration of the ROS bridge,
  with their validation.  A mapping is the list of its items; a path is a string.
\<close>

record checker_spec =
  cs_model_relative_path :: string
  cs_model_sha256 :: string
  cs_success_class :: string
  cs_threshold :: flt
  cs_preprocessing :: string

definition checker_spec_validate :: "checker_spec \<Rightarrow> unit res" where
  "checker_spec_validate c =
     reject_if (length (cs_model_sha256 c) \<noteq> 64
         \<or> list_ex (\<lambda>ch. ch \<notin> set ''0123456789abcdef'') (cs_model_sha256 c)) (PyExc ValueError) (
     reject_if (cs_success_class c = [] \<or> \<not> (f_lt f_zero (cs_threshold c) \<and> f_le (cs_threshold c) (Fin 1)))
       (PyExc ValueError) (
     reject_if (cs_preprocessing c \<notin> {''resize'', ''resize_center_crop''}) (PyExc ValueError)
       (Inr ())))"

record ros_config =
  rc_prompts :: "(string \<times> string) list"
  rc_reset_targets :: "(string \<times> flt list) list"
  rc_skill_arms :: "(string \<times> string) list"
  rc_lock_directory :: string
  rc_left_joint_topic :: string
  rc_right_joint_topic :: string
  rc_left_command_topic :: string
  rc_right_command_topic :: string
  rc_left_camera_topic :: string
  rc_right_camera_topic :: string
  rc_front_camera_topic :: string
  rc_image_size :: int
  rc_max_message_age_sec :: flt
  rc_preflight_timeout_sec :: flt
  rc_publish_hz :: flt
  rc_chunk_transition_steps :: int
  rc_chunk_transition_hz :: flt
  rc_max_row_delta :: "flt list"
  rc_reset_duration_sec :: flt
  rc_reset_tolerance :: flt
  rc_reset_verify_timeout_sec :: flt
  rc_stop_hold_repetitions :: int

definition ros_scalar_limits :: "ros_config \<Rightarrow> flt list" where
  "ros_scalar_limits c =
     [rc_max_message_age_sec c, rc_preflight_timeout_sec c, rc_publish_hz c, rc_chunk_transition_hz c,
      rc_reset_duration_sec c, rc_reset_tolerance c, rc_reset_verify_timeout_sec c]"

definition ros_config_validate :: "ros_config \<Rightarrow> unit res" where
  "ros_config_validate c =
     reject_if (fst ` set (rc_prompts c) \<noteq> fst ` set (rc_reset_targets c)
         \<or> fst ` set (rc_prompts c) \<noteq> fst ` set (rc_skill_arms c)) (PyExc ValueError) (
     reject_if (list_ex (\<lambda>(skill, arm). arm \<notin> {''left'', ''right''}) (rc_skill_arms c)) (PyExc ValueError) (
     reject_if (list_ex (\<lambda>(skill, target). length target \<noteq> 7 \<or> \<not> list_all is_finite target) (rc_reset_targets c))
       (PyExc ValueError) (
     reject_if (length (rc_max_row_delta c) \<noteq> 7 \<or> list_ex (\<lambda>v. \<not> is_finite v \<or> f_le v f_zero) (rc_max_row_delta c))
       (PyExc ValueError) (
     reject_if (rc_image_size c \<le> 0 \<or> list_ex (\<lambda>v. \<not> is_finite v) (ros_scalar_limits c)
         \<or> list_ex (\<lambda>v. f_le v f_zero) (ros_scalar_limits c)
         \<or> rc_chunk_transition_steps c \<le> 0 \<or> rc_stop_hold_repetitions c \<le> 0) (PyExc ValueError)
       (Inr ())))))"

text \<open>What a validated configuration gives the executor.\<close>

lemma ros_config_validate_Inr:
  assumes "ros_config_validate c = Inr ()"
  shows "map_of (rc_skill_arms c) skill = Some arm \<Longrightarrow> arm = ''left'' \<or> arm = ''right''"
    and "map_of (rc_reset_targets c) skill = Some target \<Longrightarrow> length target = 7 \<and> list_all is_finite target"
    and "map_of (rc_skill_arms c) skill = Some arm \<Longrightarrow> \<exists>target. map_of (rc_reset_targets c) skill = Some target"
    and "length (rc_max_row_delta c) = 7" and "list_all positive (rc_max_row_delta c)"
    and "list_all positive (ros_scalar_limits c)"
    and "0 < rc_chunk_transition_steps c" and "0 < rc_stop_hold_repetitions c" and "0 < rc_image_size c"
proof -
  note conjuncts = assms [unfolded ros_config_validate_def reject_if_eq_Inr de_Morgan_disj]
  have keys: "fst ` set (rc_skill_arms c) = fst ` set (rc_reset_targets c)" using conjuncts by metis
  have arms: "\<forall>(skill, arm) \<in> set (rc_skill_arms c). arm \<in> {''left'', ''right''}"
    using conjuncts [THEN conjunct2, THEN conjunct1] by (simp only: list_ex_iff) auto
  have targets: "\<forall>(skill, target) \<in> set (rc_reset_targets c). length target = 7 \<and> list_all is_finite target"
    using conjuncts [THEN conjunct2, THEN conjunct2, THEN conjunct1] by (simp only: list_ex_iff) auto
  have deltas: "length (rc_max_row_delta c) = 7" "\<forall>v \<in> set (rc_max_row_delta c). is_finite v \<and> \<not> f_le v f_zero"
    using conjuncts [THEN conjunct2, THEN conjunct2, THEN conjunct2, THEN conjunct1] by (simp_all only: list_ex_iff) auto
  note last = conjuncts [THEN conjunct2, THEN conjunct2, THEN conjunct2, THEN conjunct2, THEN conjunct1]
  have scalars: "\<forall>v \<in> set (ros_scalar_limits c). is_finite v \<and> \<not> f_le v f_zero"
    using last by (simp only: list_ex_iff) blast
  have ints: "0 < rc_chunk_transition_steps c" "0 < rc_stop_hold_repetitions c" "0 < rc_image_size c"
    using last by linarith+
  show "arm = ''left'' \<or> arm = ''right''" if "map_of (rc_skill_arms c) skill = Some arm"
    using arms map_of_SomeD [OF that] by blast
  show "length target = 7 \<and> list_all is_finite target" if "map_of (rc_reset_targets c) skill = Some target"
    using targets map_of_SomeD [OF that] by blast
  show "\<exists>target. map_of (rc_reset_targets c) skill = Some target" if "map_of (rc_skill_arms c) skill = Some arm"
  proof -
    from map_of_SomeD [OF that] have "skill \<in> fst ` set (rc_reset_targets c)" unfolding keys [symmetric] by force
    then show ?thesis by (metis domIff dom_map_of_conv_image_fst not_None_eq)
  qed
  show "length (rc_max_row_delta c) = 7" "0 < rc_chunk_transition_steps c" "0 < rc_stop_hold_repetitions c"
    "0 < rc_image_size c"
    by (fact deltas ints)+
  show "list_all positive (rc_max_row_delta c)" "list_all positive (ros_scalar_limits c)"
    using deltas scalars by (simp_all add: list_all_iff positive_def)
qed

end
