(* ===== verification/Oven_RosBridge.thy ===== *)
theory Oven_RosBridge
  imports Oven_RosTypes Oven_Orchestrator
begin

text \<open>
  \<open>edge/ros2_observation.py\<close> and \<open>edge/ros2_action.py\<close>: the two ROS nodes of the robot.  One record
  holds the state of both nodes and of the online gate they share.  What is sent to the command
  topics is the list \<open>ro_sent\<close>, newest last.

  ROS, OpenCV and the clock are the record \<open>ros_env\<close>: what its operations do to the world \<open>'w\<close> is
  arbitrary.  The callbacks of the spinning thread run at scheduling points, whenever the main
  thread sleeps or reads the clock; which ones run is again the world's choice.  A loop
  \<open>while time.monotonic() < deadline\<close> runs the number of rounds the clock leaves it, which is
  finite because the clock advances; this number is the world's choice too.
\<close>

subsection \<open>Vectors\<close>

text \<open>An elementwise operation of NumPy on two vectors; a vector of length one is repeated.\<close>

definition zip_op :: "(flt \<Rightarrow> flt \<Rightarrow> 'c) \<Rightarrow> flt list \<Rightarrow> flt list \<Rightarrow> 'c list res" where
  "zip_op f a b =
     (if length a = length b then Inr (map2 f a b)
      else if length a = 1 then Inr (map (f (hd a)) b)
      else if length b = 1 then Inr (map (\<lambda>x. f x (hd b)) a)
      else Inl (PyExc ValueError))"

definition f_of_int :: "int \<Rightarrow> flt" where
  "f_of_int n = rnd64 (of_int n)"

definition interpolate :: "flt list \<Rightarrow> flt list \<Rightarrow> flt \<Rightarrow> flt list res" where
  \<comment> \<open>\<open>start + fraction * (target - start)\<close>\<close>
  "interpolate start target fraction =
     bind_sum (zip_op f_sub target start) (\<lambda>difference. zip_op f_add start (map (f_mul fraction) difference))"

definition reciprocal :: "flt \<Rightarrow> flt" where
  \<comment> \<open>\<open>1.0 / x\<close> of a positive finite number\<close>
  "reciprocal x = (case x of Fin a \<Rightarrow> f_div_by (Fin 1) a | _ \<Rightarrow> Fin 0)"

subsection \<open>The nodes and their surroundings\<close>

type_synonym image = "nat list list list"   \<comment> \<open>rows of pixels of three bytes\<close>

datatype 'm ros_event =
    Left_joint "flt list" int     \<comment> \<open>the positions of the message and the time it is received\<close>
  | Right_joint "flt list" int
  | Left_image 'm int
  | Right_image 'm int
  | Front_image 'm int

record ('m, 'w) ros_env =
  rv_config :: ros_config
  rv_events :: "'w \<Rightarrow> 'm ros_event list \<times> 'w"
  rv_sleep :: "flt \<Rightarrow> ('w, unit) meth"
  rv_monotonic_ns :: "('w, int) meth"
  rv_polls :: "flt \<Rightarrow> ('w, nat) meth"
  rv_rgb8 :: "'m \<Rightarrow> image res"
  rv_resize :: "image \<Rightarrow> int \<Rightarrow> int \<Rightarrow> image"
  rv_float64_bytes :: "flt list \<Rightarrow> byte_list"
  rv_node :: "string \<times> string"
  rv_endpoints :: "string \<Rightarrow> ('w, (string \<times> string) list) meth"
  rv_flock :: "('w, bool) meth"     \<comment> \<open>\<open>False\<close> when another process holds the lock\<close>
  rv_publish :: "string \<Rightarrow> flt list \<Rightarrow> ('w, unit) meth"

record ('m, 'w) ros =
  ro_left_joint :: "(flt list \<times> int) option"
  ro_right_joint :: "(flt list \<times> int) option"
  ro_left_image :: "('m \<times> int) option"
  ro_right_image :: "('m \<times> int) option"
  ro_front_image :: "('m \<times> int) option"
  ro_preflight_complete :: bool
  ro_gate :: online_gate
  ax_active_skill :: "string option"
  ax_published_rows :: int
  ax_last_command :: "flt list option"
  ax_has_published :: bool
  ax_preflight_complete :: bool
  ax_lock_held :: bool
  ax_closed :: bool
  ro_sent :: "(string \<times> flt list) list"
  ro_world :: 'w

text \<open>Both constructors, with \<open>rclpy\<close> initialised by the first.\<close>

definition ros_init :: "('m, 'w) ros_env \<Rightarrow> online_gate \<Rightarrow> 'w \<Rightarrow> ('m, 'w) ros res" where
  "ros_init env gate w =
     bind_sum (ros_config_validate (rv_config env)) (\<lambda>_.
       Inr \<lparr>ro_left_joint = None, ro_right_joint = None, ro_left_image = None, ro_right_image = None,
            ro_front_image = None, ro_preflight_complete = False, ro_gate = gate, ax_active_skill = None,
            ax_published_rows = 0, ax_last_command = None, ax_has_published = False,
            ax_preflight_complete = False, ax_lock_held = False, ax_closed = False, ro_sent = [], ro_world = w\<rparr>)"

definition on_ros :: "('w, 'a) meth \<Rightarrow> (('m, 'w) ros, 'a) meth" where
  "on_ros m = (\<lambda>s. case m (ro_world s) of (r, w) \<Rightarrow> (r, s\<lparr>ro_world := w\<rparr>))"

definition on_gate :: "(online_gate, 'a) meth \<Rightarrow> (('m, 'w) ros, 'a) meth" where
  "on_gate m = (\<lambda>s. case m (ro_gate s) of (r, g) \<Rightarrow> (r, s\<lparr>ro_gate := g\<rparr>))"

subsection \<open>The callbacks\<close>

definition joint_array :: "flt list \<Rightarrow> flt list option" where
  "joint_array position =
     (let value = take 7 position in if length value \<noteq> 7 \<or> \<not> list_all is_finite value then None else Some value)"

fun deliver :: "'m ros_event \<Rightarrow> ('m, 'w) ros \<Rightarrow> ('m, 'w) ros" where
  "deliver (Left_joint position received) s =
     (case joint_array position of
        None \<Rightarrow> s
      | Some value \<Rightarrow> s\<lparr>ro_left_joint := Some (value, received), ro_gate := gate_accept ''left'' value (ro_gate s)\<rparr>)"
| "deliver (Right_joint position received) s =
     (case joint_array position of
        None \<Rightarrow> s
      | Some value \<Rightarrow> s\<lparr>ro_right_joint := Some (value, received), ro_gate := gate_accept ''right'' value (ro_gate s)\<rparr>)"
| "deliver (Left_image message received) s = s\<lparr>ro_left_image := Some (message, received)\<rparr>"
| "deliver (Right_image message received) s = s\<lparr>ro_right_image := Some (message, received)\<rparr>"
| "deliver (Front_image message received) s = s\<lparr>ro_front_image := Some (message, received)\<rparr>"

definition callbacks :: "('m, 'w) ros_env \<Rightarrow> (('m, 'w) ros, unit) meth" where
  "callbacks env =
     (\<lambda>s. case rv_events env (ro_world s) of (events, w) \<Rightarrow> (Inr (), fold deliver events (s\<lparr>ro_world := w\<rparr>)))"

definition ros_sleep :: "('m, 'w) ros_env \<Rightarrow> flt \<Rightarrow> (('m, 'w) ros, unit) meth" where
  "ros_sleep env seconds = seq_op (on_ros (rv_sleep env seconds)) (callbacks env)"

definition ros_clock :: "('m, 'w) ros_env \<Rightarrow> (('m, 'w) ros, int) meth" where
  "ros_clock env = seq_op (callbacks env) (on_ros (rv_monotonic_ns env))"

subsection \<open>Observations\<close>

definition entry_fresh :: "int \<Rightarrow> int \<Rightarrow> ('a \<times> int) option \<Rightarrow> bool" where
  "entry_fresh now maximum_age entry =
     (case entry of None \<Rightarrow> False | Some (_, t) \<Rightarrow> 0 \<le> now - t \<and> now - t \<le> maximum_age)"

definition messages_fresh :: "('m, 'w) ros_env \<Rightarrow> (('m, 'w) ros, bool) meth" where
  "messages_fresh env =
     (let arms = map snd (rc_skill_arms (rv_config env)) in
      bind_op (ros_clock env) (\<lambda>now.
      bind_op (lift_sum (py_int_of (f_mul (rc_max_message_age_sec (rv_config env)) (Fin 1000000000)))) (\<lambda>maximum_age.
      gets_op (\<lambda>s.
        entry_fresh now maximum_age (ro_left_joint s) \<and> entry_fresh now maximum_age (ro_right_joint s)
        \<and> entry_fresh now maximum_age (ro_front_image s)
        \<and> (''left'' \<in> set arms \<longrightarrow> entry_fresh now maximum_age (ro_left_image s))
        \<and> (''right'' \<in> set arms \<longrightarrow> entry_fresh now maximum_age (ro_right_image s))))))"

fun wait_fresh :: "('m, 'w) ros_env \<Rightarrow> nat \<Rightarrow> (('m, 'w) ros, unit) meth" where
  "wait_fresh env 0 = raise (err OBSERVATION_STALE ''required Agilex ROS observations are not fresh'' [])"
| "wait_fresh env (Suc n) =
     bind_op (messages_fresh env) (\<lambda>fresh.
       if fresh then modify_op (\<lambda>s. s\<lparr>ro_preflight_complete := True\<rparr>)
       else seq_op (ros_sleep env (f_round (Fin (2 / 100)))) (wait_fresh env n))"

definition observation_preflight :: "('m, 'w) ros_env \<Rightarrow> (('m, 'w) ros, unit) meth" where
  "observation_preflight env =
     bind_op (gets_op ro_preflight_complete) (\<lambda>complete.
       if complete then ret ()
       else bind_op (on_ros (rv_polls env (rc_preflight_timeout_sec (rv_config env)))) (wait_fresh env))"

text \<open>
  The image is scaled to fit a square and centred on black.  \<open>cv2.resize\<close> returns an image of the
  size it is asked for, so the assignment to the slice of the canvas is its placement when it fits.
\<close>

definition fit :: "nat \<Rightarrow> flt \<Rightarrow> int res" where
  \<comment> \<open>\<open>max(1, int(round(length * scale)))\<close>\<close>
  "fit n scale =
     (case f_mul (f_of_int (int n)) scale of
        Fin a \<Rightarrow> Inr (max 1 (round_half_even a)) | NaN \<Rightarrow> Inl (PyExc ValueError) | _ \<Rightarrow> Inl (PyExc OverflowError))"

definition letterbox :: "int \<Rightarrow> image \<Rightarrow> int \<Rightarrow> int \<Rightarrow> image" where
  "letterbox side resized width height =
     (let n = nat side; x = nat ((side - width) div 2); y = nat ((side - height) div 2);
          pixel = (\<lambda>i j. if y \<le> i \<and> i < y + nat height \<and> x \<le> j \<and> j < x + nat width
                         then resized ! (i - y) ! (j - x) else [0, 0, 0])
      in map (\<lambda>channel. map (\<lambda>i. map (\<lambda>j. pixel i j ! channel) [0..<n]) [0..<n]) [0..<3])"

definition convert_image :: "('m, 'w) ros_env \<Rightarrow> 'm \<Rightarrow> image res" where
  "convert_image env message =
     bind_sum (rv_rgb8 env message) (\<lambda>rgb.
       let side = rc_image_size (rv_config env); height = length rgb; width = length (hd rgb) in
       reject_if (height = 0 \<or> width = 0) (PyExc OtherException) (
       let scale = f_min (f_div_by (f_of_int side) (of_nat width)) (f_div_by (f_of_int side) (of_nat height)) in
       bind_sum (fit width scale) (\<lambda>resized_width.
       bind_sum (fit height scale) (\<lambda>resized_height.
       reject_if (side < resized_width \<or> side < resized_height) (PyExc ValueError)
         (Inr (letterbox side (rv_resize env rgb resized_width resized_height) resized_width resized_height))))))"

definition image_value :: "image \<Rightarrow> pyval" where
  "image_value channels =
     (let bytes = concat (concat channels) in
      PArr (NDArray \<lparr>dt_name = ''uint8'', dt_kind = CHR ''u'', dt_itemsize = 1\<rparr>
        [3, length (hd channels), length (hd channels)] (map (\<lambda>b. Fin (of_nat b)) bytes) bytes))"

definition state_value :: "('m, 'w) ros_env \<Rightarrow> flt list \<Rightarrow> pyval" where
  "state_value env position =
     PArr (NDArray \<lparr>dt_name = ''float64'', dt_kind = CHR ''f'', dt_itemsize = 8\<rparr> [length position] position
       (rv_float64_bytes env position))"

definition observation_sample :: "('m, 'w) ros_env \<Rightarrow> string \<Rightarrow> (('m, 'w) ros, observation) meth" where
  "observation_sample env skill =
     seq_op (callbacks env)
     (bind_op (gets_op id) (\<lambda>s.
      if \<not> ro_preflight_complete s
      then raise (err STATE_REJECTED ''ROS observation preflight has not completed'' [])
      else case map_of (rc_prompts (rv_config env)) skill of
        None \<Rightarrow> raise (err INVALID_FIELD_VALUE ''skill has no configured prompt'' [])
      | Some prompt \<Rightarrow>
          bind_op (lift_sum (expect (PyExc KeyError) (map_of (rc_skill_arms (rv_config env)) skill))) (\<lambda>arm.
          case (if arm = ''left'' then ro_left_joint s else ro_right_joint s,
                if arm = ''left'' then ro_left_image s else ro_right_image s, ro_front_image s) of
            (Some (joint, t1), Some (wrist, t2), Some (front, t3)) \<Rightarrow>
              lift_sum (bind_sum (convert_image env wrist) (\<lambda>cam_wrist.
                bind_sum (convert_image env front) (\<lambda>cam_high.
                Inr \<lparr>ob_payload = PDict
                       [(''state'', state_value env joint),
                        (''images'', PDict
                          [(if arm = ''left'' then ''cam_left_wrist'' else ''cam_right_wrist'', image_value cam_wrist),
                           (''cam_high'', image_value cam_high), (''cam_low'', image_value cam_high)]),
                        (''prompt'', PStr prompt)],
                     ob_captured_at = min t1 (min t2 t3)\<rparr>)))
          | _ \<Rightarrow> raise (err OBSERVATION_STALE ''required ROS observations are missing'' []))))"

definition front_rgb :: "('m, 'w) ros_env \<Rightarrow> (('m, 'w) ros, image \<times> int) meth" where
  "front_rgb env =
     seq_op (callbacks env)
     (bind_op (gets_op ro_front_image) (\<lambda>entry.
      case entry of
        None \<Rightarrow> raise (err OBSERVATION_STALE ''front camera observation is unavailable'' [])
      | Some (message, captured_at) \<Rightarrow>
          lift_sum (bind_sum (rv_rgb8 env message) (\<lambda>rgb. Inr (rgb, captured_at)))))"

definition joint_snapshot :: "(('m, 'w) ros, flt list \<times> flt list) meth" where
  "joint_snapshot =
     bind_op (gets_op (\<lambda>s. (ro_left_joint s, ro_right_joint s))) (\<lambda>entries.
       case entries of
         (Some (left, _), Some (right, _)) \<Rightarrow> ret (left, right)
       | _ \<Rightarrow> raise (PyExc RuntimeError))"

definition arm_snapshot :: "string \<Rightarrow> (('m, 'w) ros, flt list \<times> flt list) meth" where
  "arm_snapshot arm =
     bind_op joint_snapshot (\<lambda>(left, right).
       if arm = ''left'' then ret (left, right)
       else if arm = ''right'' then ret (right, left)
       else raise (PyExc ValueError))"

subsection \<open>Sending commands\<close>

definition send_command :: "('m, 'w) ros_env \<Rightarrow> string \<Rightarrow> flt list \<Rightarrow> (('m, 'w) ros, unit) meth" where
  \<comment> \<open>one message to the topic of one arm\<close>
  "send_command env side values =
     seq_op (modify_op (\<lambda>s. s\<lparr>ro_sent := ro_sent s @ [(side, values)]\<rparr>))
     (seq_op (on_ros (rv_publish env side values))
       (modify_op (\<lambda>s. s\<lparr>ax_has_published := True\<rparr>)))"

definition publish_pair :: "('m, 'w) ros_env \<Rightarrow> flt list \<Rightarrow> flt list \<Rightarrow> (('m, 'w) ros, unit) meth" where
  "publish_pair env left right = seq_op (send_command env ''left'' left) (send_command env ''right'' right)"

definition publish_controlled ::
  "('m, 'w) ros_env \<Rightarrow> string \<Rightarrow> flt list \<Rightarrow> flt list \<Rightarrow> (('m, 'w) ros, unit) meth" where
  "publish_controlled env arm command other_hold =
     (if arm = ''left'' then publish_pair env command other_hold
      else if arm = ''right'' then publish_pair env other_hold command
      else raise (PyExc ValueError))"

subsection \<open>Preflight of the executor\<close>

definition acquire_action_lock :: "('m, 'w) ros_env \<Rightarrow> (('m, 'w) ros, unit) meth" where
  "acquire_action_lock env =
     bind_op (gets_op ax_lock_held) (\<lambda>held.
       if held then ret ()
       else bind_op (on_ros (rv_flock env)) (\<lambda>acquired.
         if \<not> acquired
         then raise (err STATE_REJECTED ''another oven action executor holds the process lock'' [])
         else modify_op (\<lambda>s. s\<lparr>ax_lock_held := True\<rparr>)))"

fun external_publishers :: "('m, 'w) ros_env \<Rightarrow> string list \<Rightarrow> (('m, 'w) ros, bool) meth" where
  "external_publishers env [] = ret False"
| "external_publishers env (topic # topics) =
     bind_op (on_ros (rv_endpoints env topic)) (\<lambda>endpoints.
       if list_ex (\<lambda>endpoint. endpoint \<noteq> rv_node env) endpoints then ret True
       else external_publishers env topics)"

definition action_preflight :: "('m, 'w) ros_env \<Rightarrow> (('m, 'w) ros, unit) meth" where
  "action_preflight env =
     bind_op (gets_op ax_preflight_complete) (\<lambda>complete.
       if complete then ret ()
       else
         seq_op (observation_preflight env)
         (seq_op (acquire_action_lock env)
         (bind_op (external_publishers env
             [rc_left_command_topic (rv_config env), rc_right_command_topic (rv_config env)]) (\<lambda>present.
          if present then raise (err STATE_REJECTED ''another ROS action publisher is present'' [])
          else modify_op (\<lambda>s. s\<lparr>ax_preflight_complete := True\<rparr>)))))"

subsection \<open>Reset\<close>

definition smooth_step :: "int \<Rightarrow> int \<Rightarrow> flt" where
  "smooth_step index steps_total =
     (let fraction = f_div_by (f_of_int index) (of_int steps_total) in
      f_mul (f_mul fraction fraction) (f_sub (Fin 3) (f_mul (Fin 2) fraction)))"

fun reset_motion ::
  "('m, 'w) ros_env \<Rightarrow> string \<Rightarrow> flt list \<Rightarrow> flt list \<Rightarrow> flt list \<Rightarrow> int \<Rightarrow> int list \<Rightarrow> (('m, 'w) ros, unit) meth" where
  "reset_motion env arm start target hold steps_total [] = ret ()"
| "reset_motion env arm start target hold steps_total (index # rest) =
     bind_op (lift_sum (interpolate start target (smooth_step index steps_total))) (\<lambda>command.
     seq_op (publish_controlled env arm command hold)
     (seq_op (ros_sleep env (reciprocal (rc_publish_hz (rv_config env))))
       (reset_motion env arm start target hold steps_total rest)))"

fun reset_verify :: "('m, 'w) ros_env \<Rightarrow> string \<Rightarrow> flt list \<Rightarrow> nat \<Rightarrow> (('m, 'w) ros, unit) meth" where
  "reset_verify env arm target 0 =
     raise (err ACTION_INVALID (arm @ '' arm did not reach its configured reset target'') [])"
| "reset_verify env arm target (Suc n) =
     bind_op (arm_snapshot arm) (\<lambda>(measured, _).
     bind_op (lift_sum (zip_op f_sub measured target)) (\<lambda>errors.
       if f_le (np_max (map f_abs errors)) (rc_reset_tolerance (rv_config env)) then ret ()
       else seq_op (ros_sleep env (f_round (Fin (2 / 100)))) (reset_verify env arm target n)))"

definition reset_steps :: "ros_config \<Rightarrow> int res" where
  \<comment> \<open>\<open>max(2, int(math.ceil(duration * hz)))\<close>\<close>
  "reset_steps c =
     (case f_mul (rc_reset_duration_sec c) (rc_publish_hz c) of
        Fin a \<Rightarrow> Inr (max 2 \<lceil>a\<rceil>) | NaN \<Rightarrow> Inl (PyExc ValueError) | _ \<Rightarrow> Inl (PyExc OverflowError))"

definition action_reset :: "('m, 'w) ros_env \<Rightarrow> string \<Rightarrow> (('m, 'w) ros, unit) meth" where
  "action_reset env skill =
     (let c = rv_config env in
      seq_op (action_preflight env)
      (bind_op (lift_sum (expect (PyExc KeyError) (map_of (rc_reset_targets c) skill))) (\<lambda>target.
       bind_op (lift_sum (expect (PyExc KeyError) (map_of (rc_skill_arms c) skill))) (\<lambda>arm.
       bind_op (arm_snapshot arm) (\<lambda>(start, other_hold).
       bind_op (lift_sum (reset_steps c)) (\<lambda>steps_total.
       seq_op (reset_motion env arm start target other_hold steps_total [1..steps_total])
       (bind_op (on_ros (rv_polls env (rc_reset_verify_timeout_sec c))) (reset_verify env arm target))))))))"

subsection \<open>Publishing a chunk\<close>

definition begin_stage :: "('m, 'w) ros_env \<Rightarrow> string \<Rightarrow> (('m, 'w) ros, unit) meth" where
  "begin_stage env skill =
     seq_op (action_preflight env)
     (seq_op (on_gate (gate_begin skill))
     (bind_op (lift_sum (expect (PyExc KeyError) (map_of (rc_skill_arms (rv_config env)) skill))) (\<lambda>arm.
      bind_op (arm_snapshot arm) (\<lambda>(controlled, _).
        modify_op (\<lambda>s. s\<lparr>ax_active_skill := Some skill, ax_published_rows := 0,
                          ax_last_command := Some controlled\<rparr>)))))"

text \<open>\<open>np.linspace(0.0, 1.0, n + 1)[1:]\<close>: multiples of the step, the last one exactly 1.\<close>

definition transition_fractions :: "int \<Rightarrow> flt list" where
  "transition_fractions n =
     map (\<lambda>k. if k = n then Fin 1 else f_mul (f_of_int k) (f_div_by (Fin 1) (of_int n))) [1..n]"

fun transition_motion ::
  "('m, 'w) ros_env \<Rightarrow> string \<Rightarrow> flt list \<Rightarrow> flt list \<Rightarrow> flt list \<Rightarrow> flt list \<Rightarrow> (('m, 'w) ros, unit) meth" where
  "transition_motion env arm last_command target hold [] = ret ()"
| "transition_motion env arm last_command target hold (fraction # rest) =
     bind_op (lift_sum (interpolate last_command target fraction)) (\<lambda>command.
     seq_op (publish_controlled env arm command hold)
     (seq_op (ros_sleep env (reciprocal (rc_chunk_transition_hz (rv_config env))))
       (transition_motion env arm last_command target hold rest)))"

definition row_sent :: "flt list \<Rightarrow> ('m, 'w) ros \<Rightarrow> ('m, 'w) ros" where
  "row_sent row s = s\<lparr>ax_published_rows := ax_published_rows s + 1, ax_last_command := Some row\<rparr>"

text \<open>The gate's answer at the current row; callbacks run between its locked sections.\<close>

definition ask_gate :: "('m, 'w) ros_env \<Rightarrow> string \<Rightarrow> (('m, 'w) ros, gate_result option) meth" where
  "ask_gate env skill =
     bind_op (gets_op ax_published_rows) (reached_result ro_gate on_gate (callbacks env) skill)"

definition check_gate :: "('m, 'w) ros_env \<Rightarrow> string \<Rightarrow> int \<Rightarrow> (('m, 'w) ros, publish_result option) meth" where
  \<comment> \<open>the result that ends the publication, if the gate has been reached after \<open>rows\<close> rows of the chunk\<close>
  "check_gate env skill rows =
     bind_op (ask_gate env skill) (\<lambda>result.
       ret (case result of
              None \<Rightarrow> None
            | Some gate \<Rightarrow> Some \<lparr>pr_stop_requested = True, pr_reason = Some ''joint_rest_detected'',
                                pr_published_rows = rows, pr_gate_result = Some gate\<rparr>))"

definition exceeds :: "flt list \<Rightarrow> flt list \<Rightarrow> flt list \<Rightarrow> bool res" where
  \<comment> \<open>\<open>np.any(np.abs(row - last) > limit)\<close>\<close>
  "exceeds limit row last_command =
     bind_sum (zip_op f_sub row last_command) (\<lambda>difference.
     bind_sum (zip_op (\<lambda>d l. f_lt l d) (map f_abs difference) limit) (\<lambda>over. Inr (list_ex id over)))"

text \<open>The loop over the rows after the first; \<open>rows\<close> counts the rows of the chunk sent so far.\<close>

fun publish_rows ::
  "('m, 'w) ros_env \<Rightarrow> string \<Rightarrow> string \<Rightarrow> flt list \<Rightarrow> int \<Rightarrow> flt list \<Rightarrow> matrix \<Rightarrow> (('m, 'w) ros, publish_result) meth" where
  "publish_rows env skill arm hold rows last_command [] =
     ret \<lparr>pr_stop_requested = False, pr_reason = None, pr_published_rows = rows, pr_gate_result = None\<rparr>"
| "publish_rows env skill arm hold rows last_command (row # rest) =
     bind_op (lift_sum (exceeds (rc_max_row_delta (rv_config env)) row last_command)) (\<lambda>over.
     if over
     then raise (err ACTION_INVALID ''adjacent policy action rows exceed ROS command delta limits'' [])
     else
       seq_op (publish_controlled env arm row hold)
       (seq_op (modify_op (row_sent row))
       (seq_op (ros_sleep env (reciprocal (rc_publish_hz (rv_config env))))
       (bind_op (check_gate env skill (rows + 1)) (\<lambda>ended.
        case ended of
          Some result \<Rightarrow> ret result
        | None \<Rightarrow> publish_rows env skill arm hold (rows + 1) row rest)))))"

definition action_publish :: "('m, 'w) ros_env \<Rightarrow> matrix \<Rightarrow> (('m, 'w) ros, publish_result) meth" where
  "action_publish env actions =
     bind_op (gets_op id) (\<lambda>s.
     case (ax_preflight_complete s, ax_active_skill s, ax_last_command s) of
       (True, Some skill, Some last_command) \<Rightarrow>
         bind_op (lift_sum (expect (PyExc KeyError) (map_of (rc_skill_arms (rv_config env)) skill))) (\<lambda>arm.
         bind_op (arm_snapshot arm) (\<lambda>(_, other_hold).
         case actions of
           [] \<Rightarrow> raise (PyExc IndexError)
         | first # rest \<Rightarrow>
             seq_op (transition_motion env arm last_command first other_hold
                 (transition_fractions (rc_chunk_transition_steps (rv_config env))))
             (seq_op (modify_op (row_sent first))
             (bind_op (check_gate env skill 1) (\<lambda>ended.
              case ended of
                Some result \<Rightarrow> ret result
              | None \<Rightarrow> publish_rows env skill arm other_hold 1 first rest)))))
     | _ \<Rightarrow> raise (err STATE_REJECTED ''ROS action executor has no active stage'' []))"

subsection \<open>Stopping\<close>

definition go_idle :: "('m, 'w) ros \<Rightarrow> ('m, 'w) ros" where
  "go_idle s = s\<lparr>ax_active_skill := None, ax_last_command := None\<rparr>"

fun hold_position :: "('m, 'w) ros_env \<Rightarrow> flt list \<Rightarrow> flt list \<Rightarrow> nat \<Rightarrow> (('m, 'w) ros, unit) meth" where
  "hold_position env left right 0 = ret ()"
| "hold_position env left right (Suc n) =
     seq_op (publish_pair env left right)
     (seq_op (ros_sleep env (reciprocal (rc_publish_hz (rv_config env)))) (hold_position env left right n))"

definition action_stop :: "('m, 'w) ros_env \<Rightarrow> string \<Rightarrow> (('m, 'w) ros, unit) meth" where
  "action_stop env reason =
     seq_op (callbacks env)
     (bind_op (gets_op id) (\<lambda>s.
      if \<not> ax_preflight_complete s \<or> \<not> ax_has_published s then modify_op go_idle
      else
        (\<lambda>s. case joint_snapshot s of
           (Inr (left, right), s1) \<Rightarrow>
             seq_op (hold_position env left right (nat (rc_stop_hold_repetitions (rv_config env))))
               (modify_op (\<lambda>s. go_idle (s\<lparr>ax_has_published := False\<rparr>))) s1
         | (Inl (PyExc RuntimeError), s1) \<Rightarrow> (Inr (), go_idle (s1\<lparr>ax_has_published := False\<rparr>))
         | (Inl e, s1) \<Rightarrow> (Inl e, s1))))"

definition action_close :: "(('m, 'w) ros, unit) meth" where
  "action_close =
     modify_op (\<lambda>s. if ax_closed s then s else s\<lparr>ax_closed := True, ax_lock_held := False\<rparr>)"

subsection \<open>The nodes as the orchestrator's devices\<close>

text \<open>
  As \<open>edge/app.py\<close> wires them: the observation node samples, the action node resets, publishes
  and stops; the approval, the checker, the control client and the inference client are others'.
\<close>

definition ros_devices :: "('m, 'w) ros_env \<Rightarrow> 'w devices \<Rightarrow> ('m, 'w) ros devices" where
  "ros_devices env others =
     \<lparr>dv_approve = (\<lambda>run_id skills. on_ros (dv_approve others run_id skills)),
      dv_observation_preflight = observation_preflight env, dv_reset_preflight = action_preflight env,
      dv_executor_preflight = action_preflight env, dv_sample = observation_sample env,
      dv_observation_clock = ros_clock env, dv_clock = ros_clock env, dv_sleep = ros_sleep env,
      dv_reset = action_reset env, dv_begin_stage = begin_stage env, dv_publish = action_publish env,
      dv_stop = action_stop env, dv_check = (\<lambda>skill. on_ros (dv_check others skill)),
      dv_control = (\<lambda>c a. on_ros (dv_control others c a)), dv_infer = (\<lambda>request. on_ros (dv_infer others request))\<rparr>"

end
