(* ===== verification/Oven_RosSpec.thy ===== *)
theory Oven_RosSpec
  imports Oven_RosBridge Oven_OrchestratorSpec
begin

text \<open>
  Who may send commands to the arms: an invariant of the ROS executor under every sequence of calls,
  and the executor that is refused exclusive control.
\<close>

subsection \<open>What leaves the executor's own state alone\<close>

definition executor_part :: "('m, 'w) ros \<Rightarrow> _" where
  "executor_part s =
     (ro_sent s, ax_active_skill s, ax_published_rows s, ax_last_command s, ax_has_published s,
      ax_preflight_complete s, ax_lock_held s, ax_closed s)"

definition executor_is where
  "executor_is x s \<longleftrightarrow> executor_part s = x"

lemma deliver_executor [simp]: "executor_part (deliver e s) = executor_part s"
  by (cases e) (auto simp: executor_part_def split: option.split)

lemma fold_deliver_executor [simp]: "executor_part (fold deliver es s) = executor_part s"
  by (induction es arbitrary: s) simp_all

lemma executor_part_updates [simp]:
  "executor_part (s\<lparr>ro_world := w\<rparr>) = executor_part s" "executor_part (s\<lparr>ro_gate := g\<rparr>) = executor_part s"
  "executor_part (s\<lparr>ro_preflight_complete := b\<rparr>) = executor_part s"
  by (simp_all add: executor_part_def)

lemma keeps_callbacks: "keeps (executor_is x) (callbacks env)"
  by (rule keepsI) (simp add: callbacks_def executor_is_def split: prod.split)

lemma keeps_on_ros: "keeps (executor_is x) (on_ros m)"
  by (rule keepsI) (simp add: on_ros_def executor_is_def split: prod.split)

lemma keeps_on_gate: "keeps (executor_is x) (on_gate m)"
  by (rule keepsI) (simp add: on_gate_def executor_is_def split: prod.split)

lemma keeps_ros_sleep: "keeps (executor_is x) (ros_sleep env t)"
  unfolding ros_sleep_def by (intro keeps_seq keeps_on_ros keeps_callbacks)

lemma keeps_ros_clock: "keeps (executor_is x) (ros_clock env)"
  unfolding ros_clock_def by (intro keeps_seq keeps_on_ros keeps_callbacks)

lemma keeps_messages_fresh: "keeps (executor_is x) (messages_fresh env)"
  unfolding messages_fresh_def Let_def by (intro keeps_bind keeps_ros_clock keeps_lift_sum keeps_gets)

lemma keeps_preflight_flag: "keeps (executor_is x) (modify_op (\<lambda>s. s\<lparr>ro_preflight_complete := b\<rparr>))"
  by (rule keeps_modify) (simp add: executor_is_def)

lemma keeps_wait_fresh: "keeps (executor_is x) (wait_fresh env n)"
  by (induction n)
    (auto intro!: keeps_raise keeps_bind keeps_messages_fresh keeps_preflight_flag keeps_seq keeps_ros_sleep)

lemma keeps_observation_preflight: "keeps (executor_is x) (observation_preflight env)"
  unfolding observation_preflight_def
  by (intro keeps_bind keeps_gets keeps_if keeps_ret keeps_on_ros keeps_wait_fresh)

lemma keeps_observation_sample: "keeps (executor_is x) (observation_sample env skill)"
  unfolding observation_sample_def
  by (intro keeps_seq keeps_callbacks keeps_bind keeps_gets keeps_if keeps_raise)
    (auto intro!: keeps_bind keeps_lift_sum keeps_raise split: option.split)

lemma arm_snapshot_state: "snd (arm_snapshot arm s) = s"
  by (auto simp: arm_snapshot_def joint_snapshot_def op_simps split: option.split prod.split)

lemma keeps_arm_snapshot: "keeps Q (arm_snapshot arm)"
  by (simp add: keeps_def arm_snapshot_state)

lemma keeps_reached_result:
  "keeps (executor_is x) (reached_result ro_gate on_gate (callbacks env) skill n)"
proof -
  have "keeps (executor_is x) (\<lambda>s. (snapshot skill (ro_gate s), s))" by (rule keepsI) simp
  then show ?thesis
    unfolding reached_result_def
    by (intro keeps_bind keeps_gets keeps_if keeps_ret keeps_seq keeps_callbacks keeps_on_gate)
qed

lemma keeps_check_gate: "keeps (executor_is x) (check_gate env skill rows)"
  unfolding check_gate_def ask_gate_def
  by (intro keeps_bind keeps_gets keeps_reached_result keeps_ret)

lemma keeps_external_publishers: "keeps (executor_is x) (external_publishers env topics)"
  by (induction topics) (auto intro!: keeps_bind keeps_on_ros keeps_ret)

text \<open>Consequences for predicates that look only at the executor's part.\<close>

lemma keeps_executor:
  assumes "\<And>x. keeps (executor_is x) m" and "\<And>s s'. executor_part s = executor_part s' \<Longrightarrow> Q s \<Longrightarrow> Q s'"
  shows "keeps Q m"
proof
  fix s assume "Q s"
  moreover have "executor_part (snd (m s)) = executor_part s"
    using keepsD [OF assms(1) [of "executor_part s"], of s] by (simp add: executor_is_def)
  ultimately show "Q (snd (m s))" using assms(2) by metis
qed

subsection \<open>Who may send\<close>

text \<open>
  An executor that has not completed its preflight has sent nothing and has no active stage; a
  completed preflight means the process lock, unless (where \<open>b\<close> allows for it) the executor has been
  closed since: \<open>close\<close> gives the lock up and leaves the preflight complete.
\<close>

definition exclusive :: "bool \<Rightarrow> ('m, 'w) ros \<Rightarrow> bool" where
  "exclusive b s \<longleftrightarrow>
     (ax_preflight_complete s \<longrightarrow> ax_lock_held s \<or> b \<and> ax_closed s)
     \<and> (\<not> ax_preflight_complete s \<longrightarrow> ro_sent s = [] \<and> ax_active_skill s = None)"

definition cleared :: "bool \<Rightarrow> ('m, 'w) ros \<Rightarrow> bool" where
  "cleared b s \<longleftrightarrow> ax_preflight_complete s \<and> (ax_lock_held s \<or> b \<and> ax_closed s)"

lemma exclusive_executor: "executor_part s = executor_part s' \<Longrightarrow> exclusive b s \<Longrightarrow> exclusive b s'"
  by (simp add: exclusive_def executor_part_def)

lemma cleared_executor: "executor_part s = executor_part s' \<Longrightarrow> cleared b s \<Longrightarrow> cleared b s'"
  by (simp add: cleared_def executor_part_def)

lemma exclusive_keeps: "(\<And>x. keeps (executor_is x) m) \<Longrightarrow> keeps (exclusive b) m"
  by (rule keeps_executor [OF _ exclusive_executor])

lemma cleared_keeps: "(\<And>x. keeps (executor_is x) m) \<Longrightarrow> keeps (cleared b) m"
  by (rule keeps_executor [OF _ cleared_executor])

lemma cleared_exclusive: "cleared b s \<Longrightarrow> exclusive b s"
  by (simp add: cleared_def exclusive_def)

lemmas cleared_sleep = cleared_keeps [OF keeps_ros_sleep]

lemma cleared_row_sent: "keeps (cleared b) (modify_op (row_sent row))"
  by (rule keeps_modify) (simp add: cleared_def row_sent_def)

lemma keeps_send_command: "keeps (cleared b) (send_command env side values)"
  unfolding send_command_def
  by (intro keeps_seq keeps_modify cleared_keeps keeps_on_ros) (simp_all add: cleared_def)

lemma keeps_publish_controlled: "keeps (cleared b) (publish_controlled env arm command hold)"
  unfolding publish_controlled_def publish_pair_def by (intro keeps_if keeps_seq keeps_send_command keeps_raise)

lemma keeps_transition_motion: "keeps (cleared b) (transition_motion env arm last_command target hold fractions)"
  by (induction fractions)
    (auto intro!: keeps_ret keeps_bind keeps_lift_sum keeps_seq keeps_publish_controlled cleared_sleep)

lemma keeps_reset_motion: "keeps (cleared b) (reset_motion env arm start target hold n indices)"
  by (induction indices)
    (auto intro!: keeps_ret keeps_bind keeps_lift_sum keeps_seq keeps_publish_controlled cleared_sleep)

lemma keeps_reset_verify: "keeps (cleared b) (reset_verify env arm target n)"
  by (induction n)
    (auto intro!: keeps_raise keeps_ret keeps_bind keeps_arm_snapshot keeps_lift_sum keeps_seq cleared_sleep)

lemma keeps_publish_rows: "keeps (cleared b) (publish_rows env skill arm hold rows last_command rest)"
proof (induction rest arbitrary: rows last_command)
  case (Cons row rest)
  show ?case
    by (auto intro!: keeps_bind keeps_lift_sum keeps_raise keeps_seq keeps_publish_controlled cleared_row_sent
        cleared_sleep cleared_keeps [OF keeps_check_gate] keeps_ret Cons split: option.split)
qed (simp add: keeps_ret)

lemma keeps_hold_position: "keeps (cleared b) (hold_position env left right n)"
  by (induction n)
    (auto intro!: keeps_ret keeps_seq keeps_send_command cleared_sleep simp: publish_pair_def)

text \<open>What follows a preflight starts from a cleared executor.\<close>

lemma bind_guarded:
  assumes "keeps P m" and "\<And>s x s'. P s \<Longrightarrow> m s = (Inr x, s') \<Longrightarrow> P (snd (f x s'))"
  shows "keeps P (bind_op m f)"
proof
  fix s assume s: "P s"
  obtain r s' where m: "m s = (r, s')" by fastforce
  with keepsD [OF assms(1) s] assms(2) [OF s] show "P (snd (bind_op m f s))"
    by (cases r) (simp_all add: bind_op_apply)
qed

lemma seq_guarded:
  "keeps P m \<Longrightarrow> (\<And>s x s'. P s \<Longrightarrow> m s = (Inr x, s') \<Longrightarrow> P (snd (k s'))) \<Longrightarrow> keeps P (seq_op m k)"
  unfolding seq_op_def by (rule bind_guarded)

lemma acquire_action_lock_exclusive: "keeps (exclusive b) (acquire_action_lock env)"
  unfolding acquire_action_lock_def
  by (intro keeps_bind keeps_gets keeps_if keeps_ret keeps_raise exclusive_keeps [OF keeps_on_ros] keeps_modify)
    (auto simp: exclusive_def)

lemma acquire_action_lock_held: "acquire_action_lock env s = (Inr x, s') \<Longrightarrow> ax_lock_held s'"
  by (auto simp: acquire_action_lock_def op_Inr gets_op_apply ret_apply modify_op_apply raise_apply split: if_splits)

definition locked_exclusive :: "bool \<Rightarrow> ('m, 'w) ros \<Rightarrow> bool" where
  "locked_exclusive b s \<longleftrightarrow> exclusive b s \<and> ax_lock_held s"

lemma action_preflight_exclusive: "keeps (exclusive b) (action_preflight env)"
proof -
  let ?topics = "[rc_left_command_topic (rv_config env), rc_right_command_topic (rv_config env)]"
  let ?rest = "bind_op (external_publishers env ?topics) (\<lambda>present.
          if present then raise (err STATE_REJECTED ''another ROS action publisher is present'' [])
          else modify_op (\<lambda>s. s\<lparr>ax_preflight_complete := True\<rparr>))"
  have "keeps (locked_exclusive b) (external_publishers env ?topics)"
    by (rule keeps_executor [OF keeps_external_publishers])
      (auto simp: locked_exclusive_def exclusive_def executor_part_def)
  moreover have "keeps (locked_exclusive b) (modify_op (\<lambda>s. s\<lparr>ax_preflight_complete := True\<rparr>))"
    by (rule keeps_modify) (auto simp: locked_exclusive_def exclusive_def)
  ultimately have rest: "keeps (locked_exclusive b) ?rest" by (intro keeps_bind keeps_if keeps_raise)
  have "keeps (exclusive b) (seq_op (acquire_action_lock env) ?rest)"
  proof (rule seq_guarded [OF acquire_action_lock_exclusive])
    fix s x s' assume s: "exclusive b s" and m: "acquire_action_lock env s = (Inr x, s')"
    with keepsD [OF acquire_action_lock_exclusive s, of env] acquire_action_lock_held [OF m]
    have "locked_exclusive b s'" by (simp add: locked_exclusive_def)
    from keepsD [OF rest this] show "exclusive b (snd (?rest s'))" by (simp add: locked_exclusive_def)
  qed
  then show ?thesis
    unfolding action_preflight_def
    by (intro keeps_bind [OF keeps_gets] keeps_if keeps_ret keeps_seq [OF exclusive_keeps [OF keeps_observation_preflight]])
qed

lemma action_preflight_complete:
  "action_preflight env s = (Inr x, s') \<Longrightarrow> ax_preflight_complete s'"
  by (auto simp: action_preflight_def op_Inr gets_op_apply ret_apply modify_op_apply raise_apply split: if_splits)

lemma action_preflight_cleared:
  assumes "exclusive b s" and "action_preflight env s = (Inr x, s')"
  shows "cleared b s'"
  using keepsD [OF action_preflight_exclusive assms(1), of env] action_preflight_complete [OF assms(2)] assms(2)
  by (simp add: cleared_def exclusive_def)

lemma after_preflight:
  assumes "keeps (cleared b) k"
  shows "keeps (exclusive b) (seq_op (action_preflight env) k)"
proof (rule seq_guarded [OF action_preflight_exclusive])
  fix s x s' assume "exclusive b s" "action_preflight env s = (Inr x, s')"
  then have "cleared b s'" by (rule action_preflight_cleared)
  with assms show "exclusive b (snd (k s'))" by (auto intro: cleared_exclusive dest: keepsD)
qed

lemma action_reset_exclusive: "keeps (exclusive b) (action_reset env skill)"
  unfolding action_reset_def Let_def
  by (rule after_preflight)
    (auto intro!: keeps_bind keeps_lift_sum keeps_arm_snapshot keeps_seq keeps_reset_motion keeps_reset_verify
      cleared_keeps [OF keeps_on_ros])

lemma begin_stage_exclusive: "keeps (exclusive b) (begin_stage env skill)"
  unfolding begin_stage_def
  by (rule after_preflight)
    (auto intro!: keeps_bind keeps_lift_sum keeps_arm_snapshot keeps_seq cleared_keeps [OF keeps_on_gate] keeps_modify
      simp: cleared_def)

lemma action_publish_exclusive:
  fixes env :: "('m, 'w) ros_env"
  shows "keeps (exclusive b) (action_publish env actions)"
proof
  fix s :: "('m, 'w) ros" assume s: "exclusive b s"
  show "exclusive b (snd (action_publish env actions s))"
  proof (cases "ax_preflight_complete s")
    case False
    with s show ?thesis by (auto simp: action_publish_def op_simps)
  next
    case True
    with s have "cleared b s" by (simp add: cleared_def exclusive_def)
    moreover have "keeps (cleared b) (action_publish env actions)"
      unfolding action_publish_def
      by (intro keeps_bind keeps_gets)
        (auto intro!: keeps_bind keeps_lift_sum keeps_arm_snapshot keeps_raise keeps_seq keeps_transition_motion
          cleared_row_sent cleared_keeps [OF keeps_check_gate] keeps_ret keeps_publish_rows
          split: option.split list.split bool.split)
    ultimately show ?thesis by (auto intro: cleared_exclusive dest: keepsD)
  qed
qed

lemma action_stop_apply:
  "action_stop env reason s =
     (let s1 = snd (callbacks env s) in
      if \<not> ax_preflight_complete s1 \<or> \<not> ax_has_published s1 then (Inr (), go_idle s1)
      else case (ro_left_joint s1, ro_right_joint s1) of
        (Some (left, t), Some (right, u)) \<Rightarrow>
          seq_op (hold_position env left right (nat (rc_stop_hold_repetitions (rv_config env))))
            (modify_op (\<lambda>s. go_idle (s\<lparr>ax_has_published := False\<rparr>))) s1
      | _ \<Rightarrow> (Inr (), go_idle (s1\<lparr>ax_has_published := False\<rparr>)))"
  by (auto simp: action_stop_def callbacks_def joint_snapshot_def op_simps Let_def split: prod.split option.split)

lemma go_idle_exclusive: "exclusive b s \<Longrightarrow> exclusive b (go_idle (s\<lparr>ax_has_published := False\<rparr>))"
  "exclusive b s \<Longrightarrow> exclusive b (go_idle s)" "cleared b s \<Longrightarrow> cleared b (go_idle (s\<lparr>ax_has_published := False\<rparr>))"
  by (simp_all add: exclusive_def cleared_def go_idle_def)

lemma action_stop_exclusive:
  fixes env :: "('m, 'w) ros_env"
  shows "keeps (exclusive b) (action_stop env reason)"
proof
  fix s :: "('m, 'w) ros" assume "exclusive b s"
  then have s1: "exclusive b (snd (callbacks env s))"
    by (rule keepsD [OF exclusive_keeps [OF keeps_callbacks]])
  have stop: "keeps (cleared b) (seq_op (hold_position env left right n) (modify_op (\<lambda>s. go_idle (s\<lparr>ax_has_published := False\<rparr>))))"
    for left right n
    by (intro keeps_seq keeps_hold_position keeps_modify go_idle_exclusive)
  have hold: "exclusive b (snd (seq_op (hold_position env left right n)
      (modify_op (\<lambda>s. go_idle (s\<lparr>ax_has_published := False\<rparr>))) (snd (callbacks env s))))"
    if "ax_preflight_complete (snd (callbacks env s))" for left right n
  proof (rule cleared_exclusive, rule keepsD [OF stop])
    show "cleared b (snd (callbacks env s))" using that s1 by (simp add: cleared_def exclusive_def)
  qed
  show "exclusive b (snd (action_stop env reason s))"
  proof (cases "ax_preflight_complete (snd (callbacks env s)) \<and> ax_has_published (snd (callbacks env s))")
    case True
    with s1 hold show ?thesis
      by (auto simp: action_stop_apply Let_def go_idle_exclusive split: option.split)
  next
    case False
    with s1 show ?thesis by (auto simp: action_stop_apply Let_def go_idle_exclusive)
  qed
qed

text \<open>The methods of the two nodes as a machine.\<close>

datatype ros_call =
    Ros_sample string
  | Ros_clock
  | Ros_observation_preflight
  | Ros_action_preflight
  | Ros_reset string
  | Ros_begin_stage string
  | Ros_publish matrix
  | Ros_stop string
  | Ros_close

fun ros_step :: "('m, 'w) ros_env \<Rightarrow> ros_call \<Rightarrow> (('m, 'w) ros, unit) meth" where
  "ros_step env (Ros_sample skill) = map_op (\<lambda>_. ()) (observation_sample env skill)"
| "ros_step env Ros_clock = map_op (\<lambda>_. ()) (ros_clock env)"
| "ros_step env Ros_observation_preflight = observation_preflight env"
| "ros_step env Ros_action_preflight = action_preflight env"
| "ros_step env (Ros_reset skill) = action_reset env skill"
| "ros_step env (Ros_begin_stage skill) = begin_stage env skill"
| "ros_step env (Ros_publish actions) = map_op (\<lambda>_. ()) (action_publish env actions)"
| "ros_step env (Ros_stop reason) = action_stop env reason"
| "ros_step env Ros_close = action_close"

lemma action_close_exclusive: "keeps (exclusive True) action_close"
  unfolding action_close_def by (rule keeps_modify) (auto simp: exclusive_def)

lemma ros_step_exclusive: "b \<or> c \<noteq> Ros_close \<Longrightarrow> keeps (exclusive b) (ros_step env c)"
  by (cases c)
    (auto intro: exclusive_keeps [OF keeps_observation_sample] exclusive_keeps [OF keeps_ros_clock]
      exclusive_keeps [OF keeps_observation_preflight] action_preflight_exclusive action_reset_exclusive
      begin_stage_exclusive action_publish_exclusive action_stop_exclusive action_close_exclusive)

interpretation ros_machine: invariant_machine "ros_step env" "exclusive True" for env
  by unfold_locales (rule keepsD [OF ros_step_exclusive], simp)

lemma run_without_close:
  "Ros_close \<notin> set calls \<Longrightarrow> exclusive b s \<Longrightarrow> exclusive b (run_ops (ros_step env) calls s)"
proof (induction calls arbitrary: s)
  case (Cons c calls)
  then have "exclusive b (snd (ros_step env c s))"
    by (intro keepsD [OF ros_step_exclusive]) auto
  with Cons show ?case by simp
qed simp

text \<open>An executor that is refused the lock, or always finds another publisher, never gets past its preflight.\<close>

definition refused :: "('m, 'w) ros_env \<Rightarrow> bool" where
  "refused env \<longleftrightarrow>
     (\<forall>w. fst (rv_flock env w) \<noteq> Inr True)
     \<or> (\<forall>topic w endpoints. fst (rv_endpoints env topic w) = Inr endpoints \<longrightarrow> (\<exists>e \<in> set endpoints. e \<noteq> rv_node env))"

definition powerless :: "('m, 'w) ros_env \<Rightarrow> ('m, 'w) ros \<Rightarrow> bool" where
  "powerless env s \<longleftrightarrow>
     ro_sent s = [] \<and> \<not> ax_preflight_complete s \<and> ax_active_skill s = None
     \<and> ((\<forall>w. fst (rv_flock env w) \<noteq> Inr True) \<longrightarrow> \<not> ax_lock_held s)"

lemma powerless_keeps: "(\<And>x. keeps (executor_is x) m) \<Longrightarrow> keeps (powerless env) m"
  by (rule keeps_executor) (auto simp: powerless_def executor_part_def)

lemma external_publishers_foreign:
  assumes "\<forall>topic w endpoints. fst (rv_endpoints env topic w) = Inr endpoints \<longrightarrow> (\<exists>e \<in> set endpoints. e \<noteq> rv_node env)"
  shows "fst (external_publishers env (t # ts) s) \<noteq> Inr False"
proof -
  obtain r w where e: "rv_endpoints env t (ro_world s) = (r, w)" by fastforce
  with assms [rule_format, of t "ro_world s"] show ?thesis
    by (cases r) (auto simp: on_ros_def op_simps list_ex_iff)
qed

lemma action_preflight_refused:
  fixes env :: "('m, 'w) ros_env" and s :: "('m, 'w) ros"
  assumes "refused env" and "powerless env s" and "action_preflight env s = (r, s')"
  shows "powerless env s'" and "\<exists>e. r = Inl e"
proof -
  let ?topics = "[rc_left_command_topic (rv_config env), rc_right_command_topic (rv_config env)]"
  obtain r1 s1 where obs: "observation_preflight env s = (r1, s1)" by fastforce
  have p1: "powerless env s1"
    using keepsD [OF powerless_keeps [OF keeps_observation_preflight] assms(2), of env] obs by simp
  obtain r2 s2 where lock: "acquire_action_lock env s1 = (r2, s2)" by fastforce
  have p2: "powerless env s2 \<and> ((\<forall>w. fst (rv_flock env w) \<noteq> Inr True) \<longrightarrow> (\<exists>e. r2 = Inl e))"
  proof (cases "ax_lock_held s1")
    case True
    with p1 lock show ?thesis by (auto simp: acquire_action_lock_def op_simps powerless_def)
  next
    case False
    obtain x w where fl: "rv_flock env (ro_world s1) = (x, w)" by fastforce
    have "x \<noteq> Inr True" if "\<forall>w. fst (rv_flock env w) \<noteq> Inr True"
      using spec [OF that, of "ro_world s1"] fl by simp
    with p1 lock False fl show ?thesis
      by (cases x) (auto simp: acquire_action_lock_def op_simps on_ros_def powerless_def split: if_splits)
  qed
  obtain r3 s3 where ext: "external_publishers env ?topics s2 = (r3, s3)" by fastforce
  have p3: "powerless env s3"
    using keepsD [OF powerless_keeps [OF keeps_external_publishers], of env s2 env ?topics] p2 ext by simp
  have "r3 \<noteq> Inr False" if "\<not> (\<forall>w. fst (rv_flock env w) \<noteq> Inr True)"
  proof -
    from that assms(1) have "\<forall>topic w endpoints. fst (rv_endpoints env topic w) = Inr endpoints \<longrightarrow>
        (\<exists>e \<in> set endpoints. e \<noteq> rv_node env)"
      unfolding refused_def by (elim disjE) (rule notE)
    from external_publishers_foreign [OF this, of "rc_left_command_topic (rv_config env)"
        "[rc_right_command_topic (rv_config env)]" s2] ext
    show ?thesis by simp
  qed
  moreover from assms(2) have "\<not> ax_preflight_complete s" by (simp add: powerless_def)
  ultimately show "powerless env s'" "\<exists>e. r = Inl e"
    using assms(3) obs lock ext p1 p2 p3
    by (auto simp: action_preflight_def op_simps split: sum.splits if_splits)
qed

lemma seq_refused:
  assumes "refused env"
  shows "keeps (powerless env) (seq_op (action_preflight env) k)"
proof
  fix s assume s: "powerless env s"
  obtain r s' where run: "action_preflight env s = (r, s')" by fastforce
  with action_preflight_refused [OF assms s run] show "powerless env (snd (seq_op (action_preflight env) k s))"
    by (auto simp: op_simps)
qed

lemma ros_step_refused:
  assumes "refused env"
  shows "keeps (powerless env) (ros_step env c)"
proof (cases c)
  case Ros_action_preflight
  have "keeps (powerless env) (action_preflight env)"
    by (rule keepsI) (metis action_preflight_refused(1) [OF assms] prod.collapse)
  with Ros_action_preflight show ?thesis by simp
next
  case (Ros_publish actions)
  have "keeps (powerless env) (action_publish env actions)"
    by (rule keepsI) (auto simp: action_publish_def op_simps powerless_def)
  with Ros_publish show ?thesis by simp
next
  case (Ros_stop reason)
  have "keeps (powerless env) (action_stop env reason)"
  proof
    fix s assume "powerless env s"
    then have "powerless env (snd (callbacks env s))" by (rule keepsD [OF powerless_keeps [OF keeps_callbacks]])
    then show "powerless env (snd (action_stop env reason s))"
      by (simp add: action_stop_apply Let_def powerless_def go_idle_def)
  qed
  with Ros_stop show ?thesis by simp
next
  case Ros_close
  have "keeps (powerless env) action_close"
    unfolding action_close_def by (rule keeps_modify) (simp add: powerless_def)
  with Ros_close show ?thesis by simp
qed (simp_all add: powerless_keeps keeps_observation_sample keeps_ros_clock keeps_observation_preflight
    action_reset_def begin_stage_def Let_def seq_refused [OF assms])

text \<open>A bridge for evaluation: the world is the list of the events the next scheduling points deliver.\<close>

definition demo_ros_config :: ros_config where
  "demo_ros_config =
     \<lparr>rc_prompts = [(''open_door'', ''open'')], rc_reset_targets = [(''open_door'', replicate 7 (Fin 0))],
      rc_skill_arms = [(''open_door'', ''left'')], rc_lock_directory = ''/locks'', rc_left_joint_topic = ''jl'',
      rc_right_joint_topic = ''jr'', rc_left_command_topic = ''cl'', rc_right_command_topic = ''cr'',
      rc_left_camera_topic = ''vl'', rc_right_camera_topic = ''vr'', rc_front_camera_topic = ''vf'',
      rc_image_size = 4, rc_max_message_age_sec = Fin 1, rc_preflight_timeout_sec = Fin 1, rc_publish_hz = Fin 1,
      rc_chunk_transition_steps = 1, rc_chunk_transition_hz = Fin 1, rc_max_row_delta = replicate 7 (Fin 1),
      rc_reset_duration_sec = Fin 1, rc_reset_tolerance = Fin 1, rc_reset_verify_timeout_sec = Fin 1,
      rc_stop_hold_repetitions = 1\<rparr>"

definition demo_ros_env :: "bool \<Rightarrow> (unit, unit ros_event list list) ros_env" where
  "demo_ros_env locked =
     \<lparr>rv_config = demo_ros_config,
      rv_events = (\<lambda>w. case w of [] \<Rightarrow> ([], []) | events # w' \<Rightarrow> (events, w')),
      rv_sleep = (\<lambda>_. ret ()), rv_monotonic_ns = ret 5, rv_polls = (\<lambda>_. ret 1), rv_rgb8 = (\<lambda>_. Inr [[[1, 2, 3]]]),
      rv_resize = (\<lambda>_ width height. replicate (nat height) (replicate (nat width) [1, 2, 3])),
      rv_float64_bytes = (\<lambda>_. []), rv_node = (''oven_action_executor'', ''/''),
      rv_endpoints = (\<lambda>_. ret [(''oven_action_executor'', ''/'')]), rv_flock = ret (\<not> locked),
      rv_publish = (\<lambda>_ _. ret ())\<rparr>"

definition demo_events :: "unit ros_event list list" where
  "demo_events =
     [[Left_joint (replicate 8 (Fin 0)) 1, Right_joint (replicate 7 (Fin 0)) 2, Left_image () 3, Front_image () 4]]"

definition demo_ros_gate :: online_gate where
  "demo_ros_gate =
     \<lparr>og_profiles = [(''open_door'',
          \<lparr>jp_arm = ''left'', jp_targets = [replicate 7 (Fin 0)], jp_check_indices = [1], jp_tolerance = [Fin 1],
           jp_departure_threshold = Fin 1, jp_min_publish_step = 1, jp_window_samples = 1, jp_max_spread = Fin 1,
           jp_arming_indices = [], jp_arming_min_abs_position = []\<rparr>)],
      og_maxlen = 1, og_samples = [], og_skill = None, og_departed = False, og_armed = False\<rparr>"

definition demo_ros :: "bool \<Rightarrow> (unit, unit ros_event list list) ros" where
  "demo_ros locked = projr (ros_init (demo_ros_env locked) demo_ros_gate demo_events)"

definition demo_row :: "flt list" where
  "demo_row = replicate 7 (Fin 0)"

lemma demo_floats: "rnd64 0 = Fin 0" "rnd64 1 = Fin 1" "rnd64 1000000000 = Fin 1000000000"
  using rnd64_of_int [of 0] rnd64_of_int [of 1] rnd64_of_int [of 1000000000] by simp_all

lemma replicate_seven: "replicate 7 x = [x, x, x, x, x, x, x]"
  by (simp add: eval_nat_numeral)

lemmas demo_ros_defs =
  demo_ros_def demo_ros_env_def demo_ros_config_def demo_ros_gate_def demo_events_def demo_row_def
  ros_init_def ros_config_validate_def ros_scalar_limits_def demo_floats replicate_seven

lemmas ros_eval = op_simps observation_preflight_def on_ros_def messages_fresh_def ros_clock_def callbacks_def
  py_int_of_def trunc_rat_def joint_array_def gate_accept_def acquire_action_lock_def entry_fresh_def
  action_preflight_def begin_stage_def on_gate_def gate_begin_def arm_snapshot_def joint_snapshot_def
  action_publish_def transition_fractions_def interpolate_def zip_op_def f_sub_def f_of_int_def
  publish_controlled_def publish_pair_def send_command_def ros_sleep_def reciprocal_def row_sent_def
  check_gate_def ask_gate_def reached_result_def reached_section_def snapshot_def profile_arrays_def positive_def joint_indices_ok_def list_all_iff

lemma demo_ros_init: "ros_init (demo_ros_env locked) demo_ros_gate demo_events = Inr (demo_ros locked)"
  by (simp add: demo_ros_defs)

text \<open>
  C28. Commands need exclusive control of the arms.  Whatever is called, in whatever order, a
  command has been sent only if the executor completed its preflight; and then it holds the process
  lock, unless it has been closed: \<open>close\<close> gives the lock up and nothing in the executor refuses a
  publication after it.  An executor that is refused the lock, or that finds another publisher on
  the command topics, never sends anything, closed or not.
\<close>

theorem commands_need_exclusive_control:
  assumes "ros_init env gate w = Inr s"
  shows "(ro_sent (run_ops (ros_step env) calls s) \<noteq> [] \<longrightarrow>
      ax_preflight_complete (run_ops (ros_step env) calls s)
      \<and> (ax_lock_held (run_ops (ros_step env) calls s)
         \<or> Ros_close \<in> set calls \<and> ax_closed (run_ops (ros_step env) calls s)))
    \<and> (refused env \<longrightarrow> ro_sent (run_ops (ros_step env) calls s) = [])"
proof -
  from assms have init: "exclusive b s" "powerless env s" for b
    by (auto simp: ros_init_def exclusive_def powerless_def bind_sum_eq_Inr)
  have "exclusive True (run_ops (ros_step env) calls s)" using init(1) by (rule ros_machine.run_inv)
  moreover have "exclusive False (run_ops (ros_step env) calls s)" if "Ros_close \<notin> set calls"
    by (rule run_without_close [OF that init(1)])
  moreover have "powerless env (run_ops (ros_step env) calls s)" if "refused env"
    using init(2) by (induction calls arbitrary: s) (auto intro: keepsD [OF ros_step_refused [OF that]])
  ultimately show ?thesis by (auto simp: exclusive_def powerless_def)
qed

theorem commands_need_exclusive_control_witness:
  "ro_sent (run_ops (ros_step (demo_ros_env False))
       [Ros_action_preflight, Ros_begin_stage ''open_door'', Ros_publish [demo_row]] (demo_ros False)) =
     [(''left'', demo_row), (''right'', demo_row)]
   \<and> ax_lock_held (run_ops (ros_step (demo_ros_env False))
       [Ros_action_preflight, Ros_begin_stage ''open_door'', Ros_publish [demo_row]] (demo_ros False))
   \<and> ro_sent (run_ops (ros_step (demo_ros_env True))
       [Ros_action_preflight, Ros_begin_stage ''open_door'', Ros_publish [demo_row]] (demo_ros True)) = []"
proof -
  let ?calls = "[Ros_action_preflight, Ros_begin_stage ''open_door'', Ros_publish [demo_row]]"
  have "ro_sent (run_ops (ros_step (demo_ros_env False)) ?calls (demo_ros False)) =
     [(''left'', demo_row), (''right'', demo_row)]"
    by (simp add: ros_eval demo_ros_defs)
  moreover have "refused (demo_ros_env True)" by (simp add: refused_def demo_ros_env_def ret_apply)
  ultimately show ?thesis
    using commands_need_exclusive_control [OF demo_ros_init [of False], of ?calls]
      commands_need_exclusive_control [OF demo_ros_init [of True], of ?calls] by simp
qed

end
