(* ===== verification/Oven_RosChunk.thy ===== *)
theory Oven_RosChunk
  imports Oven_RosSpec Oven_SafeStop Oven_RolloutSpec
begin

text \<open>
  What a chunk sends to the arms, how many rows it counts, and what a stop leaves.  The last section
  puts the executor under the orchestrator.
\<close>

subsection \<open>What a chunk sends\<close>

text \<open>
  \<open>sends arm hold vs s s'\<close>: between the two states the executor sent \<open>vs\<close> to the controlled arm, and
  to the other arm nothing but \<open>hold\<close>.
\<close>

definition other_arm :: "string \<Rightarrow> string" where
  "other_arm arm = (if arm = ''left'' then ''right'' else ''left'')"

definition side_values :: "string \<Rightarrow> (string \<times> flt list) list \<Rightarrow> flt list list" where
  "side_values side msgs = map snd (filter (\<lambda>m. fst m = side) msgs)"

definition sends :: "string \<Rightarrow> flt list \<Rightarrow> flt list list \<Rightarrow> ('m, 'w) ros \<Rightarrow> ('m, 'w) ros \<Rightarrow> bool" where
  "sends arm hold vs s s' \<longleftrightarrow>
     (\<exists>msgs. ro_sent s' = ro_sent s @ msgs \<and> side_values arm msgs = vs
       \<and> set (side_values (other_arm arm) msgs) \<subseteq> {hold} \<and> fst ` set msgs \<subseteq> {''left'', ''right''})"

lemma sends_refl: "executor_part s' = executor_part s \<Longrightarrow> sends arm hold [] s s'"
  by (auto simp: sends_def side_values_def executor_part_def)

lemma sends_trans: "sends arm hold vs s s1 \<Longrightarrow> sends arm hold ws s1 s2 \<Longrightarrow> sends arm hold (vs @ ws) s s2"
  unfolding sends_def
proof (elim exE conjE)
  fix a b
  assume "ro_sent s1 = ro_sent s @ a" "side_values arm a = vs" "set (side_values (other_arm arm) a) \<subseteq> {hold}"
    "fst ` set a \<subseteq> {''left'', ''right''}" "ro_sent s2 = ro_sent s1 @ b" "side_values arm b = ws"
    "set (side_values (other_arm arm) b) \<subseteq> {hold}" "fst ` set b \<subseteq> {''left'', ''right''}"
  then show "\<exists>msgs. ro_sent s2 = ro_sent s @ msgs \<and> side_values arm msgs = vs @ ws
       \<and> set (side_values (other_arm arm) msgs) \<subseteq> {hold} \<and> fst ` set msgs \<subseteq> {''left'', ''right''}"
    by (intro exI [of _ "a @ b"]) (auto simp: side_values_def)
qed

lemma sends_same_sent: "ro_sent s2 = ro_sent s1 \<Longrightarrow> sends arm hold vs s s2 = sends arm hold vs s s1"
  by (simp add: sends_def)

lemma send_command_spec:
  assumes "send_command env side values s = (r, s')"
  shows "ro_sent s' = ro_sent s @ [(side, values)]" and "ax_published_rows s' = ax_published_rows s"
  using assms by (auto simp: send_command_def op_simps on_ros_def split: sum.splits prod.splits)

lemma publish_controlled_spec:
  assumes "publish_controlled env arm command hold s = (r, s')" and "arm = ''left'' \<or> arm = ''right''"
  shows "\<exists>vs. sends arm hold vs s s' \<and> (vs = [] \<or> vs = [command]) \<and> (\<forall>u. r = Inr u \<longrightarrow> vs = [command])"
    and "ax_published_rows s' = ax_published_rows s"
proof -
  obtain a b where ab: "(a, b) = (if arm = ''left'' then (command, hold) else (hold, command))" by (metis surj_pair)
  obtain x s1 where one: "send_command env ''left'' a s = (x, s1)" by fastforce
  obtain y s2 where two: "send_command env ''right'' b s1 = (y, s2)" by fastforce
  have run: "publish_controlled env arm command hold s = (case x of Inl e \<Rightarrow> (Inl e, s1) | Inr u \<Rightarrow> (y, s2))"
    using ab one two assms(2)
    by (auto simp: publish_controlled_def publish_pair_def op_simps split: if_splits sum.split)
  note spec1 = send_command_spec [OF one] and spec2 = send_command_spec [OF two]
  show "ax_published_rows s' = ax_published_rows s"
    using run assms(1) spec1(2) spec2(2) by (cases x) simp_all
  show "\<exists>vs. sends arm hold vs s s' \<and> (vs = [] \<or> vs = [command]) \<and> (\<forall>u. r = Inr u \<longrightarrow> vs = [command])"
  proof (cases x)
    case (Inl e)
    with run assms(1) have "r = Inl e" "s' = s1" by simp_all
    with spec1(1) ab assms(2)
    have "sends arm hold (if arm = ''left'' then [command] else []) s s'"
      by (auto simp: sends_def side_values_def other_arm_def split: if_splits)
    with \<open>r = Inl e\<close> show ?thesis by (intro exI [of _ "if arm = ''left'' then [command] else []"]) auto
  next
    case (Inr u)
    with run assms(1) have "s' = s2" by simp
    with spec1(1) spec2(1) ab assms(2) have "sends arm hold [command] s s'"
      by (auto simp: sends_def side_values_def other_arm_def split: if_splits)
    then show ?thesis by blast
  qed
qed

lemma executor_unchanged:
  "(\<And>x. keeps (executor_is x) m) \<Longrightarrow> executor_part (snd (m s)) = executor_part s"
  using keepsD [of "executor_is (executor_part s)" m s] by (simp add: executor_is_def)

lemma ros_sleep_unchanged: "ros_sleep env t s = (r, s') \<Longrightarrow> executor_part s' = executor_part s"
  using executor_unchanged [OF keeps_ros_sleep, of env t s] by simp

lemma check_gate_unchanged: "check_gate env skill rows s = (r, s') \<Longrightarrow> executor_part s' = executor_part s"
  using executor_unchanged [OF keeps_check_gate, of env skill rows s] by simp

lemma transition_motion_spec:
  assumes "transition_motion env arm last_command target hold fractions s = (r, s')"
    and "arm = ''left'' \<or> arm = ''right''"
  shows "ax_published_rows s' = ax_published_rows s
    \<and> (\<exists>vs. sends arm hold vs s s' \<and> length vs \<le> length fractions
        \<and> (\<forall>k < length vs. interpolate last_command target (fractions ! k) = Inr (vs ! k))
        \<and> (\<forall>u. r = Inr u \<longrightarrow> length vs = length fractions))"
  using assms(1)
proof (induction fractions arbitrary: s)
  case Nil
  then show ?case by (auto simp: ret_apply intro!: exI [of _ "[]"] sends_refl)
next
  case (Cons fraction rest)
  show ?case
  proof (cases "interpolate last_command target fraction")
    case (Inl e)
    with Cons.prems show ?thesis by (auto simp: op_simps intro!: exI [of _ "[]"] sends_refl)
  next
    case (Inr command)
    obtain x s1 where one: "publish_controlled env arm command hold s = (x, s1)" by fastforce
    from publish_controlled_spec [OF one assms(2)] obtain vs where
      vs: "sends arm hold vs s s1" "vs = [] \<or> vs = [command]" "\<forall>u. x = Inr u \<longrightarrow> vs = [command]"
        "ax_published_rows s1 = ax_published_rows s" by blast
    obtain y s2 where two: "ros_sleep env (reciprocal (rc_chunk_transition_hz (rv_config env))) s1 = (y, s2)" by fastforce
    from ros_sleep_unchanged [OF two] have s2: "ro_sent s2 = ro_sent s1" "ax_published_rows s2 = ax_published_rows s1"
      by (simp_all add: executor_part_def)
    have run: "(r, s') =
        (case x of Inl e \<Rightarrow> (Inl e, s1)
         | Inr u \<Rightarrow> (case y of Inl e \<Rightarrow> (Inl e, s2) | Inr v \<Rightarrow> transition_motion env arm last_command target hold rest s2))"
      using Cons.prems Inr one two by (auto simp: op_simps split: sum.split)
    show ?thesis
    proof (cases "(\<exists>u. x = Inr u) \<and> (\<exists>u. y = Inr u)")
      case False
      then have "(\<exists>e. r = Inl e) \<and> (s' = s1 \<or> s' = s2)"
        using run by (cases x; cases y) auto
      then have "\<exists>e. r = Inl e" "sends arm hold vs s s'" "ax_published_rows s' = ax_published_rows s"
        using vs(1,4) s2(2) sends_same_sent [OF s2(1), of arm hold vs s] by auto
      then show ?thesis using vs(2) Inr by (intro conjI exI [of _ vs]) auto
    next
      case True
      with run have rest: "transition_motion env arm last_command target hold rest s2 = (r, s')" by auto
      from Cons.IH [OF this] obtain ws where
        ws: "sends arm hold ws s2 s'" "length ws \<le> length rest"
          "\<forall>k < length ws. interpolate last_command target (rest ! k) = Inr (ws ! k)"
          "\<forall>u. r = Inr u \<longrightarrow> length ws = length rest" "ax_published_rows s' = ax_published_rows s2" by blast
      have "sends arm hold (command # ws) s s'"
        using sends_trans [of arm hold "[command]" s s2 ws s'] vs True ws(1) sends_same_sent [OF s2(1), of arm hold vs s]
        by auto
      moreover have "\<forall>k < length (command # ws). interpolate last_command target ((fraction # rest) ! k) = Inr ((command # ws) ! k)"
        using Inr ws(3) by (auto simp: less_Suc_eq_0_disj)
      ultimately show ?thesis using vs(4) s2(2) ws(2,4,5)
        by (intro conjI exI [of _ "command # ws"]) auto
    qed
  qed
qed

text \<open>Adjacent rows of a chunk within the command limits, and what a call reports.\<close>

fun within_delta :: "flt list \<Rightarrow> flt list \<Rightarrow> matrix \<Rightarrow> bool" where
  "within_delta limit last_row [] = True"
| "within_delta limit last_row (row # rows) = (exceeds limit row last_row = Inr False \<and> within_delta limit row rows)"

definition reports :: "int \<Rightarrow> ('m, 'w) ros \<Rightarrow> exn + publish_result \<Rightarrow> ('m, 'w) ros \<Rightarrow> int \<Rightarrow> bool" where
  \<comment> \<open>the call counted \<open>n\<close> rows, at least those it reports\<close>
  "reports n s r s' before \<longleftrightarrow>
     ax_published_rows s' \<le> ax_published_rows s + n
     \<and> (\<forall>p. r = Inr p \<longrightarrow> pr_published_rows p = before + n \<and> ax_published_rows s' = ax_published_rows s + n
         \<and> (pr_stop_requested p \<longleftrightarrow> gate_passed p))"

lemma reached_section_passed: "reached_section g n s = (Inr (Some r), s') \<Longrightarrow> gr_passed r"
  using reached_section_Some by blast

lemma on_gate_Inr:
  "on_gate m s = (Inr x, s') \<longleftrightarrow> (\<exists>g. m (ro_gate s) = (Inr x, g) \<and> s' = s\<lparr>ro_gate := g\<rparr>)"
  by (cases "m (ro_gate s)") (auto simp: on_gate_def)

lemma ask_gate_passed: "ask_gate env skill s = (Inr (Some r), s') \<Longrightarrow> gr_passed r"
  unfolding ask_gate_def reached_result_def
  by (auto simp: op_Inr gets_op_apply ret_apply on_gate_Inr split: if_splits dest: reached_section_passed)

lemma check_gate_apply:
  "check_gate env skill rows s =
     (case ask_gate env skill s of
        (Inl e, s') \<Rightarrow> (Inl e, s')
      | (Inr None, s') \<Rightarrow> (Inr None, s')
      | (Inr (Some r), s') \<Rightarrow>
          (Inr (Some \<lparr>pr_stop_requested = True, pr_reason = Some ''joint_rest_detected'', pr_published_rows = rows,
             pr_gate_result = Some r\<rparr>), s'))"
  by (auto simp: check_gate_def op_simps split: prod.split sum.split option.split)

lemma check_gate_result:
  assumes "check_gate env skill rows s = (Inr (Some p), s')"
  shows "pr_published_rows p = rows \<and> pr_stop_requested p \<and> gate_passed p
    \<and> ask_gate env skill s = (Inr (pr_gate_result p), s')"
  using assms
  by (auto simp: check_gate_apply gate_passed_def split: prod.splits sum.splits option.splits dest: ask_gate_passed)

lemma check_gate_none: "check_gate env skill rows s = (Inr None, s') \<longleftrightarrow> ask_gate env skill s = (Inr None, s')"
  by (auto simp: check_gate_apply split: prod.splits sum.splits option.splits)

text \<open>
  The states in which the gate has to be asked while a chunk goes out: after the transition and the
  first row, and then after every further row that is sent because the gate did not stop before it.
\<close>

definition send_row :: "('m, 'w) ros_env \<Rightarrow> string \<Rightarrow> flt list \<Rightarrow> flt list \<Rightarrow> (('m, 'w) ros, unit) meth" where
  "send_row env arm hold row =
     seq_op (publish_controlled env arm row hold)
     (seq_op (modify_op (row_sent row)) (ros_sleep env (reciprocal (rc_publish_hz (rv_config env)))))"

fun at_row ::
  "('m, 'w) ros_env \<Rightarrow> string \<Rightarrow> string \<Rightarrow> flt list \<Rightarrow> matrix \<Rightarrow> ('m, 'w) ros \<Rightarrow> nat \<Rightarrow> ('m, 'w) ros" where
  "at_row env skill arm hold rest s 0 = s"
| "at_row env skill arm hold rest s (Suc k) =
     snd (send_row env arm hold (rest ! k) (snd (ask_gate env skill (at_row env skill arm hold rest s k))))"

text \<open>A call that ends with \<open>p\<close> in \<open>s'\<close> asked the gate at each of its rows and ended with the answer at the last.\<close>

definition gate_decided ::
  "('m, 'w) ros_env \<Rightarrow> string \<Rightarrow> string \<Rightarrow> flt list \<Rightarrow> matrix \<Rightarrow> ('m, 'w) ros \<Rightarrow> publish_result \<Rightarrow> ('m, 'w) ros \<Rightarrow> nat \<Rightarrow> bool" where
  "gate_decided env skill arm hold rest s p s' n \<longleftrightarrow>
     ask_gate env skill (at_row env skill arm hold rest s n) = (Inr (pr_gate_result p), s')
     \<and> (\<forall>k < n. fst (ask_gate env skill (at_row env skill arm hold rest s k)) = Inr None)
     \<and> (pr_stop_requested p \<longleftrightarrow> pr_gate_result p \<noteq> None)"

lemma at_row_Suc:
  "at_row env skill arm hold (row # rest) s (Suc k) =
     at_row env skill arm hold rest (snd (send_row env arm hold row (snd (ask_gate env skill s)))) k"
  by (induction k) simp_all

lemma gate_decided_Cons:
  assumes "ask_gate env skill s = (Inr None, s1)" and "send_row env arm hold row s1 = (u, s2)"
    and "gate_decided env skill arm hold rest s2 p s' n"
  shows "gate_decided env skill arm hold (row # rest) s p s' (Suc n)"
proof -
  have step: "at_row env skill arm hold (row # rest) s (Suc k) = at_row env skill arm hold rest s2 k" for k
    using assms(1,2) by (simp add: at_row_Suc del: at_row.simps(2))
  have "fst (ask_gate env skill (at_row env skill arm hold (row # rest) s k)) = Inr None" if "k < Suc n" for k
    using that assms(1,3) step by (cases k) (simp_all add: gate_decided_def del: at_row.simps(2))
  with assms(3) step [of n] show ?thesis by (simp add: gate_decided_def del: at_row.simps(2))
qed

lemma publish_rows_gate:
  assumes "ask_gate env skill s = (Inr None, s1)" and "publish_rows env skill arm hold rows last_command rest s1 = (Inr p, s')"
  shows "\<exists>n. gate_decided env skill arm hold rest s p s' n \<and> pr_published_rows p = rows + int n
    \<and> (pr_gate_result p = None \<longrightarrow> n = length rest)"
  using assms
proof (induction rest arbitrary: rows last_command s s1)
  case Nil
  then show ?case by (auto simp: ret_apply gate_decided_def)
next
  case (Cons row rest)
  obtain s2 s3 z where send: "send_row env arm hold row s1 = (Inr (), s2)"
    and ask: "check_gate env skill (rows + 1) s2 = (Inr z, s3)"
    and then_: "(case z of Some q \<Rightarrow> ret q | None \<Rightarrow> publish_rows env skill arm hold (rows + 1) row rest) s3 = (Inr p, s')"
    using Cons.prems(2) by (auto simp: op_Inr send_row_def lift_sum_apply raise_apply split: if_splits)
  show ?case
  proof (cases z)
    case (Some q)
    with ask have "pr_published_rows q = rows + 1" "pr_stop_requested q" "gate_passed q"
      "ask_gate env skill s2 = (Inr (pr_gate_result q), s3)"
      by (auto dest: check_gate_result)
    with then_ Some have "gate_decided env skill arm hold rest s2 p s' 0 \<and> pr_published_rows p = rows + 1
        \<and> pr_gate_result p \<noteq> None"
      by (auto simp: ret_apply gate_decided_def gate_passed_def split: option.splits)
    with gate_decided_Cons [OF Cons.prems(1) send, of rest p s' 0] show ?thesis by (intro exI [of _ 1]) auto
  next
    case None
    with ask have "ask_gate env skill s2 = (Inr None, s3)" by (simp add: check_gate_none)
    from Cons.IH [OF this, of "rows + 1" row] then_ None obtain n where
      n: "gate_decided env skill arm hold rest s2 p s' n" "pr_published_rows p = rows + 1 + int n"
        "pr_gate_result p = None \<longrightarrow> n = length rest" by auto
    with gate_decided_Cons [OF Cons.prems(1) send n(1)] show ?thesis by (intro exI [of _ "Suc n"]) simp
  qed
qed

lemma publish_rows_spec:
  assumes "publish_rows env skill arm hold rows last_command rest s = (r, s')" and "arm = ''left'' \<or> arm = ''right''"
  shows "\<exists>vs n. sends arm hold vs s s' \<and> vs = take (length vs) rest
    \<and> within_delta (rc_max_row_delta (rv_config env)) last_command vs
    \<and> n \<le> int (length vs) \<and> reports n s r s' rows \<and> (\<forall>p. r = Inr p \<longrightarrow> n = int (length vs))
    \<and> (\<forall>p. r = Inr p \<longrightarrow> pr_stop_requested p \<or> vs = rest)"
    (is "\<exists>vs n. ?Q rows last_command rest s vs n")
  using assms(1)
proof (induction rest arbitrary: rows last_command s)
  case Nil
  then have "?Q rows last_command [] s [] 0"
    by (auto simp: ret_apply sends_refl reports_def gate_passed_def)
  then show ?case by blast
next
  case (Cons row rest)
  let ?over = "exceeds (rc_max_row_delta (rv_config env)) row last_command"
  show ?case
  proof (cases "?over = Inr False")
    case False
    with Cons.prems have "s' = s \<and> (\<exists>e. r = Inl e)"
      by (cases ?over) (auto simp: op_simps split: if_splits)
    then have "?Q rows last_command (row # rest) s [] 0" by (auto simp: sends_refl reports_def)
    then show ?thesis by blast
  next
    case True
    obtain x s1 where one: "publish_controlled env arm row hold s = (x, s1)" by fastforce
    from publish_controlled_spec [OF one assms(2)] obtain vs where
      vs: "sends arm hold vs s s1" "vs = [] \<or> vs = [row]" "\<forall>u. x = Inr u \<longrightarrow> vs = [row]"
        "ax_published_rows s1 = ax_published_rows s" by blast
    obtain y s2 where two: "ros_sleep env (reciprocal (rc_publish_hz (rv_config env))) (row_sent row s1) = (y, s2)"
      by fastforce
    have s2: "ro_sent s2 = ro_sent s1" "ax_published_rows s2 = ax_published_rows s + 1"
      using ros_sleep_unchanged [OF two] vs(4) by (simp_all add: executor_part_def row_sent_def)
    obtain z s3 where three: "check_gate env skill (rows + 1) s2 = (z, s3)" by fastforce
    have s3: "ro_sent s3 = ro_sent s1" "ax_published_rows s3 = ax_published_rows s + 1"
      using check_gate_unchanged [OF three] s2 by (simp_all add: executor_part_def)
    have run: "(r, s') =
        (case x of Inl e \<Rightarrow> (Inl e, s1) | Inr u \<Rightarrow>
         (case y of Inl e \<Rightarrow> (Inl e, s2) | Inr v \<Rightarrow>
          (case z of Inl e \<Rightarrow> (Inl e, s3) | Inr (Some p) \<Rightarrow> (Inr p, s3)
           | Inr None \<Rightarrow> publish_rows env skill arm hold (rows + 1) row rest s3)))"
      using Cons.prems True one two three by (auto simp: op_simps split: sum.split option.split)
    have row: "vs = take (length vs) (row # rest)"
      "within_delta (rc_max_row_delta (rv_config env)) last_command vs"
      using vs(2) True by auto
    show ?thesis
    proof (cases "x")
      case (Inl e)
      with run vs row have "?Q rows last_command (row # rest) s vs 0" by (auto simp: reports_def)
      then show ?thesis by blast
    next
      case (Inr u)
      with vs(3) have sent: "vs = [row]" "sends arm hold [row] s s1" using vs(1) by auto
      have same: "sends arm hold [row] s s2" "sends arm hold [row] s s3"
        using sent(2) sends_same_sent [OF s2(1)] sends_same_sent [OF s3(1)] by blast+
      show ?thesis
      proof (cases "y")
        case (Inl e)
        with run \<open>x = Inr u\<close> same(1) row s2 sent(1) have "?Q rows last_command (row # rest) s [row] 1"
          by (auto simp: reports_def)
        then show ?thesis by blast
      next
        case (Inr v)
        show ?thesis
        proof (cases "z = Inr None")
          case False
          with run \<open>x = Inr u\<close> \<open>y = Inr v\<close> three have "s' = s3"
            "\<forall>p. r = Inr p \<longrightarrow> pr_published_rows p = rows + 1 \<and> pr_stop_requested p \<and> gate_passed p"
            by (auto dest: check_gate_result split: sum.splits option.splits)
          with same(2) row s3 sent(1) have "?Q rows last_command (row # rest) s [row] 1"
            by (auto simp: reports_def)
          then show ?thesis by blast
        next
          case True
          with run \<open>x = Inr u\<close> \<open>y = Inr v\<close>
          have "publish_rows env skill arm hold (rows + 1) row rest s3 = (r, s')" by simp
          from Cons.IH [OF this] obtain ws n where ws: "?Q (rows + 1) row rest s3 ws n" by (elim exE)
          have "sends arm hold (row # ws) s s'" using sends_trans [OF same(2)] ws by fastforce
          with ws row s3(2) \<open>?over = Inr False\<close> have "?Q rows last_command (row # rest) s (row # ws) (n + 1)"
            by (auto simp: reports_def)
          then show ?thesis by blast
        qed
      qed
    qed
  qed
qed

text \<open>The whole publication.\<close>

lemma length_transition_fractions: "0 < n \<Longrightarrow> int (length (transition_fractions n)) = n"
  by (simp add: transition_fractions_def)

lemma action_publish_spec:
  assumes "ros_config_validate (rv_config env) = Inr ()" and "ax_preflight_complete s"
    and "ax_active_skill s = Some skill" and "ax_last_command s = Some last_command"
    and "map_of (rc_skill_arms (rv_config env)) skill = Some arm"
    and "arm_snapshot arm s = (Inr (controlled, hold), s)"
    and "action_publish env (first # rest) s = (r, s')"
  shows "\<exists>vs ws. sends arm hold (vs @ ws) s s'
    \<and> int (length vs) \<le> rc_chunk_transition_steps (rv_config env)
    \<and> (ws \<noteq> [] \<or> (\<exists>p. r = Inr p) \<longrightarrow> int (length vs) = rc_chunk_transition_steps (rv_config env))
    \<and> (\<forall>k < length vs. interpolate last_command first
          (transition_fractions (rc_chunk_transition_steps (rv_config env)) ! k) = Inr (vs ! k))
    \<and> ws = take (length ws) rest \<and> within_delta (rc_max_row_delta (rv_config env)) first ws
    \<and> ax_published_rows s' \<le> ax_published_rows s + 1 + int (length ws)
    \<and> (\<forall>p. r = Inr p \<longrightarrow> pr_published_rows p = 1 + int (length ws)
          \<and> ax_published_rows s' = ax_published_rows s + pr_published_rows p
          \<and> (pr_stop_requested p \<longleftrightarrow> gate_passed p) \<and> (pr_stop_requested p \<or> ws = rest))"
    (is "\<exists>vs ws. ?Q vs ws")
proof -
  let ?fractions = "transition_fractions (rc_chunk_transition_steps (rv_config env))"
  have arm: "arm = ''left'' \<or> arm = ''right''" by (rule ros_config_validate_Inr(1) [OF assms(1,5)])
  have steps: "int (length ?fractions) = rc_chunk_transition_steps (rv_config env)"
    using ros_config_validate_Inr(7) [OF assms(1)] by (rule length_transition_fractions)
  obtain x s1 where one: "transition_motion env arm last_command first hold ?fractions s = (x, s1)" by fastforce
  from transition_motion_spec [OF one arm] steps obtain vs where
    vs: "sends arm hold vs s s1" "int (length vs) \<le> rc_chunk_transition_steps (rv_config env)"
      "\<forall>k < length vs. interpolate last_command first (?fractions ! k) = Inr (vs ! k)"
      "ax_published_rows s1 = ax_published_rows s"
      "\<forall>u. x = Inr u \<longrightarrow> int (length vs) = rc_chunk_transition_steps (rv_config env)" by force
  obtain y s2 where two: "check_gate env skill 1 (row_sent first s1) = (y, s2)" by fastforce
  have s2: "ro_sent s2 = ro_sent s1" "ax_published_rows s2 = ax_published_rows s + 1"
    using check_gate_unchanged [OF two] vs(4) by (simp_all add: executor_part_def row_sent_def)
  have run: "(r, s') =
      (case x of Inl e \<Rightarrow> (Inl e, s1) | Inr u \<Rightarrow>
       (case y of Inl e \<Rightarrow> (Inl e, s2) | Inr (Some p) \<Rightarrow> (Inr p, s2)
        | Inr None \<Rightarrow> publish_rows env skill arm hold 1 first rest s2))"
    using assms(2-7) one two by (auto simp: action_publish_def op_simps split: sum.split option.split)
  have sent2: "sends arm hold vs s s2" using vs(1) sends_same_sent [OF s2(1)] by blast
  consider (transition) e where "x = Inl e" | (gate) u where "x = Inr u" "y \<noteq> Inr None" | (rows) u where "x = Inr u" "y = Inr None"
    by (cases x) auto
  then have "\<exists>ws. ?Q vs ws"
  proof cases
    case transition
    with run vs have "?Q vs []" by auto
    then show ?thesis by blast
  next
    case gate
    with run two have "s' = s2" "\<forall>p. r = Inr p \<longrightarrow> pr_published_rows p = 1 \<and> pr_stop_requested p \<and> gate_passed p"
      by (auto dest: check_gate_result split: sum.splits option.splits)
    with vs(2,3,5) gate(1) sent2 s2 have "?Q vs []" by auto
    then show ?thesis by blast
  next
    case rows
    with run have "publish_rows env skill arm hold 1 first rest s2 = (r, s')" by simp
    from publish_rows_spec [OF this arm] obtain ws n where
      ws: "sends arm hold ws s2 s'" "ws = take (length ws) rest" "within_delta (rc_max_row_delta (rv_config env)) first ws"
        "n \<le> int (length ws)" "reports n s2 r s' 1" "\<forall>p. r = Inr p \<longrightarrow> n = int (length ws)"
        "\<forall>p. r = Inr p \<longrightarrow> pr_stop_requested p \<or> ws = rest"
      by (elim exE conjE) (rule that)
    have "sends arm hold (vs @ ws) s s'" using sent2 ws(1) by (rule sends_trans)
    with vs(2,3,5) rows(1) s2 ws(2-) have "?Q vs ws" by (auto simp: reports_def)
    then show ?thesis by blast
  qed
  then show ?thesis by blast
qed

text \<open>The gate's part of a publication that returns.\<close>

lemma action_publish_gate:
  assumes "ax_preflight_complete s" and "ax_active_skill s = Some skill" and "ax_last_command s = Some last_command"
    and "map_of (rc_skill_arms (rv_config env)) skill = Some arm"
    and "arm_snapshot arm s = (Inr (controlled, hold), s)"
    and "action_publish env (first # rest) s = (Inr p, s')"
  shows "\<exists>s1 n. transition_motion env arm last_command first hold
        (transition_fractions (rc_chunk_transition_steps (rv_config env))) s = (Inr (), s1)
    \<and> gate_decided env skill arm hold rest (row_sent first s1) p s' n \<and> pr_published_rows p = 1 + int n
    \<and> (pr_gate_result p = None \<longrightarrow> n = length rest)"
proof -
  obtain s1 z s2 where move: "transition_motion env arm last_command first hold
        (transition_fractions (rc_chunk_transition_steps (rv_config env))) s = (Inr (), s1)"
    and ask: "check_gate env skill 1 (row_sent first s1) = (Inr z, s2)"
    and then_: "(case z of Some q \<Rightarrow> ret q | None \<Rightarrow> publish_rows env skill arm hold 1 first rest) s2 = (Inr p, s')"
    using assms by (auto simp: action_publish_def op_Inr lift_sum_apply gets_op_apply modify_op_apply expect_def)
  show ?thesis
  proof (cases z)
    case (Some q)
    with ask have "pr_published_rows q = 1" "pr_stop_requested q" "gate_passed q"
      "ask_gate env skill (row_sent first s1) = (Inr (pr_gate_result q), s2)"
      by (auto dest: check_gate_result)
    with then_ Some have "gate_decided env skill arm hold rest (row_sent first s1) p s' 0 \<and> pr_published_rows p = 1
        \<and> pr_gate_result p \<noteq> None"
      by (auto simp: ret_apply gate_decided_def gate_passed_def split: option.splits)
    with move show ?thesis by (intro exI [of _ s1] exI [of _ 0]) auto
  next
    case None
    with ask have "ask_gate env skill (row_sent first s1) = (Inr None, s2)" by (simp add: check_gate_none)
    from publish_rows_gate [OF this] then_ None move show ?thesis by fastforce
  qed
qed

text \<open>
  C29. A chunk moves the controlled arm in bounded steps and obeys the joint gate.  Whatever
  interrupts it, a publication has sent to the controlled arm first the configured number of
  transition commands (fewer only if it ends among them), which lie on the straight line from the
  last command to the first row, and then a prefix of the rows after the first in which every row
  is within \<open>max_row_delta\<close> of the one before it; to the other arm it sent nothing but the position
  that arm had when the call began.  The row counter grows by no more than the rows sent and the
  first row.  A call that returns reports exactly the rows counted; it asked the gate after the
  transition and after every row it sent, the gate did not pass at any of these before the last,
  and the call reports a stop, with the gate's result, exactly when it passed at the last, having
  sent the whole chunk otherwise.
\<close>

theorem published_chunk_is_safe:
  assumes "ros_config_validate (rv_config env) = Inr ()" and "ax_preflight_complete s"
    and "ax_active_skill s = Some skill" and "ax_last_command s = Some last_command"
    and "map_of (rc_skill_arms (rv_config env)) skill = Some arm"
    and "arm_snapshot arm s = (Inr (controlled, hold), s)"
    and "action_publish env (first # rest) s = (r, s')"
  shows "\<exists>vs ws. sends arm hold (vs @ ws) s s'
    \<and> int (length vs) \<le> rc_chunk_transition_steps (rv_config env)
    \<and> (ws \<noteq> [] \<or> (\<exists>p. r = Inr p) \<longrightarrow> int (length vs) = rc_chunk_transition_steps (rv_config env))
    \<and> (\<forall>k < length vs. interpolate last_command first
          (transition_fractions (rc_chunk_transition_steps (rv_config env)) ! k) = Inr (vs ! k))
    \<and> ws = take (length ws) rest \<and> within_delta (rc_max_row_delta (rv_config env)) first ws
    \<and> ax_published_rows s' \<le> ax_published_rows s + 1 + int (length ws)
    \<and> (\<forall>p. r = Inr p \<longrightarrow> pr_published_rows p = 1 + int (length ws)
          \<and> ax_published_rows s' = ax_published_rows s + pr_published_rows p
          \<and> (pr_stop_requested p \<longleftrightarrow> gate_passed p) \<and> (pr_stop_requested p \<or> ws = rest)
          \<and> (\<exists>s1. transition_motion env arm last_command first hold
                (transition_fractions (rc_chunk_transition_steps (rv_config env))) s = (Inr (), s1)
              \<and> gate_decided env skill arm hold rest (row_sent first s1) p s' (length ws)))"
proof -
  from action_publish_spec [OF assms] action_publish_gate [OF assms(2-6)] assms(7) show ?thesis
    by (elim exE conjE) (intro exI conjI; (assumption | fastforce))
qed

lemma demo_ros_begun:
  "ros_config_validate (rv_config (demo_ros_env False)) = Inr ()"
  "map_of (rc_skill_arms (rv_config (demo_ros_env False))) ''open_door'' = Some ''left''"
  by (simp_all add: demo_ros_defs)

definition demo_begun :: "(unit, unit ros_event list list) ros" where
  "demo_begun = run_ops (ros_step (demo_ros_env False)) [Ros_action_preflight, Ros_begin_stage ''open_door''] (demo_ros False)"

lemma demo_begun_state:
  "ax_preflight_complete demo_begun" "ax_active_skill demo_begun = Some ''open_door''"
  "ax_last_command demo_begun = Some demo_row" "arm_snapshot ''left'' demo_begun = (Inr (demo_row, demo_row), demo_begun)"
  "ro_sent demo_begun = []"
  by (simp_all add: demo_begun_def ros_eval demo_ros_defs)

theorem published_chunk_is_safe_witness:
  "\<exists>vs ws. sends ''left'' demo_row (vs @ ws) demo_begun (snd (action_publish (demo_ros_env False) [demo_row, demo_row] demo_begun))
    \<and> length vs \<le> 1 \<and> ws = take (length ws) [demo_row]"
proof -
  obtain r s' where run: "action_publish (demo_ros_env False) (demo_row # [demo_row]) demo_begun = (r, s')" by fastforce
  have "rc_chunk_transition_steps (rv_config (demo_ros_env False)) = 1" by (simp add: demo_ros_defs)
  with published_chunk_is_safe [OF demo_ros_begun(1) demo_begun_state(1-3) demo_ros_begun(2) demo_begun_state(4) run] run
  show ?thesis by fastforce
qed

subsection \<open>Under the orchestrator\<close>

lemma action_publish_count:
  assumes "ros_config_validate (rv_config env) = Inr ()" and "action_publish env actions s = (r, s')"
  shows "ax_published_rows s' \<le> ax_published_rows s + int (length actions)"
    and "r = Inr p \<Longrightarrow> ax_published_rows s' = ax_published_rows s + pr_published_rows p"
proof -
  have "ax_published_rows s' \<le> ax_published_rows s + int (length actions)
    \<and> (\<forall>p. r = Inr p \<longrightarrow> ax_published_rows s' = ax_published_rows s + pr_published_rows p)"
  proof (cases "\<exists>skill last_command arm controlled hold first rest. ax_preflight_complete s
      \<and> ax_active_skill s = Some skill \<and> ax_last_command s = Some last_command
      \<and> map_of (rc_skill_arms (rv_config env)) skill = Some arm
      \<and> fst (arm_snapshot arm s) = Inr (controlled, hold) \<and> actions = first # rest")
    case True
    then obtain skill last_command arm controlled hold first rest where
      s: "ax_preflight_complete s" "ax_active_skill s = Some skill" "ax_last_command s = Some last_command"
        "map_of (rc_skill_arms (rv_config env)) skill = Some arm" "fst (arm_snapshot arm s) = Inr (controlled, hold)"
      and actions: "actions = first # rest" by blast
    have snap: "arm_snapshot arm s = (Inr (controlled, hold), s)" using s(5) arm_snapshot_state [of arm s] by (metis prod.collapse)
    from action_publish_spec [OF assms(1) s(1-4) snap assms(2) [unfolded actions]] obtain ws where
      ws: "ws = take (length ws) rest" "ax_published_rows s' \<le> ax_published_rows s + 1 + int (length ws)"
        "\<forall>p. r = Inr p \<longrightarrow> ax_published_rows s' = ax_published_rows s + pr_published_rows p" by blast
    have "length ws \<le> length rest" using ws(1) by (metis length_take min.cobounded1)
    with ws(2,3) actions show ?thesis by simp
  next
    case False
    have "s' = s \<and> (\<exists>e. r = Inl e)"
    proof (cases "ax_preflight_complete s \<and> ax_active_skill s \<noteq> None \<and> ax_last_command s \<noteq> None")
      case True
      then obtain skill last_command where
        s: "ax_preflight_complete s" "ax_active_skill s = Some skill" "ax_last_command s = Some last_command" by blast
      show ?thesis
      proof (cases "map_of (rc_skill_arms (rv_config env)) skill")
        case None
        with s assms(2) show ?thesis by (auto simp: action_publish_def op_simps)
      next
        case (Some arm)
        with False s have "(\<exists>e. fst (arm_snapshot arm s) = Inl e) \<or> actions = []"
          by (cases "fst (arm_snapshot arm s)"; cases actions) auto
        with s Some assms(2) arm_snapshot_state [of arm s] show ?thesis
          by (cases "arm_snapshot arm s"; cases "fst (arm_snapshot arm s)") (auto simp: action_publish_def op_simps)
      qed
    next
      case False
      with assms(2) show ?thesis by (auto simp: action_publish_def op_simps split: option.splits bool.splits)
    qed
    then show ?thesis by auto
  qed
  then show "ax_published_rows s' \<le> ax_published_rows s + int (length actions)"
    "r = Inr p \<Longrightarrow> ax_published_rows s' = ax_published_rows s + pr_published_rows p" by blast+
qed

lemma keeps_published: "(\<And>x. keeps (executor_is x) m) \<Longrightarrow> keeps (\<lambda>s. ax_published_rows s = c) m"
  by (rule keeps_executor) (auto simp: executor_part_def)

lemma ros_devices_metered:
  assumes "ros_config_validate (rv_config env) = Inr ()"
  shows "metered ax_published_rows (ros_devices env others)"
  unfolding metered_def
proof (intro conjI allI impI)
  fix rows and s :: "('a, 'b) ros" and p
  obtain r s' where run: "action_publish env rows s = (r, s')" by fastforce
  note count = action_publish_count [OF assms run]
  show "ax_published_rows (snd (dv_publish (ros_devices env others) rows s)) \<le> ax_published_rows s + int (length rows)"
    using count(1) run by (simp add: ros_devices_def)
  show "ax_published_rows (snd (dv_publish (ros_devices env others) rows s)) = ax_published_rows s + pr_published_rows p"
    if "fst (dv_publish (ros_devices env others) rows s) = Inr p"
    using count(2) run that by (simp add: ros_devices_def)
qed (simp_all add: ros_devices_def keeps_published keeps_observation_sample keeps_ros_clock keeps_on_ros)

text \<open>An executor whose publishers and sleep do not raise is idle after every stop.\<close>

definition reliable :: "('m, 'w) ros_env \<Rightarrow> bool" where
  "reliable env \<longleftrightarrow>
     (\<forall>side values w. fst (rv_publish env side values w) = Inr ()) \<and> (\<forall>t w. fst (rv_sleep env t w) = Inr ())"

lemma reliable_hold:
  assumes "reliable env"
  shows "fst (hold_position env left right n s) = Inr ()"
proof -
  have publish: "\<exists>w'. rv_publish env side v w = (Inr (), w')" and sleep: "\<exists>w'. rv_sleep env t w = (Inr (), w')"
    for side v t w
    using assms by (metis reliable_def prod.collapse)+
  have send: "fst (send_command env side v s) = Inr ()" for side v and s :: "('a, 'b) ros"
    using publish [of side v "ro_world s"] by (auto simp: send_command_def op_simps on_ros_def)
  have sleep: "fst (ros_sleep env t s) = Inr ()" for t and s :: "('a, 'b) ros"
    using sleep [of t "ro_world s"] by (auto simp: ros_sleep_def op_simps on_ros_def callbacks_def split: prod.split)
  have both: "fst (seq_op m k s) = Inr ()" if "\<And>s. fst (m s) = Inr ()" "\<And>s. fst (k s) = Inr ()"
    for m :: "(('a, 'b) ros, unit) meth" and k :: "(('a, 'b) ros, unit) meth" and s
    using that(1) [of s] that(2) [of "snd (m s)"] by (cases "m s") (simp add: seq_op_apply)
  show ?thesis
    by (induction n arbitrary: s) (simp_all add: ret_apply publish_pair_def both send sleep)
qed

lemma action_stop_idle:
  assumes "reliable env"
  shows "leaves (\<lambda>s. ax_active_skill s = None) (action_stop env reason)"
proof -
  have "ax_active_skill (snd (seq_op (hold_position env left right n) (modify_op (\<lambda>s. go_idle (s\<lparr>ax_has_published := False\<rparr>))) s)) = None"
    for left right n and s :: "('a, 'b) ros"
    using reliable_hold [OF assms, of left right n s]
    by (cases "hold_position env left right n s") (simp add: op_simps go_idle_def)
  then show ?thesis
    unfolding leaves_def by (auto simp: action_stop_apply Let_def go_idle_def split: option.split)
qed

text \<open>
  C30. On this executor a rollout respects the row budget of its stage: whatever the cameras, the
  joints, the server and the operating system do, and however the rollout ends, the executor's row
  counter has grown by at most \<open>action_steps\<close>.
\<close>

theorem ros_rollout_within_budget:
  assumes "ros_config_validate (rv_config env) = Inr ()" and "0 \<le> sp_action_steps stage"
    and "rollout cfg (ros_devices env others) stage session s = (r, s')"
  shows "ax_published_rows (or_world s') - ax_published_rows (or_world s) \<le> sp_action_steps stage"
  using rollout_loop_count [OF ros_devices_metered [OF assms(1)] assms(2)] assms(3) by (fastforce simp: rollout_def)

definition demo_others :: "unit ros_event list list devices" where
  "demo_others =
     \<lparr>dv_approve = (\<lambda>run_id skills. ret True), dv_observation_preflight = ret (), dv_reset_preflight = ret (),
      dv_executor_preflight = ret (), dv_sample = (\<lambda>skill. raise (PyExc OSError)), dv_observation_clock = ret 0,
      dv_clock = ret 0, dv_sleep = (\<lambda>_. ret ()), dv_reset = (\<lambda>_. ret ()), dv_begin_stage = (\<lambda>_. ret ()),
      dv_publish = (\<lambda>rows. raise (PyExc OSError)), dv_stop = (\<lambda>_. ret ()), dv_check = (\<lambda>_. raise (PyExc ValueError)),
      dv_control = (\<lambda>c a. ret (demo_pipeline_control c)),
      dv_infer = (\<lambda>request. ret [(''publishable'', PBool True), (''actions'', PArr demo_action_array),
         (''request_hash'', PStr ''h''), (''action_hash'', PStr ''g'')])\<rparr>"

definition demo_ros_orchestrator :: "(unit, unit ros_event list list) ros \<Rightarrow> (unit, unit ros_event list list) ros orchestrator" where
  "demo_ros_orchestrator w = \<lparr>or_state = PS_CREATED, or_session = PNone, or_trial_started = False,
     or_audit = new_edge_store [], or_world = w\<rparr>"

theorem ros_rollout_within_budget_witness:
  "ax_published_rows (or_world (snd (rollout demo_pipeline (ros_devices (demo_ros_env False) demo_others) demo_stage
      demo_session (demo_ros_orchestrator demo_begun)))) \<le> 4"
proof -
  obtain r s' where run: "rollout demo_pipeline (ros_devices (demo_ros_env False) demo_others) demo_stage
      demo_session (demo_ros_orchestrator demo_begun) = (r, s')" by fastforce
  have "sp_action_steps demo_stage = 4" by (simp add: demo_stage_def)
  moreover have "ax_published_rows demo_begun = 0" by (simp add: demo_begun_def ros_eval demo_ros_defs)
  ultimately show ?thesis
    using ros_rollout_within_budget [OF demo_ros_begun(1) _ run] run by (simp add: demo_ros_orchestrator_def)
qed

text \<open>
  C31. A failed run leaves the arms without an active stage.  If an approved run that has begun fails
  on an executor whose publishers and sleep do not raise (when one does, \<open>stop\<close> itself raises before
  it forgets the stage), then no stage is active afterwards, whichever was before, and a further
  chunk is refused with \<open>STATE_REJECTED\<close>, nothing being sent, until a stage is begun again.
\<close>

theorem failed_ros_run_is_idle:
  assumes "reliable env"
    and "fst (dv_approve others (pp_run_id (oc_plan cfg)) (plan_skills (oc_plan cfg)) (ro_world (or_world s))) = Inr True"
    and "edge_begin (pp_run_id (oc_plan cfg)) (plan_skills (oc_plan cfg)) (or_audit s) = (Inr d, a)"
    and "run_pipeline cfg (ros_devices env others) s = (Inl e, s')"
  shows "ax_active_skill (or_world s') = None
    \<and> action_publish env actions (or_world s') =
        (Inl (err STATE_REJECTED ''ROS action executor has no active stage'' []), or_world s')"
proof -
  have "stop_holds (\<lambda>s. ax_active_skill s = None) (ros_devices env others)"
    unfolding stop_holds_def ros_devices_def
    by (auto intro: action_stop_idle [OF assms(1)] keeps_executor [OF keeps_on_ros] simp: executor_part_def)
  moreover have "fst (dv_approve (ros_devices env others) (pp_run_id (oc_plan cfg)) (plan_skills (oc_plan cfg)) (or_world s))
      = Inr True"
    using assms(2) by (simp add: ros_devices_def on_ros_def split: prod.split) (metis fst_conv)
  ultimately have "ax_active_skill (or_world s') = None"
    using failed_run_ends_stopped [OF _ _ assms(3,4)] by blast
  then show ?thesis by (auto simp: action_publish_def op_simps split: bool.split)
qed

lemma run_without_control:
  assumes "\<And>c a w. \<exists>e w'. dv_control dv c a w = (Inl e, w')" and "pp_stages (oc_plan cfg) \<noteq> []"
  shows "run_pipeline cfg dv s \<noteq> (Inr m, s')"
proof
  assume "run_pipeline cfg dv s = (Inr m, s')"
  then obtain s0 where "run_body cfg dv s0 = (Inr m, s')" using run_pipeline_Inr by blast
  then obtain t u stage stages where "run_stages cfg dv 0 (stage # stages) t = (Inr (), u)"
    using assms(2) run_body_Inr by (metis list.exhaust)
  then obtain session u' where "stage_prepare cfg dv 0 stage t = (Inr session, u')"
    by (auto simp: op_Inr run_stage_def)
  then obtain v x v' where "pipeline_control dv ''prepare-skill'' [PStr (sp_skill stage)] v = (Inr x, v')"
    unfolding stage_prepare_def Let_def op_Inr by blast
  then show False
    using assms(1) [of "''prepare-skill''" "[PStr (sp_skill stage)]" "or_world v"]
    by (auto simp: pipeline_control_def op_Inr)
qed

text \<open>
  A run that fails at the first control command while the stage of an earlier run is still active.
\<close>

definition demo_lost_server :: "unit ros_event list list devices" where
  "demo_lost_server = demo_others\<lparr>dv_control := (\<lambda>c a. raise (PyExc OSError))\<rparr>"

theorem failed_ros_run_is_idle_witness:
  "ax_active_skill demo_begun = Some ''open_door''
    \<and> (\<exists>e s'. run_pipeline demo_pipeline (ros_devices (demo_ros_env False) demo_lost_server) (demo_ros_orchestrator demo_begun)
        = (Inl e, s')
      \<and> ax_active_skill (or_world s') = None
      \<and> action_publish (demo_ros_env False) [demo_row] (or_world s') =
          (Inl (err STATE_REJECTED ''ROS action executor has no active stage'' []), or_world s'))"
proof -
  let ?dv = "ros_devices (demo_ros_env False) demo_lost_server" and ?s = "demo_ros_orchestrator demo_begun"
  obtain r s' where run: "run_pipeline demo_pipeline ?dv ?s = (r, s')" by fastforce
  have "dv_control ?dv c a w = (Inl (PyExc OSError), w)" for c a w
    by (simp add: ros_devices_def demo_lost_server_def on_ros_def raise_apply)
  then have "\<exists>e. r = Inl e"
    using run_without_control [of ?dv demo_pipeline ?s] run
    by (cases r) (fastforce simp: demo_pipeline_def demo_plan_def)+
  moreover have "reliable (demo_ros_env False)" by (simp add: reliable_def demo_ros_env_def ret_apply)
  moreover have "fst (dv_approve demo_lost_server r k w) = Inr True" for r k w
    by (simp add: demo_lost_server_def demo_others_def ret_apply)
  moreover obtain d a where "edge_begin (pp_run_id (oc_plan demo_pipeline)) (plan_skills (oc_plan demo_pipeline))
      (or_audit ?s) = (Inr d, a)"
    using demo_begin by (auto simp: demo_ros_orchestrator_def demo_orchestrator_def)
  ultimately show ?thesis using failed_ros_run_is_idle [of "demo_ros_env False"] run demo_begun_state(2) by blast
qed

end
