(* ===== verification/Oven_Paths.thy ===== *)
theory Oven_Paths
  imports Oven_Control
begin

text \<open>
  \<open>common/config.py\<close> and the path rule of \<open>server/composite_backend.py\<close>.  An absolute path is the
  list of its parts.  \<open>resolve\<close> is what \<open>Path.resolve\<close> does to an absolute path on the file system
  at hand, symbolic links included; it may raise.
\<close>

type_synonym path = "string list"

definition path_parts :: "string \<Rightarrow> path" where
  \<comment> \<open>the parts of \<open>Path(s)\<close> below its root: no empty part and no \<open>.\<close>\<close>
  "path_parts s = filter (\<lambda>w. w \<noteq> [] \<and> w \<noteq> ''.'') (split_char (CHR ''/'') s)"

definition is_absolute :: "string \<Rightarrow> bool" where
  "is_absolute s \<longleftrightarrow> prefix ''/'' s"

definition resolve_under_root :: "(path \<Rightarrow> path res) \<Rightarrow> path \<Rightarrow> string \<Rightarrow> path res" where
  \<comment> \<open>\<open>base\<close> is the root after \<open>expanduser\<close>\<close>
  "resolve_under_root resolve base relative =
     reject_if (is_absolute relative)
       (err CONFIG_INVALID ''configured resource path must be relative'' [(''value'', PStr relative)]) (
     bind_sum (resolve base) (\<lambda>root_resolved.
     bind_sum (resolve (root_resolved @ path_parts relative)) (\<lambda>candidate.
     reject_if (\<not> prefix root_resolved candidate)
       (err PATH_OUTSIDE_ROOT ''configured path escapes its resource root'' [(''value'', PStr relative)])
       (Inr candidate))))"

definition backend_under :: "(path \<Rightarrow> path res) \<Rightarrow> path \<Rightarrow> string \<Rightarrow> path res" where
  "backend_under resolve base relative =
     reject_if (is_absolute relative \<or> ''..'' \<in> set (path_parts relative)) (PyExc ValueError) (
     bind_sum (resolve base) (\<lambda>resolved_root.
     bind_sum (resolve (resolved_root @ path_parts relative)) (\<lambda>resolved.
     reject_if (resolved \<noteq> resolved_root \<and> \<not> strict_prefix resolved_root resolved) (PyExc ValueError)
       (Inr resolved))))"

text \<open>The four roots of the environment.\<close>

record runtime_roots =
  rr_checkpoint :: path
  rr_asset :: path
  rr_runtime :: path
  rr_openpi :: path

definition root_variables :: "string list" where
  "root_variables = [''OVEN_CHECKPOINT_ROOT'', ''OVEN_ASSET_ROOT'', ''OVEN_RUNTIME_ROOT'', ''OVEN_OPENPI_ROOT'']"

definition env_get :: "(string \<times> string) list \<Rightarrow> string \<Rightarrow> string" where
  "env_get environment name = (case map_of environment name of None \<Rightarrow> [] | Some v \<Rightarrow> v)"

definition roots_from_environment ::
  "(string \<Rightarrow> path res) \<Rightarrow> (string \<times> string) list \<Rightarrow> runtime_roots res" where
  \<comment> \<open>\<open>locate\<close> is \<open>Path(s).expanduser().resolve()\<close>\<close>
  "roots_from_environment locate environment =
     (let missing = filter (\<lambda>v. strip_chars py_whitespace (env_get environment v) = []) root_variables;
          found = (\<lambda>v. locate (env_get environment v)) in
      reject_if (missing \<noteq> [])
        (err CONFIG_INVALID ''required root variables are missing'' [(''missing'', PStrs (sort missing))]) (
      bind_sum (found ''OVEN_CHECKPOINT_ROOT'') (\<lambda>checkpoint.
      bind_sum (found ''OVEN_ASSET_ROOT'') (\<lambda>asset.
      bind_sum (found ''OVEN_RUNTIME_ROOT'') (\<lambda>runtime.
      bind_sum (found ''OVEN_OPENPI_ROOT'') (\<lambda>openpi.
        Inr \<lparr>rr_checkpoint = checkpoint, rr_asset = asset, rr_runtime = runtime, rr_openpi = openpi\<rparr>))))))"

subsection \<open>What a resolved path is\<close>

lemma resolve_under_root_Inr:
  "resolve_under_root resolve base relative = Inr p \<longleftrightarrow>
     \<not> is_absolute relative \<and> (\<exists>r. resolve base = Inr r \<and> resolve (r @ path_parts relative) = Inr p \<and> prefix r p)"
  by (auto simp: resolve_under_root_def result_iffs)

lemma backend_under_Inr:
  "backend_under resolve base relative = Inr p \<longleftrightarrow>
     ''..'' \<notin> set (path_parts relative) \<and> resolve_under_root resolve base relative = Inr p"
  by (auto simp: backend_under_def resolve_under_root_Inr result_iffs strict_prefix_def)

end
