(* ===== verification/Oven_Checker.thy ===== *)
theory Oven_Checker
  imports Oven_RosTypes Oven_Paths
begin

text \<open>
  \<open>edge/checker.py\<close>: the visual checker.  It loads the model of one skill at a time, after its file
  has the digest the profile names, and judges a fresh front image.  The file system, PyTorch, the
  camera and the clock are the record \<open>checker_env\<close>; a network and a transform are handles.
\<close>

subsection \<open>The surroundings\<close>

datatype image_step =
    Resize pyval            \<comment> \<open>to the size in the checkpoint\<close>
  | Resize_256 | Center_crop_224 | To_tensor
  | Normalize pyval pyval   \<comment> \<open>mean and standard deviation\<close>

record ('n, 't, 'w) checker_env =
  kv_resolve :: "path \<Rightarrow> path res"
  kv_is_file :: "path \<Rightarrow> ('w, bool) meth"
  kv_read :: "path \<Rightarrow> ('w, byte_list) meth"
  kv_load :: "path \<Rightarrow> ('w, pyval) meth"           \<comment> \<open>\<open>torch.load\<close> with \<open>weights_only\<close>\<close>
  kv_network :: "pydict \<Rightarrow> nat \<Rightarrow> ('w, 'n) meth"   \<comment> \<open>a network of so many classes with these weights\<close>
  kv_compose :: "image_step list \<Rightarrow> 't res"
  kv_capture :: "('w, ndarray \<times> int) meth"
  kv_monotonic_ns :: "('w, int) meth"
  kv_infer :: "'n \<Rightarrow> 't \<Rightarrow> ndarray \<Rightarrow> ('w, flt list) meth"  \<comment> \<open>the softmax probabilities\<close>

record checker_config =
  kc_asset_root :: path
  kc_specs :: "(string \<times> checker_spec) list"
  kc_max_image_age_sec :: flt

record ('n, 't, 'w) checker =
  ck_active_skill :: "string option"
  ck_active_model :: "'n option"
  ck_classes :: "string list"
  ck_transform :: "'t option"
  ck_world :: 'w

fun specs_validate :: "(string \<times> checker_spec) list \<Rightarrow> unit res" where
  "specs_validate [] = Inr ()"
| "specs_validate ((skill, spec) # specs) = bind_sum (checker_spec_validate spec) (\<lambda>_. specs_validate specs)"

definition checker_init :: "checker_config \<Rightarrow> 'w \<Rightarrow> ('n, 't, 'w) checker res" where
  "checker_init cfg w =
     bind_sum (specs_validate (kc_specs cfg)) (\<lambda>_.
     reject_if (f_le (kc_max_image_age_sec cfg) f_zero) (PyExc ValueError)
       (Inr \<lparr>ck_active_skill = None, ck_active_model = None, ck_classes = [], ck_transform = None, ck_world = w\<rparr>))"

definition on_checker :: "('w, 'a) meth \<Rightarrow> (('n, 't, 'w) checker, 'a) meth" where
  "on_checker m = (\<lambda>s. case m (ck_world s) of (r, w) \<Rightarrow> (r, s\<lparr>ck_world := w\<rparr>))"

subsection \<open>Preparing a model\<close>

definition checker_close :: "(('n, 't, 'w) checker, unit) meth" where
  "checker_close =
     modify_op (\<lambda>s. s\<lparr>ck_active_model := None, ck_active_skill := None, ck_classes := [], ck_transform := None\<rparr>)"

definition dget_default :: "pydict \<Rightarrow> string \<Rightarrow> pyval \<Rightarrow> pyval" where
  "dget_default d k v = (case dget d k of None \<Rightarrow> v | Some x \<Rightarrow> x)"

definition string_items :: "pyval \<Rightarrow> string list option" where
  \<comment> \<open>a non-empty list of strings\<close>
  "string_items v =
     (case v of
        PList items \<Rightarrow> if items = [] \<or> list_ex (\<lambda>i. is_str i = None) items then None else Some (map (\<lambda>i. the (is_str i)) items)
      | _ \<Rightarrow> None)"

definition checkpoint_contract :: "checker_spec \<Rightarrow> pyval \<Rightarrow> (string list \<times> pydict) res" where
  \<comment> \<open>the classes and the weights of a checkpoint that fits the specification\<close>
  "checkpoint_contract spec checkpoint =
     bind_sum (expect (err CHECKER_FAILED ''checker checkpoint is not a mapping'' []) (is_dict checkpoint)) (\<lambda>d.
     bind_sum (expect (err CHECKER_FAILED ''checker checkpoint classes are invalid'' [])
       (string_items (dget_default d ''classes'' (dget_default d ''class_names'' PNone)))) (\<lambda>classes.
     bind_sum (expect (err CHECKER_FAILED ''checker checkpoint contract does not match its profile'' [])
       (if cs_success_class spec \<in> set classes then Option.bind (dget d ''model_state_dict'') is_dict else None)) (\<lambda>weights.
       Inr (classes, weights))))"

text \<open>The file is hashed block by block, which is the digest of its content.\<close>

definition load_checkpoint :: "('n, 't, 'w) checker_env \<Rightarrow> checker_config \<Rightarrow> checker_spec \<Rightarrow> ('w, pyval) meth" where
  "load_checkpoint env cfg spec =
     bind_op (lift_sum (resolve_under_root (kv_resolve env) (kc_asset_root cfg) (cs_model_relative_path spec))) (\<lambda>file.
     bind_op (kv_is_file env file) (\<lambda>exists.
     if \<not> exists then raise (err CHECKER_FAILED ''checker model asset is missing'' [])
     else
     bind_op (kv_read env file) (\<lambda>content.
     if sha256_hex content \<noteq> cs_model_sha256 spec
     then raise (err CHECKER_FAILED ''checker model asset hash does not match its manifest'' [])
     else
       catch_op (kv_load env file)
         (\<lambda>e. raise (if is_exception e then err CHECKER_FAILED ''checker checkpoint cannot be loaded safely'' [] else e)))))"

definition preprocessing_steps :: "checker_spec \<Rightarrow> pydict \<Rightarrow> image_step list" where
  "preprocessing_steps spec checkpoint =
     (let three = (\<lambda>a b c. PList [PFloat (rnd64 a), PFloat (rnd64 b), PFloat (rnd64 c)]) in
      (if cs_preprocessing spec = ''resize_center_crop'' then [Resize_256, Center_crop_224]
       else [Resize (dget_default checkpoint ''input_size'' (PList [PInt 224, PInt 224]))])
      @ [To_tensor,
         Normalize (dget_default checkpoint ''normalize_mean'' (three (485 / 1000) (456 / 1000) (406 / 1000)))
                   (dget_default checkpoint ''normalize_std'' (three (229 / 1000) (224 / 1000) (225 / 1000)))])"

definition checker_prepare ::
  "('n, 't, 'w) checker_env \<Rightarrow> checker_config \<Rightarrow> string \<Rightarrow> checker_spec \<Rightarrow> (('n, 't, 'w) checker, unit) meth" where
  "checker_prepare env cfg skill spec =
     bind_op (gets_op id) (\<lambda>s.
     if ck_active_skill s = Some skill \<and> ck_active_model s \<noteq> None then ret ()
     else
     bind_op (on_checker (load_checkpoint env cfg spec)) (\<lambda>checkpoint.
     bind_op (lift_sum (checkpoint_contract spec checkpoint)) (\<lambda>(classes, weights).
     bind_op (on_checker (kv_network env weights (length classes))) (\<lambda>model.
     seq_op checker_close
     (seq_op (modify_op (\<lambda>s. s\<lparr>ck_active_skill := Some skill, ck_active_model := Some model, ck_classes := classes\<rparr>))
     (bind_op (lift_sum (kv_compose env (preprocessing_steps spec (the (is_dict checkpoint))))) (\<lambda>transform.
       modify_op (\<lambda>s. s\<lparr>ck_transform := Some transform\<rparr>))))))))"

subsection \<open>Judging an image\<close>

definition rgb_image :: "ndarray \<Rightarrow> bool" where
  "rgb_image a \<longleftrightarrow> length (nd_shape a) = 3 \<and> nd_shape a ! 2 = 3 \<and> dt_name (nd_dtype a) = ''uint8''"

text \<open>\<open>np.argmax\<close>: the first NaN, or the first of the largest.\<close>

definition np_argmax :: "flt list \<Rightarrow> nat res" where
  "np_argmax xs =
     (if xs = [] then Inl (PyExc ValueError)
      else case find (\<lambda>i. xs ! i = NaN) [0..<length xs] of
        Some i \<Rightarrow> Inr i
      | None \<Rightarrow> Inr (the (find (\<lambda>i. xs ! i = np_max xs) [0..<length xs])))"

definition checker_verdict :: "checker_spec \<Rightarrow> string list \<Rightarrow> flt list \<Rightarrow> checker_result res" where
  "checker_verdict spec classes probabilities =
     bind_sum (np_argmax probabilities) (\<lambda>index.
     reject_if (length classes \<le> index) (PyExc IndexError) (
     let predicted = classes ! index; confidence = probabilities ! index in
       Inr \<lparr>kr_passed = (predicted = cs_success_class spec \<and> f_le (cs_threshold spec) confidence), kr_score = confidence,
            kr_threshold = cs_threshold spec, kr_asset_id = cs_model_sha256 spec, kr_reason = ''predicted:'' @ predicted\<rparr>))"

definition fresh_image :: "('n, 't, 'w) checker_env \<Rightarrow> checker_config \<Rightarrow> ('w, ndarray) meth" where
  "fresh_image env cfg =
     bind_op (kv_capture env) (\<lambda>(rgb, captured_at).
     bind_op (kv_monotonic_ns env) (\<lambda>now.
     bind_op (if now - captured_at < 0 then ret 0
              else lift_sum (py_int_of (f_mul (kc_max_image_age_sec cfg) (Fin 1000000000)))) (\<lambda>limit.
     if now - captured_at < 0 \<or> limit < now - captured_at
     then raise (err OBSERVATION_STALE ''checker front image is stale'' [])
     else if \<not> rgb_image rgb then raise (err CHECKER_FAILED ''checker input must be an RGB uint8 image'' [])
     else ret rgb)))"

definition checker_evaluate ::
  "('n, 't, 'w) checker_env \<Rightarrow> checker_config \<Rightarrow> string \<Rightarrow> (('n, 't, 'w) checker, checker_result) meth" where
  "checker_evaluate env cfg skill =
     (case map_of (kc_specs cfg) skill of
        None \<Rightarrow> raise (err CHECKER_FAILED ''checker is not configured for the requested skill'' [])
      | Some spec \<Rightarrow>
          seq_op (checker_prepare env cfg skill spec)
          (bind_op (on_checker (fresh_image env cfg)) (\<lambda>rgb.
           bind_op (gets_op id) (\<lambda>s.
           case (ck_active_model s, ck_transform s) of
             (Some model, Some transform) \<Rightarrow>
               bind_op (on_checker (kv_infer env model transform rgb)) (\<lambda>probabilities.
                 lift_sum (checker_verdict spec (ck_classes s) probabilities))
           | _ \<Rightarrow> raise (PyExc AssertionError)))))"

end
