(* ===== verification/Oven_CheckerSpec.thy ===== *)
theory Oven_CheckerSpec
  imports Oven_Checker
begin

text \<open>
  What a verdict of the visual checker rests on: a model whose file had the digest of its
  specification when it was loaded, a fresh image, and the class the network finds most likely.
\<close>

subsection \<open>The model in use is a verified one\<close>

definition verified :: "('n, 't, 'w) checker_env \<Rightarrow> checker_config \<Rightarrow> checker_spec \<Rightarrow> 'n \<Rightarrow> string list \<Rightarrow> bool" where
  "verified env cfg spec model classes \<longleftrightarrow>
     (\<exists>file content checkpoint weights w0 w1 w2 w3.
        resolve_under_root (kv_resolve env) (kc_asset_root cfg) (cs_model_relative_path spec) = Inr file
        \<and> kv_read env file w0 = (Inr content, w1) \<and> sha256_hex content = cs_model_sha256 spec
        \<and> kv_load env file w1 = (Inr checkpoint, w2) \<and> checkpoint_contract spec checkpoint = Inr (classes, weights)
        \<and> kv_network env weights (length classes) w2 = (Inr model, w3))"

definition checker_inv :: "('n, 't, 'w) checker_env \<Rightarrow> checker_config \<Rightarrow> ('n, 't, 'w) checker \<Rightarrow> bool" where
  "checker_inv env cfg s \<longleftrightarrow>
     (\<forall>skill model. ck_active_skill s = Some skill \<longrightarrow> ck_active_model s = Some model \<longrightarrow>
        (\<exists>spec. map_of (kc_specs cfg) skill = Some spec \<and> verified env cfg spec model (ck_classes s)))"

lemma checker_inv_world [simp]: "checker_inv env cfg (s\<lparr>ck_world := w\<rparr>) = checker_inv env cfg s"
  by (simp add: checker_inv_def)

lemma checker_inv_transform [simp]: "checker_inv env cfg (s\<lparr>ck_transform := t\<rparr>) = checker_inv env cfg s"
  by (simp add: checker_inv_def)

lemma keeps_on_checker: "keeps (checker_inv env cfg) (on_checker m)"
  by (rule keepsI) (simp add: on_checker_def split: prod.split)

lemma on_checker_Inr: "on_checker m s = (Inr x, s') \<longleftrightarrow> (\<exists>w. m (ck_world s) = (Inr x, w) \<and> s' = s\<lparr>ck_world := w\<rparr>)"
  by (auto simp: on_checker_def split: prod.split)

lemma catch_raise_Inr: "catch_op m (\<lambda>e. raise (h e)) s = (Inr x, s') \<longleftrightarrow> m s = (Inr x, s')"
  by (cases "m s"; cases "fst (m s)") (auto simp: catch_op_apply raise_apply)

lemma load_checkpoint_Inr:
  assumes "load_checkpoint env cfg spec w = (Inr checkpoint, w')"
  obtains asset content w0 w1 where
    "resolve_under_root (kv_resolve env) (kc_asset_root cfg) (cs_model_relative_path spec) = Inr asset"
    "kv_read env asset w0 = (Inr content, w1)" "sha256_hex content = cs_model_sha256 spec"
    "kv_load env asset w1 = (Inr checkpoint, w')"
  using assms
  by (auto simp: load_checkpoint_def op_returns lift_sum_apply catch_raise_Inr)

definition holds_model :: "string \<Rightarrow> ('n, 't, 'w) checker \<Rightarrow> bool" where
  "holds_model skill s \<longleftrightarrow> ck_active_skill s = Some skill \<and> ck_active_model s \<noteq> None"

lemma checker_prepare_spec:
  assumes "checker_prepare env cfg skill spec s = (r, s')" and "map_of (kc_specs cfg) skill = Some spec"
    and "checker_inv env cfg s"
  shows "checker_inv env cfg s'" and "r = Inr () \<Longrightarrow> holds_model skill s'"
proof -
  have "checker_inv env cfg s' \<and> (r = Inr () \<longrightarrow> holds_model skill s')"
  proof (cases "holds_model skill s")
    case True
    with assms show ?thesis by (simp add: checker_prepare_def op_simps holds_model_def)
  next
    case False
    obtain x w where load: "load_checkpoint env cfg spec (ck_world s) = (x, w)" by fastforce
    show ?thesis
    proof (cases "\<exists>checkpoint classes weights model w'. x = Inr checkpoint \<and> checkpoint_contract spec checkpoint = Inr (classes, weights)
        \<and> kv_network env weights (length classes) w = (Inr model, w')")
      case True
      then obtain checkpoint classes weights model w' where
        parts: "x = Inr checkpoint" "checkpoint_contract spec checkpoint = Inr (classes, weights)"
          "kv_network env weights (length classes) w = (Inr model, w')" by blast
      have "verified env cfg spec model classes"
        using load_checkpoint_Inr [OF load [unfolded parts(1)]] parts(2,3) unfolding verified_def by metis
      moreover have "ck_active_skill s' = Some skill \<and> ck_active_model s' = Some model \<and> ck_classes s' = classes"
        using assms(1) False load parts
        by (cases "kv_compose env (preprocessing_steps spec (the (is_dict checkpoint)))")
          (auto simp: checker_prepare_def op_simps holds_model_def on_checker_def checker_close_def)
      ultimately show ?thesis using assms(2) by (auto simp: checker_inv_def holds_model_def)
    next
      case none: False
      have "(\<exists>w. s' = s\<lparr>ck_world := w\<rparr>) \<and> (\<exists>e. r = Inl e)"
      proof (cases "\<exists>checkpoint classes weights. x = Inr checkpoint \<and> checkpoint_contract spec checkpoint = Inr (classes, weights)")
        case True
        then obtain checkpoint classes weights where
          parts: "x = Inr checkpoint" "checkpoint_contract spec checkpoint = Inr (classes, weights)" by blast
        obtain y w' where "kv_network env weights (length classes) w = (y, w')" by fastforce
        with none parts assms(1) False load show ?thesis
          by (cases y) (auto simp: checker_prepare_def op_simps holds_model_def on_checker_def)
      next
        case contract: False
        with assms(1) False load show ?thesis
          by (cases x; cases "checkpoint_contract spec (projr x)")
            (auto simp: checker_prepare_def op_simps holds_model_def on_checker_def)
      qed
      with assms(3) show ?thesis by auto
    qed
  qed
  then show "checker_inv env cfg s'" "r = Inr () \<Longrightarrow> holds_model skill s'" by blast+
qed

text \<open>The methods of a checker as a machine.\<close>

datatype checker_call = Checker_evaluate string | Checker_close

fun checker_step :: "('n, 't, 'w) checker_env \<Rightarrow> checker_config \<Rightarrow> checker_call \<Rightarrow> (('n, 't, 'w) checker, unit) meth" where
  "checker_step env cfg (Checker_evaluate skill) = map_op (\<lambda>_. ()) (checker_evaluate env cfg skill)"
| "checker_step env cfg Checker_close = checker_close"

lemma checker_evaluate_inv: "keeps (checker_inv env cfg) (checker_evaluate env cfg skill)"
proof (cases "map_of (kc_specs cfg) skill")
  case None
  then show ?thesis by (simp add: checker_evaluate_def keeps_raise)
next
  case (Some spec)
  have "keeps (checker_inv env cfg) (checker_prepare env cfg skill spec)"
    by (rule keepsI) (metis checker_prepare_spec(1) [OF _ Some] prod.collapse)
  with Some show ?thesis
    unfolding checker_evaluate_def
    by (auto intro!: keeps_seq keeps_bind keeps_on_checker keeps_gets keeps_lift_sum keeps_raise split: option.split)
qed

lemma checker_step_inv: "keeps (checker_inv env cfg) (checker_step env cfg c)"
  by (cases c)
    (auto intro!: checker_evaluate_inv keeps_map keeps_modify simp: checker_close_def checker_inv_def)

interpretation checker_machine: invariant_machine "checker_step env cfg" "checker_inv env cfg" for env cfg
  by unfold_locales (rule keepsD [OF checker_step_inv])

lemma checker_init_inv: "checker_init cfg w = Inr s \<Longrightarrow> checker_inv env cfg s"
  by (auto simp: checker_init_def checker_inv_def result_iffs)

subsection \<open>The verdict\<close>

lemma find_index_Some:
  assumes "x \<in> set xs"
  shows "\<exists>i < length xs. find (\<lambda>i. xs ! i = x) [0..<length xs] = Some i \<and> xs ! i = x"
proof -
  from assms obtain j where "j < length xs" "xs ! j = x" by (metis in_set_conv_nth)
  then have "find (\<lambda>i. xs ! i = x) [0..<length xs] \<noteq> None" by (auto simp: find_None_iff)
  then obtain i where i: "find (\<lambda>i. xs ! i = x) [0..<length xs] = Some i" by blast
  then have "i < length xs \<and> xs ! i = x" by (auto simp: find_Some_iff)
  with i show ?thesis by blast
qed

text \<open>What \<open>np.argmax\<close> returns: the first entry that is not a number, or else the first of the largest.\<close>

definition most_likely :: "flt list \<Rightarrow> nat \<Rightarrow> bool" where
  "most_likely xs i \<longleftrightarrow> i < length xs
     \<and> (if NaN \<in> set xs then xs ! i = NaN else (\<forall>x \<in> set xs. f_le x (xs ! i)))
     \<and> (\<forall>j < i. xs ! j \<noteq> xs ! i)"

lemma find_index_first:
  assumes "find (\<lambda>i. xs ! i = x) [0..<length xs] = Some i"
  shows "i < length xs \<and> xs ! i = x \<and> (\<forall>j < i. xs ! j \<noteq> xs ! i)"
  using assms by (auto simp: find_Some_iff)

lemma np_argmax_Inr:
  assumes "np_argmax xs = Inr i"
  shows "most_likely xs i"
proof -
  have xs: "xs \<noteq> []" using assms by (auto simp: np_argmax_def)
  show ?thesis
  proof (cases "NaN \<in> set xs")
    case True
    from find_index_Some [OF this] obtain k where "find (\<lambda>i. xs ! i = NaN) [0..<length xs] = Some k" by blast
    with assms xs have "find (\<lambda>i. xs ! i = NaN) [0..<length xs] = Some i" by (simp add: np_argmax_def)
    from find_index_first [OF this] True show ?thesis unfolding most_likely_def by auto
  next
    case False
    then have none: "find (\<lambda>i. xs ! i = NaN) [0..<length xs] = None" by (auto simp: find_None_iff in_set_conv_nth)
    have max: "np_max xs \<in> set xs" using xs by (rule np_max_in)
    from find_index_Some [OF this] obtain k where "find (\<lambda>i. xs ! i = np_max xs) [0..<length xs] = Some k" by blast
    with assms xs none have "find (\<lambda>i. xs ! i = np_max xs) [0..<length xs] = Some i" by (simp add: np_argmax_def)
    note i = find_index_first [OF this]
    have "np_max xs \<noteq> NaN" using False max by metis
    then have "f_le (np_max xs) (np_max xs)" by simp
    with np_max_le [OF xs, of "np_max xs"] have "\<forall>x \<in> set xs. f_le x (np_max xs)" by blast
    with i False show ?thesis unfolding most_likely_def by auto
  qed
qed

lemma checker_verdict_Inr:
  assumes "checker_verdict spec classes probabilities = Inr result"
  shows "kr_threshold result = cs_threshold spec \<and> kr_asset_id result = cs_model_sha256 spec
    \<and> (\<exists>i. most_likely probabilities i \<and> i < length classes \<and> kr_score result = probabilities ! i
         \<and> kr_reason result = ''predicted:'' @ classes ! i
         \<and> (kr_passed result \<longleftrightarrow> classes ! i = cs_success_class spec \<and> f_le (cs_threshold spec) (probabilities ! i)))"
  using assms by (auto simp: checker_verdict_def result_iffs Let_def dest: np_argmax_Inr)

definition image_in_time :: "('n, 't, 'w) checker_env \<Rightarrow> checker_config \<Rightarrow> ndarray \<Rightarrow> bool" where
  "image_in_time env cfg rgb \<longleftrightarrow>
     rgb_image rgb \<and> (\<exists>captured now limit w w' w''. kv_capture env w = (Inr (rgb, captured), w')
        \<and> kv_monotonic_ns env w' = (Inr now, w'') \<and> py_int_of (f_mul (kc_max_image_age_sec cfg) (Fin 1000000000)) = Inr limit
        \<and> 0 \<le> now - captured \<and> now - captured \<le> limit)"

lemma fresh_image_Inr: "fresh_image env cfg w = (Inr rgb, w') \<Longrightarrow> image_in_time env cfg rgb"
  unfolding image_in_time_def
  by (auto simp: fresh_image_def op_returns raise_apply ret_apply lift_sum_apply split: if_splits) (metis not_le)+

lemma checker_evaluate_Inr:
  assumes "checker_evaluate env cfg skill s = (Inr result, s')" and "checker_inv env cfg s"
  shows "\<exists>spec model classes transform rgb probabilities w w'.
    map_of (kc_specs cfg) skill = Some spec \<and> verified env cfg spec model classes \<and> image_in_time env cfg rgb
    \<and> kv_infer env model transform rgb w = (Inr probabilities, w') \<and> w' = ck_world s'
    \<and> checker_verdict spec classes probabilities = Inr result"
proof -
  from assms(1) obtain spec where spec: "map_of (kc_specs cfg) skill = Some spec"
    by (auto simp: checker_evaluate_def raise_apply split: option.splits)
  with assms(1) obtain s1 s2 rgb model transform where
    prep: "checker_prepare env cfg skill spec s = (Inr (), s1)" and image: "on_checker (fresh_image env cfg) s1 = (Inr rgb, s2)"
    and model: "ck_active_model s2 = Some model" "ck_transform s2 = Some transform"
    and judge: "bind_op (on_checker (kv_infer env model transform rgb))
      (\<lambda>probabilities. lift_sum (checker_verdict spec (ck_classes s2) probabilities)) s2 = (Inr result, s')"
    by (auto simp: checker_evaluate_def op_returns gets_op_apply raise_apply split: option.splits)
  note after = checker_prepare_spec [OF prep spec assms(2)]
  from image obtain w where w: "fresh_image env cfg (ck_world s1) = (Inr rgb, w)" "s2 = s1\<lparr>ck_world := w\<rparr>"
    by (auto simp: on_checker_Inr)
  from judge obtain probabilities w' where judged: "kv_infer env model transform rgb (ck_world s2) = (Inr probabilities, w')"
    "w' = ck_world s'" "checker_verdict spec (ck_classes s2) probabilities = Inr result"
    by (auto simp: op_returns on_checker_Inr lift_sum_apply)
  have "checker_inv env cfg s2" "ck_active_skill s2 = Some skill" using after w(2) by (simp_all add: holds_model_def)
  with model spec have "verified env cfg spec model (ck_classes s2)" by (auto simp: checker_inv_def)
  with spec fresh_image_Inr [OF w(1)] judged show ?thesis by blast
qed

text \<open>
  C34. A verdict rests on a verified model and a fresh image.  Whatever was checked before, when the
  checker returns a result for a skill, the result is the verdict of a network that was loaded, for
  the specification of that skill, from a file below the asset root that had the configured SHA-256
  digest, on an RGB image that was captured within the age limit; the last thing done is to ask
  that network.  The result names the class the network finds most likely and its confidence, and
  it passes exactly when that class is the configured success class and the confidence is at least
  the configured threshold.
\<close>

theorem checker_verdict_is_verified:
  assumes "checker_init cfg w0 = Inr s0" and "s = run_ops (checker_step env cfg) calls s0"
    and "checker_evaluate env cfg skill s = (Inr result, s')"
  shows "\<exists>spec model classes transform rgb probabilities w i.
    map_of (kc_specs cfg) skill = Some spec \<and> verified env cfg spec model classes \<and> image_in_time env cfg rgb
    \<and> kv_infer env model transform rgb w = (Inr probabilities, ck_world s')
    \<and> kr_threshold result = cs_threshold spec \<and> kr_asset_id result = cs_model_sha256 spec
    \<and> most_likely probabilities i \<and> i < length classes \<and> kr_score result = probabilities ! i
    \<and> kr_reason result = ''predicted:'' @ classes ! i
    \<and> (kr_passed result \<longleftrightarrow> classes ! i = cs_success_class spec \<and> f_le (cs_threshold spec) (probabilities ! i))"
proof -
  have "checker_inv env cfg s"
    unfolding assms(2) by (rule checker_machine.run_inv) (rule checker_init_inv [OF assms(1)])
  from checker_evaluate_Inr [OF assms(3) this] obtain spec model classes transform rgb probabilities w where
    parts: "map_of (kc_specs cfg) skill = Some spec" "verified env cfg spec model classes" "image_in_time env cfg rgb"
      "kv_infer env model transform rgb w = (Inr probabilities, ck_world s')" "checker_verdict spec classes probabilities = Inr result"
    by (elim exE conjE) (simp only: that)
  from checker_verdict_Inr [OF parts(5)] obtain i where
    verdict: "kr_threshold result = cs_threshold spec" "kr_asset_id result = cs_model_sha256 spec"
      "most_likely probabilities i" "i < length classes" "kr_score result = probabilities ! i"
      "kr_reason result = ''predicted:'' @ classes ! i"
      "kr_passed result \<longleftrightarrow> classes ! i = cs_success_class spec \<and> f_le (cs_threshold spec) (probabilities ! i)"
    by (elim exE conjE) (rule that)
  show ?thesis
    by (rule exI [of _ spec], rule exI [of _ model], rule exI [of _ classes], rule exI [of _ transform], rule exI [of _ rgb],
        rule exI [of _ probabilities], rule exI [of _ w], rule exI [of _ i])
      (intro conjI parts(1-4) verdict)
qed

text \<open>A checker for evaluation: the model file is empty and the network prefers the second of two classes.\<close>

definition demo_checker_spec :: checker_spec where
  "demo_checker_spec =
     \<lparr>cs_model_relative_path = ''m'', cs_model_sha256 = sha256_hex [], cs_success_class = ''yes'', cs_threshold = Fin (1 / 2),
      cs_preprocessing = ''resize''\<rparr>"

definition demo_checker_config :: checker_config where
  "demo_checker_config =
     \<lparr>kc_asset_root = [''assets''], kc_specs = [(''open_door'', demo_checker_spec)], kc_max_image_age_sec = Fin 1\<rparr>"

definition demo_checker_env :: "(unit, unit, unit) checker_env" where
  "demo_checker_env =
     \<lparr>kv_resolve = Inr, kv_is_file = (\<lambda>_. ret True), kv_read = (\<lambda>_. ret []),
      kv_load = (\<lambda>_. ret (PDict [(''classes'', PList [PStr ''no'', PStr ''yes'']), (''model_state_dict'', PDict [])])),
      kv_network = (\<lambda>_ _. ret ()), kv_compose = (\<lambda>_. Inr ()),
      kv_capture = ret (NDArray \<lparr>dt_name = ''uint8'', dt_kind = CHR ''u'', dt_itemsize = 1\<rparr> [1, 1, 3] [Fin 0, Fin 0, Fin 0] [0, 0, 0], 1),
      kv_monotonic_ns = ret 2, kv_infer = (\<lambda>_ _ _. ret [Fin (1 / 4), Fin (3 / 4)])\<rparr>"

definition demo_checker :: "(unit, unit, unit) checker" where
  "demo_checker = \<lparr>ck_active_skill = None, ck_active_model = None, ck_classes = [], ck_transform = None, ck_world = ()\<rparr>"

lemma hex_digit_member: "is_hex_digit c \<Longrightarrow> c \<in> set ''0123456789abcdef''"
proof -
  assume "is_hex_digit c"
  moreover define n where "n = (of_char c :: nat)"
  ultimately have "n \<in> {48..57} \<union> {97..102}" by (auto simp: is_hex_digit_def is_digit_def less_eq_char_def)
  then have "n \<in> set [48, 49, 50, 51, 52, 53, 54, 55, 56, 57, 97, 98, 99, 100, 101, 102]"
    by (simp only: Un_iff atLeastAtMost_iff list.set insert_iff empty_iff) presburger
  then have "n \<in> of_char ` set ''0123456789abcdef''" by simp
  then obtain d where "of_char c = (of_char d :: nat)" "d \<in> set ''0123456789abcdef''" unfolding n_def by (rule imageE)
  then show ?thesis by (simp only: of_char_eq_iff)
qed

lemma demo_checker_init: "checker_init demo_checker_config () = Inr demo_checker"
proof -
  have "list_all (\<lambda>ch. ch \<in> set ''0123456789abcdef'') (sha256_hex [])"
    using sha256_hex_digits [of "[]"] unfolding list_all_iff by (intro ballI hex_digit_member) blast
  then have "checker_spec_validate demo_checker_spec = Inr ()"
    unfolding checker_spec_validate_def demo_checker_spec_def by (auto simp: list_all_iff list_ex_iff reject_if_def)
  then show ?thesis by (simp add: checker_init_def demo_checker_config_def demo_checker_def)
qed

lemmas demo_checker_eval = checker_evaluate_def demo_checker_config_def checker_prepare_def demo_checker_def op_simps
  on_checker_def load_checkpoint_def demo_checker_env_def demo_checker_spec_def resolve_under_root_def is_absolute_def
  checkpoint_contract_def dget_default_def string_items_def checker_close_def fresh_image_def rgb_image_def
  checker_verdict_def np_argmax_def f_max_def Let_def path_parts_def

lemma demo_checker_runs:
  "\<exists>s'. checker_evaluate demo_checker_env demo_checker_config ''open_door'' demo_checker =
     (Inr \<lparr>kr_passed = True, kr_score = Fin (3 / 4), kr_threshold = Fin (1 / 2), kr_asset_id = sha256_hex [],
           kr_reason = ''predicted:yes''\<rparr>, s')"
proof -
  have "py_int_of (f_mul (Fin 1) (Fin 1000000000)) = Inr 1000000000"
    using rnd64_of_int [of 1000000000] by (simp add: py_int_of_def trunc_rat_def)
  then show ?thesis
    by (simp add: demo_checker_eval)
qed

theorem checker_verdict_is_verified_witness:
  "\<exists>result s'. checker_evaluate demo_checker_env demo_checker_config ''open_door'' demo_checker = (Inr result, s')
     \<and> kr_passed result \<and> (\<exists>spec model classes. map_of (kc_specs demo_checker_config) ''open_door'' = Some spec
         \<and> verified demo_checker_env demo_checker_config spec model classes \<and> cs_success_class spec \<in> set classes)"
proof -
  obtain result s' where run: "checker_evaluate demo_checker_env demo_checker_config ''open_door'' demo_checker = (Inr result, s')"
    "kr_passed result"
    using demo_checker_runs by fastforce
  have "demo_checker = run_ops (checker_step demo_checker_env demo_checker_config) [] demo_checker" by simp
  from checker_verdict_is_verified [OF demo_checker_init this run(1)] run show ?thesis by (metis nth_mem)
qed

text \<open>
  A checkpoint whose transform cannot be built leaves the checker with its model and without a
  transform: the next evaluation does not load it again and fails in an assertion.
\<close>

theorem failed_transform_blocks_checker:
  "let evaluate = checker_evaluate (demo_checker_env\<lparr>kv_compose := (\<lambda>_. Inl (PyExc TypeError))\<rparr>) demo_checker_config ''open_door''
   in fst (evaluate demo_checker) = Inl (PyExc TypeError)
      \<and> fst (evaluate (snd (evaluate demo_checker))) = Inl (PyExc AssertionError)"
proof -
  have "py_int_of (f_mul (Fin 1) (Fin 1000000000)) = Inr 1000000000"
    using rnd64_of_int [of 1000000000] by (simp add: py_int_of_def trunc_rat_def)
  then show ?thesis by (simp add: demo_checker_eval)
qed

end
