(* ===== verification/Oven_Profile.thy ===== *)
theory Oven_Profile
  imports Oven_RosTypes Oven_Orchestrator Oven_Control
begin

text \<open>
  \<open>edge/profile.py\<close>: how the robot's profile is read.  The TOML file is the dictionary \<open>tomllib\<close>
  returns; the home directory and the resolved runtime root are arguments.  \<open>urlsplit\<close> is the
  standard library's, as Python 3.10 has it.
\<close>

subsection \<open>Fields of a table\<close>

definition pf_mapping :: "pydict \<Rightarrow> string \<Rightarrow> pydict res" where
  "pf_mapping value key = expect (PyExc ValueError) (Option.bind (dget value key) is_dict)"

definition pf_string :: "pydict \<Rightarrow> string \<Rightarrow> string res" where
  "pf_string value key =
     bind_sum (expect (PyExc ValueError) (Option.bind (dget value key) is_str)) (\<lambda>s.
     reject_if (s = []) (PyExc ValueError) (Inr s))"

definition pf_boolean :: "pydict \<Rightarrow> string \<Rightarrow> bool res" where
  "pf_boolean value key = expect (PyExc ValueError) (Option.bind (dget value key) is_bool)"

definition pf_integer :: "pydict \<Rightarrow> string \<Rightarrow> int res" where
  "pf_integer value key = expect (PyExc ValueError) (Option.bind (dget value key) exact_int)"

text \<open>\<open>float\<close> of an integer or a float; an integer beyond the range of a float is an \<open>OverflowError\<close>.\<close>

fun is_number :: "pyval \<Rightarrow> bool" where
  "is_number (PInt n) = True"
| "is_number (PFloat x) = True"
| "is_number _ = False"

fun py_float :: "pyval \<Rightarrow> flt res" where
  "py_float (PInt n) = (case rnd64 (of_int n) of Fin a \<Rightarrow> Inr (Fin a) | _ \<Rightarrow> Inl (PyExc OverflowError))"
| "py_float (PFloat x) = Inr x"
| "py_float _ = Inl (PyExc TypeError)"

definition pf_number :: "pydict \<Rightarrow> string \<Rightarrow> flt res" where
  "pf_number value key =
     bind_sum (expect (PyExc ValueError) (dget value key)) (\<lambda>v.
     reject_if (\<not> is_number v) (PyExc ValueError) (
     bind_sum (py_float v) (\<lambda>x.
     reject_if (\<not> is_finite x) (PyExc ValueError) (Inr x))))"

definition pf_string_list :: "pydict \<Rightarrow> string \<Rightarrow> string list res" where
  "pf_string_list value key =
     bind_sum (expect (PyExc ValueError) (Option.bind (dget value key) is_list)) (\<lambda>items.
     reject_if (items = [] \<or> list_ex (\<lambda>v. is_str v \<in> {None, Some []}) items) (PyExc ValueError)
       (Inr (map (\<lambda>v. the (is_str v)) items)))"

fun int_items :: "pyval list \<Rightarrow> int list res" where
  "int_items [] = Inr []"
| "int_items (v # vs) =
     bind_sum (expect (PyExc ValueError) (exact_int v)) (\<lambda>n. bind_sum (int_items vs) (\<lambda>ns. Inr (n # ns)))"

definition pf_integer_list :: "pydict \<Rightarrow> string \<Rightarrow> int list res" where
  "pf_integer_list value key =
     bind_sum (expect (PyExc ValueError) (Option.bind (dget value key) is_list)) (\<lambda>items.
     reject_if (items = []) (PyExc ValueError) (int_items items))"

definition pf_optional_integer_list :: "pydict \<Rightarrow> string \<Rightarrow> int list res" where
  "pf_optional_integer_list value key =
     (case dget value key of
        None \<Rightarrow> Inr []
      | Some v \<Rightarrow> bind_sum (expect (PyExc ValueError) (is_list v)) int_items)"

fun map_res :: "('a \<Rightarrow> 'e + 'b) \<Rightarrow> 'a list \<Rightarrow> 'e + 'b list" where
  "map_res f [] = Inr []"
| "map_res f (x # xs) = bind_sum (f x) (\<lambda>y. bind_sum (map_res f xs) (\<lambda>ys. Inr (y # ys)))"

definition float_tuple_value :: "nat option \<Rightarrow> pyval option \<Rightarrow> flt list res" where
  "float_tuple_value len value =
     bind_sum (expect (PyExc ValueError) (Option.bind value is_list)) (\<lambda>items.
     reject_if (case len of None \<Rightarrow> False | Some n \<Rightarrow> length items \<noteq> n) (PyExc ValueError) (
     reject_if (\<not> list_all is_number items) (PyExc ValueError) (
     bind_sum (map_res py_float items) (\<lambda>result.
     reject_if (\<not> list_all is_finite result) (PyExc ValueError) (Inr result)))))"

definition pf_float_tuple :: "nat option \<Rightarrow> pydict \<Rightarrow> string \<Rightarrow> flt list res" where
  "pf_float_tuple len value key = float_tuple_value len (dget value key)"

definition pf_optional_float_tuple :: "pydict \<Rightarrow> string \<Rightarrow> flt list res" where
  "pf_optional_float_tuple value key =
     (case dget value key of None \<Rightarrow> Inr [] | Some v \<Rightarrow> float_tuple_value None (Some v))"

subsection \<open>URIs\<close>

record split_url =
  su_scheme :: string
  su_netloc :: string
  su_path :: string
  su_query :: string
  su_fragment :: string

definition partition_at :: "char \<Rightarrow> string \<Rightarrow> string \<times> bool \<times> string" where
  \<comment> \<open>\<open>s.partition(c)\<close>, with the separator as a flag\<close>
  "partition_at c s = (takeWhile (\<lambda>x. x \<noteq> c) s, c \<in> set s, drop 1 (dropWhile (\<lambda>x. x \<noteq> c) s))"

definition rpartition_at :: "char \<Rightarrow> string \<Rightarrow> string \<times> bool \<times> string" where
  "rpartition_at c s =
     (if c \<in> set s
      then (case partition_at c (rev s) of (rear, _, front) \<Rightarrow> (rev front, True, rev rear))
      else ([], False, s))"

definition lower_char :: "char \<Rightarrow> char" where
  "lower_char c =
     (let n = of_char c :: nat in
      if 65 \<le> n \<and> n \<le> 90 \<or> 192 \<le> n \<and> n \<le> 222 \<and> n \<noteq> 215 then char_of (n + 32) else c)"

definition is_scheme_char :: "char \<Rightarrow> bool" where
  "is_scheme_char c \<longleftrightarrow> is_alnum c \<or> c \<in> set ''+-.''"

definition split_scheme :: "string \<Rightarrow> string \<times> string" where
  \<comment> \<open>Python 3.10's rule: only the characters are checked; later versions also ask for a leading letter.
     The callers compare the scheme with \<open>ws\<close> alone, for which the two rules agree\<close>
  "split_scheme url =
     (case partition_at (CHR '':'') url of
        (scheme, found, rest) \<Rightarrow>
          if found \<and> scheme \<noteq> [] \<and> list_all is_scheme_char scheme
          then (map lower_char scheme, rest) else ([], url))"

definition urlsplit :: "string \<Rightarrow> split_url res" where
  "urlsplit url0 =
     (let url1 = filter (\<lambda>c. c \<notin> char_of ` {9, 10, 13 :: nat}) (dropWhile (\<lambda>c. of_char c \<le> (32 :: nat)) url0);
          (scheme, url2) = split_scheme url1;
          (netloc, url3) =
            (if prefix ''//'' url2
             then (takeWhile (\<lambda>c. c \<notin> set ''/?#'') (drop 2 url2), dropWhile (\<lambda>c. c \<notin> set ''/?#'') (drop 2 url2))
             else ([], url2));
          (url4, _, fragment) = partition_at (CHR ''#'') url3;
          (path, _, query) = partition_at (CHR ''?'') url4
      in reject_if (prefix ''//'' url2 \<and> (CHR ''['' \<in> set netloc) \<noteq> (CHR '']'' \<in> set netloc)) (PyExc ValueError)
           (Inr \<lparr>su_scheme = scheme, su_netloc = netloc, su_path = path, su_query = query, su_fragment = fragment\<rparr>))"

definition url_hostinfo :: "split_url \<Rightarrow> string \<times> string option" where
  "url_hostinfo u =
     (let (_, _, hostinfo) = rpartition_at (CHR ''@'') (su_netloc u);
          (_, bracket, bracketed) = partition_at (CHR ''['') hostinfo;
          (hostname, port) =
            (if bracket
             then (let (host, _, rest) = partition_at (CHR '']'') bracketed; (_, _, port) = partition_at (CHR '':'') rest
                   in (host, port))
             else (let (host, _, port) = partition_at (CHR '':'') hostinfo in (host, port)))
      in (hostname, if port = [] then None else Some port))"

definition digits_value :: "string \<Rightarrow> int" where
  "digits_value s = foldl (\<lambda>acc c. 10 * acc + (of_char c - 48)) 0 s"

definition url_port :: "split_url \<Rightarrow> int option res" where
  "url_port u =
     (case snd (url_hostinfo u) of
        None \<Rightarrow> Inr None
      | Some port \<Rightarrow>
          reject_if (\<not> list_all is_digit port) (PyExc ValueError) (
          reject_if (65535 < digits_value port) (PyExc ValueError) (Inr (Some (digits_value port)))))"

definition url_hostname :: "split_url \<Rightarrow> string option" where
  "url_hostname u =
     (case fst (url_hostinfo u) of
        [] \<Rightarrow> None
      | hostname \<Rightarrow>
          (case partition_at (CHR 0x25) hostname of
             (host, percent, zone) \<Rightarrow> Some (map lower_char host @ (if percent then [CHR 0x25] else []) @ zone)))"

definition url_has_user :: "split_url \<Rightarrow> bool" where
  \<comment> \<open>\<open>username\<close> or \<open>password\<close> is not \<open>None\<close>\<close>
  "url_has_user u \<longleftrightarrow> CHR ''@'' \<in> set (su_netloc u)"

subsection \<open>The profile\<close>

record agilex_profile =
  ap_plan :: pipeline_plan
  ap_ros :: ros_config
  ap_gates :: "(string \<times> joint_gate_profile) list"
  ap_checkers :: "(string \<times> checker_spec) list"
  ap_action_dimension :: int
  ap_action_chunk_rows :: int
  ap_action_max_absolute_value :: flt
  ap_observation_max_age_ms :: flt
  ap_server_host_alias :: string
  ap_inference_uri :: string
  ap_remote_inference_port :: int
  ap_inference_timeout_sec :: flt
  ap_remote_control_program :: string
  ap_remote_runtime_root :: string

text \<open>The entry of one skill: its stage when it is selected, its gate, its checker when one is required.\<close>

record skill_entry =
  se_skill :: string
  se_prompt :: string
  se_reset_target :: "flt list"
  se_arm :: string
  se_stage :: "stage_plan option"
  se_gate :: joint_gate_profile
  se_checker :: "checker_spec option"

definition load_stage :: "int \<Rightarrow> flt \<Rightarrow> bool \<Rightarrow> string \<Rightarrow> bool \<Rightarrow> pydict \<Rightarrow> stage_plan res" where
  "load_stage chunk_rows settle_sec standalone skill checker_required value =
     bind_sum (pf_integer value ''root_seed'') (\<lambda>root_seed.
     bind_sum (pf_integer value ''max_chunks'') (\<lambda>max_chunks.
     bind_sum (if standalone then Inr True else pf_boolean value ''reset_before'') (\<lambda>reset_before.
       Inr \<lparr>sp_skill = skill, sp_root_seed = root_seed, sp_max_chunks = max_chunks,
            sp_action_steps = max_chunks * chunk_rows, sp_settle_sec = settle_sec,
            sp_reset_before = reset_before, sp_checker_required = checker_required\<rparr>)))"

definition load_gate :: "string \<Rightarrow> pydict \<Rightarrow> joint_gate_profile res" where
  "load_gate arm value =
     bind_sum (pf_mapping value ''gate'') (\<lambda>gate.
     bind_sum (expect (PyExc ValueError) (Option.bind (dget gate ''targets'') is_list)) (\<lambda>items.
     reject_if (items = []) (PyExc ValueError) (
     bind_sum (map_res (\<lambda>item. float_tuple_value (Some 7) (Some item)) items) (\<lambda>targets.
     bind_sum (pf_integer_list gate ''check_indices'') (\<lambda>check_indices.
     bind_sum (pf_float_tuple None gate ''tolerance'') (\<lambda>tolerance.
     bind_sum (pf_number gate ''departure_threshold'') (\<lambda>departure_threshold.
     bind_sum (pf_integer gate ''min_publish_step'') (\<lambda>min_publish_step.
     bind_sum (pf_integer gate ''window_samples'') (\<lambda>window_samples.
     bind_sum (pf_number gate ''max_spread'') (\<lambda>max_spread.
     bind_sum (pf_optional_integer_list gate ''arming_indices'') (\<lambda>arming_indices.
     bind_sum (pf_optional_float_tuple gate ''arming_min_abs_position'') (\<lambda>arming_min_abs_position.
       Inr \<lparr>jp_arm = arm, jp_targets = targets, jp_check_indices = check_indices, jp_tolerance = tolerance,
            jp_departure_threshold = departure_threshold, jp_min_publish_step = min_publish_step,
            jp_window_samples = window_samples, jp_max_spread = max_spread, jp_arming_indices = arming_indices,
            jp_arming_min_abs_position = arming_min_abs_position\<rparr>))))))))))))"

definition load_checker :: "pydict \<Rightarrow> checker_spec res" where
  "load_checker value =
     bind_sum (pf_mapping value ''checker'') (\<lambda>checker.
     bind_sum (pf_string checker ''model_relative_path'') (\<lambda>path.
     bind_sum (pf_string checker ''model_sha256'') (\<lambda>sha256.
     bind_sum (pf_string checker ''success_class'') (\<lambda>success_class.
     bind_sum (pf_number checker ''threshold'') (\<lambda>threshold.
     bind_sum (pf_string checker ''preprocessing'') (\<lambda>preprocessing.
       Inr \<lparr>cs_model_relative_path = path, cs_model_sha256 = sha256, cs_success_class = success_class,
            cs_threshold = threshold, cs_preprocessing = preprocessing\<rparr>))))))"

definition load_skill :: "pydict \<Rightarrow> int \<Rightarrow> flt \<Rightarrow> string option \<Rightarrow> string \<Rightarrow> skill_entry res" where
  "load_skill skills chunk_rows settle_sec selected skill =
     bind_sum (pf_mapping skills skill) (\<lambda>value.
     bind_sum (pf_string value ''prompt'') (\<lambda>prompt.
     bind_sum (pf_float_tuple (Some 7) value ''reset_target'') (\<lambda>reset_target.
     bind_sum (pf_string value ''arm'') (\<lambda>arm.
     bind_sum (pf_boolean value ''checker_required'') (\<lambda>checker_required.
     bind_sum (if selected = None \<or> selected = Some skill
               then bind_sum (load_stage chunk_rows settle_sec (selected \<noteq> None) skill checker_required value) (\<lambda>st. Inr (Some st))
               else Inr None) (\<lambda>stage.
     bind_sum (load_gate arm value) (\<lambda>gate.
     bind_sum (if checker_required then bind_sum (load_checker value) (\<lambda>c. Inr (Some c)) else Inr None) (\<lambda>checker.
       Inr \<lparr>se_skill = skill, se_prompt = prompt, se_reset_target = reset_target, se_arm = arm, se_stage = stage,
            se_gate = gate, se_checker = checker\<rparr>))))))))"

definition entry_map :: "(skill_entry \<Rightarrow> 'a) \<Rightarrow> skill_entry list \<Rightarrow> (string \<times> 'a) list" where
  "entry_map f entries = map (\<lambda>e. (se_skill e, f e)) entries"

definition entry_checkers :: "skill_entry list \<Rightarrow> (string \<times> checker_spec) list" where
  "entry_checkers entries =
     concat (map (\<lambda>e. case se_checker e of None \<Rightarrow> [] | Some c \<Rightarrow> [(se_skill e, c)]) entries)"

definition entry_stages :: "skill_entry list \<Rightarrow> stage_plan list" where
  "entry_stages entries = concat (map (\<lambda>e. case se_stage e of None \<Rightarrow> [] | Some st \<Rightarrow> [st]) entries)"

definition load_ros :: "string res \<Rightarrow> pydict \<Rightarrow> pydict \<Rightarrow> skill_entry list \<Rightarrow> ros_config res" where
  \<comment> \<open>\<open>locks\<close> is the resolved runtime root with \<open>locks\<close> below it\<close>
  "load_ros locks ros action entries =
     bind_sum locks (\<lambda>lock_directory.
     bind_sum (pf_string ros ''left_joint_topic'') (\<lambda>left_joint.
     bind_sum (pf_string ros ''right_joint_topic'') (\<lambda>right_joint.
     bind_sum (pf_string ros ''left_command_topic'') (\<lambda>left_command.
     bind_sum (pf_string ros ''right_command_topic'') (\<lambda>right_command.
     bind_sum (pf_string ros ''left_camera_topic'') (\<lambda>left_camera.
     bind_sum (pf_string ros ''right_camera_topic'') (\<lambda>right_camera.
     bind_sum (pf_string ros ''front_camera_topic'') (\<lambda>front_camera.
     bind_sum (pf_integer ros ''image_size'') (\<lambda>image_size.
     bind_sum (pf_number ros ''max_message_age_sec'') (\<lambda>max_message_age.
     bind_sum (pf_number ros ''preflight_timeout_sec'') (\<lambda>preflight_timeout.
     bind_sum (pf_number ros ''publish_hz'') (\<lambda>publish_hz.
     bind_sum (pf_integer action ''chunk_transition_steps'') (\<lambda>transition_steps.
     bind_sum (pf_number action ''chunk_transition_hz'') (\<lambda>transition_hz.
     bind_sum (pf_float_tuple (Some 7) action ''max_row_delta'') (\<lambda>max_row_delta.
     bind_sum (pf_number ros ''reset_duration_sec'') (\<lambda>reset_duration.
     bind_sum (pf_number ros ''reset_tolerance'') (\<lambda>reset_tolerance.
     bind_sum (pf_number ros ''reset_verify_timeout_sec'') (\<lambda>reset_verify_timeout.
     bind_sum (pf_integer ros ''stop_hold_repetitions'') (\<lambda>stop_hold_repetitions.
       Inr \<lparr>rc_prompts = entry_map se_prompt entries, rc_reset_targets = entry_map se_reset_target entries,
            rc_skill_arms = entry_map se_arm entries, rc_lock_directory = lock_directory,
            rc_left_joint_topic = left_joint, rc_right_joint_topic = right_joint,
            rc_left_command_topic = left_command, rc_right_command_topic = right_command,
            rc_left_camera_topic = left_camera, rc_right_camera_topic = right_camera,
            rc_front_camera_topic = front_camera, rc_image_size = image_size,
            rc_max_message_age_sec = max_message_age, rc_preflight_timeout_sec = preflight_timeout,
            rc_publish_hz = publish_hz, rc_chunk_transition_steps = transition_steps,
            rc_chunk_transition_hz = transition_hz, rc_max_row_delta = max_row_delta,
            rc_reset_duration_sec = reset_duration, rc_reset_tolerance = reset_tolerance,
            rc_reset_verify_timeout_sec = reset_verify_timeout,
            rc_stop_hold_repetitions = stop_hold_repetitions\<rparr>)))))))))))))))))))"

definition uri_is_local :: "string \<Rightarrow> bool" where
  "uri_is_local s =
     (case bind_sum (urlsplit s) (\<lambda>u. bind_sum (url_port u) (\<lambda>port. Inr (u, port))) of
        Inl e \<Rightarrow> False
      | Inr (u, port) \<Rightarrow>
          su_scheme u = ''ws'' \<and> url_hostname u \<in> {Some ''127.0.0.1'', Some ''::1''} \<and> port \<noteq> None
          \<and> \<not> url_has_user u \<and> su_path u \<in> {[], ''/''} \<and> su_query u = [] \<and> su_fragment u = [])"

definition absolute_normalized :: "string \<Rightarrow> bool" where
  \<comment> \<open>absolute, and no part is \<open>..\<close>\<close>
  "absolute_normalized path \<longleftrightarrow> prefix ''/'' path \<and> ''..'' \<notin> set (split_char (CHR ''/'') path)"

definition validate_profile :: "agilex_profile \<Rightarrow> unit res" where
  "validate_profile p =
     reject_if (ap_action_dimension p \<le> 0 \<or> ap_action_chunk_rows p \<le> 0) (PyExc ValueError) (
     reject_if (\<not> is_finite (ap_action_max_absolute_value p) \<or> f_le (ap_action_max_absolute_value p) f_zero) (PyExc ValueError) (
     reject_if (\<not> is_finite (ap_observation_max_age_ms p) \<or> f_le (ap_observation_max_age_ms p) f_zero) (PyExc ValueError) (
     reject_if (\<not> (1 \<le> ap_remote_inference_port p \<and> ap_remote_inference_port p \<le> 65535)) (PyExc ValueError) (
     reject_if (f_le (ap_inference_timeout_sec p) f_zero) (PyExc ValueError) (
     reject_if (\<not> host_alias_matches (ap_server_host_alias p)) (PyExc ValueError) (
     reject_if (\<not> absolute_normalized (ap_remote_control_program p)) (PyExc ValueError) (
     reject_if (\<not> absolute_normalized (ap_remote_runtime_root p)) (PyExc ValueError) (
     reject_if (\<not> uri_is_local (ap_inference_uri p)) (PyExc ValueError)
       (Inr ())))))))))"

fun checkers_validate :: "(string \<times> checker_spec) list \<Rightarrow> unit res" where
  "checkers_validate [] = Inr ()"
| "checkers_validate ((skill, c) # cs) = bind_sum (checker_spec_validate c) (\<lambda>_. checkers_validate cs)"

text \<open>Building the profile from the entries, and the validation that follows.\<close>

definition build_profile ::
  "string \<Rightarrow> string res \<Rightarrow> (string \<Rightarrow> string res) \<Rightarrow> pydict \<Rightarrow> pydict \<Rightarrow> pydict \<Rightarrow> int \<Rightarrow> skill_entry list \<Rightarrow> agilex_profile res" where
  "build_profile run_id locks expanduser server ros action chunk_rows entries =
     bind_sum (load_ros locks ros action entries) (\<lambda>config.
     bind_sum (pf_integer action ''dimension'') (\<lambda>dimension.
     bind_sum (pf_number action ''max_absolute_value'') (\<lambda>max_absolute_value.
     bind_sum (pf_number ros ''observation_max_age_ms'') (\<lambda>max_age_ms.
     bind_sum (pf_string server ''ssh_host_alias'') (\<lambda>host_alias.
     bind_sum (pf_string server ''local_inference_uri'') (\<lambda>uri.
     bind_sum (pf_integer server ''remote_inference_port'') (\<lambda>port.
     bind_sum (pf_number server ''inference_timeout_sec'') (\<lambda>timeout.
     bind_sum (pf_string server ''remote_control_program'') (\<lambda>program.
     bind_sum (bind_sum (pf_string server ''remote_runtime_root'') expanduser) (\<lambda>root.
       Inr \<lparr>ap_plan = \<lparr>pp_run_id = run_id, pp_stages = entry_stages entries\<rparr>, ap_ros = config,
            ap_gates = entry_map se_gate entries, ap_checkers = entry_checkers entries,
            ap_action_dimension = dimension, ap_action_chunk_rows = chunk_rows,
            ap_action_max_absolute_value = max_absolute_value, ap_observation_max_age_ms = max_age_ms,
            ap_server_host_alias = host_alias, ap_inference_uri = uri, ap_remote_inference_port = port,
            ap_inference_timeout_sec = timeout, ap_remote_control_program = program,
            ap_remote_runtime_root = root\<rparr>))))))))))"

definition check_profile :: "agilex_profile \<Rightarrow> agilex_profile res" where
  "check_profile p =
     bind_sum (plan_validate (ap_plan p)) (\<lambda>_.
     bind_sum (ros_config_validate (ap_ros p)) (\<lambda>_.
     bind_sum (all_arrays (ap_gates p)) (\<lambda>_.
     bind_sum (checkers_validate (ap_checkers p)) (\<lambda>_.
     bind_sum (validate_profile p) (\<lambda>_. Inr p)))))"

definition load_agilex_profile ::
  "string \<Rightarrow> string res \<Rightarrow> (string \<Rightarrow> string res) \<Rightarrow> string option \<Rightarrow> pydict \<Rightarrow> agilex_profile res" where
  "load_agilex_profile run_id locks expanduser selected raw =
     reject_if (case dget raw ''schema_version'' of None \<Rightarrow> True | Some v \<Rightarrow> \<not> eq_int v 1) (PyExc ValueError) (
     bind_sum (pf_mapping raw ''server'') (\<lambda>server.
     bind_sum (pf_mapping raw ''ros'') (\<lambda>ros.
     bind_sum (pf_mapping raw ''action'') (\<lambda>action.
     bind_sum (pf_mapping raw ''skills'') (\<lambda>skills.
     bind_sum (pf_integer action ''chunk_rows'') (\<lambda>chunk_rows.
     bind_sum (pf_number ros ''settle_sec'') (\<lambda>settle_sec.
     reject_if (case selected of None \<Rightarrow> False | Some skill \<Rightarrow> skill \<notin> set FIXED_SKILL_ORDER) (PyExc ValueError) (
     bind_sum (map_res (load_skill skills chunk_rows settle_sec selected) FIXED_SKILL_ORDER) (\<lambda>entries.
     bind_sum (build_profile run_id locks expanduser server ros action chunk_rows entries)
       check_profile)))))))))"

end
