(* ===== verification/Oven_ProfileSpec.thy ===== *)
theory Oven_ProfileSpec
  imports Oven_Profile Oven_RosSpec
begin

text \<open>
  What a loaded profile guarantees to the components that are built from it.
\<close>

subsection \<open>The entries of the skills\<close>

lemma map_res_Inr: "map_res f xs = Inr ys \<Longrightarrow> list_all2 (\<lambda>x y. f x = Inr y) xs ys"
  by (induction xs arbitrary: ys) (auto simp: bind_sum_eq_Inr)

definition entry_ok :: "int \<Rightarrow> string option \<Rightarrow> string \<Rightarrow> skill_entry \<Rightarrow> bool" where
  "entry_ok chunk_rows selected skill e \<longleftrightarrow>
     se_skill e = skill \<and> jp_arm (se_gate e) = se_arm e \<and> se_prompt e \<noteq> []
     \<and> (se_stage e \<noteq> None \<longleftrightarrow> selected = None \<or> selected = Some skill)
     \<and> (\<forall>st. se_stage e = Some st \<longrightarrow> sp_skill st = skill \<and> sp_action_steps st = sp_max_chunks st * chunk_rows
          \<and> (sp_checker_required st \<longleftrightarrow> se_checker e \<noteq> None) \<and> (selected \<noteq> None \<longrightarrow> sp_reset_before st))"

lemma load_skill_Inr: "load_skill skills chunk_rows settle selected skill = Inr e \<Longrightarrow> entry_ok chunk_rows selected skill e"
  by (auto simp: load_skill_def load_stage_def load_gate_def pf_string_def entry_ok_def result_iffs split: if_splits)

lemma load_skills_Inr:
  assumes "map_res (load_skill skills chunk_rows settle selected) order = Inr entries"
  shows "list_all2 (entry_ok chunk_rows selected) order entries"
  using map_res_Inr [OF assms] by (rule list_all2_mono) (rule load_skill_Inr)

lemma entries_skills: "list_all2 (entry_ok chunk_rows selected) order entries \<Longrightarrow> map se_skill entries = order"
  by (induction rule: list_all2_induct) (auto simp: entry_ok_def)

lemma entry_map_keys: "map fst (entry_map f entries) = map se_skill entries"
  by (simp add: entry_map_def)

lemma entry_map_of: "distinct (map se_skill entries) \<Longrightarrow> e \<in> set entries \<Longrightarrow> map_of (entry_map f entries) (se_skill e) = Some (f e)"
  by (induction entries) (auto simp: entry_map_def image_iff dest: bspec)

lemma entry_checkers_of:
  "distinct (map se_skill entries) \<Longrightarrow> e \<in> set entries \<Longrightarrow> map_of (entry_checkers entries) (se_skill e) = se_checker e"
proof (induction entries)
  case (Cons e' entries)
  have fresh: "map_of (entry_checkers entries) (se_skill e') = None"
    using Cons.prems(1) by (auto simp: map_of_eq_None_iff entry_checkers_def split: option.splits)
  show ?case
  proof (cases "e = e'")
    case True
    with fresh show ?thesis by (auto simp: entry_checkers_def map_add_def split: option.split)
  next
    case False
    with Cons have "map_of (entry_checkers entries) (se_skill e) = se_checker e" "se_skill e \<noteq> se_skill e'" by (auto simp: image_iff)
    then show ?thesis by (auto simp: entry_checkers_def split: option.split)
  qed
qed simp

lemma entry_stages_iff: "st \<in> set (entry_stages entries) \<longleftrightarrow> (\<exists>e \<in> set entries. se_stage e = Some st)"
  by (force simp: entry_stages_def split: option.splits)

subsection \<open>A loaded profile\<close>

text \<open>What every planned stage finds in the profile.\<close>

definition stage_provided :: "agilex_profile \<Rightarrow> stage_plan \<Rightarrow> bool" where
  "stage_provided p st \<longleftrightarrow>
     (\<exists>arm gate target prompt.
        map_of (rc_skill_arms (ap_ros p)) (sp_skill st) = Some arm
        \<and> map_of (rc_reset_targets (ap_ros p)) (sp_skill st) = Some target
        \<and> map_of (rc_prompts (ap_ros p)) (sp_skill st) = Some prompt \<and> prompt \<noteq> []
        \<and> map_of (ap_gates p) (sp_skill st) = Some gate \<and> jp_arm gate = arm)
     \<and> (sp_checker_required st \<longrightarrow> (\<exists>c. map_of (ap_checkers p) (sp_skill st) = Some c \<and> checker_spec_validate c = Inr ()))
     \<and> sp_action_steps st = sp_max_chunks st * ap_action_chunk_rows p"

definition plan_order :: "string option \<Rightarrow> string list" where
  "plan_order selected = (case selected of None \<Rightarrow> FIXED_SKILL_ORDER | Some skill \<Rightarrow> [skill])"

lemma entry_stages_order:
  assumes "list_all2 (entry_ok chunk_rows selected) order entries" and "distinct order"
  shows "map sp_skill (entry_stages entries) = (case selected of None \<Rightarrow> order | Some skill \<Rightarrow> if skill \<in> set order then [skill] else [])"
  using assms
proof (induction rule: list_all2_induct)
  case (Cons skill order e entries)
  then have tail: "map sp_skill (entry_stages entries) =
      (case selected of None \<Rightarrow> order | Some skill \<Rightarrow> if skill \<in> set order then [skill] else [])" by simp
  have "entry_stages (e # entries) = (case se_stage e of None \<Rightarrow> [] | Some st \<Rightarrow> [st]) @ entry_stages entries"
    by (simp add: entry_stages_def)
  with Cons(1) Cons.prems tail show ?case
    by (cases "se_stage e") (auto simp: entry_ok_def split: option.splits if_splits)
qed (simp add: entry_stages_def split: option.split)

lemma checkers_validate_Inr: "checkers_validate cs = Inr () \<Longrightarrow> (skill, c) \<in> set cs \<Longrightarrow> checker_spec_validate c = Inr ()"
  by (induction cs rule: checkers_validate.induct) (auto simp: bind_sum_eq_Inr)

lemma build_profile_Inr:
  assumes "build_profile run_id locks expanduser server ros action chunk_rows entries = Inr p"
  shows "ap_plan p = \<lparr>pp_run_id = run_id, pp_stages = entry_stages entries\<rparr>" and "ap_gates p = entry_map se_gate entries"
    and "ap_checkers p = entry_checkers entries" and "ap_action_chunk_rows p = chunk_rows"
    and "rc_prompts (ap_ros p) = entry_map se_prompt entries" and "rc_skill_arms (ap_ros p) = entry_map se_arm entries"
    and "rc_reset_targets (ap_ros p) = entry_map se_reset_target entries"
  using assms by (auto simp: build_profile_def load_ros_def bind_sum_eq_Inr)

lemma check_profile_Inr:
  "check_profile p0 = Inr p \<Longrightarrow> p = p0 \<and> plan_validate (ap_plan p) = Inr () \<and> ros_config_validate (ap_ros p) = Inr ()
     \<and> all_arrays (ap_gates p) = Inr () \<and> checkers_validate (ap_checkers p) = Inr () \<and> validate_profile p = Inr ()"
  by (auto simp: check_profile_def bind_sum_eq_Inr)

lemma load_agilex_profile_Inr:
  assumes "load_agilex_profile run_id locks expanduser selected raw = Inr p"
  obtains entries where "list_all2 (entry_ok (ap_action_chunk_rows p) selected) FIXED_SKILL_ORDER entries"
    and "ap_plan p = \<lparr>pp_run_id = run_id, pp_stages = entry_stages entries\<rparr>" and "ap_gates p = entry_map se_gate entries"
    and "ap_checkers p = entry_checkers entries" and "rc_prompts (ap_ros p) = entry_map se_prompt entries"
    and "rc_skill_arms (ap_ros p) = entry_map se_arm entries" and "rc_reset_targets (ap_ros p) = entry_map se_reset_target entries"
    and "plan_validate (ap_plan p) = Inr ()" and "ros_config_validate (ap_ros p) = Inr ()"
    and "all_arrays (ap_gates p) = Inr ()" and "checkers_validate (ap_checkers p) = Inr ()" and "validate_profile p = Inr ()"
    and "case selected of None \<Rightarrow> True | Some skill \<Rightarrow> skill \<in> set FIXED_SKILL_ORDER"
proof -
  from assms obtain server ros action skills chunk_rows settle entries p0 where
    entries: "map_res (load_skill skills chunk_rows settle selected) FIXED_SKILL_ORDER = Inr entries"
    and build: "build_profile run_id locks expanduser server ros action chunk_rows entries = Inr p0"
    and check: "check_profile p0 = Inr p"
    and selected: "case selected of None \<Rightarrow> True | Some skill \<Rightarrow> skill \<in> set FIXED_SKILL_ORDER"
    unfolding load_agilex_profile_def result_iffs by (auto split: option.splits)
  note parts = build_profile_Inr [OF build] and valid = check_profile_Inr [OF check]
  from valid have p: "p = p0" by simp
  from load_skills_Inr [OF entries] parts(4) p
  have "list_all2 (entry_ok (ap_action_chunk_rows p) selected) FIXED_SKILL_ORDER entries" by simp
  then show ?thesis by (rule that) (use parts valid selected in \<open>simp_all add: p\<close>)
qed

lemma loaded_stage_provided:
  assumes "load_agilex_profile run_id locks expanduser selected raw = Inr p" and "stage \<in> set (pp_stages (ap_plan p))"
  shows "stage_provided p stage"
proof -
  from assms(1) obtain entries where e: "list_all2 (entry_ok (ap_action_chunk_rows p) selected) FIXED_SKILL_ORDER entries"
    and parts: "ap_plan p = \<lparr>pp_run_id = run_id, pp_stages = entry_stages entries\<rparr>" "ap_gates p = entry_map se_gate entries"
      "ap_checkers p = entry_checkers entries" "rc_prompts (ap_ros p) = entry_map se_prompt entries"
      "rc_skill_arms (ap_ros p) = entry_map se_arm entries" "rc_reset_targets (ap_ros p) = entry_map se_reset_target entries"
    and valid: "plan_validate (ap_plan p) = Inr ()" "ros_config_validate (ap_ros p) = Inr ()"
      "all_arrays (ap_gates p) = Inr ()" "checkers_validate (ap_checkers p) = Inr ()"
    and selected: "case selected of None \<Rightarrow> True | Some skill \<Rightarrow> skill \<in> set FIXED_SKILL_ORDER"
    by (rule load_agilex_profile_Inr)
  have distinct: "distinct FIXED_SKILL_ORDER" by (simp add: FIXED_SKILL_ORDER_def)
  have skills: "map se_skill entries = FIXED_SKILL_ORDER" using e by (rule entries_skills)
  from assms(2) obtain entry where entry: "entry \<in> set entries" "se_stage entry = Some stage"
    by (auto simp: parts(1) entry_stages_iff)
  then obtain skill where "entry_ok (ap_action_chunk_rows p) selected skill entry"
    using e by (metis in_set_conv_nth list_all2_conv_all_nth)
  with entry(2) have ok: "se_skill entry = sp_skill stage" "jp_arm (se_gate entry) = se_arm entry" "se_prompt entry \<noteq> []"
    "sp_action_steps stage = sp_max_chunks stage * ap_action_chunk_rows p"
    "sp_checker_required stage \<longleftrightarrow> se_checker entry \<noteq> None" by (auto simp: entry_ok_def)
  note at = entry_map_of [OF distinct [folded skills] entry(1), unfolded ok(1)]
  have checker: "map_of (ap_checkers p) (sp_skill stage) = se_checker entry"
    using entry_checkers_of [OF distinct [folded skills] entry(1)] by (simp add: parts(3) ok(1))
  have "\<exists>c. map_of (ap_checkers p) (sp_skill stage) = Some c \<and> checker_spec_validate c = Inr ()"
    if "sp_checker_required stage"
  proof -
    from that ok(5) checker obtain c where c: "map_of (ap_checkers p) (sp_skill stage) = Some c" by auto
    then have "(sp_skill stage, c) \<in> set (ap_checkers p)" by (rule map_of_SomeD)
    with checkers_validate_Inr [OF valid(4)] c show ?thesis by blast
  qed
  moreover have "map_of (rc_skill_arms (ap_ros p)) (sp_skill stage) = Some (se_arm entry)"
    "map_of (rc_reset_targets (ap_ros p)) (sp_skill stage) = Some (se_reset_target entry)"
    "map_of (rc_prompts (ap_ros p)) (sp_skill stage) = Some (se_prompt entry)"
    "map_of (ap_gates p) (sp_skill stage) = Some (se_gate entry)"
    by (simp_all add: parts at)
  ultimately show ?thesis using ok(2,3,4) by (simp add: stage_provided_def)
qed

lemma loaded_profile_usable:
  assumes "load_agilex_profile run_id locks expanduser selected raw = Inr p"
  shows "plan_skills (ap_plan p) = plan_order selected
    \<and> (\<exists>s. orchestrator_init \<lparr>oc_plan = ap_plan p, oc_observation_validator = ov, oc_action_validator = av,
          oc_as_array = conv\<rparr> audit w = Inr s)
    \<and> (\<exists>gate s. online_gate_init (ap_gates p) = Inr gate \<and> (rv_config env = ap_ros p \<longrightarrow> ros_init env gate w' = Inr s))
    \<and> (\<forall>stage \<in> set (pp_stages (ap_plan p)). stage_provided p stage)"
proof -
  from assms obtain entries where e: "list_all2 (entry_ok (ap_action_chunk_rows p) selected) FIXED_SKILL_ORDER entries"
    and parts: "ap_plan p = \<lparr>pp_run_id = run_id, pp_stages = entry_stages entries\<rparr>" "ap_gates p = entry_map se_gate entries"
      "ap_checkers p = entry_checkers entries" "rc_prompts (ap_ros p) = entry_map se_prompt entries"
      "rc_skill_arms (ap_ros p) = entry_map se_arm entries" "rc_reset_targets (ap_ros p) = entry_map se_reset_target entries"
    and valid: "plan_validate (ap_plan p) = Inr ()" "ros_config_validate (ap_ros p) = Inr ()"
      "all_arrays (ap_gates p) = Inr ()" "checkers_validate (ap_checkers p) = Inr ()"
    and selected: "case selected of None \<Rightarrow> True | Some skill \<Rightarrow> skill \<in> set FIXED_SKILL_ORDER"
    by (rule load_agilex_profile_Inr)
  have distinct: "distinct FIXED_SKILL_ORDER" by (simp add: FIXED_SKILL_ORDER_def)
  have skills: "map se_skill entries = FIXED_SKILL_ORDER" using e by (rule entries_skills)
  have "plan_skills (ap_plan p) = plan_order selected"
    using entry_stages_order [OF e distinct] selected by (cases selected) (simp_all add: plan_skills_def parts plan_order_def)
  moreover have "\<exists>s. orchestrator_init \<lparr>oc_plan = ap_plan p, oc_observation_validator = ov, oc_action_validator = av,
      oc_as_array = conv\<rparr> audit w = Inr s"
    using valid(1) by (simp add: orchestrator_init_def)
  moreover have "\<exists>gate. online_gate_init (ap_gates p) = Inr gate"
    using valid(3) skills by (auto simp: online_gate_init_def parts(2) entry_map_def FIXED_SKILL_ORDER_def)
  moreover have "rv_config env = ap_ros p \<Longrightarrow> \<exists>s. ros_init env gate w' = Inr s" for gate
    using valid(2) by (simp add: ros_init_def)
  moreover have "\<forall>stage \<in> set (pp_stages (ap_plan p)). stage_provided p stage"
    using loaded_stage_provided [OF assms] by blast
  ultimately show ?thesis by blast
qed

text \<open>
  C32. A profile that loads is usable.  The plan runs exactly the selected skill, or all four in
  their fixed order; the plan, the bridge configuration and the joint gates pass the checks of the
  components they are given to, so the orchestrator, the ROS nodes and the online gate are
  constructed; and every planned stage has its arm, reset target, prompt and joint gate, on the same
  arm, a valid checker when it requires one, and as many rows as its chunks have.
\<close>

theorem loaded_profile_is_usable:
  assumes "load_agilex_profile run_id locks expanduser selected raw = Inr p"
  shows "plan_skills (ap_plan p) = plan_order selected
    \<and> (\<exists>s. orchestrator_init \<lparr>oc_plan = ap_plan p, oc_observation_validator = ov, oc_action_validator = av,
          oc_as_array = conv\<rparr> audit w = Inr s)
    \<and> (\<exists>gate s. online_gate_init (ap_gates p) = Inr gate \<and> (rv_config env = ap_ros p \<longrightarrow> ros_init env gate w' = Inr s))
    \<and> (\<forall>stage \<in> set (pp_stages (ap_plan p)). stage_provided p stage)"
  by (rule loaded_profile_usable [OF assms])

text \<open>A small profile for evaluation.\<close>

definition demo_zeros :: pyval where
  "demo_zeros = PList (replicate 7 (PFloat (Fin 0)))"

definition demo_skill_table :: "bool \<Rightarrow> pyval" where
  "demo_skill_table checker_required =
     PDict [(''arm'', PStr ''left''), (''prompt'', PStr ''go''), (''root_seed'', PInt 0), (''max_chunks'', PInt 2),
       (''reset_before'', PBool True), (''checker_required'', PBool checker_required), (''reset_target'', demo_zeros),
       (''gate'', PDict [(''targets'', PList [demo_zeros]), (''check_indices'', PList [PInt 0]),
          (''tolerance'', PList [PFloat (Fin 1)]), (''departure_threshold'', PFloat (Fin 1)),
          (''min_publish_step'', PInt 1), (''window_samples'', PInt 3), (''max_spread'', PInt 1)]),
       (''checker'', PDict [(''model_relative_path'', PStr ''m''), (''model_sha256'', PStr (replicate 64 (CHR ''a''))),
          (''success_class'', PStr ''yes''), (''threshold'', PFloat (Fin (4 / 5))), (''preprocessing'', PStr ''resize'')])]"

definition demo_profile_table :: "string \<Rightarrow> pydict" where
  "demo_profile_table uri =
     [(''schema_version'', PInt 1),
      (''server'', PDict [(''ssh_host_alias'', PStr ''host''), (''local_inference_uri'', PStr uri),
         (''remote_inference_port'', PInt 19110), (''inference_timeout_sec'', PFloat (Fin 120)),
         (''remote_control_program'', PStr ''/bin/ctl''), (''remote_runtime_root'', PStr ''/root'')]),
      (''ros'', PDict [(''left_joint_topic'', PStr ''/a''), (''right_joint_topic'', PStr ''/b''),
         (''left_command_topic'', PStr ''/c''), (''right_command_topic'', PStr ''/d''),
         (''left_camera_topic'', PStr ''/e''), (''right_camera_topic'', PStr ''/f''), (''front_camera_topic'', PStr ''/g''),
         (''image_size'', PInt 224), (''max_message_age_sec'', PFloat (Fin 1)), (''observation_max_age_ms'', PFloat (Fin 500)),
         (''preflight_timeout_sec'', PFloat (Fin 5)), (''publish_hz'', PFloat (Fin 30)), (''reset_duration_sec'', PFloat (Fin 4)),
         (''reset_tolerance'', PFloat (Fin 1)), (''reset_verify_timeout_sec'', PFloat (Fin 3)), (''settle_sec'', PFloat (Fin 3)),
         (''stop_hold_repetitions'', PInt 3)]),
      (''action'', PDict [(''dimension'', PInt 7), (''chunk_rows'', PInt 50), (''max_absolute_value'', PFloat (Fin 6)),
         (''chunk_transition_steps'', PInt 50), (''chunk_transition_hz'', PFloat (Fin 200)),
         (''max_row_delta'', PList (replicate 7 (PFloat (Fin 1))))]),
      (''skills'', PDict (map (\<lambda>skill. (skill, demo_skill_table (skill = ''open_door''))) FIXED_SKILL_ORDER))]"

lemma demo_identifiers:
  "trial_id_matches (trial_name ''run1'' 0 ''open_door'')"
  "trial_id_matches (trial_name ''run1'' (Suc 0) ''transport_food'')"
  "trial_id_matches (trial_name ''run1'' (Suc (Suc 0)) ''close_door'')"
  "trial_id_matches (trial_name ''run1'' (Suc (Suc (Suc 0))) ''rotate_button'')"
  "is_id_char CHR ''n''" "is_id_char CHR ''u''" "is_alnum CHR ''r''" "is_id_char CHR ''1''"
  "is_id_char CHR ''s''" "is_id_char CHR ''o''" "is_alnum CHR ''h''" "is_id_char CHR ''t''"
  "absolute_normalized ''/bin/ctl''" "absolute_normalized ''/root''"
  by code_simp+

lemmas demo_profile_eval =
  load_agilex_profile_def demo_profile_table_def demo_skill_table_def demo_zeros_def FIXED_SKILL_ORDER_def
  pf_mapping_def pf_integer_def pf_number_def pf_string_def pf_boolean_def load_skill_def load_stage_def load_gate_def
  load_checker_def pf_float_tuple_def float_tuple_value_def pf_integer_list_def pf_optional_integer_list_def
  pf_optional_float_tuple_def build_profile_def load_ros_def replicate_seven demo_floats check_profile_def
  entry_stages_def entry_map_def entry_checkers_def plan_validate_def plan_skills_def stage_validate_def
  demo_identifiers ros_config_validate_def ros_scalar_limits_def profile_arrays_def positive_def
  joint_indices_ok_def list_ex_iff checker_spec_validate_def validate_profile_def

lemma demo_profile_loads:
  assumes "uri_is_local uri" and "uri \<noteq> []"
  shows "\<exists>p. load_agilex_profile ''run1'' (Inr ''/locks'') Inr None (demo_profile_table uri) = Inr p \<and> ap_inference_uri p = uri
    \<and> pp_stages (ap_plan p) \<noteq> [] \<and> sp_action_steps (hd (pp_stages (ap_plan p))) = 100"
  using assms
  by (simp add: demo_profile_eval)

lemma demo_uri: "uri_is_local ''ws://127.0.0.1:19110''"
  by code_simp

theorem loaded_profile_is_usable_witness:
  "\<exists>p gate. load_agilex_profile ''run1'' (Inr ''/locks'') Inr None (demo_profile_table ''ws://127.0.0.1:19110'') = Inr p
     \<and> plan_skills (ap_plan p) = FIXED_SKILL_ORDER \<and> online_gate_init (ap_gates p) = Inr gate
     \<and> (\<forall>stage \<in> set (pp_stages (ap_plan p)). stage_provided p stage)"
proof -
  obtain p where "load_agilex_profile ''run1'' (Inr ''/locks'') Inr None (demo_profile_table ''ws://127.0.0.1:19110'') = Inr p"
    using demo_profile_loads [OF demo_uri] by auto
  note loaded = this
  have order: "plan_order None = FIXED_SKILL_ORDER" by (simp add: plan_order_def)
  from loaded_profile_is_usable [OF loaded, unfolded order, where ov = "\<lparr>ov_max_age_ms = Fin 500\<rparr>"
      and av = demo_action_validator and conv = "\<lambda>_. Inl (PyExc ValueError)" and audit = "new_edge_store []" and w = "()"
      and env = "demo_ros_env False" and w' = "[]"]
  show ?thesis using loaded by blast
qed

subsection \<open>The row budget of a loaded stage\<close>

text \<open>
  A validated chunk has exactly \<open>chunk_rows\<close> rows, so after \<open>k\<close> rounds at most \<open>k * chunk_rows\<close> rows are
  published and the check of the budget never fires.
\<close>

lemma validated_rows:
  assumes "validate_actions conv v actions = Inr rows"
  shows "int (length rows) = av_chunk_rows v"
proof -
  from assms obtain a where a: "action_shape_ok v a" "rows = map (map f_round32) (projected_rows v a)"
    by (auto simp: validate_actions_def result_iffs Let_def)
  from action_shape_okD [OF a(1)] obtain m k where "nd_shape a = [m, k]" "int m = av_chunk_rows v" by blast
  with a(2) show ?thesis by (simp add: projected_rows_def)
qed

definition raised :: "stage_plan \<Rightarrow> int \<Rightarrow> stage_plan" where
  "raised stage budget = stage\<lparr>sp_action_steps := budget\<rparr>"

lemma raised_simps [simp]:
  "sp_skill (raised stage budget) = sp_skill stage" "sp_max_chunks (raised stage budget) = sp_max_chunks stage"
  "sp_action_steps (raised stage budget) = budget"
  by (simp_all add: raised_def)

lemma rollout_actions_raised:
  assumes "steps + av_chunk_rows (oc_action_validator cfg) \<le> sp_action_steps stage" and "sp_action_steps stage \<le> budget"
  shows "rollout_actions cfg dv (raised stage budget) session sequence steps s = rollout_actions cfg dv stage session sequence steps s"
proof -
  have "\<not> sp_action_steps stage < steps + int (length rows) \<and> \<not> budget < steps + int (length rows)"
    if "validate_actions (oc_as_array cfg) (oc_action_validator cfg) v = Inr rows" for v rows
    using validated_rows [OF that] assms by simp
  then show ?thesis
    by (auto simp: rollout_actions_def op_simps bind_sum_def split: sum.split prod.split)
qed

lemma rollout_publish_raised: "rollout_publish dv (raised stage budget) = rollout_publish dv stage"
proof -
  have "rollout_row (raised stage budget) = rollout_row stage" by (intro ext) (simp add: rollout_row_def)
  then show ?thesis by (intro ext) (simp only: rollout_publish_def)
qed

lemma rollout_actions_rows:
  "rollout_actions cfg dv stage session sequence steps s = (Inr (response, actions), s')
     \<Longrightarrow> int (length actions) = av_chunk_rows (oc_action_validator cfg)"
  by (auto simp: rollout_actions_def op_Inr raise_apply ret_apply lift_sum_apply bind_sum_eq_Inr validated_rows split: if_splits)

lemma rollout_loop_raised:
  assumes "steps + int left * av_chunk_rows (oc_action_validator cfg) \<le> sp_action_steps stage"
    and "sp_action_steps stage \<le> budget" and "0 \<le> av_chunk_rows (oc_action_validator cfg)"
  shows "rollout_loop cfg dv (raised stage budget) session left sequence steps s =
     rollout_loop cfg dv stage session left sequence steps s"
  using assms(1)
proof (induction left arbitrary: sequence steps s)
  case (Suc left)
  let ?n = "av_chunk_rows (oc_action_validator cfg)"
  have "0 \<le> int left * ?n" using assms(3) by simp
  with Suc.prems have "steps + ?n \<le> sp_action_steps stage" by (simp add: distrib_right)
  note same = rollout_actions_raised [OF this assms(2), of dv session sequence s]
  obtain x s1 where act: "rollout_actions cfg dv stage session sequence steps s = (x, s1)" by fastforce
  show ?case
  proof (cases x)
    case (Inl e)
    with act same show ?thesis by (simp add: rollout_chunk_def op_simps)
  next
    case (Inr ra)
    then obtain response actions where ra: "x = Inr (response, actions)" by (cases ra) simp
    with act have rows: "int (length actions) = ?n" by (simp add: rollout_actions_rows)
    obtain y s2 where pub: "rollout_publish dv stage session sequence steps response actions s1 = (y, s2)" by fastforce
    show ?thesis
    proof (cases "\<exists>p. y = Inr p \<and> \<not> pr_stop_requested p")
      case False
      with act ra pub same show ?thesis
        by (cases y) (auto simp: rollout_chunk_def op_simps rollout_publish_raised)
    next
      case True
      then obtain p where p: "y = Inr p" "\<not> pr_stop_requested p" by blast
      have "pr_published_rows p \<le> ?n"
        using pub p(1) rows
        by (auto simp: rollout_publish_def op_Inr raise_apply ret_apply split: if_splits)
      then have "steps + pr_published_rows p + int left * ?n \<le> sp_action_steps stage"
        using Suc.prems by (simp add: algebra_simps)
      from Suc.IH [OF this] p act ra pub same show ?thesis
        by (simp add: rollout_chunk_def op_simps rollout_publish_raised)
    qed
  qed
qed simp

lemma stages_validate_each: "stages_validate run_id n sts = Inr () \<Longrightarrow> st \<in> set sts \<Longrightarrow> stage_validate st = Inr ()"
  by (induction run_id n sts rule: stages_validate.induct) (auto simp: result_iffs)

lemma loaded_stage_steps:
  assumes "load_agilex_profile run_id locks expanduser selected raw = Inr p" and "stage \<in> set (pp_stages (ap_plan p))"
  shows "sp_action_steps stage = sp_max_chunks stage * ap_action_chunk_rows p" and "0 < sp_max_chunks stage"
    and "0 < ap_action_chunk_rows p"
proof -
  show "sp_action_steps stage = sp_max_chunks stage * ap_action_chunk_rows p"
    using loaded_stage_provided [OF assms] by (simp add: stage_provided_def)
  have valid: "plan_validate (ap_plan p) = Inr ()" "validate_profile p = Inr ()"
    by (rule load_agilex_profile_Inr [OF assms(1)], assumption)+
  from valid(1) have "stages_validate (pp_run_id (ap_plan p)) 0 (pp_stages (ap_plan p)) = Inr ()"
    by (simp add: plan_validate_def Let_def reject_if_eq_Inr)
  from stages_validate_each [OF this assms(2)] show "0 < sp_max_chunks stage" by (simp add: stage_validate_def reject_if_eq_Inr)
  from valid(2) show "0 < ap_action_chunk_rows p" by (simp add: validate_profile_def reject_if_eq_Inr)
qed

text \<open>
  C33. The row budget of a loaded profile is exactly what its chunks can use.  In an orchestrator
  built from the profile, with its action limits, every rollout of a planned stage does the same
  with any higher budget: the check of the budget never refuses a validated chunk.
\<close>

theorem loaded_budget_never_refuses:
  assumes "load_agilex_profile run_id locks expanduser selected raw = Inr p"
    and "stage \<in> set (pp_stages (ap_plan p))"
    and "av_chunk_rows (oc_action_validator cfg) = ap_action_chunk_rows p"
    and "sp_action_steps stage \<le> budget"
  shows "rollout cfg dv (stage\<lparr>sp_action_steps := budget\<rparr>) session s = rollout cfg dv stage session s"
  using loaded_stage_steps [OF assms(1,2)] rollout_loop_raised [of 0 "nat (sp_max_chunks stage)" cfg stage budget] assms(3,4)
  by (simp add: rollout_def flip: raised_def)

theorem loaded_budget_never_refuses_witness:
  "\<exists>p stage cfg. load_agilex_profile ''run1'' (Inr ''/locks'') Inr None (demo_profile_table ''ws://127.0.0.1:19110'') = Inr p
     \<and> stage \<in> set (pp_stages (ap_plan p)) \<and> av_chunk_rows (oc_action_validator cfg) = ap_action_chunk_rows p
     \<and> rollout cfg (demo_devices True) (stage\<lparr>sp_action_steps := 1000000\<rparr>) demo_session demo_orchestrator =
         rollout cfg (demo_devices True) stage demo_session demo_orchestrator"
proof -
  obtain p where p: "load_agilex_profile ''run1'' (Inr ''/locks'') Inr None (demo_profile_table ''ws://127.0.0.1:19110'') = Inr p"
    "pp_stages (ap_plan p) \<noteq> []" "sp_action_steps (hd (pp_stages (ap_plan p))) = 100"
    using demo_profile_loads [OF demo_uri] by auto
  define stage where "stage = hd (pp_stages (ap_plan p))"
  have stage: "stage \<in> set (pp_stages (ap_plan p))" "sp_action_steps stage = 100"
    using p(2,3) by (simp_all add: stage_def)
  let ?cfg = "demo_pipeline\<lparr>oc_action_validator := demo_action_validator\<lparr>av_chunk_rows := ap_action_chunk_rows p\<rparr>\<rparr>"
  have "rollout ?cfg (demo_devices True) (stage\<lparr>sp_action_steps := 1000000\<rparr>) demo_session demo_orchestrator =
      rollout ?cfg (demo_devices True) stage demo_session demo_orchestrator"
    by (rule loaded_budget_never_refuses [OF p(1) stage(1)]) (simp_all add: stage(2))
  with p(1) stage(1) show ?thesis by (intro exI [of _ p] exI [of _ stage] exI [of _ ?cfg]) simp
qed

end
