(* ===== verification/Oven_Tunnel.thy ===== *)
theory Oven_Tunnel
  imports Oven_ProfileSpec
begin

text \<open>
  \<open>edge/tunnel.py\<close>: the SSH process that forwards the inference port.  Processes, sockets and the
  clock are the record \<open>tunnel_env\<close>.  The wait for the port is a loop on the clock, so it is a partial
  function: \<open>None\<close> means that it does not return, and that it does return is a theorem about clocks
  that run.
\<close>

record ('p, 'w) tunnel_env =
  tv_popen :: "string list \<Rightarrow> ('w, 'p) meth"
  tv_poll :: "'p \<Rightarrow> ('w, int option) meth"
  tv_monotonic :: "('w, flt) meth"
  tv_connect :: "int \<Rightarrow> ('w, int) meth"     \<comment> \<open>\<open>connect_ex\<close> of a fresh socket, which is closed again\<close>
  tv_sleep :: "flt \<Rightarrow> ('w, unit) meth"
  tv_terminate :: "'p \<Rightarrow> ('w, unit) meth"
  tv_kill :: "'p \<Rightarrow> ('w, unit) meth"
  tv_wait :: "'p \<Rightarrow> flt \<Rightarrow> ('w, unit) meth"

record ('p, 'w) tunnel =
  tn_host_alias :: string
  tn_local_port :: int
  tn_remote_port :: int
  tn_startup_timeout_sec :: flt
  tn_process :: "'p option"
  tn_world :: 'w

definition tunnel_init :: "string \<Rightarrow> int \<Rightarrow> int \<Rightarrow> flt \<Rightarrow> 'w \<Rightarrow> ('p, 'w) tunnel res" where
  "tunnel_init host_alias local_port remote_port timeout w =
     reject_if (\<not> host_alias_matches host_alias) (PyExc ValueError) (
     reject_if (\<not> (1 \<le> local_port \<and> local_port \<le> 65535) \<or> \<not> (1 \<le> remote_port \<and> remote_port \<le> 65535)) (PyExc ValueError) (
     reject_if (f_le timeout f_zero) (PyExc ValueError)
       (Inr \<lparr>tn_host_alias = host_alias, tn_local_port = local_port, tn_remote_port = remote_port,
            tn_startup_timeout_sec = timeout, tn_process = None, tn_world = w\<rparr>)))"

definition on_tunnel :: "('w, 'a) meth \<Rightarrow> (('p, 'w) tunnel, 'a) meth" where
  "on_tunnel m = (\<lambda>s. case m (tn_world s) of (r, w) \<Rightarrow> (r, s\<lparr>tn_world := w\<rparr>))"

definition tunnel_argv :: "('p, 'w) tunnel \<Rightarrow> string list" where
  "tunnel_argv s =
     [''ssh'', ''-N'', ''-o'', ''BatchMode=yes'', ''-o'', ''ExitOnForwardFailure=yes'', ''-o'', ''ServerAliveInterval=10'',
      ''-o'', ''ServerAliveCountMax=3'', ''-L'',
      ''127.0.0.1:'' @ show_int (tn_local_port s) @ '':127.0.0.1:'' @ show_int (tn_remote_port s), tn_host_alias s]"

definition tunnel_close :: "('p, 'w) tunnel_env \<Rightarrow> (('p, 'w) tunnel, unit) meth" where
  "tunnel_close env =
     bind_op (gets_op tn_process) (\<lambda>process.
     seq_op (modify_op (\<lambda>s. s\<lparr>tn_process := None\<rparr>))
     (case process of
        None \<Rightarrow> ret ()
      | Some p \<Rightarrow>
          bind_op (on_tunnel (tv_poll env p)) (\<lambda>code.
          if code \<noteq> None then ret ()
          else
            seq_op (on_tunnel (tv_terminate env p))
            (catch_op (on_tunnel (tv_wait env p (Fin 3)))
              (\<lambda>e. if e = PyExc TimeoutExpired
                   then seq_op (on_tunnel (tv_kill env p)) (on_tunnel (tv_wait env p (Fin 3)))
                   else raise e)))))"

text \<open>One round of the wait: \<open>Some b\<close> ends it, with \<open>b\<close> when the port accepted a connection.\<close>

definition tunnel_round :: "('p, 'w) tunnel_env \<Rightarrow> int \<Rightarrow> 'p \<Rightarrow> flt \<Rightarrow> ('w, bool option) meth" where
  "tunnel_round env port p deadline =
     bind_op (tv_monotonic env) (\<lambda>now.
     if \<not> f_lt now deadline then ret (Some False)
     else bind_op (tv_poll env p) (\<lambda>code.
       if code \<noteq> None
       then raise (err CONTROL_SERVER_UNAVAILABLE ''SSH inference tunnel exited during startup'' [])
       else bind_op (tv_connect env port) (\<lambda>rc.
         if rc = 0 then ret (Some True)
         else seq_op (tv_sleep env (f_round (Fin (5 / 100)))) (ret None))))"

partial_function (option) tunnel_wait ::
  "('p, 'w) tunnel_env \<Rightarrow> int \<Rightarrow> 'p \<Rightarrow> flt \<Rightarrow> 'w \<Rightarrow> ((exn + bool) \<times> 'w) option" where
  "tunnel_wait env port p deadline w =
     (case tunnel_round env port p deadline w of
        (Inl e, w') \<Rightarrow> Some (Inl e, w')
      | (Inr (Some ready), w') \<Rightarrow> Some (Inr ready, w')
      | (Inr None, w') \<Rightarrow> tunnel_wait env port p deadline w')"

definition tunnel_started :: "('p, 'w) tunnel_env \<Rightarrow> (('p, 'w) tunnel, 'p \<times> flt) meth" where
  \<comment> \<open>up to the deadline\<close>
  "tunnel_started env =
     bind_op (gets_op id) (\<lambda>s.
     if tn_process s \<noteq> None then raise (PyExc RuntimeError)
     else
       bind_op (catch_op (on_tunnel (tv_popen env (tunnel_argv s)))
         (\<lambda>e. raise (if is_os_error e then err CONTROL_SERVER_UNAVAILABLE ''cannot start SSH inference tunnel'' [] else e))) (\<lambda>p.
       seq_op (modify_op (\<lambda>s. s\<lparr>tn_process := Some p\<rparr>))
       (bind_op (on_tunnel (tv_monotonic env)) (\<lambda>now. ret (p, f_add now (tn_startup_timeout_sec s))))))"

definition tunnel_start :: "('p, 'w) tunnel_env \<Rightarrow> ('p, 'w) tunnel \<Rightarrow> ((exn + unit) \<times> ('p, 'w) tunnel) option" where
  "tunnel_start env s =
     (case tunnel_started env s of
        (Inl e, s1) \<Rightarrow> Some (Inl e, s1)
      | (Inr (p, deadline), s1) \<Rightarrow>
          (case tunnel_wait env (tn_local_port s1) p deadline (tn_world s1) of
             None \<Rightarrow> None
           | Some (Inl e, w) \<Rightarrow> Some (Inl e, s1\<lparr>tn_world := w\<rparr>)
           | Some (Inr True, w) \<Rightarrow> Some (Inr (), s1\<lparr>tn_world := w\<rparr>)
           | Some (Inr False, w) \<Rightarrow>
               Some (seq_op (tunnel_close env)
                  (raise (err CONTROL_SERVER_UNAVAILABLE ''SSH inference tunnel did not become ready'' []))
                  (s1\<lparr>tn_world := w\<rparr>))))"

subsection \<open>The wait ends\<close>

text \<open>
  \<open>clock_runs t env\<close>: \<open>t\<close> is the time of a world.  No call turns it back, the clock reads at least the
  time at which it is called, and a sleep takes at least the twentieth of a second it is asked for.
\<close>

definition clock_runs :: "('w \<Rightarrow> rat) \<Rightarrow> ('p, 'w) tunnel_env \<Rightarrow> bool" where
  "clock_runs t env \<longleftrightarrow>
     (\<forall>w. t w \<le> t (snd (tv_monotonic env w)))
     \<and> (\<forall>w x. fst (tv_monotonic env w) = Inr x \<longrightarrow> (\<exists>a. x = Fin a \<and> t w \<le> a))
     \<and> (\<forall>p w. t w \<le> t (snd (tv_poll env p w))) \<and> (\<forall>port w. t w \<le> t (snd (tv_connect env port w)))
     \<and> (\<forall>w. fst (tv_sleep env (f_round (Fin (5 / 100))) w) = Inr () \<longrightarrow>
          t w + 1 / 20 \<le> t (snd (tv_sleep env (f_round (Fin (5 / 100))) w)))"

lemma tunnel_round_again:
  assumes "clock_runs t env" and "tunnel_round env port p (Fin d) w = (Inr None, w')"
  shows "t w < d" and "t w + 1 / 20 \<le> t w'"
proof -
  from assms(2) obtain now w1 code w2 rc w3 where
    steps: "tv_monotonic env w = (Inr now, w1)" "f_lt now (Fin d)" "tv_poll env p w1 = (Inr code, w2)"
      "tv_connect env port w2 = (Inr rc, w3)" "tv_sleep env (f_round (Fin (5 / 100))) w3 = (Inr (), w')"
    by (auto simp: tunnel_round_def op_returns ret_apply raise_apply split: if_splits)
  from assms(1) have runs: "t w \<le> t (snd (tv_monotonic env w))"
    "fst (tv_monotonic env w) = Inr now \<longrightarrow> (\<exists>a. now = Fin a \<and> t w \<le> a)"
    "t w1 \<le> t (snd (tv_poll env p w1))" "t w2 \<le> t (snd (tv_connect env port w2))"
    "fst (tv_sleep env (f_round (Fin (5 / 100))) w3) = Inr () \<longrightarrow>
       t w3 + 1 / 20 \<le> t (snd (tv_sleep env (f_round (Fin (5 / 100))) w3))"
    unfolding clock_runs_def by blast+
  from runs steps show "t w + 1 / 20 \<le> t w'" by simp
  from runs(2) steps(1,2) show "t w < d" by auto
qed

lemma tunnel_wait_returns:
  assumes "clock_runs t env"
  shows "\<exists>r w'. tunnel_wait env port p (Fin d) w = Some (r, w')"
proof (induction "nat \<lceil>20 * (d - t w)\<rceil>" arbitrary: w rule: less_induct)
  case less
  obtain x w1 where step: "tunnel_round env port p (Fin d) w = (x, w1)" by fastforce
  show ?case
  proof (cases "x = Inr None")
    case False
    with step show ?thesis
      by (cases x) (auto simp: tunnel_wait.simps [of env port p "Fin d" w] split: option.split)
  next
    case True
    note again = tunnel_round_again [OF assms step [unfolded True]]
    have "20 * (d - t w1) \<le> 20 * (d - t w) - 1" using again(2) by simp
    then have "\<lceil>20 * (d - t w1)\<rceil> \<le> \<lceil>20 * (d - t w)\<rceil> - 1"
      by (metis ceiling_diff_one ceiling_mono)
    moreover have "0 < \<lceil>20 * (d - t w)\<rceil>" using again(1) by simp
    ultimately have "nat \<lceil>20 * (d - t w1)\<rceil> < nat \<lceil>20 * (d - t w)\<rceil>" by linarith
    from less [OF this] step True show ?thesis by (simp add: tunnel_wait.simps [of env port p "Fin d" w])
  qed
qed

lemma tunnel_round_ready:
  "tunnel_round env port p deadline w = (Inr (Some True), w') \<Longrightarrow> \<exists>v. tv_connect env port v = (Inr 0, w')"
  by (auto simp: tunnel_round_def op_returns ret_apply raise_apply split: if_splits)

lemma tunnel_wait_ready:
  assumes "tunnel_wait env port p deadline w = Some out"
  shows "fst out = Inr True \<longrightarrow> (\<exists>v. tv_connect env port v = (Inr 0, snd out))"
  by (rule tunnel_wait.raw_induct [OF _ assms, where P = "\<lambda>env port p deadline w out.
        fst out = Inr True \<longrightarrow> (\<exists>v. tv_connect env port v = (Inr 0, snd out))"])
    (auto dest: tunnel_round_ready split: prod.splits sum.splits option.splits)

lemma tunnel_started_Inr:
  assumes "tunnel_started env s = (Inr (p, deadline), s1)"
  shows "tn_process s1 = Some p" and "tn_local_port s1 = tn_local_port s"
  using assms
  by (auto simp: tunnel_started_def op_returns gets_op_apply modify_op_apply ret_apply on_tunnel_def catch_op_apply raise_apply
      split: if_splits prod.splits sum.splits)

lemma keeps_on_tunnel: "(\<And>s w. Q s \<Longrightarrow> Q (s\<lparr>tn_world := w\<rparr>)) \<Longrightarrow> keeps Q (on_tunnel m)"
  by (rule keepsI) (simp add: on_tunnel_def split: prod.split)

lemma keeps_tunnel_close:
  assumes "\<And>s w. Q s \<Longrightarrow> Q (s\<lparr>tn_world := w\<rparr>)" and "\<And>s. Q (s\<lparr>tn_process := None\<rparr>)"
  shows "Q (snd (tunnel_close env s))"
proof -
  have world: "keeps Q (on_tunnel m)" for m :: "('b, 'c) meth" using assms(1) by (rule keeps_on_tunnel)
  have poll: "keeps Q (on_tunnel (tv_poll env p))" for p using assms(1) by (rule keeps_on_tunnel)
  have "keeps Q (case process of None \<Rightarrow> ret ()
      | Some p \<Rightarrow> bind_op (on_tunnel (tv_poll env p)) (\<lambda>code. if code \<noteq> None then ret ()
          else seq_op (on_tunnel (tv_terminate env p)) (catch_op (on_tunnel (tv_wait env p (Fin 3)))
              (\<lambda>e. if e = PyExc TimeoutExpired
                   then seq_op (on_tunnel (tv_kill env p)) (on_tunnel (tv_wait env p (Fin 3))) else raise e))))" for process
    by (cases process) (simp_all add: keeps_ret, intro keeps_bind poll keeps_if keeps_ret keeps_seq keeps_catch keeps_raise
        keeps_on_tunnel assms(1))
  from keepsD [OF this assms(2)] show ?thesis by (simp add: tunnel_close_def op_simps)
qed

text \<open>
  C35. Starting the tunnel always comes to an end, and its outcome says whether the tunnel is up.  On
  a clock that runs and with a finite deadline, \<open>start\<close> returns or raises, whatever SSH does; when
  it returns, the local port accepted a connection and the process is held, so that \<open>close\<close> stops it;
  and when it gives up waiting, no process is held.
\<close>

theorem tunnel_start_returns:
  fixes env :: "('p, 'w) tunnel_env"
  assumes "clock_runs t env"
    and "\<And>p deadline s1. tunnel_started env s = (Inr (p, deadline), s1) \<Longrightarrow> is_finite deadline"
  shows "\<exists>r s'. tunnel_start env s = Some (r, s')
    \<and> (r = Inr () \<longrightarrow> tn_process s' \<noteq> None \<and> (\<exists>w. tv_connect env (tn_local_port s) w = (Inr 0, tn_world s')))
    \<and> (\<forall>p deadline s1 w. tunnel_started env s = (Inr (p, deadline), s1) \<longrightarrow>
         tunnel_wait env (tn_local_port s1) p deadline (tn_world s1) = Some (Inr False, w) \<longrightarrow>
         (\<exists>e. r = Inl e) \<and> tn_process s' = None)"
proof -
  obtain x s1 where started: "tunnel_started env s = (x, s1)" by fastforce
  show ?thesis
  proof (cases x)
    case (Inl e)
    with started show ?thesis by (simp add: tunnel_start_def)
  next
    case (Inr pd)
    obtain p deadline where pd: "pd = (p, deadline)" by fastforce
    from started Inr pd have run: "tunnel_started env s = (Inr (p, deadline), s1)" by simp
    note s1 = tunnel_started_Inr [OF run]
    from assms(2) [OF run] obtain d where d: "deadline = Fin d" by (auto simp: is_finite_iff)
    obtain y w where wait: "tunnel_wait env (tn_local_port s1) p deadline (tn_world s1) = Some (y, w)"
      using tunnel_wait_returns [OF assms(1)] d by blast
    let ?give_up = "seq_op (tunnel_close env)
        (raise (err CONTROL_SERVER_UNAVAILABLE ''SSH inference tunnel did not become ready'' []) :: (('p, 'w) tunnel, unit) meth)
        (s1\<lparr>tn_world := w\<rparr>)"
    have idle: "tn_process (snd ?give_up) = None" "\<exists>e. fst ?give_up = Inl e"
      using keeps_tunnel_close [of "\<lambda>s. tn_process s = None" env "s1\<lparr>tn_world := w\<rparr>"]
      by (auto simp: seq_op_apply raise_apply split: prod.split sum.split)
    show ?thesis
    proof (cases y)
      case (Inl e)
      with started Inr pd wait show ?thesis by (simp add: tunnel_start_def)
    next
      case (Inr ready)
      show ?thesis
      proof (cases ready)
        case True
        have "\<exists>v. tv_connect env (tn_local_port s) v = (Inr 0, w)"
          using tunnel_wait_ready [OF wait] True Inr s1(2) by simp
        with started \<open>x = Inr pd\<close> pd wait True Inr s1(1) show ?thesis by (simp add: tunnel_start_def)
      next
        case False
        with started \<open>x = Inr pd\<close> pd wait Inr have "tunnel_start env s = Some ?give_up"
          by (simp add: tunnel_start_def)
        with idle show ?thesis by (intro exI [of _ "fst ?give_up"] exI [of _ "snd ?give_up"]) auto
      qed
    qed
  qed
qed

text \<open>A clock that is the time itself: every call takes no time but a sleep, and no one answers at the port.\<close>

definition demo_tunnel_env :: "(unit, rat) tunnel_env" where
  "demo_tunnel_env =
     \<lparr>tv_popen = (\<lambda>_. ret ()), tv_poll = (\<lambda>_. ret None), tv_monotonic = gets_op Fin, tv_connect = (\<lambda>_. ret 111),
      tv_sleep = (\<lambda>_. modify_op (\<lambda>w. w + 1 / 20)), tv_terminate = (\<lambda>_. ret ()), tv_kill = (\<lambda>_. ret ()),
      tv_wait = (\<lambda>_ _. ret ())\<rparr>"

definition demo_tunnel :: "(unit, rat) tunnel" where
  "demo_tunnel =
     \<lparr>tn_host_alias = ''host'', tn_local_port = 19110, tn_remote_port = 19110, tn_startup_timeout_sec = Fin 1,
      tn_process = None, tn_world = 0\<rparr>"

theorem tunnel_start_returns_witness:
  "\<exists>r s'. tunnel_start demo_tunnel_env demo_tunnel = Some (r, s')
     \<and> (r = Inr () \<longrightarrow> (\<exists>w. tv_connect demo_tunnel_env 19110 w = (Inr 0, tn_world s')))"
proof -
  have "clock_runs (\<lambda>w. w) demo_tunnel_env"
    by (simp add: clock_runs_def demo_tunnel_env_def op_simps)
  moreover have "is_finite deadline" if "tunnel_started demo_tunnel_env demo_tunnel = (Inr (p, deadline), s1)" for p deadline s1
    using that rnd64_of_int [of 1]
    by (auto simp: tunnel_started_def demo_tunnel_env_def demo_tunnel_def op_simps on_tunnel_def)
  moreover have "tn_local_port demo_tunnel = 19110" by (simp add: demo_tunnel_def)
  ultimately show ?thesis using tunnel_start_returns [of "\<lambda>w. w" demo_tunnel_env demo_tunnel] by metis
qed

subsection \<open>A profile the tunnel refuses\<close>

text \<open>Port 0 passes the check of the profile, and the constructor of the tunnel then refuses it.\<close>

theorem port_zero_passes_the_profile:
  "\<exists>p u. load_agilex_profile ''run1'' (Inr ''/locks'') Inr None (demo_profile_table ''ws://127.0.0.1:0'') = Inr p
     \<and> urlsplit (ap_inference_uri p) = Inr u \<and> url_port u = Inr (Some 0)
     \<and> tunnel_init (ap_server_host_alias p) 0 (ap_remote_inference_port p) (Fin 10) w = Inl (PyExc ValueError)"
proof -
  have uri: "uri_is_local ''ws://127.0.0.1:0''" by code_simp
  from demo_profile_loads [OF uri] obtain p where
    p: "load_agilex_profile ''run1'' (Inr ''/locks'') Inr None (demo_profile_table ''ws://127.0.0.1:0'') = Inr p"
      "ap_inference_uri p = ''ws://127.0.0.1:0''" by auto
  have "(case urlsplit ''ws://127.0.0.1:0'' of Inl e \<Rightarrow> False | Inr u \<Rightarrow> url_port u = Inr (Some 0))" by code_simp
  then obtain u where "urlsplit (ap_inference_uri p) = Inr u" "url_port u = Inr (Some 0)"
    by (auto simp: p(2) split: sum.splits)
  with p(1) show ?thesis by (auto simp: tunnel_init_def reject_if_def)
qed

end
