(* ===== verification/Oven_Composite.thy ===== *)
theory Oven_Composite
  imports Oven_Paths Oven_Backend "HOL-Library.AList"
begin

text \<open>
  \<open>server/composite_backend.py\<close> and \<open>server/preflight.py\<close>: the policy backend that puts a skill's
  parameters together from a shared base and the skill's adapter.  OpenPI, JAX and flax are not code
  of this repository: with the file system they are the record \<open>openpi\<close>.  A parameter tree is known
  by its flat form, the list of its leaves by path, which is all the code looks at.
\<close>

subsection \<open>The profile\<close>

record skill_files =
  sf_name :: string
  sf_config_name :: string
  sf_checkpoint :: path
  sf_adapter :: path
  sf_manifest :: path

record composite_profile =
  cp_shared_params :: path
  cp_skills :: "(string \<times> skill_files) list"

text \<open>A required field: \<open>isinstance(value.get(field), str) and value[field]\<close>.\<close>

definition text_field :: "pydict \<Rightarrow> string \<Rightarrow> string res" where
  "text_field d key =
     bind_sum (expect (PyExc ValueError) (Option.bind (dget d key) is_str)) (\<lambda>s.
     reject_if (s = []) (PyExc ValueError) (Inr s))"

text \<open>All four fields are looked at before the first path is resolved.\<close>

definition load_skill_files ::
  "(path \<Rightarrow> path res) \<Rightarrow> path \<Rightarrow> path \<Rightarrow> string \<Rightarrow> pyval \<Rightarrow> skill_files res" where
  "load_skill_files resolve artifact_root checkpoint_root name entry =
     bind_sum (expect (PyExc ValueError) (is_dict entry)) (\<lambda>d.
     bind_sum (text_field d ''config_name'') (\<lambda>config_name.
     bind_sum (text_field d ''checkpoint_relative_path'') (\<lambda>checkpoint_path.
     bind_sum (text_field d ''adapter_relative_path'') (\<lambda>adapter_path.
     bind_sum (text_field d ''manifest_relative_path'') (\<lambda>manifest_path.
     bind_sum (backend_under resolve checkpoint_root checkpoint_path) (\<lambda>checkpoint.
     bind_sum (backend_under resolve artifact_root adapter_path) (\<lambda>adapter.
     bind_sum (backend_under resolve artifact_root manifest_path) (\<lambda>manifest.
       Inr \<lparr>sf_name = name, sf_config_name = config_name, sf_checkpoint = checkpoint, sf_adapter = adapter,
            sf_manifest = manifest\<rparr>))))))))"

fun load_skills ::
  "(path \<Rightarrow> path res) \<Rightarrow> path \<Rightarrow> path \<Rightarrow> pydict \<Rightarrow> (string \<times> skill_files) list res" where
  "load_skills resolve artifact_root checkpoint_root [] = Inr []"
| "load_skills resolve artifact_root checkpoint_root ((name, entry) # entries) =
     bind_sum (load_skill_files resolve artifact_root checkpoint_root name entry) (\<lambda>files.
     bind_sum (load_skills resolve artifact_root checkpoint_root entries) (\<lambda>rest. Inr ((name, files) # rest)))"

definition load_composite_profile ::
  "(path \<Rightarrow> path res) \<Rightarrow> path \<Rightarrow> path \<Rightarrow> pydict \<Rightarrow> composite_profile res" where
  \<comment> \<open>\<open>raw\<close> is the table of the TOML file\<close>
  "load_composite_profile resolve artifact_root checkpoint_root raw =
     reject_if (case dget raw ''schema_version'' of None \<Rightarrow> True | Some v \<Rightarrow> \<not> eq_int v 1) (PyExc ValueError) (
     bind_sum (expect (PyExc ValueError) (Option.bind (dget raw ''skills'') is_dict)) (\<lambda>entries.
     reject_if (entries = []) (PyExc ValueError) (
     bind_sum (load_skills resolve artifact_root checkpoint_root entries) (\<lambda>skills.
     bind_sum (text_field raw ''shared_params_relative_path'') (\<lambda>shared_relative.
     bind_sum (backend_under resolve artifact_root shared_relative) (\<lambda>shared.
       Inr \<lparr>cp_shared_params = shared, cp_skills = skills\<rparr>))))))"

subsection \<open>The surroundings\<close>

type_synonym 'l leaves = "(string \<times> 'l) list"

text \<open>A step of a policy: one OpenPI gives, or one the backend puts between them.\<close>

datatype ('f, 's) policy_step = Step 'f | Inject_default_prompt | Normalize_with 's bool | Unnormalize_with 's bool

record ('f, 's) data_config =
  dc_asset_id :: "string option"
  dc_use_quantile_norm :: bool
  dc_data_inputs :: "'f list"
  dc_data_outputs :: "'f list"
  dc_model_inputs :: "'f list"
  dc_model_outputs :: "'f list"

record ('l, 'c, 'm, 'f, 's, 'p, 'k, 'w) openpi =
  oi_locate :: "string \<Rightarrow> path res"                  \<comment> \<open>\<open>Path(text).resolve()\<close>\<close>
  oi_text :: "pyval \<Rightarrow> string"                       \<comment> \<open>\<open>str(value)\<close> of a value that is not a string\<close>
  oi_is_dir :: "path \<Rightarrow> ('w, bool) meth"
  oi_is_file :: "path \<Rightarrow> ('w, bool) meth"
  oi_read_json :: "path \<Rightarrow> ('w, pyval) meth"
  oi_read_bytes :: "path \<Rightarrow> ('w, byte_list) meth"
  oi_restore_params :: "path \<Rightarrow> ('w, 'l leaves) meth"  \<comment> \<open>restored in bfloat16 and flattened\<close>
  oi_get_config :: "string \<Rightarrow> 'c res"
  oi_policy_metadata :: "'c \<Rightarrow> pydict option"
  oi_action_shape :: "'c \<Rightarrow> nat \<times> nat"
  oi_load_model :: "'c \<Rightarrow> 'l leaves \<Rightarrow> ('w, 'm) meth"
  oi_data_config :: "'c \<Rightarrow> ('w, ('f, 's) data_config) meth"
  oi_load_norm_stats :: "path \<Rightarrow> string \<Rightarrow> ('w, 's) meth"
  oi_policy :: "'m \<Rightarrow> ('f, 's) policy_step list \<Rightarrow> ('f, 's) policy_step list \<Rightarrow> pydict \<Rightarrow> ('w, 'p) meth"
  oi_infer :: "pydict \<Rightarrow> ndarray \<Rightarrow> ('p, pyval) meth"
  oi_set_rng :: "'k \<Rightarrow> 'p \<Rightarrow> 'p"
  oi_key :: "int \<Rightarrow> 'k res"
  oi_split :: "'k \<Rightarrow> 'k \<times> 'k"
  oi_normal :: "'k \<Rightarrow> nat \<times> nat \<Rightarrow> ndarray"
  oi_asarray :: "pyval \<Rightarrow> ndarray res"

record ('l, 'c, 'p, 'k, 'w) composite =
  cb_shared :: "'l leaves"
  cb_active_files :: "skill_files option"
  cb_active_config :: "'c option"
  cb_policy :: "'p option"
  cb_noise_rng :: 'k
  cb_world :: 'w

definition on_files :: "('w, 'a) meth \<Rightarrow> (('l, 'c, 'p, 'k, 'w) composite, 'a) meth" where
  "on_files m = (\<lambda>s. case m (cb_world s) of (r, w) \<Rightarrow> (r, s\<lparr>cb_world := w\<rparr>))"

definition composite_init ::
  "('l, 'c, 'm, 'f, 's, 'p, 'k, 'w) openpi \<Rightarrow> composite_profile \<Rightarrow> ('w, ('l, 'c, 'p, 'k, 'w) composite) meth" where
  "composite_init oi profile =
     bind_op (oi_is_dir oi (cp_shared_params profile)) (\<lambda>is_dir.
     if \<not> is_dir then raise (PyExc FileNotFoundError)
     else
     bind_op (oi_restore_params oi (cp_shared_params profile)) (\<lambda>shared.
     bind_op (lift_sum (oi_key oi 0)) (\<lambda>key.
     bind_op (gets_op (\<lambda>w. w)) (\<lambda>w.
       ret \<lparr>cb_shared = shared, cb_active_files = None, cb_active_config = None, cb_policy = None,
            cb_noise_rng = key, cb_world = w\<rparr>))))"

subsection \<open>Assets\<close>

text \<open>\<open>str(manifest.get(key, ""))\<close>\<close>

definition manifest_text :: "('l, 'c, 'm, 'f, 's, 'p, 'k, 'w) openpi \<Rightarrow> pydict \<Rightarrow> string \<Rightarrow> string" where
  "manifest_text oi manifest key =
     (case dget manifest key of None \<Rightarrow> [] | Some (PStr s) \<Rightarrow> s | Some v \<Rightarrow> oi_text oi v)"

definition manifest_matches ::
  "('l, 'c, 'm, 'f, 's, 'p, 'k, 'w) openpi \<Rightarrow> skill_files \<Rightarrow> pydict \<Rightarrow> unit res" where
  "manifest_matches oi files manifest =
     reject_if (dget manifest ''artifact_type'' \<noteq> Some (PStr ''exact_composite_adapter'')) (PyExc ValueError) (
     reject_if (dget manifest ''exact_parameter_recomposition'' \<noteq> Some (PBool True)) (PyExc ValueError) (
     bind_sum (oi_locate oi (manifest_text oi manifest ''full_checkpoint'')) (\<lambda>checkpoint.
     reject_if (checkpoint \<noteq> sf_checkpoint files @ [''params'']) (PyExc ValueError) (
     bind_sum (oi_locate oi (manifest_text oi manifest ''adapter'')) (\<lambda>adapter.
     reject_if (adapter \<noteq> sf_adapter files) (PyExc ValueError) (Inr ()))))))"

definition validate_assets :: "('l, 'c, 'm, 'f, 's, 'p, 'k, 'w) openpi \<Rightarrow> skill_files \<Rightarrow> ('w, unit) meth" where
  "validate_assets oi files =
     bind_op (oi_is_dir oi (sf_checkpoint files)) (\<lambda>checkpoint.
     bind_op (if checkpoint then oi_is_dir oi (sf_adapter files) else ret False) (\<lambda>adapter.
     bind_op (if adapter then oi_is_file oi (sf_manifest files) else ret False) (\<lambda>complete.
     if \<not> complete then raise (PyExc FileNotFoundError)
     else
     bind_op (oi_read_json oi (sf_manifest files)) (\<lambda>v.
     bind_op (lift_sum (expect (PyExc AttributeError) (is_dict v))) (\<lambda>manifest.
       lift_sum (manifest_matches oi files manifest))))))"

subsection \<open>Preparing a skill\<close>

definition merge_leaves :: "'l leaves \<Rightarrow> 'l leaves \<Rightarrow> 'l leaves" where
  \<comment> \<open>\<open>merged = dict(shared); merged.update(adapter)\<close>\<close>
  "merge_leaves shared adapter = fold (\<lambda>(k, v) d. AList.update k v d) adapter shared"

definition policy_inputs :: "('f, 's) data_config \<Rightarrow> 's \<Rightarrow> ('f, 's) policy_step list" where
  "policy_inputs dc stats =
     Inject_default_prompt # map Step (dc_data_inputs dc)
       @ [Normalize_with stats (dc_use_quantile_norm dc)] @ map Step (dc_model_inputs dc)"

definition policy_outputs :: "('f, 's) data_config \<Rightarrow> 's \<Rightarrow> ('f, 's) policy_step list" where
  "policy_outputs dc stats =
     map Step (dc_model_outputs dc) @ [Unnormalize_with stats (dc_use_quantile_norm dc)]
       @ map Step (dc_data_outputs dc)"

definition build_policy ::
  "('l, 'c, 'm, 'f, 's, 'p, 'k, 'w) openpi \<Rightarrow> skill_files \<Rightarrow> string \<Rightarrow> 'c \<Rightarrow> 'l leaves \<Rightarrow> ('w, 'p) meth" where
  "build_policy oi files skill config merged =
     bind_op (oi_load_model oi config merged) (\<lambda>model.
     bind_op (oi_data_config oi config) (\<lambda>dc.
     bind_op (lift_sum (expect (PyExc ValueError) (dc_asset_id dc))) (\<lambda>asset_id.
     bind_op (oi_load_norm_stats oi (sf_checkpoint files @ [''assets'']) asset_id) (\<lambda>stats.
       oi_policy oi model (policy_inputs dc stats) (policy_outputs dc stats)
         (dset (case oi_policy_metadata oi config of None \<Rightarrow> [] | Some d \<Rightarrow> d) ''oven_runtime_skill'' (PStr skill))))))"

definition composite_prepare ::
  "('l, 'c, 'm, 'f, 's, 'p, 'k, 'w) openpi \<Rightarrow> composite_profile \<Rightarrow> string
   \<Rightarrow> (('l, 'c, 'p, 'k, 'w) composite, backend_identity) meth" where
  "composite_prepare oi profile skill =
     (case map_of (cp_skills profile) skill of
        None \<Rightarrow> raise (PyExc ValueError)
      | Some files \<Rightarrow>
          seq_op (on_files (validate_assets oi files)) (
          bind_op (on_files (oi_restore_params oi (sf_adapter files))) (\<lambda>adapter.
          bind_op (gets_op cb_shared) (\<lambda>shared.
          bind_op (lift_sum (oi_get_config oi (sf_config_name files))) (\<lambda>config.
          bind_op (on_files (build_policy oi files skill config (merge_leaves shared adapter))) (\<lambda>policy.
          seq_op (modify_op (\<lambda>s. s\<lparr>cb_active_files := Some files, cb_active_config := Some config, cb_policy := Some policy\<rparr>)) (
          bind_op (lift_sum (oi_key oi 0)) (\<lambda>key.
          seq_op (modify_op (\<lambda>s. s\<lparr>cb_noise_rng := key\<rparr>)) (
          bind_op (on_files (oi_read_bytes oi (sf_manifest files))) (\<lambda>content.
            ret \<lparr>bi_backend = ''openpi-composite'', bi_skill = skill,
                 bi_model_id = sf_config_name files @ '':'' @ (if sf_checkpoint files = [] then [] else last (sf_checkpoint files)),
                 bi_asset_hashes =
                   [(''adapter_manifest'', sha256_hex content),
                    (''adapter_overwrite_leaves'',
                     show_nat (card (set (map fst adapter) \<inter> set (map fst shared))))]\<rparr>))))))))))"

subsection \<open>Inference, seeding, closing\<close>

definition on_policy :: "('p, 'a) meth \<Rightarrow> 'p \<Rightarrow> (('l, 'c, 'p, 'k, 'w) composite, 'a) meth" where
  "on_policy m policy = (\<lambda>s. case m policy of (r, p) \<Rightarrow> (r, s\<lparr>cb_policy := Some p\<rparr>))"

definition policy_actions :: "pyval \<Rightarrow> pyval res" where
  "policy_actions v =
     (case is_dict v of
        None \<Rightarrow> Inl (PyExc RuntimeError)
      | Some d \<Rightarrow> expect (PyExc RuntimeError) (dget d ''actions''))"

definition draw_noise ::
  "('l, 'c, 'm, 'f, 's, 'p, 'k, 'w) openpi \<Rightarrow> 'c \<Rightarrow> (('l, 'c, 'p, 'k, 'w) composite, ndarray) meth" where
  "draw_noise oi config =
     bind_op (gets_op (\<lambda>s. oi_split oi (cb_noise_rng s))) (\<lambda>(rng, sample_key).
     seq_op (modify_op (\<lambda>s. s\<lparr>cb_noise_rng := rng\<rparr>))
       (ret (oi_normal oi sample_key (oi_action_shape oi config))))"

definition composite_infer ::
  "('l, 'c, 'm, 'f, 's, 'p, 'k, 'w) openpi \<Rightarrow> pydict \<Rightarrow> request_kind
   \<Rightarrow> (('l, 'c, 'p, 'k, 'w) composite, backend_result) meth" where
  "composite_infer oi observation kind =
     bind_op (gets_op (\<lambda>s. (cb_policy s, cb_active_config s, cb_active_files s))) (\<lambda>prepared.
     case prepared of
       (Some policy, Some config, Some files) \<Rightarrow>
         bind_op (draw_noise oi config) (\<lambda>noise.
         bind_op (on_policy (oi_infer oi observation noise) policy) (\<lambda>result.
         bind_op (lift_sum (policy_actions result)) (\<lambda>actions.
         bind_op (lift_sum (oi_asarray oi actions)) (\<lambda>array.
         bind_op (lift_sum (stable_tree_hash (PArr noise))) (\<lambda>noise_hash.
           ret \<lparr>br_actions = array, br_noise_hash = noise_hash,
                br_metadata = [(''request_kind'', PStr (kind_value kind)), (''skill'', PStr (sf_name files))]\<rparr>)))))
     | _ \<Rightarrow> raise (PyExc RuntimeError))"

definition composite_reset_prng ::
  "('l, 'c, 'm, 'f, 's, 'p, 'k, 'w) openpi \<Rightarrow> int \<Rightarrow> (('l, 'c, 'p, 'k, 'w) composite, unit) meth" where
  "composite_reset_prng oi seed =
     bind_op (lift_sum (oi_key oi seed)) (\<lambda>key.
       modify_op (\<lambda>s. s\<lparr>cb_noise_rng := key, cb_policy := map_option (oi_set_rng oi key) (cb_policy s)\<rparr>))"

definition composite_close :: "(('l, 'c, 'p, 'k, 'w) composite, unit) meth" where
  "composite_close =
     modify_op (\<lambda>s. s\<lparr>cb_policy := None, cb_active_config := None, cb_active_files := None, cb_shared := []\<rparr>)"

definition composite_backend ::
  "('l, 'c, 'm, 'f, 's, 'p, 'k, 'w) openpi \<Rightarrow> composite_profile \<Rightarrow> ('l, 'c, 'p, 'k, 'w) composite policy_backend" where
  "composite_backend oi profile =
     \<lparr>be_prepare = composite_prepare oi profile, be_infer = composite_infer oi,
      be_reset_prng = composite_reset_prng oi, be_close = composite_close\<rparr>"

subsection \<open>The preflight of all skills\<close>

definition path_text :: "path \<Rightarrow> string" where
  "path_text p = CHR ''/'' # join ''/'' p"

definition skill_report :: "('l, 'c, 'm, 'f, 's, 'p, 'k, 'w) openpi \<Rightarrow> skill_files \<Rightarrow> ('w, pydict) meth" where
  "skill_report oi files =
     seq_op (validate_assets oi files) (
     bind_op (oi_read_json oi (sf_manifest files)) (\<lambda>v.
     bind_op (oi_read_bytes oi (sf_manifest files)) (\<lambda>content.
     bind_op (lift_sum (expect (PyExc AttributeError) (is_dict v))) (\<lambda>manifest.
       ret [(''config_name'', PStr (sf_config_name files)), (''checkpoint'', PStr (path_text (sf_checkpoint files))),
            (''adapter'', PStr (path_text (sf_adapter files))), (''manifest_sha256'', PStr (sha256_hex content)),
            (''adapter_leaf_count'', case dget manifest ''adapter_leaf_count'' of None \<Rightarrow> PNone | Some n \<Rightarrow> n),
            (''exact_parameter_recomposition'',
             case dget manifest ''exact_parameter_recomposition'' of None \<Rightarrow> PNone | Some b \<Rightarrow> b)]))))"

fun skill_reports ::
  "('l, 'c, 'm, 'f, 's, 'p, 'k, 'w) openpi \<Rightarrow> (string \<times> skill_files) list \<Rightarrow> ('w, pydict) meth" where
  "skill_reports oi [] = ret []"
| "skill_reports oi ((name, files) # skills) =
     bind_op (skill_report oi files) (\<lambda>report.
     bind_op (skill_reports oi skills) (\<lambda>reports. ret ((name, PDict report) # reports)))"

definition validate_composite_assets ::
  "('l, 'c, 'm, 'f, 's, 'p, 'k, 'w) openpi \<Rightarrow> composite_profile \<Rightarrow> ('w, pydict) meth" where
  "validate_composite_assets oi profile =
     bind_op (oi_is_dir oi (cp_shared_params profile)) (\<lambda>is_dir.
     if \<not> is_dir then raise (PyExc FileNotFoundError)
     else bind_op (skill_reports oi (cp_skills profile)) (\<lambda>skills.
       ret [(''shared_params'', PStr (path_text (cp_shared_params profile))), (''skills'', PDict skills)]))"

definition preflight_report ::
  "('l, 'c, 'm, 'f, 's, 'p, 'k, 'w) openpi \<Rightarrow> path \<Rightarrow> path \<Rightarrow> (path \<Rightarrow> path res) \<Rightarrow> pydict \<Rightarrow> ('w, pydict) meth" where
  \<comment> \<open>what \<open>oven-server-preflight\<close> prints\<close>
  "preflight_report oi artifact_root checkpoint_root resolve raw =
     bind_op (lift_sum (load_composite_profile resolve artifact_root checkpoint_root raw)) (\<lambda>profile.
     map_op (Cons (''status'', PStr ''READY'')) (validate_composite_assets oi profile))"

end
