(* ===== verification/Oven_CompositeSpec.thy ===== *)
theory Oven_CompositeSpec
  imports Oven_Composite
begin

text \<open>
  What the composite backend promises: it serves the skill it was prepared for, with a policy built
  from validated files below the configured roots, and its noise depends on the seed alone.
\<close>

subsection \<open>The loaded profile\<close>

lemma load_skill_files_Inr:
  assumes "load_skill_files resolve artifact_root checkpoint_root name entry = Inr files"
  shows "sf_name files = name
    \<and> (\<exists>r. resolve checkpoint_root = Inr r \<and> prefix r (sf_checkpoint files))
    \<and> (\<exists>r. resolve artifact_root = Inr r \<and> prefix r (sf_adapter files) \<and> prefix r (sf_manifest files))"
  using assms by (auto simp: load_skill_files_def result_iffs backend_under_Inr resolve_under_root_Inr)

lemma load_skills_files:
  "load_skills resolve artifact_root checkpoint_root entries = Inr skills \<Longrightarrow> map_of skills name = Some files \<Longrightarrow>
     \<exists>entry. load_skill_files resolve artifact_root checkpoint_root name entry = Inr files"
proof (induction entries arbitrary: skills)
  case Nil
  then show ?case by simp
next
  case (Cons e entries)
  obtain other entry where e: "e = (other, entry)" by fastforce
  from Cons.prems(1) [unfolded e] obtain other_files rest where loaded:
    "load_skill_files resolve artifact_root checkpoint_root other entry = Inr other_files"
    "load_skills resolve artifact_root checkpoint_root entries = Inr rest" "skills = (other, other_files) # rest"
    by (auto simp: result_iffs)
  with Cons.prems(2) Cons.IH [OF loaded(2)] show ?case by (cases "other = name") auto
qed

lemma loaded_skill_files:
  assumes "load_composite_profile resolve artifact_root checkpoint_root raw = Inr profile"
    and "map_of (cp_skills profile) skill = Some files"
  shows "sf_name files = skill
    \<and> (\<exists>r. resolve checkpoint_root = Inr r \<and> prefix r (sf_checkpoint files))
    \<and> (\<exists>r. resolve artifact_root = Inr r \<and> prefix r (sf_adapter files) \<and> prefix r (sf_manifest files))"
proof -
  from assms(1) obtain entries where "load_skills resolve artifact_root checkpoint_root entries = Inr (cp_skills profile)"
    by (auto simp: load_composite_profile_def result_iffs)
  from load_skills_files [OF this assms(2)] load_skill_files_Inr show ?thesis by blast
qed

subsection \<open>Steps of the backend\<close>

lemma on_files_Inr: "on_files m s = (Inr x, s') \<longleftrightarrow> (\<exists>w. m (cb_world s) = (Inr x, w) \<and> s' = s\<lparr>cb_world := w\<rparr>)"
  by (auto simp: on_files_def split: prod.split)

lemma validate_assets_Inr:
  assumes "validate_assets oi files w = (Inr (), w')"
  shows "\<exists>manifest w0. oi_read_json oi (sf_manifest files) w0 = (Inr (PDict manifest), w')
    \<and> manifest_matches oi files manifest = Inr ()"
  using assms by (auto simp: validate_assets_def op_returns lift_sum_apply)

lemma manifest_matches_Inr:
  "manifest_matches oi files manifest = Inr () \<longleftrightarrow>
     dget manifest ''artifact_type'' = Some (PStr ''exact_composite_adapter'')
     \<and> dget manifest ''exact_parameter_recomposition'' = Some (PBool True)
     \<and> oi_locate oi (manifest_text oi manifest ''full_checkpoint'') = Inr (sf_checkpoint files @ [''params''])
     \<and> oi_locate oi (manifest_text oi manifest ''adapter'') = Inr (sf_adapter files)"
  by (auto simp: manifest_matches_def result_iffs)

lemma map_of_merge_leaves: "map_of (merge_leaves shared adapter) = map_of shared ++ map_of (rev adapter)"
  unfolding merge_leaves_def
  by (induction adapter arbitrary: shared) (auto simp: update_conv' map_add_def fun_eq_iff split: option.splits)

text \<open>
  A policy that was built for a skill: from the skill's configuration and statistics, and from the
  leaves of the base with the adapter's over them, after the manifest matched.
\<close>

definition built_for ::
  "('l, 'c, 'm, 'f, 's, 'p, 'k, 'w) openpi \<Rightarrow> 'l leaves \<Rightarrow> skill_files \<Rightarrow> string \<Rightarrow> 'c \<Rightarrow> 'p \<Rightarrow> bool" where
  "built_for oi shared files skill config policy \<longleftrightarrow>
     oi_get_config oi (sf_config_name files) = Inr config
     \<and> (\<exists>manifest adapter merged w0 w1 w2 w3.
          oi_read_json oi (sf_manifest files) w0 = (Inr (PDict manifest), w1)
          \<and> manifest_matches oi files manifest = Inr ()
          \<and> oi_restore_params oi (sf_adapter files) w1 = (Inr adapter, w2)
          \<and> map_of merged = map_of shared ++ map_of (rev adapter)
          \<and> build_policy oi files skill config merged w2 = (Inr policy, w3))"

lemma composite_prepare_Inr:
  assumes "composite_prepare oi profile skill s = (Inr identity, s')"
  shows "bi_skill identity = skill \<and> cb_shared s' = cb_shared s
    \<and> (\<exists>files config policy. map_of (cp_skills profile) skill = Some files
         \<and> cb_active_files s' = Some files \<and> cb_active_config s' = Some config \<and> cb_policy s' = Some policy
         \<and> oi_key oi 0 = Inr (cb_noise_rng s')
         \<and> built_for oi (cb_shared s) files skill config policy)"
proof -
  from assms obtain files adapter config policy w0 w1 w2 where parts:
      "map_of (cp_skills profile) skill = Some files"
      "validate_assets oi files (cb_world s) = (Inr (), w0)"
      "oi_restore_params oi (sf_adapter files) w0 = (Inr adapter, w1)"
      "oi_get_config oi (sf_config_name files) = Inr config"
      "build_policy oi files skill config (merge_leaves (cb_shared s) adapter) w1 = (Inr policy, w2)"
    and after: "bi_skill identity = skill" "cb_shared s' = cb_shared s" "cb_active_files s' = Some files"
      "cb_active_config s' = Some config" "cb_policy s' = Some policy" "oi_key oi 0 = Inr (cb_noise_rng s')"
    by (auto simp: composite_prepare_def op_returns on_files_Inr gets_op_apply modify_op_apply lift_sum_apply ret_apply raise_apply
        split: option.splits)
  from validate_assets_Inr [OF parts(2)] obtain manifest v where
    "oi_read_json oi (sf_manifest files) v = (Inr (PDict manifest), w0)" "manifest_matches oi files manifest = Inr ()"
    by blast
  with parts(3-5) have "built_for oi (cb_shared s) files skill config policy"
    unfolding built_for_def
    by (intro conjI exI [of _ manifest] exI [of _ adapter] exI [of _ "merge_leaves (cb_shared s) adapter"]
        exI [of _ v] exI [of _ w0] exI [of _ w1] exI [of _ w2]) (simp_all add: map_of_merge_leaves)
  with parts(1) after show ?thesis by blast
qed

text \<open>A preparation that fails leaves the policy it found, unless the last reading of the manifest is what failed.\<close>

theorem failed_prepare_keeps_policy:
  assumes "composite_prepare oi profile skill s = (Inl e, s')"
  shows "(\<exists>w. s' = s\<lparr>cb_world := w\<rparr>)
    \<or> (\<exists>files w. cb_active_files s' = Some files \<and> map_of (cp_skills profile) skill = Some files
         \<and> (oi_key oi 0 = Inl e \<or> oi_read_bytes oi (sf_manifest files) w = (Inl e, cb_world s')))"
proof (cases "map_of (cp_skills profile) skill")
  case None
  with assms have "s' = s\<lparr>cb_world := cb_world s\<rparr>" by (simp add: composite_prepare_def op_simps)
  then show ?thesis by blast
next
  case (Some files)
  with assms show ?thesis
    by (auto simp: composite_prepare_def op_simps on_files_def split: prod.splits sum.splits)
qed

subsection \<open>Serving\<close>

text \<open>The states a policy can come to: inference changes it, and reseeding sets its generator.\<close>

inductive policy_later :: "('l, 'c, 'm, 'f, 's, 'p, 'k, 'w) openpi \<Rightarrow> 'p \<Rightarrow> 'p \<Rightarrow> bool" for oi policy where
  policy_same: "policy_later oi policy policy"
| policy_infer: "policy_later oi policy p \<Longrightarrow> policy_later oi policy (snd (oi_infer oi observation noise p))"
| policy_reseed: "policy_later oi policy p \<Longrightarrow> policy_later oi policy (oi_set_rng oi key p)"

datatype serving_call = Serve pydict request_kind | Reseed int

fun serving_step ::
  "('l, 'c, 'm, 'f, 's, 'p, 'k, 'w) openpi \<Rightarrow> serving_call \<Rightarrow> (('l, 'c, 'p, 'k, 'w) composite, unit) meth" where
  "serving_step oi (Serve observation kind) = map_op (\<lambda>_. ()) (composite_infer oi observation kind)"
| "serving_step oi (Reseed seed) = composite_reset_prng oi seed"

definition serving ::
  "('l, 'c, 'm, 'f, 's, 'p, 'k, 'w) openpi \<Rightarrow> skill_files \<Rightarrow> 'c \<Rightarrow> 'p \<Rightarrow> ('l, 'c, 'p, 'k, 'w) composite \<Rightarrow> bool" where
  "serving oi files config policy s \<longleftrightarrow>
     cb_active_files s = Some files \<and> cb_active_config s = Some config
     \<and> (\<exists>p. cb_policy s = Some p \<and> policy_later oi policy p)"

text \<open>An inference of a prepared backend: the next noise, and the policy called once on it.\<close>

lemma composite_infer_prepared:
  assumes "cb_policy s = Some p" "cb_active_config s = Some config" "cb_active_files s = Some files"
    and "composite_infer oi observation kind s = (r, s')"
  defines "noise \<equiv> oi_normal oi (snd (oi_split oi (cb_noise_rng s))) (oi_action_shape oi config)"
  shows "s' = s\<lparr>cb_noise_rng := fst (oi_split oi (cb_noise_rng s)), cb_policy := Some (snd (oi_infer oi observation noise p))\<rparr>"
    and "r = Inr result \<Longrightarrow> stable_tree_hash (PArr noise) = Inr (br_noise_hash result)
      \<and> br_metadata result = [(''request_kind'', PStr (kind_value kind)), (''skill'', PStr (sf_name files))]
      \<and> (\<exists>answer actions. fst (oi_infer oi observation noise p) = Inr answer
           \<and> policy_actions answer = Inr actions \<and> oi_asarray oi actions = Inr (br_actions result))"
  using assms
  by (auto simp: composite_infer_def draw_noise_def on_policy_def op_simps split: prod.splits sum.splits)

lemma composite_infer_unprepared:
  assumes "cb_policy s = None \<or> cb_active_config s = None \<or> cb_active_files s = None"
  shows "composite_infer oi observation kind s = (Inl (PyExc RuntimeError), s)"
  using assms by (auto simp: composite_infer_def op_simps split: option.splits)

lemma composite_reset_apply:
  "composite_reset_prng oi seed s =
     (case oi_key oi seed of
        Inl e \<Rightarrow> (Inl e, s)
      | Inr key \<Rightarrow> (Inr (), s\<lparr>cb_noise_rng := key, cb_policy := map_option (oi_set_rng oi key) (cb_policy s)\<rparr>))"
  by (simp add: composite_reset_prng_def op_simps split: sum.split)

lemma serving_step_serving:
  assumes "serving oi files config policy s"
  shows "serving oi files config policy (snd (serving_step oi c s))"
proof -
  from assms obtain p where p: "cb_policy s = Some p" "policy_later oi policy p"
    and fields: "cb_active_config s = Some config" "cb_active_files s = Some files"
    by (auto simp: serving_def)
  show ?thesis
  proof (cases c)
    case (Serve observation kind)
    obtain r s' where run: "composite_infer oi observation kind s = (r, s')" by fastforce
    from composite_infer_prepared(1) [OF p(1) fields run] p fields run Serve show ?thesis
      by (cases r) (auto simp: serving_def op_simps intro: policy_infer)
  next
    case (Reseed seed)
    with p fields show ?thesis
      by (auto simp: serving_def composite_reset_apply intro: policy_reseed split: sum.split)
  qed
qed

interpretation serving_machine: invariant_machine "serving_step oi" "serving oi files config policy"
  for oi files config policy
  by unfold_locales (rule serving_step_serving)

subsection \<open>What is served is what was prepared\<close>

text \<open>
  C36. The composite backend serves the skill it was prepared for.  After \<open>prepare\<close> returned an
  identity, and whatever inferences and reseedings followed, an inference that returns names that
  skill, and its actions are what one call of a policy gave that was built for it: from the leaves
  of the shared base with those of the skill's adapter over them, with the checkpoint below the
  checkpoint root, adapter and manifest below the artifact root, and a manifest that claims exact
  recomposition and names exactly this checkpoint and adapter.
\<close>

theorem composite_serves_prepared_skill:
  assumes "load_composite_profile resolve artifact_root checkpoint_root raw = Inr profile"
    and "composite_prepare oi profile skill s = (Inr identity, s1)"
    and "composite_infer oi observation kind (run_ops (serving_step oi) calls s1) = (Inr result, s2)"
  shows "bi_skill identity = skill \<and> dget (br_metadata result) ''skill'' = Some (PStr skill)
    \<and> (\<exists>files config policy p noise answer actions.
         (\<exists>r. resolve checkpoint_root = Inr r \<and> prefix r (sf_checkpoint files))
         \<and> (\<exists>r. resolve artifact_root = Inr r \<and> prefix r (sf_adapter files) \<and> prefix r (sf_manifest files))
         \<and> built_for oi (cb_shared s) files skill config policy \<and> policy_later oi policy p
         \<and> fst (oi_infer oi observation noise p) = Inr answer
         \<and> policy_actions answer = Inr actions \<and> oi_asarray oi actions = Inr (br_actions result))"
proof -
  from composite_prepare_Inr [OF assms(2)] obtain files config policy where prepared:
      "bi_skill identity = skill" "map_of (cp_skills profile) skill = Some files"
      "built_for oi (cb_shared s) files skill config policy"
    and "serving oi files config policy s1"
    unfolding serving_def by (blast intro: policy_same)
  from serving_machine.run_inv [OF this(4), of calls] obtain p where
      p: "cb_policy (run_ops (serving_step oi) calls s1) = Some p" "policy_later oi policy p"
      "cb_active_config (run_ops (serving_step oi) calls s1) = Some config"
      "cb_active_files (run_ops (serving_step oi) calls s1) = Some files"
    by (auto simp: serving_def)
  note result = composite_infer_prepared(2) [OF p(1,3,4) assms(3) refl]
  note files = loaded_skill_files [OF assms(1) prepared(2)]
  from result files have "dget (br_metadata result) ''skill'' = Some (PStr skill)" by simp
  with result files prepared(1,3) p(2) show ?thesis by blast
qed

subsection \<open>Noise\<close>

fun infer_call :: "('l, 'c, 'm, 'f, 's, 'p, 'k, 'w) openpi \<Rightarrow> pydict \<times> request_kind
  \<Rightarrow> (('l, 'c, 'p, 'k, 'w) composite, backend_result) meth" where
  "infer_call oi (observation, kind) = composite_infer oi observation kind"

definition noise_key :: "('l, 'c, 'm, 'f, 's, 'p, 'k, 'w) openpi \<Rightarrow> 'k \<Rightarrow> nat \<Rightarrow> 'k" where
  "noise_key oi key n = ((\<lambda>k. fst (oi_split oi k)) ^^ n) key"

lemma infer_calls_noise:
  assumes "cb_policy s = Some p" "cb_active_config s = Some config" "cb_active_files s = Some files"
  shows "\<exists>p'. cb_policy (run_ops (infer_call oi) xs s) = Some p'
    \<and> cb_active_config (run_ops (infer_call oi) xs s) = Some config
    \<and> cb_active_files (run_ops (infer_call oi) xs s) = Some files
    \<and> cb_noise_rng (run_ops (infer_call oi) xs s) = noise_key oi (cb_noise_rng s) (length xs)"
  using assms
proof (induction xs arbitrary: s p)
  case Nil
  then show ?case by (simp add: noise_key_def)
next
  case (Cons x xs)
  obtain observation kind where x: "x = (observation, kind)" by fastforce
  obtain r s' where run: "composite_infer oi observation kind s = (r, s')" by fastforce
  note s' = composite_infer_prepared(1) [OF Cons.prems run]
  from Cons.IH [of s'] s' run x Cons.prems show ?case
    by (simp add: noise_key_def funpow_Suc_right del: funpow.simps)
qed

text \<open>
  C37. The noise of a trial is reproducible.  After a backend in any state has been prepared for a
  skill and given a seed, and after any inferences, whatever was observed, whatever the policy
  answered and also if some of them failed, the next inference hands to the policy exactly the
  noise that is drawn, in the action shape of the skill's configuration, with the key that as many
  splittings of the seed's key give as there were inferences before; its actions are what the
  policy answered to that noise, and the recorded hash is the hash of that noise.  So the noise is
  a function of the skill, the seed and the number of the inference alone.
\<close>

theorem noise_is_reproducible:
  assumes "composite_prepare oi profile skill s = (Inr identity, s1)" and "composite_reset_prng oi seed s1 = (Inr (), s2)"
    and "composite_infer oi observation kind (run_ops (infer_call oi) xs s2) = (Inr result, s3)"
  shows "\<exists>files config key noise p p' answer actions.
    map_of (cp_skills profile) skill = Some files \<and> oi_get_config oi (sf_config_name files) = Inr config
    \<and> oi_key oi seed = Inr key
    \<and> noise = oi_normal oi (snd (oi_split oi (noise_key oi key (length xs)))) (oi_action_shape oi config)
    \<and> cb_policy (run_ops (infer_call oi) xs s2) = Some p \<and> oi_infer oi observation noise p = (Inr answer, p')
    \<and> cb_policy s3 = Some p' \<and> policy_actions answer = Inr actions \<and> oi_asarray oi actions = Inr (br_actions result)
    \<and> stable_tree_hash (PArr noise) = Inr (br_noise_hash result)"
proof -
  from composite_prepare_Inr [OF assms(1)] obtain files config policy where prepared:
    "map_of (cp_skills profile) skill = Some files" "oi_get_config oi (sf_config_name files) = Inr config"
    "cb_active_files s1 = Some files" "cb_active_config s1 = Some config" "cb_policy s1 = Some policy"
    unfolding built_for_def by blast
  from assms(2) obtain key where key: "oi_key oi seed = Inr key" and
    s2: "s2 = s1\<lparr>cb_noise_rng := key, cb_policy := Some (oi_set_rng oi key policy)\<rparr>"
    by (auto simp: composite_reset_apply prepared split: sum.splits)
  from infer_calls_noise [of s2 "oi_set_rng oi key policy" config files oi xs] obtain p where after:
    "cb_policy (run_ops (infer_call oi) xs s2) = Some p" "cb_active_config (run_ops (infer_call oi) xs s2) = Some config"
    "cb_active_files (run_ops (infer_call oi) xs s2) = Some files"
    "cb_noise_rng (run_ops (infer_call oi) xs s2) = noise_key oi key (length xs)"
    using s2 prepared by auto
  let ?noise = "oi_normal oi (snd (oi_split oi (noise_key oi key (length xs)))) (oi_action_shape oi config)"
  from composite_infer_prepared(2) [OF after(1-3) assms(3) refl] composite_infer_prepared(1) [OF after(1-3) assms(3)]
    after(4)
  obtain answer actions where "oi_infer oi observation ?noise p = (Inr answer, snd (oi_infer oi observation ?noise p))"
    "policy_actions answer = Inr actions" "oi_asarray oi actions = Inr (br_actions result)"
    "stable_tree_hash (PArr ?noise) = Inr (br_noise_hash result)"
    "cb_policy s3 = Some (snd (oi_infer oi observation ?noise p))"
    by (auto simp: prod_eq_iff)
  with prepared(1,2) key after(1) show ?thesis by blast
qed

interpretation composite: faithful_backend "composite_backend oi profile" for oi profile
  by unfold_locales (use composite_prepare_Inr in \<open>fastforce simp: composite_backend_def\<close>)

subsection \<open>A concrete backend\<close>

text \<open>One skill, files that are always there, and a policy that answers with one chunk.\<close>

definition demo_composite_raw :: pydict where
  "demo_composite_raw =
     [(''schema_version'', PInt 1),
      (''skills'', PDict [(''pick'', PDict
         [(''config_name'', PStr ''cfg''), (''checkpoint_relative_path'', PStr ''c''),
          (''adapter_relative_path'', PStr ''a''), (''manifest_relative_path'', PStr ''m'')])]),
      (''shared_params_relative_path'', PStr ''s'')]"

definition demo_skill_files :: skill_files where
  "demo_skill_files =
     \<lparr>sf_name = ''pick'', sf_config_name = ''cfg'', sf_checkpoint = [''ckpt'', ''c''], sf_adapter = [''art'', ''a''],
      sf_manifest = [''art'', ''m'']\<rparr>"

definition demo_composite_profile :: composite_profile where
  "demo_composite_profile = \<lparr>cp_shared_params = [''art'', ''s''], cp_skills = [(''pick'', demo_skill_files)]\<rparr>"

definition demo_manifest :: pydict where
  "demo_manifest =
     [(''artifact_type'', PStr ''exact_composite_adapter''), (''exact_parameter_recomposition'', PBool True),
      (''full_checkpoint'', PStr ''/ckpt/c/params''), (''adapter'', PStr ''/art/a'')]"

definition demo_openpi :: "(int, unit, int leaves, unit, unit, int leaves, int \<times> nat, unit) openpi" where
  "demo_openpi =
     \<lparr>oi_locate = (\<lambda>t. Inr (path_parts t)), oi_text = (\<lambda>_. []), oi_is_dir = (\<lambda>_. ret True), oi_is_file = (\<lambda>_. ret True),
      oi_read_json = (\<lambda>_. ret (PDict demo_manifest)), oi_read_bytes = (\<lambda>_. ret []),
      oi_restore_params = (\<lambda>p. ret [(''w'', if p = [''art'', ''s''] then 0 else 1)]),
      oi_get_config = (\<lambda>_. Inr ()), oi_policy_metadata = (\<lambda>_. None), oi_action_shape = (\<lambda>_. (1, 7)),
      oi_load_model = (\<lambda>_. ret),
      oi_data_config = (\<lambda>_. ret \<lparr>dc_asset_id = Some ''id'', dc_use_quantile_norm = False, dc_data_inputs = [],
        dc_data_outputs = [], dc_model_inputs = [], dc_model_outputs = []\<rparr>),
      oi_load_norm_stats = (\<lambda>_ _. ret ()), oi_policy = (\<lambda>m _ _ _. ret m),
      oi_infer = (\<lambda>_ _. ret (PDict [(''actions'', PArr demo_chunk)])), oi_set_rng = (\<lambda>_ p. p),
      oi_key = (\<lambda>seed. Inr (seed, 0)), oi_split = (\<lambda>(seed, n). ((seed, n + 1), (seed, n))),
      oi_normal = (\<lambda>_ _. demo_chunk), oi_asarray = (\<lambda>v. case v of PArr a \<Rightarrow> Inr a | _ \<Rightarrow> Inl (PyExc TypeError))\<rparr>"

definition demo_composite :: "(int, unit, int leaves, int \<times> nat, unit) composite" where
  "demo_composite =
     \<lparr>cb_shared = [(''w'', 0)], cb_active_files = None, cb_active_config = None, cb_policy = None,
      cb_noise_rng = (0, 0), cb_world = ()\<rparr>"

lemma demo_composite_loads:
  "load_composite_profile (\<lambda>p. Inr p) [''art''] [''ckpt''] demo_composite_raw = Inr demo_composite_profile"
  by code_simp

lemma demo_composite_prepares:
  "composite_prepare demo_openpi demo_composite_profile ''pick'' demo_composite =
     (Inr \<lparr>bi_backend = ''openpi-composite'', bi_skill = ''pick'', bi_model_id = ''cfg:c'',
           bi_asset_hashes = [(''adapter_manifest'', sha256_hex []), (''adapter_overwrite_leaves'', ''1'')]\<rparr>,
      demo_composite\<lparr>cb_active_files := Some demo_skill_files, cb_active_config := Some (), cb_policy := Some [(''w'', 1)]\<rparr>)"
proof -
  have "manifest_matches demo_openpi demo_skill_files demo_manifest = Inr ()" by code_simp
  moreover have "show_nat (Suc 0) = ''1''" by code_simp
  ultimately show ?thesis
    by (simp add: composite_prepare_def demo_composite_profile_def demo_composite_def op_simps on_files_def
        validate_assets_def build_policy_def merge_leaves_def demo_openpi_def demo_skill_files_def)
qed

lemma demo_composite_infers:
  assumes "stable_tree_hash (PArr demo_chunk) = Inr h"
    and "cb_policy s = Some p" "cb_active_config s = Some ()" "cb_active_files s = Some demo_skill_files"
  shows "\<exists>s'. composite_infer demo_openpi observation kind s =
    (Inr \<lparr>br_actions = demo_chunk, br_noise_hash = h,
          br_metadata = [(''request_kind'', PStr (kind_value kind)), (''skill'', PStr ''pick'')]\<rparr>, s')"
  using assms
  by (simp add: composite_infer_def draw_noise_def on_policy_def op_simps demo_openpi_def policy_actions_def
      demo_skill_files_def split: prod.split)

text \<open>The backend after two inferences and a reseeding.\<close>

definition demo_serving :: "(int, unit, int leaves, int \<times> nat, unit) composite" where
  "demo_serving =
     demo_composite\<lparr>cb_active_files := Some demo_skill_files, cb_active_config := Some (), cb_policy := Some [(''w'', 1)]\<rparr>"

theorem composite_serves_prepared_skill_witness:
  "\<exists>identity result s2. composite_prepare demo_openpi demo_composite_profile ''pick'' demo_composite = (Inr identity, demo_serving)
     \<and> composite_infer demo_openpi [] INFER
         (run_ops (serving_step demo_openpi) [Serve [] INFER, Reseed 5] demo_serving) = (Inr result, s2)
     \<and> bi_skill identity = ''pick'' \<and> dget (br_metadata result) ''skill'' = Some (PStr ''pick'')"
proof -
  obtain h where h: "stable_tree_hash (PArr demo_chunk) = Inr h" using demo_chunk_hash by blast
  note prepared = demo_composite_prepares [folded demo_serving_def]
  have "serving demo_openpi demo_skill_files () [(''w'', 1)] demo_serving"
    by (simp add: serving_def demo_serving_def policy_same)
  from serving_machine.run_inv [OF this, of "[Serve [] INFER, Reseed 5]"] obtain p where
    "cb_policy (run_ops (serving_step demo_openpi) [Serve [] INFER, Reseed 5] demo_serving) = Some p"
    "cb_active_config (run_ops (serving_step demo_openpi) [Serve [] INFER, Reseed 5] demo_serving) = Some ()"
    "cb_active_files (run_ops (serving_step demo_openpi) [Serve [] INFER, Reseed 5] demo_serving) = Some demo_skill_files"
    unfolding serving_def by blast
  from demo_composite_infers [OF h this, of "[]" INFER] obtain result s2 where
    run: "composite_infer demo_openpi [] INFER
      (run_ops (serving_step demo_openpi) [Serve [] INFER, Reseed 5] demo_serving) = (Inr result, s2)" by blast
  from composite_serves_prepared_skill [OF demo_composite_loads prepared run] prepared run show ?thesis by blast
qed

theorem noise_is_reproducible_witness:
  "\<exists>s2 p a s3. composite_reset_prng demo_openpi 5 demo_serving = (Inr (), s2)
     \<and> composite_infer demo_openpi [] INFER (run_ops (infer_call demo_openpi) [([], INFER)] s2) = (Inr a, s3)
     \<and> cb_policy (run_ops (infer_call demo_openpi) [([], INFER)] s2) = Some p
     \<and> fst (oi_infer demo_openpi [] (oi_normal demo_openpi (5, 1) (1, 7)) p) = Inr (PDict [(''actions'', PArr demo_chunk)])
     \<and> stable_tree_hash (PArr (oi_normal demo_openpi (5, 1) (1, 7))) = Inr (br_noise_hash a)"
proof -
  obtain h where h: "stable_tree_hash (PArr demo_chunk) = Inr h" using demo_chunk_hash by blast
  note prepared = demo_composite_prepares [folded demo_serving_def]
  let ?s2 = "demo_serving\<lparr>cb_noise_rng := (5, 0)\<rparr>" and ?xs = "[([], INFER)]"
  have reset: "composite_reset_prng demo_openpi 5 demo_serving = (Inr (), ?s2)"
    by (simp add: composite_reset_apply demo_openpi_def demo_serving_def)
  obtain p where ready: "cb_policy (run_ops (infer_call demo_openpi) ?xs ?s2) = Some p"
      "cb_active_config (run_ops (infer_call demo_openpi) ?xs ?s2) = Some ()"
      "cb_active_files (run_ops (infer_call demo_openpi) ?xs ?s2) = Some demo_skill_files"
    using infer_calls_noise [of ?s2 "[(''w'', 1)]" "()" demo_skill_files demo_openpi ?xs]
    by (auto simp: demo_serving_def)
  from demo_composite_infers [OF h this, of "[]" INFER] obtain a s3 where
    run: "composite_infer demo_openpi [] INFER (run_ops (infer_call demo_openpi) ?xs ?s2) = (Inr a, s3)" by blast
  have "noise_key demo_openpi (5, 0) (length ?xs) = (5, 1)" "oi_key demo_openpi 5 = Inr (5, 0)"
    "oi_action_shape demo_openpi () = (1, 7)"
    by (simp_all add: noise_key_def demo_openpi_def)
  moreover have "oi_split demo_openpi (5, 1) = ((5, 2), (5, 1))" by (simp add: demo_openpi_def)
  moreover have "fst (oi_infer demo_openpi [] noise q) = Inr (PDict [(''actions'', PArr demo_chunk)])" for noise q
    by (simp add: demo_openpi_def ret_apply)
  ultimately show ?thesis
    using noise_is_reproducible [OF prepared reset run] reset run ready(1) by auto
qed

end
