(* ===== verification/Oven_ControlServer.thy ===== *)
theory Oven_ControlServer
  imports Oven_Control
begin

text \<open>
  \<open>server/control_server.py\<close>: the control socket.  The first part is the socket's life: the lock file
  that makes one process its owner, the removal of a socket that was left behind, and the mode of the
  new one.  The control directory is shared by all server processes; each system call succeeds or
  raises as the schedule of the directory says.  Closing the descriptor of the lock file does not
  fail.  The second part is one connection: a frame, its answer.
\<close>

subsection \<open>The control directory\<close>

datatype dir_node = Absent | Socket_of nat | Other_file

text \<open>Servers are numbered; a server listens while it holds its \<open>asyncio\<close> server, and owns the lock's descriptor.\<close>

record control_host =
  ch_lock_holder :: "nat option"
  ch_node :: dir_node
  ch_mode :: nat
  ch_io :: "exn option list"
  ch_listening :: "nat \<Rightarrow> bool"
  ch_lock_fd :: "nat \<Rightarrow> bool"

definition system_call :: "(control_host, unit) meth" where
  \<comment> \<open>a system call that the schedule lets succeed, or that raises\<close>
  "system_call = (\<lambda>h.
     case ch_io h of
       Some e # io \<Rightarrow> (Inl e, h\<lparr>ch_io := io\<rparr>)
     | None # io \<Rightarrow> (Inr (), h\<lparr>ch_io := io\<rparr>)
     | [] \<Rightarrow> (Inr (), h))"

definition system_change :: "(control_host \<Rightarrow> control_host) \<Rightarrow> (control_host, unit) meth" where
  "system_change f = seq_op system_call (modify_op f)"

definition owner_mode :: nat where
  "owner_mode = 6 * 64"  \<comment> \<open>\<open>0o600\<close>\<close>

definition control_server_init :: "string \<Rightarrow> unit res" where
  "control_server_init socket_path = reject_if (\<not> prefix ''/'' socket_path) (PyExc ValueError) (Inr ())"

definition acquire_owner_lock :: "nat \<Rightarrow> (control_host, unit) meth" where
  "acquire_owner_lock i =
     seq_op system_call (                                \<comment> \<open>open the lock file\<close>
     seq_op system_call (                                \<comment> \<open>\<open>chmod\<close> it\<close>
     seq_op system_call (                                \<comment> \<open>\<open>flock\<close>\<close>
     bind_op (gets_op ch_lock_holder) (\<lambda>holder.
     if holder \<noteq> None then raise (PyExc RuntimeError)
     else modify_op (\<lambda>h. h\<lparr>ch_lock_holder := Some i, ch_lock_fd := (ch_lock_fd h)(i := True)\<rparr>)))))"

definition remove_stale_socket :: "(control_host, unit) meth" where
  "remove_stale_socket =
     seq_op system_call (
     bind_op (gets_op ch_node) (\<lambda>node.
     case node of
       Absent \<Rightarrow> ret ()
     | Other_file \<Rightarrow> raise (PyExc FileExistsError)
     | Socket_of j \<Rightarrow> system_change (\<lambda>h. h\<lparr>ch_node := Absent\<rparr>)))"

definition listen_on_path :: "nat \<Rightarrow> nat \<Rightarrow> (control_host, unit) meth" where
  \<comment> \<open>\<open>start_unix_server\<close>: a new socket with the mode the umask leaves; a file in the way is an error\<close>
  "listen_on_path default_mode i =
     seq_op system_call (
     bind_op (gets_op ch_node) (\<lambda>node.
     if node = Other_file then raise (PyExc OSError)
     else modify_op (\<lambda>h. h\<lparr>ch_node := Socket_of i, ch_mode := default_mode, ch_listening := (ch_listening h)(i := True)\<rparr>)))"

definition release_path :: "nat \<Rightarrow> bool \<Rightarrow> (control_host, unit) meth" where
  \<comment> \<open>an owner removes a socket, then gives up the lock\<close>
  "release_path i owns_path =
     bind_op (gets_op ch_node) (\<lambda>node.
     seq_op (when_op (owns_path \<and> (\<exists>j. node = Socket_of j)) (system_change (\<lambda>h. h\<lparr>ch_node := Absent\<rparr>)))
       (when_op owns_path
         (system_change (\<lambda>h. h\<lparr>ch_lock_holder := None, ch_lock_fd := (ch_lock_fd h)(i := False)\<rparr>))))"

definition control_server_stop :: "nat \<Rightarrow> (control_host, unit) meth" where
  "control_server_stop i =
     bind_op (gets_op (\<lambda>h. (ch_lock_fd h i, ch_listening h i))) (\<lambda>(owns_path, listening).
     seq_op (when_op listening (system_change (\<lambda>h. h\<lparr>ch_listening := (ch_listening h)(i := False)\<rparr>))) (
     seq_op (when_op owns_path system_call)              \<comment> \<open>look at the path\<close>
       (release_path i owns_path)))"

definition check_mode :: "(control_host, unit) meth" where
  "check_mode =
     seq_op system_call (
     bind_op (gets_op ch_mode) (\<lambda>mode. if mode \<noteq> owner_mode then raise (PyExc OSError) else ret ()))"

definition control_server_start :: "nat \<Rightarrow> nat \<Rightarrow> (control_host, unit) meth" where
  "control_server_start default_mode i =
     seq_op system_call (                                \<comment> \<open>make the directory\<close>
     seq_op system_call (                                \<comment> \<open>\<open>chmod\<close> it\<close>
     seq_op (acquire_owner_lock i) (
     seq_op remove_stale_socket (
     catch_op
       (seq_op (listen_on_path default_mode i) (
        seq_op (system_change (\<lambda>h. h\<lparr>ch_mode := owner_mode\<rparr>)) check_mode))
       (\<lambda>e. if is_exception e then seq_op (control_server_stop i) (raise e) else raise e)))))"

subsection \<open>Frames\<close>

definition MAX_CONTROL_FRAME_BYTES :: nat where
  "MAX_CONTROL_FRAME_BYTES = 64 * 1024"

text \<open>
  What a stream gives: bytes that arrive, and its end.  When the list is used up the reader waits
  until its timeout.  \<open>readuntil\<close> looks for the newline in what has arrived, at most \<open>limit\<close> bytes.
\<close>

datatype stream_event = Arrives byte_list | Stream_end

datatype frame_result = Frame byte_list | Overrun | Incomplete byte_list | Waited

definition newline :: nat where
  "newline = 10"

fun read_until :: "nat \<Rightarrow> byte_list \<Rightarrow> stream_event list \<Rightarrow> frame_result" where
  "read_until limit buf events =
     (if newline \<in> set buf
      then let isep = length (takeWhile (\<lambda>b. b \<noteq> newline) buf) in
           if limit < isep then Overrun else Frame (take (isep + 1) buf)
      else if limit < length buf then Overrun
      else case events of
             [] \<Rightarrow> Waited
           | Stream_end # es \<Rightarrow> Incomplete buf
           | Arrives d # es \<Rightarrow> read_until limit (buf @ d) es)"

declare read_until.simps [simp del]

definition read_frame :: "stream_event list \<Rightarrow> byte_list res" where
  "read_frame events =
     (case read_until (MAX_CONTROL_FRAME_BYTES + 1) [] events of
        Frame b \<Rightarrow> Inr b
      | Overrun \<Rightarrow> Inl (err FRAME_TOO_LARGE ''control request exceeds its framing limit'' [])
      | Incomplete p \<Rightarrow>
          if MAX_CONTROL_FRAME_BYTES < length p
          then Inl (err FRAME_TOO_LARGE ''control request exceeds its framing limit'' [])
          else Inl (err FRAME_DECODE_FAILED ''control request ended before its newline delimiter'' [])
      | Waited \<Rightarrow> Inl (PyExc OtherException))"

subsection \<open>One connection\<close>

text \<open>
  The JSON codec: \<open>loads\<close> of bytes fails on what is not UTF-8 JSON, or raises something else;
  \<open>dumps\<close> is the compact text, in ASCII or in UTF-8.
\<close>

datatype json_error = Not_json | Json_raises exn

record json_codec =
  js_loads :: "byte_list \<Rightarrow> json_error + pyval"
  js_dumps_ascii :: "pyval \<Rightarrow> byte_list res"
  js_dumps_utf8 :: "pyval \<Rightarrow> byte_list res"

definition json_payload :: "json_codec \<Rightarrow> runtime_fault \<Rightarrow> byte_list \<Rightarrow> pyval res" where
  \<comment> \<open>\<open>json.loads\<close>, with a fault for what is not JSON\<close>
  "json_payload js f b =
     (case js_loads js b of Inr v \<Rightarrow> Inr v | Inl Not_json \<Rightarrow> Inl (Fault f) | Inl (Json_raises e) \<Rightarrow> Inl e)"

definition control_reply ::
  "json_codec \<Rightarrow> 'b runtime_deps \<Rightarrow> string \<Rightarrow> control_env \<Rightarrow> stream_event list \<Rightarrow> ('b runtime, pydict) meth" where
  "control_reply js d instance_id env events =
     catch_op
       (bind_op (lift_sum (read_frame events)) (\<lambda>frame.
        if frame = [] then raise (err FRAME_DECODE_FAILED ''empty control request'' [])
        else if MAX_CONTROL_FRAME_BYTES < length frame \<or> last frame \<noteq> newline
        then raise (err FRAME_TOO_LARGE ''control request exceeds its framing limit'' [])
        else
        bind_op (lift_sum (json_payload js (fault FRAME_DECODE_FAILED ''control request is not valid UTF-8 JSON'' []) frame))
          (control_execute d instance_id env)))
       (\<lambda>e. lift_sum (
          case e of
            Fault f \<Rightarrow> Inr (control_error instance_id ''unknown'' f)
          | PyExc c \<Rightarrow> Inr (control_error instance_id ''unknown''
                          (fault SERVER_FAILED ''control server failed to process request'' []))
          | Interrupt \<Rightarrow> Inl Interrupt))"

definition handle_control_connection ::
  "json_codec \<Rightarrow> 'b runtime_deps \<Rightarrow> string \<Rightarrow> control_env \<Rightarrow> stream_event list \<Rightarrow> ('b runtime, byte_list) meth" where
  \<comment> \<open>the bytes that are written before the connection is closed\<close>
  "handle_control_connection js d instance_id env events =
     bind_op (control_reply js d instance_id env events) (\<lambda>response.
       lift_sum (bind_sum (js_dumps_utf8 js (PDict response)) (\<lambda>text. Inr (text @ [newline]))))"

end
