(* ===== verification/Oven_ControlCli.thy ===== *)
theory Oven_ControlCli
  imports Oven_ControlServer
begin

text \<open>
  \<open>server/control_client.py\<close> and \<open>server/control_cli.py\<close>: the local client of the control socket and
  the command \<open>oven-serverctl\<close>, which the edge host runs over SSH.
\<close>

subsection \<open>The client of the socket\<close>

text \<open>\<open>recv(n)\<close>: at most \<open>n\<close> bytes of what has arrived, nothing at the end, \<open>None\<close> for a timeout.\<close>

fun recv_bytes :: "nat \<Rightarrow> stream_event list \<Rightarrow> (byte_list \<times> stream_event list) option" where
  "recv_bytes n [] = None"
| "recv_bytes n (Stream_end # es) = Some ([], Stream_end # es)"
| "recv_bytes n (Arrives d # es) =
     (if d = [] then recv_bytes n es
      else Some (take n d, if length d \<le> n then es else Arrives (drop n d) # es))"

definition unreachable :: exn where
  "unreachable = err CONTROL_SERVER_UNAVAILABLE ''cannot communicate with local control server'' []"

function recv_response :: "byte_list \<Rightarrow> stream_event list \<Rightarrow> byte_list res" where
  "recv_response chunks events =
     (if chunks \<noteq> [] \<and> last chunks = newline then Inr chunks
      else case recv_bytes (min 4096 (MAX_CONTROL_FRAME_BYTES + 1 - length chunks)) events of
             None \<Rightarrow> Inl unreachable
           | Some (block, es) \<Rightarrow>
               if block = [] then Inl (err CONTROL_SERVER_UNAVAILABLE ''control server closed without a response'' [])
               else if MAX_CONTROL_FRAME_BYTES < length (chunks @ block)
               then Inl (err FRAME_TOO_LARGE ''control response exceeds its framing limit'' [])
               else recv_response (chunks @ block) es)"
  by pat_completeness auto
termination
  by (relation "measure (\<lambda>(chunks, events). MAX_CONTROL_FRAME_BYTES + 1 - length chunks)") (auto simp: neq_Nil_conv)

declare recv_response.simps [simp del]

text \<open>\<open>connect\<close> connects, sends the request and gives what arrives in return, or raises.\<close>

definition control_exchange ::
  "json_codec \<Rightarrow> (byte_list \<Rightarrow> ('s, stream_event list) meth) \<Rightarrow> pyval \<Rightarrow> ('s, pydict) meth" where
  "control_exchange js connect payload =
     bind_op (lift_sum (js_dumps_ascii js payload)) (\<lambda>text.
     if MAX_CONTROL_FRAME_BYTES < length (text @ [newline])
     then raise (err FRAME_TOO_LARGE ''control request exceeds its framing limit'' [])
     else
     bind_op (catch_op (connect (text @ [newline])) (\<lambda>e. raise (if is_os_error e then unreachable else e))) (\<lambda>events.
     bind_op (lift_sum (recv_response [] events)) (\<lambda>chunks.
     bind_op (lift_sum (json_payload js (fault FRAME_DECODE_FAILED ''control response is not valid UTF-8 JSON'' []) chunks)) (\<lambda>v.
       lift_sum (expect (err FRAME_DECODE_FAILED ''control response must be a dictionary'' []) (is_dict v))))))"

definition control_request_local ::
  "json_codec \<Rightarrow> (byte_list \<Rightarrow> ('s, stream_event list) meth) \<Rightarrow> string \<Rightarrow> pydict \<Rightarrow> ('s, pydict) meth" where
  "control_request_local js connect command arguments =
     control_exchange js connect
       (PDict [(''protocol_version'', PInt PROTOCOL_VERSION), (''command'', PStr command), (''arguments'', PDict arguments)])"

subsection \<open>The command\<close>

text \<open>The subcommands as \<open>argparse\<close> gives them.\<close>

datatype cli_command =
    Cli_status | Cli_prepare_skill string | Cli_begin_trial string int | Cli_open_session
  | Cli_close_session string | Cli_end_trial | Cli_abort string

fun cli_name :: "cli_command \<Rightarrow> string" where
  "cli_name Cli_status = ''status''"
| "cli_name (Cli_prepare_skill skill) = ''prepare-skill''"
| "cli_name (Cli_begin_trial trial_id root_seed) = ''begin-trial''"
| "cli_name Cli_open_session = ''open-session''"
| "cli_name (Cli_close_session session_id) = ''close-session''"
| "cli_name Cli_end_trial = ''end-trial''"
| "cli_name (Cli_abort reason) = ''abort''"

fun cli_arguments :: "cli_command \<Rightarrow> pydict" where
  "cli_arguments (Cli_prepare_skill skill) = [(''skill'', PStr skill)]"
| "cli_arguments (Cli_begin_trial trial_id root_seed) = [(''trial_id'', PStr trial_id), (''root_seed'', PInt root_seed)]"
| "cli_arguments (Cli_close_session session_id) = [(''session_id'', PStr session_id)]"
| "cli_arguments (Cli_abort reason) = [(''reason'', PStr reason)]"
| "cli_arguments _ = []"

record cli_namespace =
  cn_socket :: "string option"
  cn_stdin_json :: bool
  cn_command :: "cli_command option"

text \<open>\<open>parser.error\<close> leaves with \<open>SystemExit\<close>; \<open>locate\<close> is \<open>Path(text).expanduser().resolve()\<close>.\<close>

definition cli_socket_path :: "(string \<Rightarrow> string) \<Rightarrow> string \<Rightarrow> cli_namespace \<Rightarrow> string res" where
  \<comment> \<open>\<open>runtime_root\<close> is the environment variable, or empty\<close>
  "cli_socket_path locate runtime_root ns =
     (case cn_socket ns of
        Some path \<Rightarrow> Inr (locate path)
      | None \<Rightarrow>
          (let base = strip_chars py_whitespace runtime_root in
           reject_if (base = []) Interrupt (Inr (locate base @ ''/control/oven-server.sock''))))"

definition cli_request ::
  "json_codec \<Rightarrow> (byte_list \<Rightarrow> ('s, stream_event list) meth) \<Rightarrow> cli_namespace \<Rightarrow> byte_list \<Rightarrow> ('s, pydict) meth" where
  "cli_request js connect ns stdin =
     (if cn_stdin_json ns
      then
        if cn_command ns \<noteq> None then raise Interrupt
        else
          let raw = take (MAX_CONTROL_FRAME_BYTES + 1) stdin in
          if MAX_CONTROL_FRAME_BYTES < length raw
          then raise (err FRAME_TOO_LARGE ''stdin control request exceeds its framing limit'' [])
          else
            bind_op (lift_sum (json_payload js (fault FRAME_DECODE_FAILED ''stdin control request is not valid UTF-8 JSON'' []) raw))
              (control_exchange js connect)
      else
        case cn_command ns of
          None \<Rightarrow> raise Interrupt
        | Some c \<Rightarrow> control_request_local js connect (cli_name c) (cli_arguments c))"

text \<open>What is printed, and the exit code.  Only a fault of the program is turned into a response.\<close>

definition serverctl_main ::
  "json_codec \<Rightarrow> (string \<Rightarrow> byte_list \<Rightarrow> ('s, stream_event list) meth) \<Rightarrow> (string \<Rightarrow> string) \<Rightarrow> string
   \<Rightarrow> cli_namespace \<Rightarrow> byte_list \<Rightarrow> ('s, byte_list \<times> int) meth" where
  "serverctl_main js connect locate runtime_root ns stdin =
     bind_op (lift_sum (cli_socket_path locate runtime_root ns)) (\<lambda>socket_path.
     bind_op (catch_op (cli_request js (connect socket_path) ns stdin)
       (\<lambda>e. case e of Fault f \<Rightarrow> ret (fault_to_dict f) | _ \<Rightarrow> raise e)) (\<lambda>response.
     bind_op (lift_sum (js_dumps_utf8 js (PDict response))) (\<lambda>text.
       ret (text @ [newline], if dget response ''ok'' = Some (PBool True) then 0 else 1))))"

end
