(* ===== verification/Oven_ControlPlane.thy ===== *)
theory Oven_ControlPlane
  imports Oven_ControlCli
begin

text \<open>
  The whole control path: the edge client, SSH, \<open>oven-serverctl\<close>, the control socket, the dispatcher
  and the runtime, with the bytes between them arriving in any pieces.
\<close>

subsection \<open>Bytes arrive whole\<close>

fun arrived :: "stream_event list \<Rightarrow> byte_list" where
  "arrived [] = []"
| "arrived (Arrives d # es) = d @ arrived es"
| "arrived (Stream_end # es) = []"

lemma prefix_of_line:
  assumes "buf @ rest = t @ [newline]" and "newline \<notin> set t"
  shows "newline \<in> set buf \<longleftrightarrow> rest = []" and "newline \<notin> set buf \<Longrightarrow> length buf \<le> length t"
    and "newline \<in> set buf \<longleftrightarrow> buf \<noteq> [] \<and> last buf = newline"
proof -
  consider "rest = []" | r where "rest = r @ [newline]" "t = buf @ r"
    using assms(1) by (cases rest rule: rev_cases) auto
  then have "(newline \<in> set buf \<longleftrightarrow> rest = []) \<and> (newline \<notin> set buf \<longrightarrow> length buf \<le> length t)
      \<and> (newline \<in> set buf \<longleftrightarrow> buf \<noteq> [] \<and> last buf = newline)"
  proof cases
    case 1
    with assms show ?thesis by auto
  next
    case (2 r)
    moreover have "newline \<in> set buf" if "buf \<noteq> []" "last buf = newline"
      using last_in_set [OF that(1)] that(2) by simp
    ultimately show ?thesis using assms(2) by auto
  qed
  then show "newline \<in> set buf \<longleftrightarrow> rest = []" "newline \<notin> set buf \<Longrightarrow> length buf \<le> length t"
    "newline \<in> set buf \<longleftrightarrow> buf \<noteq> [] \<and> last buf = newline" by blast+
qed

lemma read_until_line:
  assumes "buf @ arrived events = t @ [newline]" and "newline \<notin> set t" and "length t \<le> limit"
  shows "read_until limit buf events = Frame (t @ [newline])"
  using assms(1,3)
proof (induction limit buf events rule: read_until.induct [case_names step])
  case (step limit buf events)
  show ?case
  proof (cases "newline \<in> set buf")
    case True
    with prefix_of_line(1) [OF step.prems(1) assms(2)] step.prems(1) have "buf = t @ [newline]" by simp
    moreover have "takeWhile (\<lambda>b. b \<noteq> newline) (t @ [newline]) = t"
      using assms(2) by (induction t) auto
    ultimately show ?thesis using step.prems(2) by (simp add: read_until.simps Let_def)
  next
    case False
    from False prefix_of_line(1) [OF step.prems(1) assms(2)] have "arrived events \<noteq> []" by simp
    then obtain d es where events: "events = Arrives d # es" by (cases events rule: arrived.cases) auto
    from prefix_of_line(2) [OF step.prems(1) assms(2) False] step.prems(2) have short: "\<not> limit < length buf" by simp
    have "read_until limit (buf @ d) es = Frame (t @ [newline])"
      using step.IH [OF False short events] step.prems events by simp
    with False short events show ?thesis by (subst read_until.simps) simp
  qed
qed

lemma recv_bytes_arrived:
  assumes "arrived events \<noteq> []" and "0 < n"
  shows "\<exists>block es. recv_bytes n events = Some (block, es) \<and> block \<noteq> [] \<and> block @ arrived es = arrived events"
  using assms(1)
proof (induction events rule: arrived.induct)
  case (2 d es)
  show ?case
  proof (cases "d = []")
    case True
    with 2 show ?thesis by simp
  next
    case False
    with assms(2) show ?thesis by (cases n) (auto simp: append_take_drop_id [symmetric] simp flip: append_assoc)
  qed
qed simp_all

lemma recv_response_line:
  assumes "chunks @ arrived events = t @ [newline]" and "newline \<notin> set t" and "length t < MAX_CONTROL_FRAME_BYTES"
  shows "recv_response chunks events = Inr (t @ [newline])"
  using assms(1)
proof (induction chunks events rule: recv_response.induct [case_names step])
  case (step chunks events)
  note prefix = prefix_of_line [OF step.prems assms(2)]
  show ?case
  proof (cases "newline \<in> set chunks")
    case True
    with prefix step.prems show ?thesis by (subst recv_response.simps) simp
  next
    case False
    with prefix(1) have "arrived events \<noteq> []" by simp
    moreover from prefix(2) [OF False] assms(3) have "0 < min 4096 (MAX_CONTROL_FRAME_BYTES + 1 - length chunks)"
      by simp
    ultimately obtain block es where recv:
      "recv_bytes (min 4096 (MAX_CONTROL_FRAME_BYTES + 1 - length chunks)) events = Some (block, es)"
      "block \<noteq> []" "block @ arrived es = arrived events"
      using recv_bytes_arrived by blast
    have "chunks @ block @ arrived es = t @ [newline]" using step.prems recv(3) by simp
    then have "length (chunks @ block) \<le> length (t @ [newline])" by (metis append.assoc length_append le_add1)
    with assms(3) have fits: "\<not> MAX_CONTROL_FRAME_BYTES < length (chunks @ block)" by simp
    have open_line: "\<not> (chunks \<noteq> [] \<and> last chunks = newline)" using False prefix(3) by blast
    from step.IH [OF open_line recv(1) refl recv(2) fits] step.prems recv(3)
    have "recv_response (chunks @ block) es = Inr (t @ [newline])" by simp
    with open_line recv(1,2) fits show ?thesis by (subst recv_response.simps) auto
  qed
qed

subsection \<open>The server's end of a connection\<close>

text \<open>
  \<open>JSON\<close> text of a value: no newline, less than a frame, and \<open>loads\<close> gives the value back, also when
  the newline that ends a frame follows.
\<close>

definition carries :: "json_codec \<Rightarrow> (pyval \<Rightarrow> byte_list res) \<Rightarrow> pyval \<Rightarrow> bool" where
  "carries js dumps v \<longleftrightarrow>
     (\<exists>t. dumps v = Inr t \<and> newline \<notin> set t \<and> length t < MAX_CONTROL_FRAME_BYTES
        \<and> js_loads js t = Inr v \<and> js_loads js (t @ [newline]) = Inr v)"

text \<open>
  A connection to the server: the request arrives in some pieces, the answer is delivered in some
  pieces, and a handler that raises an exception just closes the connection.
\<close>

definition socket_connection ::
  "json_codec \<Rightarrow> 'b runtime_deps \<Rightarrow> string \<Rightarrow> control_env \<Rightarrow> (byte_list \<Rightarrow> stream_event list)
   \<Rightarrow> (byte_list \<Rightarrow> stream_event list) \<Rightarrow> byte_list \<Rightarrow> ('b runtime, stream_event list) meth" where
  "socket_connection js d i env incoming outgoing request =
     catch_op (map_op outgoing (handle_control_connection js d i env (incoming request)))
       (\<lambda>e. if is_exception e then ret [Stream_end] else raise e)"

lemma handle_control_connection_request:
  assumes "arrived events = t @ [newline]" and "newline \<notin> set t" and "length t < MAX_CONTROL_FRAME_BYTES"
    and "js_loads js (t @ [newline]) = Inr payload" and "control_execute d i env payload s = (Inr response, s')"
    and "js_dumps_utf8 js (PDict response) = Inr text"
  shows "handle_control_connection js d i env events s = (Inr (text @ [newline]), s')"
proof -
  have "read_until (MAX_CONTROL_FRAME_BYTES + 1) [] events = Frame (t @ [newline])"
    using assms(1-3) by (intro read_until_line) simp_all
  then have "read_frame events = Inr (t @ [newline])" by (simp add: read_frame_def)
  with assms(3-6) show ?thesis
    by (simp add: handle_control_connection_def control_reply_def json_payload_def op_simps)
qed

lemma control_exchange_server:
  assumes "carries js (js_dumps_ascii js) payload" and "carries js (js_dumps_utf8 js) (PDict response)"
    and "\<And>b. arrived (incoming b) = b" and "\<And>b. arrived (outgoing b) = b"
    and "control_execute d i env payload s = (Inr response, s')"
  shows "control_exchange js (socket_connection js d i env incoming outgoing) payload s = (Inr response, s')"
proof -
  from assms(1) obtain t where t: "js_dumps_ascii js payload = Inr t" "newline \<notin> set t"
    "length t < MAX_CONTROL_FRAME_BYTES" "js_loads js (t @ [newline]) = Inr payload"
    by (auto simp: carries_def)
  from assms(2) obtain u where u: "js_dumps_utf8 js (PDict response) = Inr u" "newline \<notin> set u"
    "length u < MAX_CONTROL_FRAME_BYTES" "js_loads js (u @ [newline]) = Inr (PDict response)"
    by (auto simp: carries_def)
  have "handle_control_connection js d i env (incoming (t @ [newline])) s = (Inr (u @ [newline]), s')"
    by (rule handle_control_connection_request [OF assms(3) t(2-4) assms(5) u(1)])
  moreover have "recv_response [] (outgoing (u @ [newline])) = Inr (u @ [newline])"
    using assms(4) u(2,3) by (intro recv_response_line) simp_all
  ultimately show ?thesis
    using t(1,3) u(4)
    by (simp add: control_exchange_def socket_connection_def json_payload_def op_simps)
qed

subsection \<open>The remote command\<close>

text \<open>
  SSH runs the command with the request on its standard input, and gives back its exit code and the
  JSON value of its output.  A command that leaves through an exception prints nothing: exit code 1
  for a traceback, 2 for \<open>parser.error\<close>.
\<close>

definition stdin_namespace :: "string option \<Rightarrow> cli_namespace" where
  "stdin_namespace socket = \<lparr>cn_socket = socket, cn_stdin_json = True, cn_command = None\<rparr>"

definition remote_serverctl ::
  "json_codec \<Rightarrow> (string \<Rightarrow> byte_list \<Rightarrow> ('s, stream_event list) meth) \<Rightarrow> (string \<Rightarrow> string) \<Rightarrow> string
   \<Rightarrow> string option \<Rightarrow> byte_list \<Rightarrow> 's \<Rightarrow> ssh_reply \<times> 's" where
  "remote_serverctl js connect locate runtime_root socket stdin s =
     (case serverctl_main js connect locate runtime_root (stdin_namespace socket) stdin s of
        (Inr (text, code), s') \<Rightarrow>
          (Ssh_completed code (case js_loads js text of Inr v \<Rightarrow> Some v | Inl e \<Rightarrow> None), s')
      | (Inl e, s') \<Rightarrow> (Ssh_completed (if e = Interrupt then 2 else 1) None, s'))"

text \<open>The edge's client on that command: its request is the text on standard input.\<close>

definition edge_request ::
  "json_codec \<Rightarrow> (string \<Rightarrow> byte_list \<Rightarrow> ('s, stream_event list) meth) \<Rightarrow> (string \<Rightarrow> string) \<Rightarrow> string
   \<Rightarrow> string option \<Rightarrow> 's \<Rightarrow> string list \<Rightarrow> pyval \<Rightarrow> ssh_reply \<times> 's" where
  "edge_request js connect locate runtime_root socket s argv payload =
     (case js_dumps_ascii js payload of
        Inl e \<Rightarrow> (Ssh_raises e, s)
      | Inr stdin \<Rightarrow> remote_serverctl js connect locate runtime_root socket stdin s)"

lemma serverctl_answers:
  assumes "cli_socket_path locate runtime_root (stdin_namespace socket) = Inr path"
    and "length stdin \<le> MAX_CONTROL_FRAME_BYTES" and "js_loads js stdin = Inr payload"
    and "control_exchange js (connect path) payload s = (Inr response, s')"
    and "js_dumps_utf8 js (PDict response) = Inr text" and "js_loads js (text @ [newline]) = Inr (PDict response)"
  shows "remote_serverctl js connect locate runtime_root socket stdin s =
    (Ssh_completed (if dget response ''ok'' = Some (PBool True) then 0 else 1) (Some (PDict response)), s')"
proof -
  from assms(2-4) have "cli_request js (connect path) (stdin_namespace socket) stdin s = (Inr response, s')"
    by (simp add: cli_request_def stdin_namespace_def json_payload_def op_simps Let_def)
  with assms(1,5,6) show ?thesis
    by (simp add: remote_serverctl_def serverctl_main_def op_simps)
qed

text \<open>A host where the server answers at one path.\<close>

definition control_host_connect ::
  "json_codec \<Rightarrow> 'b runtime_deps \<Rightarrow> string \<Rightarrow> control_env \<Rightarrow> (byte_list \<Rightarrow> stream_event list)
   \<Rightarrow> (byte_list \<Rightarrow> stream_event list) \<Rightarrow> string \<Rightarrow> string \<Rightarrow> byte_list \<Rightarrow> ('b runtime, stream_event list) meth" where
  "control_host_connect js d i env incoming outgoing server_path socket_path =
     (if socket_path = server_path then socket_connection js d i env incoming outgoing
      else (\<lambda>_. raise (PyExc OSError)))"

lemma edge_request_answer:
  assumes "cli_socket_path locate runtime_root (stdin_namespace socket) = Inr server_path"
    and "\<And>b. arrived (incoming b) = b" and "\<And>b. arrived (outgoing b) = b"
    and "carries js (js_dumps_ascii js) payload" and "carries js (js_dumps_utf8 js) (PDict response)"
    and "control_execute d i env payload s = (Inr response, s')"
  shows "\<exists>code \<in> {0, 1}. edge_request js (control_host_connect js d i env incoming outgoing server_path)
      locate runtime_root socket s argv payload = (Ssh_completed code (Some (PDict response)), s')"
proof -
  from assms(4) obtain t where t: "js_dumps_ascii js payload = Inr t" "length t < MAX_CONTROL_FRAME_BYTES"
    "js_loads js t = Inr payload" by (auto simp: carries_def)
  from assms(5) obtain u where u: "js_dumps_utf8 js (PDict response) = Inr u" "js_loads js (u @ [newline]) = Inr (PDict response)"
    by (auto simp: carries_def)
  have "control_exchange js (control_host_connect js d i env incoming outgoing server_path server_path) payload s = (Inr response, s')"
    using control_exchange_server [OF assms(4,5,2,3,6)] by (simp add: control_host_connect_def)
  from serverctl_answers [where connect = "control_host_connect js d i env incoming outgoing server_path", OF assms(1) _ t(3) this u] t(1,2) show ?thesis by (simp add: edge_request_def)
qed

text \<open>
  C39. A control command reaches the runtime and its result comes back, over all the layers between
  them.  The edge's client runs \<open>oven-serverctl\<close> over SSH, which writes the request to the control
  socket; whatever pieces the bytes arrive in, the server executes the command exactly once, and the
  caller gets what the runtime's method returned, or a fault with the code and the message of the one
  it raised, an unexpected exception as \<open>SERVER_FAILED\<close>.  The details of a fault are not passed on.
\<close>

theorem control_command_end_to_end:
  assumes "command_arguments command vals = Inr args" and "uuid_ok i" and "cc_instance_id c \<in> {None, Some i}"
    and "cli_socket_path locate runtime_root (stdin_namespace socket) = Inr server_path"
    and "\<And>b. arrived (incoming b) = b" and "\<And>b. arrived (outgoing b) = b"
    and "carries js (js_dumps_ascii js) (control_payload command args)" and "carries js (js_dumps_utf8 js) (PDict response)"
    and "control_execute d i env (control_payload command args) s = (Inr response, s')"
    and "ssh = edge_request js (control_host_connect js d i env incoming outgoing server_path) locate runtime_root socket s"
  shows "fst (control_call (\<lambda>argv v. fst (ssh argv v)) command vals c) =
      (case fst (control_dispatch d env \<lparr>cr_command = command, cr_arguments = args\<rparr> s) of
         Inr result \<Rightarrow> Inr (control_ok i command result)
       | Inl (Fault f) \<Rightarrow> Inl (Fault \<lparr>rf_code = rf_code f, rf_message = rf_message f, rf_details = None\<rparr>)
       | Inl e \<Rightarrow> Inl (err SERVER_FAILED ''control command failed inside the server'' []))
    \<and> snd (ssh argv (control_payload command args)) = s'
    \<and> s' = snd (control_dispatch d env \<lparr>cr_command = command, cr_arguments = args\<rparr> s)"
proof -
  note answer = edge_request_answer [OF assms(4-9)]
  from answer [of "control_argv c"] obtain code where
    code: "code \<in> {0, 1}" "ssh (control_argv c) (control_payload command args) = (Ssh_completed code (Some (PDict response)), s')"
    unfolding assms(10) by blast
  have "fst (control_call (\<lambda>argv v. fst (ssh argv v)) command vals c)
      = fst (control_call (\<lambda>_ _. Ssh_completed code (Some (PDict response))) command vals c)"
    using assms(1) code(2) by (simp add: control_call_def op_simps)
  moreover have "snd (ssh argv (control_payload command args)) = s'"
    using answer [of argv] unfolding assms(10) by auto
  moreover have "parse_control_request (control_payload command args) = Inr \<lparr>cr_command = command, cr_arguments = args\<rparr>"
    by (rule parse_control_payload [OF command_arguments_commands [OF assms(1)]])
  then have "s' = snd (control_dispatch d env \<lparr>cr_command = command, cr_arguments = args\<rparr> s)"
    using control_execute_dispatch [of "control_payload command args" "\<lparr>cr_command = command, cr_arguments = args\<rparr>" d i env s] assms(9)
    by (cases "control_dispatch d env \<lparr>cr_command = command, cr_arguments = args\<rparr> s"; cases "fst (control_dispatch d env \<lparr>cr_command = command, cr_arguments = args\<rparr> s)")
      (auto simp: control_failure_def split: exn.splits)
  ultimately show ?thesis using control_call_end_to_end [OF assms(1-3,9) code(1)] by simp
qed

text \<open>
  A concrete wire: a codec for two messages, requests that arrive byte by byte, and a response that
  arrives at once before the connection ends.
\<close>

definition demo_json :: "pyval \<Rightarrow> pyval \<Rightarrow> json_codec" where
  "demo_json request response =
     \<lparr>js_loads = (\<lambda>b. if b \<in> {[1], [1, newline]} then Inr request
                 else if b \<in> {[2], [2, newline]} then Inr response else Inl Not_json),
      js_dumps_ascii = (\<lambda>v. Inr (if v = request then [1] else [2])),
      js_dumps_utf8 = (\<lambda>v. Inr (if v = request then [1] else [2]))\<rparr>"

definition byte_by_byte :: "byte_list \<Rightarrow> stream_event list" where
  "byte_by_byte b = map (\<lambda>x. Arrives [x]) b"

definition at_once :: "byte_list \<Rightarrow> stream_event list" where
  "at_once b = [Arrives b, Stream_end]"

lemma demo_wire: "arrived (byte_by_byte b) = b" "arrived (at_once b) = b"
  unfolding byte_by_byte_def at_once_def by (induction b) simp_all

lemma demo_json_carries:
  assumes "request \<noteq> response"
  shows "carries (demo_json request response) (js_dumps_ascii (demo_json request response)) request"
    and "carries (demo_json request response) (js_dumps_utf8 (demo_json request response)) response"
  using assms by (auto simp: carries_def demo_json_def newline_def MAX_CONTROL_FRAME_BYTES_def)

theorem control_command_end_to_end_witness:
  "\<exists>js connect. fst (control_call (\<lambda>argv v. fst (edge_request js connect (\<lambda>p. p) ''/rt'' None demo_runtime argv v))
     ''status'' [] demo_control_client) = Inr (control_ok demo_uuid ''status'' (status_dict demo_runtime))"
proof -
  let ?env = "\<lparr>ce_session_id = [], ce_token = [], ce_now = Fin 0\<rparr>"
  let ?request = "control_payload ''status'' []"
  let ?response = "PDict (control_ok demo_uuid ''status'' (status_dict demo_runtime))"
  let ?js = "demo_json ?request ?response"
  let ?connect = "control_host_connect ?js demo_deps demo_uuid ?env byte_by_byte at_once ''/rt/control/oven-server.sock''"
  have differ: "?request \<noteq> ?response" by (simp add: control_payload_def control_ok_def)
  have args: "command_arguments ''status'' [] = Inr []" by (simp add: command_arguments_def command_names_def)
  have socket: "cli_socket_path (\<lambda>p. p) ''/rt'' (stdin_namespace None) = Inr ''/rt/control/oven-server.sock''"
    by code_simp
  have client: "cc_instance_id demo_control_client \<in> {None, Some demo_uuid}" by (simp add: demo_control_client_def)
  have "fst (control_dispatch demo_deps ?env \<lparr>cr_command = ''status'', cr_arguments = []\<rparr> demo_runtime)
      = Inr (status_dict demo_runtime)"
    by (simp add: control_dispatch_def expect_arguments_def missing_fields_def unexpected_fields_def
        op_simps status_def Let_def)
  with control_command_end_to_end [OF args demo_uuid_ok client socket demo_wire demo_json_carries [OF differ]
      demo_control_status refl] show ?thesis by auto
qed

subsection \<open>A server that cannot be reached\<close>

text \<open>
  When \<open>oven-serverctl\<close> cannot reach the server, it prints the fault without the identity fields of a
  response, and the edge's client takes it for a malformed one: the code \<open>CONTROL_SERVER_UNAVAILABLE\<close>
  is lost.
\<close>

theorem unreachable_server_is_a_missing_field:
  assumes "command_arguments command vals = Inr args"
    and "cli_socket_path locate runtime_root (stdin_namespace socket) = Inr path"
    and "carries js (js_dumps_ascii js) (control_payload command args)"
    and "carries js (js_dumps_utf8 js) (PDict (fault_to_dict (fault CONTROL_SERVER_UNAVAILABLE ''cannot communicate with local control server'' [])))"
    and "\<And>b. connect path b s = (Inl (PyExc OSError), s')"
  shows "fst (control_call (\<lambda>argv v. fst (edge_request js connect locate runtime_root socket s argv v)) command vals c)
    = Inl (err MISSING_REQUIRED_FIELD ''control response is missing required fields'' [(''field'', PStr ''protocol_version'')])"
proof -
  from assms(3) obtain t where t: "js_dumps_ascii js (control_payload command args) = Inr t" "length t < MAX_CONTROL_FRAME_BYTES"
    "js_loads js t = Inr (control_payload command args)" by (auto simp: carries_def)
  from assms(4) obtain u where u: "js_dumps_utf8 js (PDict (fault_to_dict (fault CONTROL_SERVER_UNAVAILABLE
      ''cannot communicate with local control server'' []))) = Inr u"
    "js_loads js (u @ [newline]) = Inr (PDict (fault_to_dict (fault CONTROL_SERVER_UNAVAILABLE
      ''cannot communicate with local control server'' [])))"
    by (auto simp: carries_def)
  have "control_exchange js (connect path) (control_payload command args) s = (Inl unreachable, s')"
    using t assms(5) by (simp add: control_exchange_def op_simps)
  then have "cli_request js (connect path) (stdin_namespace socket) t s = (Inl unreachable, s')"
    using t by (simp add: cli_request_def stdin_namespace_def json_payload_def op_simps Let_def)
  then have "edge_request js connect locate runtime_root socket s argv (control_payload command args)
      = (Ssh_completed 1 (Some (PDict (fault_to_dict (fault CONTROL_SERVER_UNAVAILABLE
          ''cannot communicate with local control server'' [])))), s')" for argv
    using t(1) u assms(2)
    by (simp add: edge_request_def remote_serverctl_def serverctl_main_def unreachable_def op_simps dget_fault_to_dict)
  then show ?thesis
    using assms(1)
    by (simp add: control_call_def op_simps ssh_response_def validate_control_response_def fault_to_dict_def fault_def)
qed

end
