(* ===== verification/Oven_ControlHost.thy ===== *)
theory Oven_ControlHost
  imports Oven_ControlServer Oven_Triples
begin

text \<open>
  The life of control sockets: several servers on one control directory, in any order of starts and
  stops and with any failing system calls.
\<close>

definition host_inv :: "control_host \<Rightarrow> bool" where
  "host_inv h \<longleftrightarrow>
     (\<forall>i. ch_lock_fd h i \<longleftrightarrow> ch_lock_holder h = Some i)
     \<and> (\<forall>i. ch_listening h i \<longrightarrow> ch_lock_holder h = Some i \<and> ch_node h = Socket_of i)"

text \<open>The server \<open>i\<close> holds the lock, and does or does not listen yet.\<close>

definition owned :: "nat \<Rightarrow> control_host \<Rightarrow> bool" where
  "owned i h \<longleftrightarrow> host_inv h \<and> ch_lock_holder h = Some i"

definition owned_quiet :: "nat \<Rightarrow> control_host \<Rightarrow> bool" where
  "owned_quiet i h \<longleftrightarrow> owned i h \<and> \<not> ch_listening h i"

lemma schedule_fields [simp]:
  "host_inv (h\<lparr>ch_io := io\<rparr>) = host_inv h" "owned i (h\<lparr>ch_io := io\<rparr>) = owned i h"
  "owned_quiet i (h\<lparr>ch_io := io\<rparr>) = owned_quiet i h"
  "host_inv (h\<lparr>ch_mode := m\<rparr>) = host_inv h" "owned i (h\<lparr>ch_mode := m\<rparr>) = owned i h"
  by (simp_all add: host_inv_def owned_def owned_quiet_def)

lemma triple_system_call:
  assumes "\<And>h io. P h \<Longrightarrow> P (h\<lparr>ch_io := io\<rparr>)" and "\<And>e h. P h \<Longrightarrow> E e h"
  shows "triple P system_call (\<lambda>_. P) E"
  using assms by (auto simp: triple_def system_call_def split: list.split option.split)

lemma triple_system_change:
  assumes "\<And>h io. P h \<Longrightarrow> P (h\<lparr>ch_io := io\<rparr>)" and "\<And>h. P h \<Longrightarrow> Q () (f h)" and "\<And>e h. P h \<Longrightarrow> E e h"
  shows "triple P (system_change f) Q E"
  unfolding system_change_def
  by (rule triple_seq [OF triple_system_call [of P]]) (auto intro: triple_modify assms)

lemma acquire_owner_lock_triple:
  "triple host_inv (acquire_owner_lock i) (\<lambda>_. owned_quiet i) (\<lambda>_. host_inv)"
proof -
  have take: "owned_quiet i (h\<lparr>ch_lock_holder := Some i, ch_lock_fd := (ch_lock_fd h)(i := True)\<rparr>)"
    if "host_inv h" "ch_lock_holder h = None" for h
    using that by (auto simp: host_inv_def owned_def owned_quiet_def)
  show ?thesis
    unfolding acquire_owner_lock_def
    by (intro triple_seq [OF triple_system_call [of host_inv]]
        triple_bind [OF triple_gets [where Q = "\<lambda>holder h. host_inv h \<and> ch_lock_holder h = holder"]]
        triple_if triple_raise triple_modify) (auto intro: take)
qed

lemma remove_stale_socket_triple:
  "triple (owned_quiet i) remove_stale_socket (\<lambda>_ h. owned_quiet i h \<and> ch_node h = Absent) (\<lambda>_. owned_quiet i)"
proof -
  have quiet: "owned_quiet i (h\<lparr>ch_node := Absent\<rparr>)" if "owned_quiet i h" for h
    using that by (auto simp: host_inv_def owned_def owned_quiet_def)
  have "triple (\<lambda>h. owned_quiet i h \<and> ch_node h = node)
      (case node of Absent \<Rightarrow> ret () | Other_file \<Rightarrow> raise (PyExc FileExistsError)
       | Socket_of j \<Rightarrow> system_change (\<lambda>h. h\<lparr>ch_node := Absent\<rparr>))
      (\<lambda>_ h. owned_quiet i h \<and> ch_node h = Absent) (\<lambda>_. owned_quiet i)" for node
    by (cases node) (auto intro!: triple_ret triple_raise triple_system_change quiet)
  then show ?thesis
    unfolding remove_stale_socket_def
    by (intro triple_seq [OF triple_system_call [of "owned_quiet i"]]
        triple_bind [OF triple_gets [where Q = "\<lambda>node h. owned_quiet i h \<and> ch_node h = node"]]) auto
qed

text \<open>Stopping: the server no longer listens, and still has the lock if it had it.\<close>

definition stopping :: "nat \<Rightarrow> bool \<Rightarrow> control_host \<Rightarrow> bool" where
  "stopping i owns h \<longleftrightarrow> host_inv h \<and> ch_lock_fd h i = owns \<and> \<not> ch_listening h i"

definition stopped :: "nat \<Rightarrow> control_host \<Rightarrow> bool" where
  "stopped i h \<longleftrightarrow> host_inv h \<and> \<not> ch_listening h i \<and> ch_lock_holder h \<noteq> Some i"

lemma stopping_steps:
  "stopping i owns h \<Longrightarrow> stopping i owns (h\<lparr>ch_io := io\<rparr>)"
  "stopping i owns h \<Longrightarrow> owns \<Longrightarrow> stopping i owns (h\<lparr>ch_node := Absent\<rparr>)"
  "stopping i owns h \<Longrightarrow> owns \<Longrightarrow> stopped i (h\<lparr>ch_lock_holder := None, ch_lock_fd := (ch_lock_fd h)(i := False)\<rparr>)"
  "stopping i owns h \<Longrightarrow> \<not> owns \<Longrightarrow> stopped i h"
  "stopping i owns h \<Longrightarrow> host_inv h"
  "host_inv h \<Longrightarrow> ch_lock_fd h i = owns \<Longrightarrow> stopping i owns (h\<lparr>ch_listening := (ch_listening h)(i := False)\<rparr>)"
  by (auto simp: stopping_def stopped_def host_inv_def)

lemma release_path_triple: "triple (stopping i owns) (release_path i owns) (\<lambda>_. stopped i) (\<lambda>_. host_inv)"
  unfolding release_path_def
proof (rule triple_bind [OF triple_gets [where Q = "\<lambda>_. stopping i owns"]])
  fix node
  show "triple (stopping i owns)
      (seq_op (when_op (owns \<and> (\<exists>j. node = Socket_of j)) (system_change (\<lambda>h. h\<lparr>ch_node := Absent\<rparr>)))
        (when_op owns (system_change (\<lambda>h. h\<lparr>ch_lock_holder := None, ch_lock_fd := (ch_lock_fd h)(i := False)\<rparr>))))
      (\<lambda>_. stopped i) (\<lambda>_. host_inv)"
    by (rule triple_seq [where R = "stopping i owns"]; intro triple_when triple_system_change)
      (auto intro: stopping_steps)
qed

lemma stop_body_triple:
  "triple (\<lambda>h. host_inv h \<and> (ch_lock_fd h i, ch_listening h i) = (owns, up))
     (seq_op (when_op up (system_change (\<lambda>h. h\<lparr>ch_listening := (ch_listening h)(i := False)\<rparr>)))
       (seq_op (when_op owns system_call) (release_path i owns)))
     (\<lambda>_. stopped i) (\<lambda>_. host_inv)"
proof (rule triple_seq [where R = "stopping i owns"])
  show "triple (\<lambda>h. host_inv h \<and> (ch_lock_fd h i, ch_listening h i) = (owns, up))
      (when_op up (system_change (\<lambda>h. h\<lparr>ch_listening := (ch_listening h)(i := False)\<rparr>)))
      (\<lambda>_. stopping i owns) (\<lambda>_. host_inv)"
    by (intro triple_when triple_system_change) (auto intro: stopping_steps simp: stopping_def)
  show "triple (stopping i owns) (seq_op (when_op owns system_call) (release_path i owns)) (\<lambda>_. stopped i) (\<lambda>_. host_inv)"
    by (rule triple_seq [OF _ release_path_triple]; intro triple_when triple_system_call) (auto intro: stopping_steps)
qed

lemma control_server_stop_triple: "triple host_inv (control_server_stop i) (\<lambda>_. stopped i) (\<lambda>_. host_inv)"
  unfolding control_server_stop_def
proof (rule triple_bind [OF triple_gets [where Q = "\<lambda>p h. host_inv h \<and> (ch_lock_fd h i, ch_listening h i) = p"]])
  fix p
  obtain owns up :: bool where "p = (owns, up)" by fastforce
  with stop_body_triple [of i owns up] show "triple (\<lambda>h. host_inv h \<and> (ch_lock_fd h i, ch_listening h i) = p)
      (case p of (owns_path, listening) \<Rightarrow>
        seq_op (when_op listening (system_change (\<lambda>h. h\<lparr>ch_listening := (ch_listening h)(i := False)\<rparr>)))
         (seq_op (when_op owns_path system_call) (release_path i owns_path)))
      (\<lambda>_. stopped i) (\<lambda>_. host_inv)" by simp
qed simp

lemma listen_on_path_triple:
  "triple (owned_quiet i) (listen_on_path m i) (\<lambda>_ h. owned i h \<and> ch_listening h i) (\<lambda>_. owned_quiet i)"
proof -
  have up: "owned i (h\<lparr>ch_node := Socket_of i, ch_mode := m, ch_listening := (ch_listening h)(i := True)\<rparr>)"
    if "owned_quiet i h" for h
    using that by (auto simp: owned_quiet_def owned_def host_inv_def)
  show ?thesis
    unfolding listen_on_path_def
    by (intro triple_seq [OF triple_system_call [of "owned_quiet i"]]
        triple_bind [OF triple_gets [where Q = "\<lambda>_. owned_quiet i"]] triple_if triple_raise triple_modify) (auto intro: up)
qed

definition serving_socket :: "nat \<Rightarrow> control_host \<Rightarrow> bool" where
  "serving_socket i h \<longleftrightarrow> host_inv h \<and> ch_listening h i \<and> ch_mode h = owner_mode"

lemma listen_and_check_triple:
  "triple (owned_quiet i)
     (seq_op (listen_on_path m i) (seq_op (system_change (\<lambda>h. h\<lparr>ch_mode := owner_mode\<rparr>)) check_mode))
     (\<lambda>_. serving_socket i) (\<lambda>_. owned i)"
proof -
  let ?up = "\<lambda>h. owned i h \<and> ch_listening h i"
  have mode: "triple ?up (system_change (\<lambda>h. h\<lparr>ch_mode := owner_mode\<rparr>)) (\<lambda>_. ?up) (\<lambda>_. owned i)"
    by (rule triple_system_change) simp_all
  have check: "triple ?up check_mode (\<lambda>_. serving_socket i) (\<lambda>_. owned i)"
    unfolding check_mode_def
  proof (rule triple_seq [where R = ?up])
    show "triple ?up system_call (\<lambda>_. ?up) (\<lambda>_. owned i)" by (rule triple_system_call) auto
    show "triple ?up (bind_op (gets_op ch_mode) (\<lambda>mode. if mode \<noteq> owner_mode then raise (PyExc OSError) else ret ()))
        (\<lambda>_. serving_socket i) (\<lambda>_. owned i)"
      by (rule triple_bind [OF triple_gets [where Q = "\<lambda>mode h. ?up h \<and> ch_mode h = mode"]]; (intro triple_if triple_raise triple_ret)?)
        (simp_all add: serving_socket_def owned_def)
  qed
  have "triple (owned_quiet i) (listen_on_path m i) (\<lambda>_. ?up) (\<lambda>_. owned i)"
    by (rule triple_weaken [OF listen_on_path_triple]) (auto simp: owned_quiet_def)
  from triple_seq [OF this triple_seq [OF mode check]] show ?thesis .
qed

lemma control_server_start_triple:
  "triple host_inv (control_server_start m i) (\<lambda>_. serving_socket i) (\<lambda>_. host_inv)"
proof -
  have undo: "triple (owned i) (if is_exception e then seq_op (control_server_stop i) (raise e) else raise e)
      (\<lambda>_. serving_socket i) (\<lambda>_. host_inv)" for e
  proof -
    have "triple (owned i) (control_server_stop i) (\<lambda>_. host_inv) (\<lambda>_. host_inv)"
      by (rule triple_weaken [OF control_server_stop_triple]) (auto simp: owned_def stopped_def)
    then show ?thesis by (intro triple_if triple_seq [where R = host_inv] triple_raise) (auto simp: owned_def)
  qed
  have stale: "triple (owned_quiet i) remove_stale_socket (\<lambda>_. owned_quiet i) (\<lambda>_. host_inv)"
    by (rule triple_weaken [OF remove_stale_socket_triple]) (auto simp: owned_quiet_def owned_def)
  have open_socket: "triple (owned_quiet i) (catch_op
       (seq_op (listen_on_path m i) (seq_op (system_change (\<lambda>h. h\<lparr>ch_mode := owner_mode\<rparr>)) check_mode))
       (\<lambda>e. if is_exception e then seq_op (control_server_stop i) (raise e) else raise e))
      (\<lambda>_. serving_socket i) (\<lambda>_. host_inv)"
    by (rule triple_catch [OF listen_and_check_triple undo])
  have call: "triple host_inv system_call (\<lambda>_. host_inv) (\<lambda>_. host_inv)"
    by (rule triple_system_call) auto
  show ?thesis
    unfolding control_server_start_def
    by (rule triple_seq [OF call triple_seq [OF call triple_seq [OF acquire_owner_lock_triple triple_seq [OF stale open_socket]]]])
qed

subsection \<open>A busy directory, and a file in the way\<close>

lemma system_call_io: "\<exists>io. snd (system_call h) = h\<lparr>ch_io := io\<rparr>"
proof (cases "ch_io h")
  case Nil
  then have "snd (system_call h) = h\<lparr>ch_io := ch_io h\<rparr>" by (simp add: system_call_def)
  then show ?thesis by blast
next
  case (Cons x io)
  then have "snd (system_call h) = h\<lparr>ch_io := io\<rparr>" by (cases x) (simp_all add: system_call_def)
  then show ?thesis by blast
qed

text \<open>While some server holds the lock, starting any server fails and changes nothing.\<close>

definition waiting :: "control_host \<Rightarrow> control_host \<Rightarrow> bool" where
  "waiting h h' \<longleftrightarrow> (\<exists>io. h' = h\<lparr>ch_io := io\<rparr>)"

lemma waiting_io [simp]: "waiting h h' \<Longrightarrow> waiting h (h'\<lparr>ch_io := io\<rparr>)"
  by (auto simp: waiting_def)

lemma busy_start_fails:
  assumes "ch_lock_holder h = Some j"
  shows "triple (waiting h) (control_server_start m i) (\<lambda>_ _. False) (\<lambda>_. waiting h)"
proof -
  have call: "triple (waiting h) system_call (\<lambda>_. waiting h) (\<lambda>_. waiting h)"
    by (rule triple_system_call) auto
  have busy: "triple (waiting h) (bind_op (gets_op ch_lock_holder) (\<lambda>holder.
      if holder \<noteq> None then raise (PyExc RuntimeError)
      else modify_op (\<lambda>h. h\<lparr>ch_lock_holder := Some i, ch_lock_fd := (ch_lock_fd h)(i := True)\<rparr>)))
      (\<lambda>_ _. False) (\<lambda>_. waiting h)"
    by (rule triple_bind [OF triple_gets [where Q = "\<lambda>holder h'. waiting h h' \<and> holder = Some j"]];
        (intro triple_if triple_raise triple_modify)?) (auto simp: waiting_def assms)
  have lock: "triple (waiting h) (acquire_owner_lock i) (\<lambda>_ _. False) (\<lambda>_. waiting h)"
    unfolding acquire_owner_lock_def by (rule triple_seq [OF call triple_seq [OF call triple_seq [OF call busy]]])
  have none: "triple (\<lambda>_. False) k (\<lambda>_ _. False) (\<lambda>_. waiting h)" for k :: "(control_host, unit) meth"
    by (simp add: triple_def)
  show ?thesis
    unfolding control_server_start_def by (rule triple_seq [OF call triple_seq [OF call triple_seq [OF lock none]]])
qed

text \<open>A file that is not a socket is never removed, and no server listens in its place.\<close>

definition blocked :: "control_host \<Rightarrow> bool" where
  "blocked h \<longleftrightarrow> ch_node h = Other_file"

lemma blocked_fields [simp]:
  "blocked (h\<lparr>ch_io := io\<rparr>) = blocked h" "blocked (h\<lparr>ch_mode := m\<rparr>) = blocked h"
  "blocked (h\<lparr>ch_lock_holder := x\<rparr>) = blocked h" "blocked (h\<lparr>ch_lock_fd := f\<rparr>) = blocked h"
  "blocked (h\<lparr>ch_listening := f\<rparr>) = blocked h"
  by (simp_all add: blocked_def)

lemma blocked_call: "triple blocked system_call (\<lambda>_. blocked) (\<lambda>_. blocked)"
  by (rule triple_system_call) auto

lemma blocked_node:
  assumes "triple blocked (k Other_file) Q (\<lambda>_. blocked)"
  shows "triple blocked (bind_op (gets_op ch_node) k) Q (\<lambda>_. blocked)"
proof (rule triple_bind [OF triple_gets [where Q = "\<lambda>node h. blocked h \<and> node = Other_file"]])
  fix node
  from assms show "triple (\<lambda>h. blocked h \<and> node = Other_file) (k node) Q (\<lambda>_. blocked)"
    by (cases "node = Other_file") (simp_all add: triple_def)
qed (simp add: blocked_def)

lemma blocked_stop: "triple blocked (control_server_stop i) (\<lambda>_. blocked) (\<lambda>_. blocked)"
proof -
  have rest: "triple blocked (release_path i owns) (\<lambda>_. blocked) (\<lambda>_. blocked)" for owns
    unfolding release_path_def
    by (intro blocked_node triple_seq [where R = blocked] triple_when triple_system_change) auto
  show ?thesis
    unfolding control_server_stop_def
    by (rule triple_bind [OF triple_gets [where Q = "\<lambda>_. blocked"]])
      (auto intro!: triple_seq [where R = blocked] triple_when triple_system_change triple_system_call rest)
qed

lemma blocked_start: "triple blocked (control_server_start m i) (\<lambda>_ _. False) (\<lambda>_. blocked)"
proof -
  have lock: "triple blocked (acquire_owner_lock i) (\<lambda>_. blocked) (\<lambda>_. blocked)"
    unfolding acquire_owner_lock_def
    by (intro triple_seq [OF blocked_call] triple_bind [OF triple_gets [where Q = "\<lambda>_. blocked"]]
        triple_if triple_raise triple_modify) auto
  have stale: "triple blocked remove_stale_socket (\<lambda>_ _. False) (\<lambda>_. blocked)"
    unfolding remove_stale_socket_def
    by (intro triple_seq [OF blocked_call] blocked_node) (simp add: triple_raise)
  have none: "triple (\<lambda>_. False) k (\<lambda>_ _. False) (\<lambda>_. blocked)" for k :: "(control_host, unit) meth"
    by (simp add: triple_def)
  show ?thesis
    unfolding control_server_start_def
    by (rule triple_seq [OF blocked_call triple_seq [OF blocked_call triple_seq [OF lock triple_seq [OF stale none]]]])
qed

subsection \<open>Any number of servers\<close>

datatype host_call = Start_server nat | Stop_server nat

fun host_step :: "nat \<Rightarrow> host_call \<Rightarrow> (control_host, unit) meth" where
  "host_step m (Start_server i) = control_server_start m i"
| "host_step m (Stop_server i) = control_server_stop i"

lemma triple_invariant:
  assumes "triple P m (\<lambda>_. P) (\<lambda>_. P)" and "P s"
  shows "P (snd (m s))"
  using assms unfolding triple_keeps by (rule keepsD)

lemma host_step_inv: "host_inv h \<Longrightarrow> host_inv (snd (host_step m c h))"
proof (cases c)
  case (Start_server i)
  moreover have "triple host_inv (control_server_start m i) (\<lambda>_. host_inv) (\<lambda>_. host_inv)"
    by (rule triple_weaken [OF control_server_start_triple]) (auto simp: serving_socket_def)
  moreover assume "host_inv h"
  ultimately show ?thesis by (simp add: triple_invariant)
next
  case (Stop_server i)
  moreover have "triple host_inv (control_server_stop i) (\<lambda>_. host_inv) (\<lambda>_. host_inv)"
    by (rule triple_weaken [OF control_server_stop_triple]) (auto simp: stopped_def)
  moreover assume "host_inv h"
  ultimately show ?thesis by (simp add: triple_invariant)
qed

lemma host_step_blocked: "blocked h \<Longrightarrow> blocked (snd (host_step m c h))"
proof (cases c)
  case (Start_server i)
  moreover have "triple blocked (control_server_start m i) (\<lambda>_. blocked) (\<lambda>_. blocked)"
    by (rule triple_weaken [OF blocked_start]) auto
  moreover assume "blocked h"
  ultimately show ?thesis by (simp add: triple_invariant)
next
  case (Stop_server i)
  moreover assume "blocked h"
  ultimately show ?thesis using blocked_stop by (simp add: triple_invariant)
qed

interpretation host: invariant_machine "host_step m" host_inv for m
  by unfold_locales (rule host_step_inv)

interpretation host_blocked: invariant_machine "host_step m" blocked for m
  by unfold_locales (rule host_step_blocked)

definition fresh_host :: "dir_node \<Rightarrow> exn option list \<Rightarrow> control_host" where
  "fresh_host node io =
     \<lparr>ch_lock_holder = None, ch_node = node, ch_mode = 0, ch_io = io, ch_listening = (\<lambda>_. False), ch_lock_fd = (\<lambda>_. False)\<rparr>"

text \<open>
  C38. The control socket has one owner.  Whatever is in the control directory at first, in whatever
  order servers are started and stopped on it and whichever system calls fail: at most one server
  listens, on the socket at the control path, and it holds the lock; while it does, starting any server
  fails and changes nothing; a start that returns leaves its server listening on a socket of mode
  0600; a stop that returns leaves its server without listener and lock; and a file at the path that
  is not a socket stays there, with no server listening.
\<close>

theorem control_socket_exclusive:
  assumes "h = run_ops (host_step m) calls (fresh_host node io)"
  shows "(\<forall>i. ch_listening h i \<longrightarrow>
        ch_node h = Socket_of i \<and> ch_lock_holder h = Some i \<and> (\<forall>j. ch_listening h j \<longrightarrow> j = i)
        \<and> (\<forall>j. \<exists>e io'. control_server_start m j h = (Inl e, h\<lparr>ch_io := io'\<rparr>)))
    \<and> (\<forall>i h'. control_server_start m i h = (Inr (), h') \<longrightarrow> ch_listening h' i \<and> ch_mode h' = owner_mode)
    \<and> (\<forall>i h'. control_server_stop i h = (Inr (), h') \<longrightarrow> \<not> ch_listening h' i \<and> ch_lock_holder h' \<noteq> Some i)
    \<and> (node = Other_file \<longrightarrow> ch_node h = Other_file \<and> (\<forall>i. \<not> ch_listening h i))"
proof -
  have inv: "host_inv h" unfolding assms
    by (rule host.run_inv) (simp add: host_inv_def fresh_host_def)
  have busy: "\<exists>e io'. control_server_start m j h = (Inl e, h\<lparr>ch_io := io'\<rparr>)" if "ch_lock_holder h = Some i" for i j
  proof -
    have start: "waiting h h" unfolding waiting_def by (rule exI [of _ "ch_io h"]) simp
    obtain r h' where run: "control_server_start m j h = (r, h')" by fastforce
    note fails = busy_start_fails [OF that, of m j]
    show ?thesis
    proof (cases r)
      case (Inl e)
      with triple_Inl [OF fails start, of e h'] run show ?thesis by (auto simp: waiting_def)
    next
      case (Inr x)
      with triple_Inr [OF fails start, of x h'] run show ?thesis by simp
    qed
  qed
  have "node = Other_file \<Longrightarrow> ch_node h = Other_file"
    using host_blocked.run_inv [of "fresh_host node io" m calls] by (simp add: assms blocked_def fresh_host_def)
  moreover have "ch_listening h' i \<and> ch_mode h' = owner_mode" if "control_server_start m i h = (Inr (), h')" for i h'
    using triple_Inr [OF control_server_start_triple inv that] by (simp add: serving_socket_def)
  moreover have "\<not> ch_listening h' i \<and> ch_lock_holder h' \<noteq> Some i" if "control_server_stop i h = (Inr (), h')" for i h'
    using triple_Inr [OF control_server_stop_triple inv that] by (simp add: stopped_def)
  moreover have "ch_node h = Socket_of i \<and> ch_lock_holder h = Some i" if "ch_listening h i" for i
    using inv that by (simp add: host_inv_def)
  ultimately show ?thesis using busy by (metis dir_node.distinct(5) dir_node.inject option.inject)
qed

text \<open>A socket left behind, a first server that starts, and a second that is refused.\<close>

theorem control_socket_exclusive_witness:
  "\<exists>h. h = run_ops (host_step 511) [Start_server 7, Start_server 8] (fresh_host (Socket_of 3) [])
     \<and> ch_listening h 7 \<and> ch_node h = Socket_of 7 \<and> ch_mode h = 384 \<and> \<not> ch_listening h 8
     \<and> (\<exists>e io'. control_server_start 511 9 h = (Inl e, h\<lparr>ch_io := io'\<rparr>))"
proof -
  define h where "h = run_ops (host_step 511) [Start_server 7, Start_server 8] (fresh_host (Socket_of 3) [])"
  have "h = (fresh_host (Socket_of 7) [])\<lparr>ch_lock_holder := Some 7, ch_mode := 384,
      ch_listening := (\<lambda>_. False)(7 := True), ch_lock_fd := (\<lambda>_. False)(7 := True)\<rparr>"
    by (simp add: h_def fresh_host_def control_server_start_def acquire_owner_lock_def remove_stale_socket_def
        listen_on_path_def check_mode_def owner_mode_def system_change_def system_call_def op_simps)
  then have up: "ch_listening h 7" "ch_mode h = 384" by (simp_all add: fresh_host_def)
  from control_socket_exclusive [OF h_def, THEN conjunct1] up(1) have alone: "ch_node h = Socket_of 7"
    "\<forall>j. ch_listening h j \<longrightarrow> j = 7" "\<forall>j. \<exists>e io'. control_server_start 511 j h = (Inl e, h\<lparr>ch_io := io'\<rparr>)"
    by blast+
  from alone(2) have "\<not> ch_listening h 8" by auto
  with up alone(1,3) h_def show ?thesis by blast
qed

end
