(* ===== verification/Oven_ServerApp.thy ===== *)
theory Oven_ServerApp
  imports Oven_ControlHost Oven_Inference Oven_Composite
begin

text \<open>
  \<open>server/app.py\<close>, with the life of the listener of \<open>server/inference_server.py\<close>: how the server
  process is put together, runs and shuts down.  The \<open>websockets\<close> library, the file system and
  \<open>ipaddress\<close> are the record \<open>server_env\<close>.
\<close>

subsection \<open>The inference listener\<close>

record inference_server =
  is_host :: string
  is_port :: int
  is_sockets :: "(string \<times> int) list option"   \<comment> \<open>bound addresses while the server runs\<close>

record ('b, 'w) server_process =
  sv_host :: control_host
  sv_inference :: inference_server
  sv_runtime :: "'b runtime"
  sv_world :: 'w

record 'w server_env =
  sw_loopback :: "string \<Rightarrow> bool option"   \<comment> \<open>\<open>is_loopback\<close> of a literal address, \<open>None\<close> where \<open>ip_address\<close> raises\<close>
  sw_serve :: "string \<Rightarrow> int \<Rightarrow> ('w, (string \<times> int) list) meth"
  sw_close_listeners :: "('w, unit) meth"
  sw_prepare_root :: "path \<Rightarrow> ('w, unit) meth"
  sw_resolve :: "path \<Rightarrow> path res"
  sw_make_parent :: "path \<Rightarrow> ('w, unit) meth"
  sw_write_json :: "path \<Rightarrow> pydict \<Rightarrow> ('w, unit) meth"

definition on_host :: "(control_host, 'a) meth \<Rightarrow> (('b, 'w) server_process, 'a) meth" where
  "on_host m = (\<lambda>s. case m (sv_host s) of (r, h) \<Rightarrow> (r, s\<lparr>sv_host := h\<rparr>))"

definition on_runtime :: "('b runtime, 'a) meth \<Rightarrow> (('b, 'w) server_process, 'a) meth" where
  "on_runtime m = (\<lambda>s. case m (sv_runtime s) of (r, rt) \<Rightarrow> (r, s\<lparr>sv_runtime := rt\<rparr>))"

definition on_outside :: "('w, 'a) meth \<Rightarrow> (('b, 'w) server_process, 'a) meth" where
  "on_outside m = (\<lambda>s. case m (sv_world s) of (r, w) \<Rightarrow> (r, s\<lparr>sv_world := w\<rparr>))"

definition inference_server_init :: "(string \<Rightarrow> bool option) \<Rightarrow> string \<Rightarrow> int \<Rightarrow> int \<Rightarrow> inference_server res" where
  "inference_server_init loopback host port max_frame_bytes =
     bind_sum (expect (PyExc ValueError) (loopback host)) (\<lambda>is_loopback.
     reject_if (\<not> is_loopback) (PyExc ValueError) (
     reject_if (\<not> (0 \<le> port \<and> port \<le> 65535)) (PyExc ValueError) (
     reject_if (\<not> (0 < max_frame_bytes \<and> max_frame_bytes \<le> int MAX_FRAME_BYTES)) (PyExc ValueError)
       (Inr \<lparr>is_host = host, is_port = port, is_sockets = None\<rparr>))))"

definition set_sockets :: "(string \<times> int) list option \<Rightarrow> (('b, 'w) server_process, unit) meth" where
  "set_sockets sockets = modify_op (\<lambda>s. s\<lparr>sv_inference := (sv_inference s)\<lparr>is_sockets := sockets\<rparr>\<rparr>)"

definition inference_stop :: "'w server_env \<Rightarrow> (('b, 'w) server_process, unit) meth" where
  "inference_stop env =
     bind_op (gets_op (\<lambda>s. is_sockets (sv_inference s))) (\<lambda>sockets.
       when_op (sockets \<noteq> None) (seq_op (on_outside (sw_close_listeners env)) (set_sockets None)))"

fun check_listeners :: "'w server_env \<Rightarrow> (string \<times> int) list \<Rightarrow> (('b, 'w) server_process, unit) meth" where
  "check_listeners env [] = ret ()"
| "check_listeners env ((bound_host, bound_port) # sockets) =
     bind_op (lift_sum (expect (PyExc ValueError) (sw_loopback env bound_host))) (\<lambda>is_loopback.
       if \<not> is_loopback then seq_op (inference_stop env) (raise (PyExc RuntimeError))
       else check_listeners env sockets)"

definition inference_start :: "'w server_env \<Rightarrow> (('b, 'w) server_process, unit) meth" where
  "inference_start env =
     bind_op (gets_op sv_inference) (\<lambda>inference.
     bind_op (on_outside (sw_serve env (is_host inference) (is_port inference))) (\<lambda>sockets.
     seq_op (set_sockets (Some sockets)) (check_listeners env sockets)))"

definition bound_port :: "(('b, 'w) server_process, int) meth" where
  "bound_port =
     bind_op (gets_op (\<lambda>s. is_sockets (sv_inference s))) (\<lambda>sockets.
       case sockets of Some ((host, port) # _) \<Rightarrow> ret port | _ \<Rightarrow> raise (PyExc RuntimeError))"

subsection \<open>The process\<close>

definition control_socket_path :: "path \<Rightarrow> path" where
  "control_socket_path runtime_root = runtime_root @ [''control'', ''oven-server.sock'']"

definition server_build ::
  "'b runtime_deps \<Rightarrow> 'w server_env \<Rightarrow> path \<Rightarrow> string \<Rightarrow> int \<Rightarrow> control_host \<Rightarrow> 'b \<Rightarrow> trial_store \<Rightarrow> 'w
   \<Rightarrow> ('b, 'w) server_process res" where
  "server_build d env runtime_root host port control_dir backend store w =
     bind_sum (runtime_init d backend store) (\<lambda>rt.
     bind_sum (control_server_init (path_text (control_socket_path runtime_root))) (\<lambda>_.
     bind_sum (inference_server_init (sw_loopback env) host port (int MAX_FRAME_BYTES)) (\<lambda>inference.
       Inr \<lparr>sv_host = control_dir, sv_inference = inference, sv_runtime = rt, sv_world = w\<rparr>)))"

definition write_ready_file ::
  "'w server_env \<Rightarrow> path \<Rightarrow> string \<Rightarrow> string \<Rightarrow> (('b, 'w) server_process, unit) meth" where
  "write_ready_file env runtime_root instance_id ready_file =
     bind_op (lift_sum (resolve_under_root (sw_resolve env) runtime_root ready_file)) (\<lambda>ready_path.
     seq_op (on_outside (sw_make_parent env ready_path)) (
     bind_op (gets_op (\<lambda>s. is_host (sv_inference s))) (\<lambda>host.
     bind_op bound_port (\<lambda>port.
       on_outside (sw_write_json env ready_path
         [(''server_instance_id'', PStr instance_id),
          (''control_socket'', PStr (path_text (control_socket_path runtime_root))),
          (''inference_host'', PStr host), (''inference_port'', PInt port)])))))"

text \<open>
  While it waits for its stop event the process serves commands and requests, whatever they are; the
  wait ends with the event, or with an exception.
\<close>

definition serve_until_stopped ::
  "'b runtime_deps \<Rightarrow> runtime_call list \<Rightarrow> exn option \<Rightarrow> (('b, 'w) server_process, unit) meth" where
  "serve_until_stopped d calls ending =
     (\<lambda>s. ((case ending of None \<Rightarrow> Inr () | Some e \<Rightarrow> Inl e),
           s\<lparr>sv_runtime := run_ops (runtime_step d) calls (sv_runtime s)\<rparr>))"

text \<open>\<open>try: m finally: c\<close>: an exception of \<open>c\<close> replaces the outcome.\<close>

definition try_finally :: "('s, 'e, 'a) op \<Rightarrow> ('s, 'e, unit) op \<Rightarrow> ('s, 'e, 'a) op" where
  "try_finally m c =
     (\<lambda>s. case m s of (r, s') \<Rightarrow> (case c s' of (Inl e, s'') \<Rightarrow> (Inl e, s'') | (Inr _, s'') \<Rightarrow> (r, s'')))"

definition server_body ::
  "'b runtime_deps \<Rightarrow> 'w server_env \<Rightarrow> nat \<Rightarrow> nat \<Rightarrow> path \<Rightarrow> string \<Rightarrow> string option
   \<Rightarrow> runtime_call list \<Rightarrow> exn option \<Rightarrow> (('b, 'w) server_process, unit) meth" where
  "server_body d env default_mode i runtime_root instance_id ready_file calls ending =
     seq_op (on_host (control_server_start default_mode i)) (
     seq_op (inference_start env) (
     seq_op (case ready_file of None \<Rightarrow> ret () | Some f \<Rightarrow> write_ready_file env runtime_root instance_id f)
       (serve_until_stopped d calls ending)))"

definition server_cleanup :: "'b runtime_deps \<Rightarrow> 'w server_env \<Rightarrow> nat \<Rightarrow> (('b, 'w) server_process, unit) meth" where
  "server_cleanup d env i =
     seq_op (inference_stop env) (seq_op (on_host (control_server_stop i)) (on_runtime (close d)))"

definition run_server ::
  "'b runtime_deps \<Rightarrow> 'w server_env \<Rightarrow> nat \<Rightarrow> nat \<Rightarrow> path \<Rightarrow> string \<Rightarrow> string option \<Rightarrow> string \<Rightarrow> int \<Rightarrow> 'b \<Rightarrow> trial_store
   \<Rightarrow> runtime_call list \<Rightarrow> exn option \<Rightarrow> control_host \<Rightarrow> 'w \<Rightarrow> unit res \<times> ('b, 'w) server_process option" where
  \<comment> \<open>the state at the end, \<open>None\<close> when the process was not built\<close>
  "run_server d env default_mode i runtime_root instance_id ready_file host port backend store calls ending control_dir w =
     (case sw_prepare_root env runtime_root w of
        (Inl e, w') \<Rightarrow> (Inl e, None)
      | (Inr _, w') \<Rightarrow>
          (case server_build d env runtime_root host port control_dir backend store w' of
             Inl e \<Rightarrow> (Inl e, None)
           | Inr s \<Rightarrow>
               (case try_finally (server_body d env default_mode i runtime_root instance_id ready_file calls ending)
                       (server_cleanup d env i) s of
                  (r, s') \<Rightarrow> (r, Some s'))))"

text \<open>\<open>main\<close>: the root from the option or the environment, the exit code for an interrupt.\<close>

definition server_runtime_root :: "(string \<Rightarrow> path res) \<Rightarrow> string option \<Rightarrow> string \<Rightarrow> path res" where
  "server_runtime_root locate option_value environment =
     (case option_value of
        Some v \<Rightarrow> locate v
      | None \<Rightarrow>
          (let configured = strip_chars py_whitespace environment in
           reject_if (configured = []) Interrupt (locate configured)))"

definition server_exit_code :: "unit res \<Rightarrow> int res" where
  "server_exit_code r = (case r of Inr _ \<Rightarrow> Inr 0 | Inl Interrupt \<Rightarrow> Inr 130 | Inl e \<Rightarrow> Inl e)"

end
