(* ===== verification/Oven_ServerAppSpec.thy ===== *)
theory Oven_ServerAppSpec
  imports Oven_ServerApp
begin

text \<open>How the server process ends: whatever happened while it ran, everything it opened is closed.\<close>

subsection \<open>Without failing system calls\<close>

definition calm :: "control_host \<Rightarrow> bool" where
  "calm h \<longleftrightarrow> ch_io h = []"

lemma calm_fields [simp]:
  "calm (h\<lparr>ch_node := n\<rparr>) = calm h" "calm (h\<lparr>ch_mode := m\<rparr>) = calm h"
  "calm (h\<lparr>ch_lock_holder := x\<rparr>) = calm h" "calm (h\<lparr>ch_lock_fd := f\<rparr>) = calm h"
  "calm (h\<lparr>ch_listening := f\<rparr>) = calm h"
  by (simp_all add: calm_def)

lemma calm_call: "calm h \<Longrightarrow> system_call h = (Inr (), h)"
  by (simp add: calm_def system_call_def)

lemma calm_change: "calm h \<Longrightarrow> system_change f h = (Inr (), f h)"
  by (simp add: system_change_def op_simps calm_call)

lemma calm_stop:
  assumes "calm h"
  shows "fst (control_server_stop i h) = Inr ()" and "calm (snd (control_server_stop i h))"
  using assms
  by (auto simp: control_server_stop_def release_path_def op_simps calm_call calm_change)

lemma calm_start: "calm h \<Longrightarrow> calm (snd (control_server_start m i h))"
proof -
  have call: "keeps calm system_call" by (rule keepsI) (simp add: calm_call)
  have change: "keeps calm (system_change f)" if "\<And>h. calm h \<Longrightarrow> calm (f h)" for f
    by (rule keepsI) (simp add: calm_change that)
  have stop: "keeps calm (control_server_stop i)" by (rule keepsI) (rule calm_stop(2))
  have node: "keeps calm (case node of Absent \<Rightarrow> ret () | Socket_of j \<Rightarrow> system_change (\<lambda>h. h\<lparr>ch_node := Absent\<rparr>)
      | Other_file \<Rightarrow> raise (PyExc FileExistsError))" for node
    by (cases node) (auto intro: keeps_ret keeps_raise change)
  have "keeps calm (control_server_start m i)"
    unfolding control_server_start_def acquire_owner_lock_def remove_stale_socket_def listen_on_path_def check_mode_def
    by (intro keeps_seq keeps_bind keeps_catch keeps_if keeps_gets keeps_raise keeps_ret keeps_modify call change stop node)
      auto
  then show "calm h \<Longrightarrow> calm (snd (control_server_start m i h))" by (rule keepsD)
qed

subsection \<open>The body of the process\<close>

text \<open>What every step of the process keeps: the invariants of its parts.\<close>

definition process_inv :: "('b, 'w) server_process \<Rightarrow> bool" where
  "process_inv s \<longleftrightarrow> host_inv (sv_host s) \<and> calm (sv_host s) \<and> runtime_inv (sv_runtime s)"

lemma process_inv_fields [simp]:
  "process_inv (s\<lparr>sv_world := w\<rparr>) = process_inv s" "process_inv (s\<lparr>sv_inference := x\<rparr>) = process_inv s"
  by (simp_all add: process_inv_def)

lemma keeps_outside: "keeps process_inv (on_outside m)"
  by (rule keepsI) (simp add: on_outside_def split: prod.split)

lemma keeps_set_sockets: "keeps process_inv (set_sockets x)"
  by (rule keepsI) (simp add: set_sockets_def op_simps)

lemma keeps_inference_stop: "keeps process_inv (inference_stop env)"
  unfolding inference_stop_def
  by (intro keeps_bind keeps_gets keeps_when keeps_seq keeps_outside keeps_set_sockets)

lemma keeps_check_listeners: "keeps process_inv (check_listeners env sockets)"
  by (induction env sockets rule: check_listeners.induct)
    (auto intro!: keeps_ret keeps_bind keeps_lift_sum keeps_if keeps_seq keeps_inference_stop keeps_raise)

lemma keeps_server_body: "keeps process_inv (server_body d env m i runtime_root instance_id ready_file calls ending)"
proof -
  have start: "keeps process_inv (on_host (control_server_start m i))"
  proof (rule keepsI)
    fix s assume s: "process_inv s"
    then have "host_inv (snd (control_server_start m i (sv_host s)))"
      using host_step_inv [of "sv_host s" m "Start_server i"] by (simp add: process_inv_def)
    with s calm_start [of "sv_host s" m i] show "process_inv (snd (on_host (control_server_start m i) s))"
      by (auto simp: process_inv_def on_host_def split: prod.split)
  qed
  have port: "keeps process_inv (case sockets of Some ((host, port) # _) \<Rightarrow> ret port | _ \<Rightarrow> raise (PyExc RuntimeError))"
    for sockets :: "(string \<times> int) list option"
    by (auto intro: keeps_ret keeps_raise split: option.split list.split)
  have ready: "keeps process_inv (case ready_file of None \<Rightarrow> ret () | Some f \<Rightarrow> write_ready_file env runtime_root instance_id f)"
    by (auto simp: write_ready_file_def bound_port_def split: option.split
        intro!: keeps_ret keeps_bind keeps_lift_sum keeps_seq keeps_outside keeps_gets port)
  have serve: "keeps process_inv (serve_until_stopped d calls ending)"
    by (rule keepsI) (auto simp: serve_until_stopped_def process_inv_def intro: runtime_machine.run_inv)
  show ?thesis
    unfolding server_body_def inference_start_def
    by (intro keeps_seq keeps_bind keeps_gets start ready serve keeps_outside keeps_set_sockets keeps_check_listeners)
qed

subsection \<open>The cleanup\<close>

definition closes_listeners :: "'w server_env \<Rightarrow> bool" where
  "closes_listeners env \<longleftrightarrow> (\<forall>w. fst (sw_close_listeners env w) = Inr ())"

lemma inference_stop_closes:
  assumes "closes_listeners env"
  shows "fst (inference_stop env s) = Inr ()" and "is_sockets (sv_inference (snd (inference_stop env s))) = None"
    and "sv_host (snd (inference_stop env s)) = sv_host s" and "sv_runtime (snd (inference_stop env s)) = sv_runtime s"
proof -
  obtain w where "sw_close_listeners env (sv_world s) = (Inr (), w)"
    using assms unfolding closes_listeners_def by (metis prod.collapse)
  then show "fst (inference_stop env s) = Inr ()" "is_sockets (sv_inference (snd (inference_stop env s))) = None"
    "sv_host (snd (inference_stop env s)) = sv_host s" "sv_runtime (snd (inference_stop env s)) = sv_runtime s"
    by (auto simp: inference_stop_def set_sockets_def on_outside_def op_simps)
qed

lemma server_cleanup_apply:
  assumes "closes_listeners env" and "calm (sv_host s)"
  shows "server_cleanup d env i s =
    (fst (close d (sv_runtime s)),
     (snd (inference_stop env s))\<lparr>sv_host := snd (control_server_stop i (sv_host s)), sv_runtime := snd (close d (sv_runtime s))\<rparr>)"
proof -
  obtain s1 where s1: "inference_stop env s = (Inr (), s1)"
    using inference_stop_closes(1) [OF assms(1), of s] by (metis prod.collapse)
  obtain h where h: "control_server_stop i (sv_host s) = (Inr (), h)"
    using calm_stop(1) [OF assms(2), of i] by (metis prod.collapse)
  from s1 h inference_stop_closes(3,4) [OF assms(1), of s] show ?thesis
    by (simp add: server_cleanup_def op_simps on_host_def on_runtime_def split: prod.split)
qed

lemma server_cleanup_closes:
  assumes "closes_listeners env" and "process_inv s" and "server_cleanup d env i s = (r, s')"
  shows "is_sockets (sv_inference s') = None \<and> stopped i (sv_host s')
    \<and> rt_state (sv_runtime s') = RS_STOPPING \<and> rt_session (sv_runtime s') = None
    \<and> rt_backend (sv_runtime s') = snd (be_close (rd_backend d) (rt_backend (sv_runtime s)))"
proof -
  from assms(2) have parts: "host_inv (sv_host s)" "calm (sv_host s)" "runtime_inv (sv_runtime s)"
    by (simp_all add: process_inv_def)
  obtain h where h: "control_server_stop i (sv_host s) = (Inr (), h)"
    using calm_stop(1) [OF parts(2), of i] by (metis prod.collapse)
  with triple_Inr [OF control_server_stop_triple parts(1)] have "stopped i h" by blast
  moreover obtain rr rt where rt: "close d (sv_runtime s) = (rr, rt)" by fastforce
  moreover note close_always_closes_backend [OF parts(3) rt]
  ultimately show ?thesis
    using assms(3) h inference_stop_closes(2) [OF assms(1), of s]
    by (auto simp: server_cleanup_apply [OF assms(1) parts(2)])
qed

text \<open>A listener whose closing fails keeps the control socket and the runtime open.\<close>

theorem failing_listener_skips_the_rest:
  assumes "sw_close_listeners env (sv_world s) = (Inl e, w)" and "is_sockets (sv_inference s) \<noteq> None"
  shows "server_cleanup d env i s = (Inl e, s\<lparr>sv_world := w\<rparr>)"
  using assms by (auto simp: server_cleanup_def inference_stop_def on_outside_def op_simps)

text \<open>While another server holds the control directory, the process gives up at once.\<close>

lemma busy_body:
  assumes "ch_lock_holder (sv_host s) = Some j" and "calm (sv_host s)"
  shows "\<exists>e. server_body d env m i runtime_root instance_id ready_file calls ending s = (Inl e, s)"
proof -
  obtain r h where run: "control_server_start m i (sv_host s) = (r, h)" by fastforce
  have start: "waiting (sv_host s) (sv_host s)" unfolding waiting_def by (rule exI [of _ "ch_io (sv_host s)"]) simp
  note fails = busy_start_fails [OF assms(1), of m i]
  from triple_Inr [OF fails start, of _ h] run obtain e where e: "r = Inl e" by (cases r) auto
  from triple_Inl [OF fails start, of e h] run e obtain io where "h = (sv_host s)\<lparr>ch_io := io\<rparr>"
    by (auto simp: waiting_def)
  moreover have "calm h" using calm_start [OF assms(2), of m i] run by simp
  ultimately have "h = sv_host s" using assms(2) by (cases "sv_host s") (simp add: calm_def)
  with run e show ?thesis by (simp add: server_body_def op_simps on_host_def)
qed

lemma idle_stop: "\<not> ch_lock_fd h i \<Longrightarrow> \<not> ch_listening h i \<Longrightarrow> control_server_stop i h = (Inr (), h)"
  by (simp add: control_server_stop_def release_path_def op_simps)

text \<open>
  C40. A server process that comes up leaves nothing behind.  On a control directory without failing
  system calls, and when the library closes its listeners without an exception: however the process
  ends, by its stop event, by an interrupt, because the control directory was taken, or by any error
  while it started or served, afterwards its listeners are closed, its control socket no longer
  listens and its lock is free, the runtime has stopped with no session, and the policy backend was
  closed.  A server that was already listening on the control directory is not disturbed.
\<close>

theorem server_run_ends_closed:
  assumes "closes_listeners env" and "store_inv store" and "ta_active store = None"
    and "host_inv control_dir" and "calm control_dir"
    and "run_server d env m i runtime_root instance_id ready_file host port backend store calls ending control_dir w
      = (r, Some s)"
  shows "is_sockets (sv_inference s) = None \<and> stopped i (sv_host s)
    \<and> rt_state (sv_runtime s) = RS_STOPPING \<and> rt_session (sv_runtime s) = None
    \<and> (\<exists>b. rt_backend (sv_runtime s) = snd (be_close (rd_backend d) b))
    \<and> (\<forall>j. j \<noteq> i \<longrightarrow> ch_listening control_dir j \<longrightarrow> sv_host s = control_dir \<and> (\<exists>e. r = Inl e))"
proof -
  from assms(6) obtain s0 w' where build: "server_build d env runtime_root host port control_dir backend store w' = Inr s0"
    and run: "try_finally (server_body d env m i runtime_root instance_id ready_file calls ending) (server_cleanup d env i) s0 = (r, s)"
    by (auto simp: run_server_def split: prod.splits sum.splits)
  from build obtain rt where s0: "runtime_init d backend store = Inr rt" "sv_runtime s0 = rt" "sv_host s0 = control_dir"
    by (auto simp: server_build_def result_iffs)
  with assms(2-5) have inv: "process_inv s0" by (simp add: process_inv_def runtime_init_inv)
  obtain rb s1 where body: "server_body d env m i runtime_root instance_id ready_file calls ending s0 = (rb, s1)" by fastforce
  obtain rc s2 where clean: "server_cleanup d env i s1 = (rc, s2)" by fastforce
  from run body clean have s: "s = s2" "r = (case rc of Inl e \<Rightarrow> Inl e | Inr _ \<Rightarrow> rb)"
    by (auto simp: try_finally_def split: sum.splits)
  have "process_inv s1" using keepsD [OF keeps_server_body inv] body by (metis snd_conv)
  note closed = server_cleanup_closes [OF assms(1) this clean]
  have "sv_host s = control_dir \<and> (\<exists>e. r = Inl e)" if "j \<noteq> i" "ch_listening control_dir j" for j
  proof -
    have holder: "ch_lock_holder control_dir = Some j" using assms(4) that(2) by (simp add: host_inv_def)
    have idle: "\<not> ch_lock_fd control_dir i" "\<not> ch_listening control_dir i"
      using assms(4) that(1) holder by (auto simp: host_inv_def)
    have "\<exists>e. server_body d env m i runtime_root instance_id ready_file calls ending s0 = (Inl e, s0)"
      by (rule busy_body [of _ j]) (use holder s0(3) assms(5) in simp_all)
    with body obtain e where "rb = Inl e" "s1 = s0" by auto
    moreover have "sv_host s2 = control_dir"
      using clean \<open>s1 = s0\<close> s0(3) assms(5) idle_stop [OF idle] by (auto simp: server_cleanup_apply [OF assms(1)])
    ultimately show ?thesis using s by (auto split: sum.split)
  qed
  with closed s(1) show ?thesis by blast
qed

lemma run_server_built:
  assumes "sw_prepare_root env runtime_root w = (Inr (), w')"
    and "server_build d env runtime_root host port control_dir backend store w' = Inr p"
  shows "\<exists>r s. run_server d env m i runtime_root instance_id ready_file host port backend store calls ending control_dir w = (r, Some s)"
  using assms by (simp add: run_server_def split: prod.split)

definition demo_server_env :: "unit server_env" where
  "demo_server_env =
     \<lparr>sw_loopback = (\<lambda>host. Some (host = ''127.0.0.1'')), sw_serve = (\<lambda>host port. ret [(host, port)]),
      sw_close_listeners = ret (), sw_prepare_root = (\<lambda>_. ret ()), sw_resolve = Inr,
      sw_make_parent = (\<lambda>_. ret ()), sw_write_json = (\<lambda>_ _. ret ())\<rparr>"

theorem server_run_ends_closed_witness:
  "\<exists>r s. run_server demo_deps demo_server_env 511 1 [''rt''] demo_uuid (Some ''ready.json'') ''127.0.0.1'' 19110 (fake_init (0, 0))
       (new_trial_store []) [Do_status] (Some Interrupt) (fresh_host Absent []) () = (r, Some s)
     \<and> is_sockets (sv_inference s) = None \<and> stopped 1 (sv_host s) \<and> rt_state (sv_runtime s) = RS_STOPPING"
proof -
  have build: "\<exists>p. server_build demo_deps demo_server_env [''rt''] ''127.0.0.1'' 19110 (fresh_host Absent []) (fake_init (0, 0))
      (new_trial_store []) () = Inr p"
    by (simp add: server_build_def demo_start(1) control_server_init_def path_text_def inference_server_init_def
        demo_server_env_def MAX_FRAME_BYTES_def)
  then obtain p where p: "server_build demo_deps demo_server_env [''rt''] ''127.0.0.1'' 19110 (fresh_host Absent []) (fake_init (0, 0))
      (new_trial_store []) () = Inr p" ..
  have "sw_prepare_root demo_server_env [''rt''] () = (Inr (), ())" by (simp add: demo_server_env_def ret_apply)
  from run_server_built [OF this p] have "\<exists>r s. run_server demo_deps demo_server_env 511 1 [''rt''] demo_uuid (Some ''ready.json'') ''127.0.0.1'' 19110 (fake_init (0, 0))
      (new_trial_store []) [Do_status] (Some Interrupt) (fresh_host Absent []) () = (r, Some s)" .
  then obtain r s where run: "run_server demo_deps demo_server_env 511 1 [''rt''] demo_uuid (Some ''ready.json'') ''127.0.0.1''
      19110 (fake_init (0, 0)) (new_trial_store []) [Do_status] (Some Interrupt) (fresh_host Absent []) () = (r, Some s)" by blast
  have inv: "host_inv (fresh_host Absent [])" "calm (fresh_host Absent [])"
    by (simp_all add: host_inv_def fresh_host_def calm_def)
  have closes: "closes_listeners demo_server_env" by (simp add: closes_listeners_def demo_server_env_def ret_apply)
  have idle: "ta_active (new_trial_store []) = None" by (simp add: new_trial_store_def)
  from server_run_ends_closed [OF closes store_inv_new idle inv run]
  have "is_sockets (sv_inference s) = None \<and> stopped 1 (sv_host s) \<and> rt_state (sv_runtime s) = RS_STOPPING"
    by (elim conjE) (intro conjI)
  with run show ?thesis by (intro exI [of _ r] exI [of _ s] conjI) (elim conjE, assumption)+
qed

end
