(* ===== verification/Spec2Isabelle.thy ===== *)
theory Spec2Isabelle
  imports Oven_Concurrent Oven_Control Oven_Inference Oven_JointGate Oven_SafeStop Oven_RolloutSpec Oven_RosChunk
    Oven_CheckerSpec Oven_Tunnel Oven_CompositeSpec Oven_ControlPlane Oven_ServerAppSpec
begin

text \<open>
  The oven multi-skill runtime.
\<close>

end
